(* ===== verification/Prelude.thy ===== *)
theory Prelude
  imports Main "HOL-Library.AList" "HOL-Library.Sublist"
begin

text \<open>
  The shared layer of the development: run-time panics of Go as values, checked indexing,
  and the functions of the packages \<open>strings\<close> and \<open>bytes\<close> that the server uses, each with
  the lemmas the components share.

  A Go string and a Go byte slice are both a \<^typ>\<open>string\<close>: a list of 8-bit characters.
\<close>

section \<open>Panics and checked access\<close>

text \<open>
  The server has no \<open>recover\<close> around a connection goroutine, so a run-time panic ends the
  process. A function that can panic returns \<open>Inl\<close> of the panic or \<open>Inr\<close> of its result.
\<close>

datatype go_panic = IndexOutOfRange | NilDereference | NegativeShift | MakeSliceCap | ClosedChannel
  | NonPositiveInterval

type_synonym 'a go = "go_panic + 'a"

named_theorems go_simps
  \<open>unfolding of the checked accesses and of the sequencing of computations that can panic\<close>

named_theorems model_defs
  \<open>definitions of the model that proofs unfold together\<close>

definition index_at :: "'a list \<Rightarrow> nat \<Rightarrow> ('a \<Rightarrow> 'b go) \<Rightarrow> 'b go" where
  "index_at xs i k = (if i < length xs then k (xs ! i) else Inl IndexOutOfRange)"

definition deref :: "'a option \<Rightarrow> ('a \<Rightarrow> 'b go) \<Rightarrow> 'b go" where
  "deref p k = (case p of None \<Rightarrow> Inl NilDereference | Some x \<Rightarrow> k x)"

definition go_bind :: "'a go \<Rightarrow> ('a \<Rightarrow> 'b go) \<Rightarrow> 'b go" where
  "go_bind m k = (case m of Inl p \<Rightarrow> Inl p | Inr x \<Rightarrow> k x)"

lemma index_at_in_range [simp]: "i < length xs \<Longrightarrow> index_at xs i k = k (xs ! i)"
  by (simp add: index_at_def)

lemma index_at_out_of_range [simp]: "\<not> i < length xs \<Longrightarrow> index_at xs i k = Inl IndexOutOfRange"
  by (simp add: index_at_def)

lemma index_at_eq_Inr [go_simps]: "index_at xs i k = Inr y \<longleftrightarrow> i < length xs \<and> k (xs ! i) = Inr y"
  by (simp add: index_at_def)

lemma deref_simps [simp]: "deref None k = Inl NilDereference" "deref (Some x) k = k x"
  by (simp_all add: deref_def)

lemma deref_eq_Inr [go_simps]: "deref p k = Inr y \<longleftrightarrow> (\<exists>x. p = Some x \<and> k x = Inr y)"
  by (cases p) simp_all

lemma go_bind_simps [simp]: "go_bind (Inl p) k = Inl p" "go_bind (Inr x) k = k x"
  by (simp_all add: go_bind_def)

lemma go_bind_eq_Inr [go_simps]: "go_bind m k = Inr y \<longleftrightarrow> (\<exists>x. m = Inr x \<and> k x = Inr y)"
  by (cases m) simp_all

section \<open>Transition systems\<close>

text \<open>
  A component that goroutines, timers or requests drive is a step function; a run is a sequence of
  events, taken one after the other until one panics.
\<close>

fun run :: "('ev \<Rightarrow> 's \<Rightarrow> 's go) \<Rightarrow> 'ev list \<Rightarrow> 's \<Rightarrow> 's go" where
  "run st [] s = Inr s"
| "run st (e # es) s = go_bind (st e s) (run st es)"

lemma run_snoc: "run st (es @ [e]) s = go_bind (run st es s) (st e)"
proof (induction es arbitrary: s)
  case Nil
  show ?case by (cases "st e s") simp_all
next
  case (Cons f fs)
  then show ?case by (cases "st f s") simp_all
qed

text \<open>
  What a safety proof supplies, a property of states that every step keeps, and what it gets:
  the property in every state of every run.
\<close>

locale step_invariant =
  fixes st :: "'ev \<Rightarrow> 's \<Rightarrow> 's go" and I :: "'s \<Rightarrow> bool"
  assumes keep: "I s \<Longrightarrow> st e s = Inr s' \<Longrightarrow> I s'"
begin

lemma run_keep: "I s \<Longrightarrow> run st es s = Inr s' \<Longrightarrow> I s'"
  by (induction es arbitrary: s) (auto simp: go_bind_eq_Inr dest: keep)

lemma run_panic:
  "I s \<Longrightarrow> run st es s = Inl p \<Longrightarrow>
   \<exists>pre e post s'. es = pre @ e # post \<and> run st pre s = Inr s' \<and> I s' \<and> st e s' = Inl p"
proof (induction es arbitrary: s)
  case (Cons e es)
  show ?case
  proof (cases "st e s")
    case (Inl q)
    with Cons.prems show ?thesis by (intro exI [of _ "[]"]) simp
  next
    case (Inr s1)
    with Cons.prems keep have "I s1" "run st es s1 = Inl p" by auto
    with Cons.IH obtain pre e' post s' where
      "es = pre @ e' # post" "run st pre s1 = Inr s'" "I s'" "st e' s' = Inl p" by blast
    with Inr show ?thesis by (intro exI [of _ "e # pre"]) auto
  qed
qed simp

end

section \<open>Strings and byte slices\<close>

definition has_prefix :: "'a list \<Rightarrow> 'a list \<Rightarrow> bool" where
  "has_prefix s p \<longleftrightarrow> take (length p) s = p"

definition has_suffix :: "'a list \<Rightarrow> 'a list \<Rightarrow> bool" where
  "has_suffix s p \<longleftrightarrow> drop (length s - length p) s = p"

definition contains_any :: "'a list \<Rightarrow> 'a list \<Rightarrow> bool" where
  "contains_any s chars \<longleftrightarrow> list_ex (\<lambda>c. c \<in> set chars) s"

text \<open>\<open>strings.Split\<close> with a one-character separator; it returns at least one piece.\<close>

fun split_on :: "'a \<Rightarrow> 'a list \<Rightarrow> 'a list list" where
  "split_on c [] = [[]]"
| "split_on c (x # xs) =
     (if x = c then [] # split_on c xs
      else (case split_on c xs of [] \<Rightarrow> [[x]] | y # ys \<Rightarrow> (x # y) # ys))"

fun join_with :: "'a list \<Rightarrow> 'a list list \<Rightarrow> 'a list" where
  "join_with sep [] = []"
| "join_with sep [x] = x"
| "join_with sep (x # y # ys) = x @ sep @ join_with sep (y # ys)"

text \<open>\<open>bytes.Index\<close>: the position of the first occurrence.\<close>

fun bytes_index :: "'a list \<Rightarrow> 'a list \<Rightarrow> nat option" where
  "bytes_index [] sep = (if sep = [] then Some 0 else None)"
| "bytes_index (x # xs) sep =
     (if has_prefix (x # xs) sep then Some 0 else map_option Suc (bytes_index xs sep))"

lemma has_prefix_iff_prefix: "has_prefix s p \<longleftrightarrow> prefix p s"
  by (metis append_eq_conv_conj append_take_drop_id has_prefix_def prefix_def)

lemma has_prefix_append [simp]: "has_prefix (p @ s) p"
  by (simp add: has_prefix_def)

lemma has_suffix_append [simp]: "has_suffix (s @ p) p"
  by (simp add: has_suffix_def)

lemma has_suffix_iff_suffix: "has_suffix s p \<longleftrightarrow> suffix p s"
  by (metis append_take_drop_id has_suffix_append has_suffix_def suffix_def)

lemma split_on_not_Nil [simp]: "split_on c s \<noteq> []"
  by (induction s) (auto split: list.splits)

lemma split_on_no_sep: "c \<notin> set s \<Longrightarrow> split_on c s = [s]"
  by (induction s) auto

lemma split_on_append_sep: "c \<notin> set s \<Longrightarrow> split_on c (s @ c # t) = s # split_on c t"
  by (induction s) auto

lemma split_on_join:
  "ps \<noteq> [] \<Longrightarrow> \<forall>p \<in> set ps. c \<notin> set p \<Longrightarrow> split_on c (join_with [c] ps) = ps"
  by (induction "[c]" ps rule: join_with.induct) (simp_all add: split_on_no_sep split_on_append_sep)

lemma join_split_on: "join_with [c] (split_on c s) = s"
proof (induction s)
  case Nil
  show ?case by simp
next
  case (Cons x xs)
  obtain y ys where y: "split_on c xs = y # ys"
    by (cases "split_on c xs") simp_all
  with Cons.IH show ?case
    by (cases ys) auto
qed

lemma split_on_pieces: "p \<in> set (split_on c s) \<Longrightarrow> c \<notin> set p"
  by (induction s arbitrary: p) (auto split: list.splits if_splits)

lemma length_split_on: "length (split_on c s) = Suc (count_list s c)"
proof (induction s)
  case (Cons x xs)
  then show ?case by (cases "split_on c xs") auto
qed simp

lemma bytes_index_Some:
  "bytes_index s sep = Some i \<Longrightarrow> i + length sep \<le> length s \<and> has_prefix (drop i s) sep"
proof (induction s sep arbitrary: i rule: bytes_index.induct)
  case (1 sep)
  then show ?case by (auto simp: has_prefix_def split: if_splits)
next
  case (2 x xs sep)
  show ?case
  proof (cases "has_prefix (x # xs) sep")
    case True
    then have "length sep \<le> length (x # xs)"
      by (metis has_prefix_iff_prefix prefix_length_le)
    with True 2 show ?thesis by auto
  next
    case False
    with 2 show ?thesis by fastforce
  qed
qed

lemma bytes_index_append:
  "bytes_index s sep = Some i \<Longrightarrow> bytes_index (s @ t) sep = Some i"
proof (induction s sep arbitrary: i rule: bytes_index.induct)
  case (1 sep)
  then show ?case by (cases t) (auto simp: has_prefix_def split: if_splits)
next
  case (2 x xs sep)
  show ?case
  proof (cases "has_prefix (x # xs) sep")
    case True
    then have "has_prefix (x # xs @ t) sep"
      by (metis append_Cons has_prefix_iff_prefix prefix_append)
    with True 2 show ?thesis by simp
  next
    case False
    with 2 obtain j where j: "bytes_index xs sep = Some j" "i = Suc j" by auto
    then have "length sep \<le> length xs" using bytes_index_Some by fastforce
    then have "\<not> has_prefix (x # xs @ t) sep"
      using False prefix_length_prefix [of sep "x # xs @ t" "x # xs"]
      by (auto simp: has_prefix_iff_prefix)
    with False 2 j show ?thesis by simp
  qed
qed

text \<open>Deleting a key of an association list, as a map.\<close>

lemma map_of_delete [simp]: "map_of (AList.delete k al) = (map_of al)(k := None)"
  by (rule delete_conv')

end
