(* ===== verification/Strconv.thy ===== *)
theory Strconv
  imports Prelude
begin

text \<open>
  The package \<open>strconv\<close> and the integer verbs of \<open>fmt.Sprintf\<close> as far as the server uses
  them, and \<open>utils.StrToInt\<close> (\<open>internal/utils/cast_utils.go\<close>) on top. A Go \<open>int\<close> is 64 bits
  wide on the server's platforms: values are \<^typ>\<open>int\<close>, the parser rejects what does not fit.
\<close>

section \<open>Decimal digits\<close>

definition is_digit :: "char \<Rightarrow> bool" where
  "is_digit c \<longleftrightarrow> 48 \<le> (of_char c :: nat) \<and> (of_char c :: nat) \<le> 57"

definition digit_val :: "char \<Rightarrow> nat" where
  "digit_val c = of_char c - 48"

definition digit_char :: "nat \<Rightarrow> char" where
  "digit_char d = char_of (48 + d)"

fun show_nat :: "nat \<Rightarrow> string" where
  "show_nat n = (if n < 10 then [digit_char n] else show_nat (n div 10) @ [digit_char (n mod 10)])"

declare show_nat.simps [simp del]

fun dec_value :: "nat \<Rightarrow> string \<Rightarrow> nat option" where
  "dec_value acc [] = Some acc"
| "dec_value acc (c # cs) =
     (if is_digit c then dec_value (10 * acc + digit_val c) cs else None)"

lemma is_digit_digit_char [simp]: "d < 10 \<Longrightarrow> is_digit (digit_char d)"
  by (simp add: is_digit_def digit_char_def)

lemma digit_val_digit_char [simp]: "d < 10 \<Longrightarrow> digit_val (digit_char d) = d"
  by (simp add: digit_val_def digit_char_def)

lemma digit_char_neq:
  "d < 10 \<Longrightarrow> digit_char d \<noteq> CHR ''-''" "d < 10 \<Longrightarrow> digit_char d \<noteq> CHR ''+''"
  "d < 10 \<Longrightarrow> digit_char d \<noteq> CHR '':''"
  using is_digit_digit_char [of d] by (auto simp: is_digit_def)

lemma dec_value_append:
  "dec_value acc (s @ t) = (case dec_value acc s of None \<Rightarrow> None | Some n \<Rightarrow> dec_value n t)"
  by (induction acc s rule: dec_value.induct) auto

lemma show_nat_not_Nil [simp]: "show_nat n \<noteq> []"
  by (subst show_nat.simps) simp

lemma show_nat_digits: "c \<in> set (show_nat n) \<Longrightarrow> is_digit c"
proof (induction n rule: show_nat.induct)
  case (1 n)
  then show ?case
    by (cases "n < 10") (auto simp: show_nat.simps [of n])
qed

lemma dec_value_show_nat: "dec_value 0 (show_nat n) = Some n"
proof (induction n rule: show_nat.induct)
  case (1 n)
  then show ?case
    by (cases "n < 10") (auto simp: show_nat.simps [of n] dec_value_append)
qed

lemma dec_value_zeros: "dec_value 0 (replicate k (digit_char 0) @ s) = dec_value 0 s"
  by (induction k) simp_all

lemma dec_value_eq_None: "c \<in> set s \<Longrightarrow> \<not> is_digit c \<Longrightarrow> dec_value acc s = None"
  by (induction acc s rule: dec_value.induct) auto

section \<open>Parsing and printing integers\<close>

text \<open>\<open>strconv.Atoi\<close>: an optional sign, decimal digits only, and a result that fits 64 bits.\<close>

definition atoi :: "string \<Rightarrow> int option" where
  "atoi s =
     (let neg = has_prefix s ''-'';
          ds = (if has_prefix s ''-'' \<or> has_prefix s ''+'' then tl s else s)
      in if ds = [] then None
         else case dec_value 0 ds of
                None \<Rightarrow> None
              | Some n \<Rightarrow>
                  if neg then (if n \<le> 2 ^ 63 then Some (- int n) else None)
                  else if n < 2 ^ 63 then Some (int n) else None)"

text \<open>\<open>utils.StrToInt\<close>\<close>

definition StrToInt :: "string \<Rightarrow> int \<Rightarrow> int" where
  "StrToInt str defaultValue = (case atoi str of None \<Rightarrow> defaultValue | Some result \<Rightarrow> result)"

text \<open>\<open>strconv.Itoa\<close> and the verb \<open>%0wd\<close>, which counts the sign in the width.\<close>

definition itoa :: "int \<Rightarrow> string" where
  "itoa n = (if n < 0 then CHR ''-'' # show_nat (nat (- n)) else show_nat (nat n))"

definition pad0 :: "nat \<Rightarrow> string \<Rightarrow> string" where
  "pad0 w s = replicate (w - length s) (digit_char 0) @ s"

definition fmt_0d :: "nat \<Rightarrow> int \<Rightarrow> string" where
  "fmt_0d w n = (if n < 0 then CHR ''-'' # pad0 (w - 1) (show_nat (nat (- n)))
                 else pad0 w (show_nat (nat n)))"

definition int64 :: "int \<Rightarrow> bool" where
  "int64 n \<longleftrightarrow> - (2 ^ 63) \<le> n \<and> n < 2 ^ 63"

lemma atoi_unsigned:
  assumes "s \<noteq> []" and "\<forall>c \<in> set s. is_digit c" and "dec_value 0 s = Some n" and "n < 2 ^ 63"
  shows "atoi s = Some (int n)"
proof -
  obtain c cs where s: "s = c # cs" using assms(1) by (cases s) auto
  have "c \<noteq> CHR ''-''" "c \<noteq> CHR ''+''" using assms(2) s by (auto simp: is_digit_def)
  with assms(3,4) show ?thesis by (simp add: atoi_def has_prefix_def s Let_def)
qed

lemma atoi_negative:
  "s \<noteq> [] \<Longrightarrow> dec_value 0 s = Some n \<Longrightarrow> n \<le> 2 ^ 63 \<Longrightarrow> atoi (CHR ''-'' # s) = Some (- int n)"
  by (simp add: atoi_def has_prefix_def Let_def)

lemma pad0_facts:
  "dec_value 0 (pad0 w (show_nat n)) = Some n"
  "pad0 w (show_nat n) \<noteq> []"
  "\<forall>c \<in> set (pad0 w (show_nat n)). is_digit c"
  by (auto simp: pad0_def dec_value_zeros dec_value_show_nat show_nat_digits)

lemma atoi_fmt_0d: "int64 n \<Longrightarrow> atoi (fmt_0d w n) = Some n"
  using atoi_unsigned [OF pad0_facts(2,3,1), of "nat n" w]
    atoi_negative [OF pad0_facts(2,1), of "nat (- n)" "w - 1"]
  by (auto simp: fmt_0d_def int64_def)

lemma itoa_fmt_0d: "itoa n = fmt_0d 0 n"
  by (simp add: itoa_def fmt_0d_def pad0_def)

lemma StrToInt_itoa [simp]: "int64 n \<Longrightarrow> StrToInt (itoa n) d = n"
  by (simp add: StrToInt_def itoa_fmt_0d atoi_fmt_0d)

lemma length_fmt_0d: "0 < w \<Longrightarrow> w \<le> length (fmt_0d w n)"
  by (auto simp: fmt_0d_def pad0_def)

lemma atoi_int64: "atoi s = Some n \<Longrightarrow> int64 n"
  by (auto simp: atoi_def int64_def Let_def split: if_splits option.splits)

lemma StrToInt_int64: "int64 d \<Longrightarrow> int64 (StrToInt s d)"
  by (auto simp: StrToInt_def atoi_int64 split: option.splits)

lemma itoa_chars: "c \<in> set (itoa n) \<Longrightarrow> c = CHR ''-'' \<or> is_digit c"
  using show_nat_digits by (auto simp: itoa_def split: if_splits)

lemma itoa_no_colon: "CHR '':'' \<notin> set (itoa n)"
  using itoa_chars [of "CHR '':''" n] by (auto simp: is_digit_def)

text \<open>Go's integer division truncates towards zero.\<close>

definition go_div :: "int \<Rightarrow> int \<Rightarrow> int" where
  "go_div a b = sgn a * sgn b * (\<bar>a\<bar> div \<bar>b\<bar>)"

end
