(* ===== verification/Permission.thy ===== *)
theory Permission
  imports Prelude "HOL-Library.Word"
begin

text \<open>
  The permission nodes of an administrator (\<open>internal/interfaces/operation/permission.go\<close>): a
  Go \<open>int64\<close> is a 64-bit word, read signed where the code compares it.
\<close>

unbundle bit_operations_syntax

type_synonym permission = "64 word"

definition permission_bit :: "nat \<Rightarrow> permission" where
  "permission_bit i = push_bit i 1"

abbreviation (input) "AdminEntry \<equiv> permission_bit 0"
abbreviation (input) "UserShowList \<equiv> permission_bit 1"
abbreviation (input) "UserGetProfile \<equiv> permission_bit 2"
abbreviation (input) "UserSetPassword \<equiv> permission_bit 3"
abbreviation (input) "UserEditBaseInfo \<equiv> permission_bit 4"
abbreviation (input) "UserEditPermission \<equiv> permission_bit 5"
abbreviation (input) "UserEditRating \<equiv> permission_bit 6"
abbreviation (input) "ActivityPublish \<equiv> permission_bit 7"
abbreviation (input) "ActivityShowList \<equiv> permission_bit 8"
abbreviation (input) "ActivityEdit \<equiv> permission_bit 9"
abbreviation (input) "ActivityEditState \<equiv> permission_bit 10"
abbreviation (input) "ActivityEditPilotState \<equiv> permission_bit 11"
abbreviation (input) "ActivityDelete \<equiv> permission_bit 12"
abbreviation (input) "AuditLogShow \<equiv> permission_bit 13"
abbreviation (input) "ClientSendMessage \<equiv> permission_bit 14"
abbreviation (input) "ClientKill \<equiv> permission_bit 15"

definition PermissionMap :: "string \<rightharpoonup> permission" where
  "PermissionMap = map_of
     [(''AdminEntry'', AdminEntry), (''UserShowList'', UserShowList),
      (''UserGetProfile'', UserGetProfile), (''UserEditBaseInfo'', UserEditBaseInfo),
      (''UserEditPermission'', UserEditPermission), (''UserEditRating'', UserEditRating),
      (''ActivityPublish'', ActivityPublish), (''ActivityShowList'', ActivityShowList),
      (''ActivityEdit'', ActivityEdit), (''ActivityEditState'', ActivityEditState),
      (''ActivityEditPilotState'', ActivityEditPilotState), (''ActivityDelete'', ActivityDelete),
      (''ClientSendMessage'', ClientSendMessage), (''ClientKill'', ClientKill)]"

definition IsValid :: "permission \<Rightarrow> bool" where
  "IsValid p \<longleftrightarrow> (let maxPerm = push_bit 1 ClientKill - 1 in 0 \<le>s p \<and> p \<le>s maxPerm)"

definition HasPermission :: "permission \<Rightarrow> permission \<Rightarrow> bool" where
  "HasPermission p perm \<longleftrightarrow> p AND perm \<noteq> 0"

definition Grant :: "permission \<Rightarrow> permission \<Rightarrow> permission" where
  "Grant p perm = p OR perm"

definition Revoke :: "permission \<Rightarrow> permission \<Rightarrow> permission" where
  "Revoke p perm = p AND NOT perm"

lemma bit_permission_bit [simp]: "bit (permission_bit i) n \<longleftrightarrow> n = i \<and> n < 64"
  by (auto simp: permission_bit_def bit_simps)

lemma HasPermission_bit: "i < 64 \<Longrightarrow> HasPermission p (permission_bit i) \<longleftrightarrow> bit p i"
  by (auto simp: HasPermission_def bit_eq_iff [where 'a = permission] bit_simps)

lemma HasPermission_Grant: "HasPermission (Grant p q) r \<longleftrightarrow> HasPermission p r \<or> HasPermission q r"
  by (auto simp: HasPermission_def Grant_def bit_eq_iff [where 'a = permission] bit_simps)

lemma Revoke_Grant: "Revoke (Grant p q) q = Revoke p q"
  by (auto simp: Revoke_def Grant_def bit_eq_iff [where 'a = permission] bit_simps)

lemma IsValid_signed: "IsValid p \<longleftrightarrow> 0 \<le> sint p \<and> sint p \<le> 65535"
proof -
  have "push_bit 1 ClientKill - 1 = (65535 :: 64 word)"
    by (simp add: permission_bit_def)
  then show ?thesis
    unfolding IsValid_def Let_def by (simp only: word_sle_eq) simp
qed

lemma IsValid_unsigned: "IsValid p \<longleftrightarrow> p \<le> 65535"
proof (cases "bit p 63")
  case True
  have "\<not> p \<le> 65535"
  proof
    assume "p \<le> 65535"
    then have "uint p < 2 ^ 16" by (simp add: word_le_def)
    then have "take_bit 16 (uint p) = uint p" by (simp add: take_bit_int_eq_self)
    then have "\<not> bit (uint p) 63" using bit_take_bit_iff [of 16 "uint p" 63] by simp
    with True show False by (simp add: bit_uint_iff)
  qed
  moreover have "sint p < 0" using True bit_last_iff [of p] by simp
  ultimately show ?thesis by (simp add: IsValid_signed)
next
  case False
  have "take_bit 63 (uint p) = uint p"
  proof (rule bit_eqI)
    fix n
    show "bit (take_bit 63 (uint p)) n \<longleftrightarrow> bit (uint p) n"
      using False bit_imp_le_length [of p n] by (cases "n = 63") (auto simp: bit_take_bit_iff bit_uint_iff)
  qed
  with False have "sint p = uint p" by (simp add: sint_uint signed_take_bit_eq_if_positive bit_uint_iff)
  then show ?thesis by (simp add: IsValid_signed word_le_def)
qed

lemma IsValid_bits: "IsValid p \<longleftrightarrow> (\<forall>n \<ge> 16. \<not> bit p n)"
proof -
  have "p \<le> 65535 \<longleftrightarrow> take_bit 16 (uint p) = uint p"
    by (simp add: word_le_def take_bit_int_eq_self_iff) linarith
  also have "\<dots> \<longleftrightarrow> (\<forall>n. bit (uint p) n \<longrightarrow> n < 16)"
    by (simp add: bit_eq_iff [where 'a = int] bit_take_bit_iff) blast
  also have "\<dots> \<longleftrightarrow> (\<forall>n \<ge> 16. \<not> bit p n)"
    using bit_imp_le_length [of p] by (simp only: bit_uint_iff not_le [symmetric]) blast
  finally show ?thesis by (simp add: IsValid_unsigned)
qed

text \<open>
  Permission nodes behave as a set of 64 flags: after a grant an account has the nodes it
  had and the granted ones, after a revocation those it had except the revoked ones; granting
  valid nodes or revoking any keeps a valid permission valid.
\<close>

theorem permission_laws:
  assumes "i < 64"
  shows "(HasPermission (Grant p q) (permission_bit i) \<longleftrightarrow>
           HasPermission p (permission_bit i) \<or> HasPermission q (permission_bit i)) \<and>
         (HasPermission (Revoke p q) (permission_bit i) \<longleftrightarrow>
           HasPermission p (permission_bit i) \<and> \<not> HasPermission q (permission_bit i)) \<and>
         (IsValid p \<and> IsValid q \<longrightarrow> IsValid (Grant p q)) \<and> (IsValid p \<longrightarrow> IsValid (Revoke p q))"
  using assms by (auto simp: HasPermission_bit IsValid_bits Grant_def Revoke_def bit_simps)

theorem permission_laws_witness:
  "\<not> HasPermission (Revoke (Grant UserShowList ClientKill) ClientKill) ClientKill"
  using permission_laws [of 15 "Grant UserShowList ClientKill" ClientKill]
  by (simp add: HasPermission_bit)

end
