(* ===== verification/Database.thy ===== *)
theory Database
  imports Strconv Permission
begin

text \<open>
  The records of the database and the operations of the server on users and connection
  histories (\<open>internal/interfaces/operation/model.go\<close>, \<open>user.go\<close>,
  \<open>internal/database/user_operation.go\<close>, \<open>history_operation.go\<close>).

  gorm and bcrypt are not part of the repository: their calls are the fields of the record
  \<open>api\<close>, an argument of every operation, over an arbitrary type of database states. Time is in
  nanoseconds.
\<close>

section \<open>Records\<close>

record User =
  u_ID :: nat
  u_Username :: string
  u_Email :: string
  u_Cid :: int
  u_Password :: string
  u_AvatarUrl :: string
  u_QQ :: int
  u_Rating :: int
  u_Permission :: permission
  u_TotalPilotTime :: int
  u_TotalAtcTime :: int

definition zero_User :: User where
  "zero_User = \<lparr>u_ID = 0, u_Username = '''', u_Email = '''', u_Cid = 0, u_Password = '''',
     u_AvatarUrl = '''', u_QQ = 0, u_Rating = 0, u_Permission = 0, u_TotalPilotTime = 0,
     u_TotalAtcTime = 0\<rparr>"

record FlightPlan =
  fp_ID :: nat
  fp_Cid :: int
  fp_Callsign :: string
  fp_FlightType :: string
  fp_AircraftType :: string
  fp_Tas :: int
  fp_DepartureAirport :: string
  fp_DepartureTime :: int
  fp_AtcDepartureTime :: int
  fp_CruiseAltitude :: string
  fp_ArrivalAirport :: string
  fp_RouteTimeHour :: string
  fp_RouteTimeMinute :: string
  fp_FuelTimeHour :: string
  fp_FuelTimeMinute :: string
  fp_AlternateAirport :: string
  fp_Remarks :: string
  fp_Route :: string
  fp_Locked :: bool
  fp_FromWeb :: bool
  fp_CreatedAt :: int
  fp_UpdatedAt :: int

definition zero_FlightPlan :: FlightPlan where
  "zero_FlightPlan = \<lparr>fp_ID = 0, fp_Cid = 0, fp_Callsign = '''', fp_FlightType = '''',
     fp_AircraftType = '''', fp_Tas = 0, fp_DepartureAirport = '''', fp_DepartureTime = 0,
     fp_AtcDepartureTime = 0, fp_CruiseAltitude = '''', fp_ArrivalAirport = '''',
     fp_RouteTimeHour = '''', fp_RouteTimeMinute = '''', fp_FuelTimeHour = '''',
     fp_FuelTimeMinute = '''', fp_AlternateAirport = '''', fp_Remarks = '''', fp_Route = '''',
     fp_Locked = False, fp_FromWeb = False, fp_CreatedAt = 0, fp_UpdatedAt = 0\<rparr>"

record History =
  h_ID :: nat
  h_Cid :: int
  h_Callsign :: string
  h_StartTime :: int
  h_EndTime :: int
  h_OnlineTime :: int
  h_IsAtc :: bool

section \<open>Errors and the database\<close>

datatype gorm_error = ErrRecordNotFound | ErrDuplicatedKey | OtherDbError string

datatype op_error =
    ErrUserNotFound | ErrIdentifierTaken | ErrIdentifierCheck | ErrPasswordEncode | ErrOldPassword
  | ErrFlightPlanNotFound | ErrSimulatorServer | ErrFlightPlanDataTooShort | ErrFlightPlanExists
  | ErrFlightPlanLocked | DbError gorm_error

text \<open>
  \<open>First\<close> gives the first row that matches or an error, and on an error leaves the record it
  should fill as it was. \<open>Save\<close> and \<open>Create\<close> write a row; \<open>Save\<close> also fills the generated columns
  of the record (the key, the time stamps) and no other, so it returns these. \<open>Updates\<close> also
  reports the number of rows it changed.
\<close>

record generated =
  g_ID :: nat
  g_CreatedAt :: int
  g_UpdatedAt :: int

record 'db api =
  first_user_by_id :: "nat \<Rightarrow> 'db \<Rightarrow> gorm_error + User"
  first_user_by_cid :: "int \<Rightarrow> 'db \<Rightarrow> gorm_error + User"
  first_user_by_username :: "string \<Rightarrow> 'db \<Rightarrow> gorm_error + User"
  first_user_by_email :: "string \<Rightarrow> 'db \<Rightarrow> gorm_error + User"
  first_user_by_username_or_email :: "string \<Rightarrow> 'db \<Rightarrow> gorm_error + User"
  count_users_by_identifiers :: "int \<Rightarrow> string \<Rightarrow> string \<Rightarrow> 'db \<Rightarrow> gorm_error + nat"
  create_user :: "User \<Rightarrow> 'db \<Rightarrow> 'db \<times> gorm_error option"
  add_total_atc_time :: "User \<Rightarrow> int \<Rightarrow> 'db \<Rightarrow> 'db \<times> gorm_error option"
  add_total_pilot_time :: "User \<Rightarrow> int \<Rightarrow> 'db \<Rightarrow> 'db \<times> gorm_error option"
  set_user_rating :: "User \<Rightarrow> int \<Rightarrow> 'db \<Rightarrow> 'db \<times> gorm_error option"
  set_user_permission :: "User \<Rightarrow> permission \<Rightarrow> 'db \<Rightarrow> 'db \<times> gorm_error option"
  first_plan_by_cid :: "int \<Rightarrow> 'db \<Rightarrow> gorm_error + FlightPlan"
  save_plan :: "FlightPlan \<Rightarrow> 'db \<Rightarrow> 'db \<times> generated \<times> gorm_error option"
  update_plan_altitude :: "FlightPlan \<Rightarrow> string \<Rightarrow> 'db \<Rightarrow> 'db \<times> gorm_error option \<times> nat"
  save_history :: "History \<Rightarrow> 'db \<Rightarrow> 'db \<times> nat \<times> gorm_error option"
  compare_hash :: "string \<Rightarrow> string \<Rightarrow> bool"
  generate_hash :: "string \<Rightarrow> string option"
  time_string :: "int \<Rightarrow> string"

text \<open>A transaction whose body fails is rolled back.\<close>

definition transaction :: "('db \<Rightarrow> 'db \<times> 'e option) \<Rightarrow> 'db \<Rightarrow> 'db \<times> 'e option" where
  "transaction f db = (case f db of (db', None) \<Rightarrow> (db', None) | (db', Some e) \<Rightarrow> (db, Some e))"

lemma transaction_cases:
  "transaction f db = (db', e) \<longleftrightarrow>
   (case e of None \<Rightarrow> f db = (db', None) | Some x \<Rightarrow> db' = db \<and> snd (f db) = Some x)"
  by (auto simp: transaction_def split: prod.splits option.splits)

definition db_error :: "gorm_error option \<Rightarrow> op_error option" where
  "db_error = map_option DbError"

section \<open>Users\<close>

definition found_user :: "gorm_error + User \<Rightarrow> User \<times> op_error option" where
  "found_user r =
     (case r of
        Inr user \<Rightarrow> (user, None)
      | Inl ErrRecordNotFound \<Rightarrow> (zero_User, Some ErrUserNotFound)
      | Inl err \<Rightarrow> (zero_User, Some (DbError err)))"

definition GetUserByUid :: "'db api \<Rightarrow> nat \<Rightarrow> 'db \<Rightarrow> User \<times> op_error option" where
  "GetUserByUid A uid db = found_user (first_user_by_id A uid db)"

definition GetUserByCid :: "'db api \<Rightarrow> int \<Rightarrow> 'db \<Rightarrow> User \<times> op_error option" where
  "GetUserByCid A cid db = found_user (first_user_by_cid A cid db)"

definition GetUserByUsername :: "'db api \<Rightarrow> string \<Rightarrow> 'db \<Rightarrow> User \<times> op_error option" where
  "GetUserByUsername A username db = found_user (first_user_by_username A username db)"

text \<open>These two return \<open>user, nil\<close>: the error they computed is dropped.\<close>

definition GetUserByEmail :: "'db api \<Rightarrow> string \<Rightarrow> 'db \<Rightarrow> User \<times> op_error option" where
  "GetUserByEmail A email db =
     (let (user, err) = found_user (first_user_by_email A email db) in (user, None))"

definition GetUserByUsernameOrEmail :: "'db api \<Rightarrow> string \<Rightarrow> 'db \<Rightarrow> User \<times> op_error option" where
  "GetUserByUsernameOrEmail A ident db =
     (let (user, err) = found_user (first_user_by_username_or_email A ident db) in (user, None))"

datatype UserId = IntUserId int | StringUserId string

definition GetUserId :: "string \<Rightarrow> UserId" where
  "GetUserId userId =
     (let i = StrToInt userId (- 1) in if i = - 1 then StringUserId userId else IntUserId i)"

fun GetUser :: "'db api \<Rightarrow> UserId \<Rightarrow> 'db \<Rightarrow> User \<times> op_error option" where
  "GetUser A (IntUserId i) db = GetUserByCid A i db"
| "GetUser A (StringUserId s) db = GetUserByUsernameOrEmail A s db"

definition NewUser ::
    "'db api \<Rightarrow> string \<Rightarrow> string \<Rightarrow> int \<Rightarrow> string \<Rightarrow> op_error + User" where
  "NewUser A username email cid password =
     (case generate_hash A password of
        None \<Rightarrow> Inl ErrPasswordEncode
      | Some encodePassword \<Rightarrow>
          Inr \<lparr>u_ID = 0, u_Username = username, u_Email = email, u_Cid = cid,
               u_Password = encodePassword, u_AvatarUrl = '''', u_QQ = 0, u_Rating = 0,
               u_Permission = 0, u_TotalPilotTime = 0, u_TotalAtcTime = 0\<rparr>)"

definition IsUserIdentifierTaken ::
    "'db api \<Rightarrow> int \<Rightarrow> string \<Rightarrow> string \<Rightarrow> 'db \<Rightarrow> bool \<times> op_error option" where
  "IsUserIdentifierTaken A cid username email db =
     (case count_users_by_identifiers A cid username email db of
        Inl err \<Rightarrow> (False, Some (DbError err))
      | Inr count \<Rightarrow> (count > 0, None))"

definition AddUser :: "'db api \<Rightarrow> User \<Rightarrow> 'db \<Rightarrow> 'db \<times> op_error option" where
  "AddUser A user = transaction (\<lambda>tx.
     case IsUserIdentifierTaken A (u_Cid user) (u_Username user) (u_Email user) tx of
       (_, Some err) \<Rightarrow> (tx, Some ErrIdentifierCheck)
     | (taken, None) \<Rightarrow>
         if taken then (tx, Some ErrIdentifierTaken)
         else (let (tx', err) = create_user A user tx in (tx', db_error err)))"

definition UpdateUserAtcTime :: "'db api \<Rightarrow> User \<Rightarrow> int \<Rightarrow> 'db \<Rightarrow> 'db \<times> op_error option" where
  "UpdateUserAtcTime A user seconds db =
     (let (db', err) = add_total_atc_time A user seconds db in (db', db_error err))"

definition UpdateUserPilotTime :: "'db api \<Rightarrow> User \<Rightarrow> int \<Rightarrow> 'db \<Rightarrow> 'db \<times> op_error option" where
  "UpdateUserPilotTime A user seconds db =
     (let (db', err) = add_total_pilot_time A user seconds db in (db', db_error err))"

definition UpdateUserRating ::
    "'db api \<Rightarrow> User \<Rightarrow> int \<Rightarrow> 'db \<Rightarrow> User \<times> 'db \<times> op_error option" where
  "UpdateUserRating A user rating db =
     (let user' = user\<lparr>u_Rating := rating\<rparr>;
          (db', err) = transaction (set_user_rating A user' rating) db
      in (user', db', db_error err))"

definition UpdateUserPermission ::
    "'db api \<Rightarrow> User \<Rightarrow> permission \<Rightarrow> 'db \<Rightarrow> User \<times> 'db \<times> op_error option" where
  "UpdateUserPermission A user p db =
     (let user' = user\<lparr>u_Permission := p\<rparr>;
          (db', err) = transaction (set_user_permission A user' p) db
      in (user', db', db_error err))"

text \<open>\<open>save\<close> writes the whole row; the program does not call it.\<close>

definition SaveUser :: "(User \<Rightarrow> 'db \<Rightarrow> 'db \<times> gorm_error option) \<Rightarrow> User \<Rightarrow> 'db \<Rightarrow> 'db \<times> op_error option" where
  "SaveUser save user db = (let (db', err) = save user db in (db', db_error err))"

definition VerifyUserPassword :: "'db api \<Rightarrow> User \<Rightarrow> string \<Rightarrow> bool" where
  "VerifyUserPassword A user password = compare_hash A (u_Password user) password"

definition UpdateUserPassword ::
    "'db api \<Rightarrow> User \<Rightarrow> string \<Rightarrow> string \<Rightarrow> bool \<Rightarrow> User \<times> (op_error + string)" where
  "UpdateUserPassword A user originalPassword newPassword skipVerify =
     (if \<not> skipVerify \<and> \<not> VerifyUserPassword A user originalPassword then (user, Inl ErrOldPassword)
      else case generate_hash A newPassword of
             None \<Rightarrow> (user, Inl ErrPasswordEncode)
           | Some encodePassword \<Rightarrow> (user\<lparr>u_Password := encodePassword\<rparr>, Inr encodePassword))"

section \<open>Histories\<close>

text \<open>
  \<open>Duration.Seconds\<close> is a float that \<open>int\<close> truncates; its rounding, which shows beyond
  \<open>2 ^ 23\<close> seconds within a few nanoseconds of a whole second, is not modelled.
\<close>

definition NewHistory :: "int \<Rightarrow> int \<Rightarrow> string \<Rightarrow> bool \<Rightarrow> History" where
  "NewHistory now cid callsign isAtc =
     \<lparr>h_ID = 0, h_Cid = cid, h_Callsign = callsign, h_StartTime = now, h_EndTime = now,
      h_OnlineTime = 0, h_IsAtc = isAtc\<rparr>"

definition SaveHistory :: "'db api \<Rightarrow> History \<Rightarrow> 'db \<Rightarrow> History \<times> 'db \<times> op_error option" where
  "SaveHistory A history db = (let (db', newID, err) = save_history A history db
      in (history\<lparr>h_ID := newID\<rparr>, db', db_error err))"

definition whole_seconds :: "int \<Rightarrow> int" where
  "whole_seconds d = go_div d 1000000000"

definition EndRecordAndSaveHistory ::
    "'db api \<Rightarrow> int \<Rightarrow> History \<Rightarrow> 'db \<Rightarrow> History \<times> 'db \<times> op_error option" where
  "EndRecordAndSaveHistory A now history db =
     (let h1 = history\<lparr>h_EndTime := now\<rparr>;
          h2 = h1\<lparr>h_OnlineTime := whole_seconds (h_EndTime h1 - h_StartTime h1)\<rparr>
      in SaveHistory A h2 db)"

section \<open>An in-memory database\<close>

text \<open>
  One implementation of the interface, at which the hypotheses about it are shown to be
  satisfiable. A hash is the password with a mark in front.
\<close>

record memory =
  m_users :: "User list"
  m_plans :: "FlightPlan list"
  m_histories :: "History list"

definition first_such :: "('a \<Rightarrow> bool) \<Rightarrow> 'a list \<Rightarrow> gorm_error + 'a" where
  "first_such P xs = (case filter P xs of [] \<Rightarrow> Inl ErrRecordNotFound | x # _ \<Rightarrow> Inr x)"

definition replace_by :: "('a \<Rightarrow> bool) \<Rightarrow> ('a \<Rightarrow> 'a) \<Rightarrow> 'a list \<Rightarrow> 'a list" where
  "replace_by P f xs = map (\<lambda>x. if P x then f x else x) xs"

definition same_identifier :: "int \<Rightarrow> string \<Rightarrow> string \<Rightarrow> User \<Rightarrow> bool" where
  "same_identifier cid n e u \<longleftrightarrow> u_Cid u = cid \<or> u_Username u = n \<or> u_Email u = e"

definition memory_save_plan :: "FlightPlan \<Rightarrow> memory \<Rightarrow> memory \<times> generated \<times> gorm_error option" where
  "memory_save_plan p m =
     (let new = Suc (length (m_plans m));
          gen = (\<lambda>i. \<lparr>g_ID = i, g_CreatedAt = fp_CreatedAt p, g_UpdatedAt = fp_UpdatedAt p\<rparr>) in
      if fp_ID p = 0 then
        (if \<exists>q \<in> set (m_plans m). fp_Callsign q = fp_Callsign p then (m, gen 0, Some ErrDuplicatedKey)
         else (m\<lparr>m_plans := m_plans m @ [p\<lparr>fp_ID := new\<rparr>]\<rparr>, gen new, None))
      else (m\<lparr>m_plans := replace_by (\<lambda>q. fp_ID q = fp_ID p) (\<lambda>_. p) (m_plans m)\<rparr>, gen (fp_ID p), None))"

definition memory_api :: "memory api" where
  "memory_api =
     \<lparr>first_user_by_id = \<lambda>i m. first_such (\<lambda>u. u_ID u = i) (m_users m),
      first_user_by_cid = \<lambda>c m. first_such (\<lambda>u. u_Cid u = c) (m_users m),
      first_user_by_username = \<lambda>n m. first_such (\<lambda>u. u_Username u = n) (m_users m),
      first_user_by_email = \<lambda>e m. first_such (\<lambda>u. u_Email u = e) (m_users m),
      first_user_by_username_or_email =
        \<lambda>i m. first_such (\<lambda>u. u_Username u = i \<or> u_Email u = i) (m_users m),
      count_users_by_identifiers =
        \<lambda>c n e m. Inr (length (filter (same_identifier c n e) (m_users m))),
      create_user = \<lambda>u m. (m\<lparr>m_users := m_users m @ [u\<lparr>u_ID := Suc (length (m_users m))\<rparr>]\<rparr>, None),
      add_total_atc_time = \<lambda>u s m. (m\<lparr>m_users := replace_by (\<lambda>v. u_ID v = u_ID u)
        (\<lambda>v. v\<lparr>u_TotalAtcTime := u_TotalAtcTime v + s\<rparr>) (m_users m)\<rparr>, None),
      add_total_pilot_time = \<lambda>u s m. (m\<lparr>m_users := replace_by (\<lambda>v. u_ID v = u_ID u)
        (\<lambda>v. v\<lparr>u_TotalPilotTime := u_TotalPilotTime v + s\<rparr>) (m_users m)\<rparr>, None),
      set_user_rating = \<lambda>u r m. (m\<lparr>m_users := replace_by (\<lambda>v. u_ID v = u_ID u)
        (\<lambda>v. v\<lparr>u_Rating := r\<rparr>) (m_users m)\<rparr>, None),
      set_user_permission = \<lambda>u p m. (m\<lparr>m_users := replace_by (\<lambda>v. u_ID v = u_ID u)
        (\<lambda>v. v\<lparr>u_Permission := p\<rparr>) (m_users m)\<rparr>, None),
      first_plan_by_cid = \<lambda>c m. first_such (\<lambda>p. fp_Cid p = c) (m_plans m),
      save_plan = memory_save_plan,
      update_plan_altitude = \<lambda>p a m. (m\<lparr>m_plans := replace_by (\<lambda>q. fp_ID q = fp_ID p)
        (\<lambda>q. q\<lparr>fp_CruiseAltitude := a, fp_Locked := True\<rparr>) (m_plans m)\<rparr>, None,
        length (filter (\<lambda>q. fp_ID q = fp_ID p) (m_plans m))),
      save_history = \<lambda>h m. (m\<lparr>m_histories := m_histories m @ [h\<lparr>h_ID := Suc (length (m_histories m))\<rparr>]\<rparr>,
        Suc (length (m_histories m)), None),
      compare_hash = \<lambda>h p. h = CHR ''$'' # p,
      generate_hash = \<lambda>p. Some (CHR ''$'' # p),
      time_string = \<lambda>t. itoa t\<rparr>"

definition empty_memory :: memory where
  "empty_memory = \<lparr>m_users = [], m_plans = [], m_histories = []\<rparr>"

section \<open>Unique identifiers\<close>

text \<open>
  What \<open>AddUser\<close> relies on, for the identifiers (cid, user name, email) of the rows: the count
  that the database reports is the number of rows with one of the identifiers, and a created
  user is one more row.
\<close>

definition user_rows :: "'db api \<Rightarrow> ('db \<Rightarrow> (int \<times> string \<times> string) list) \<Rightarrow> bool" where
  "user_rows A rows \<longleftrightarrow>
     (\<forall>cid n e db k. count_users_by_identifiers A cid n e db = Inr k \<longrightarrow>
        k = length (filter (\<lambda>(c, n', e'). c = cid \<or> n' = n \<or> e' = e) (rows db))) \<and>
     (\<forall>u db db'. create_user A u db = (db', None) \<longrightarrow>
        rows db' = rows db @ [(u_Cid u, u_Username u, u_Email u)])"

definition identifiers_unique :: "(int \<times> string \<times> string) list \<Rightarrow> bool" where
  "identifiers_unique rs \<longleftrightarrow>
     distinct (map fst rs) \<and> distinct (map (fst \<circ> snd) rs) \<and> distinct (map (snd \<circ> snd) rs)"

definition memory_rows :: "memory \<Rightarrow> (int \<times> string \<times> string) list" where
  "memory_rows m = map (\<lambda>u. (u_Cid u, u_Username u, u_Email u)) (m_users m)"

lemma user_rows_memory: "user_rows memory_api memory_rows"
  by (auto simp: user_rows_def memory_api_def memory_rows_def same_identifier_def [abs_def]
      filter_map comp_def)

lemma identifiers_unique_snoc:
  "identifiers_unique (rs @ [(c, n, e)]) \<longleftrightarrow>
   identifiers_unique rs \<and> filter (\<lambda>(c', n', e'). c' = c \<or> n' = n \<or> e' = e) rs = []"
  by (auto simp: identifiers_unique_def filter_empty_conv) force+

text \<open>
  Adding an account: when the database behaves as documented, \<open>AddUser\<close> keeps the cids, the
  user names and the emails of the accounts pairwise distinct; it adds the account exactly when
  it reports no error and leaves the database as it was when it reports one.
\<close>

theorem AddUser_unique:
  assumes "user_rows A rows" and "identifiers_unique (rows db)" and "AddUser A u db = (db', err)"
  shows "identifiers_unique (rows db') \<and>
         (case err of None \<Rightarrow> rows db' = rows db @ [(u_Cid u, u_Username u, u_Email u)]
                    | Some _ \<Rightarrow> db' = db)"
proof (cases err)
  case (Some x)
  with assms show ?thesis by (simp add: AddUser_def transaction_cases)
next
  case None
  with assms(3) obtain k where count: "count_users_by_identifiers A (u_Cid u) (u_Username u) (u_Email u) db = Inr k"
    and k: "k = 0" and create: "create_user A u db = (db', None)"
    by (auto simp: AddUser_def transaction_cases IsUserIdentifierTaken_def db_error_def
        split: sum.splits if_splits prod.splits)
  from assms(1) create have rows: "rows db' = rows db @ [(u_Cid u, u_Username u, u_Email u)]"
    by (auto simp: user_rows_def)
  from assms(1) count k
  have "filter (\<lambda>(c, n, e). c = u_Cid u \<or> n = u_Username u \<or> e = u_Email u) (rows db) = []"
    by (fastforce simp: user_rows_def)
  with rows assms(2) None show ?thesis by (simp add: identifiers_unique_snoc)
qed

theorem AddUser_unique_witness:
  "identifiers_unique (memory_rows (fst (AddUser memory_api (zero_User\<lparr>u_Cid := 7, u_Email := ''e''\<rparr>)
     (empty_memory\<lparr>m_users := [zero_User\<lparr>u_Username := ''n''\<rparr>]\<rparr>))))"
proof -
  have "identifiers_unique (memory_rows (empty_memory\<lparr>m_users := [zero_User\<lparr>u_Username := ''n''\<rparr>]\<rparr>))"
    by (simp add: identifiers_unique_def memory_rows_def)
  from AddUser_unique [OF user_rows_memory this] show ?thesis
    by (metis prod.collapse)
qed

end
