(* ===== verification/Float64.thy ===== *)
theory Float64
  imports Complex_Main Strconv
begin

text \<open>
  Go's \<open>float64\<close> and \<open>utils.StrToFloat\<close>. A finite value is a \<^typ>\<open>real\<close>; the infinities and
  NaN keep the comparison rules of IEEE 754. Finite arithmetic is exact: the rounding to 53
  bits, the overflow of a finite sum or product and the sign of zero are not modelled.
\<close>

section \<open>Values, comparison, arithmetic\<close>

datatype float64 = Fin real | PosInf | NegInf | NaN

fun flt :: "float64 \<Rightarrow> float64 \<Rightarrow> bool" where
  "flt (Fin a) (Fin b) \<longleftrightarrow> a < b"
| "flt (Fin a) PosInf \<longleftrightarrow> True"
| "flt NegInf (Fin b) \<longleftrightarrow> True"
| "flt NegInf PosInf \<longleftrightarrow> True"
| "flt _ _ \<longleftrightarrow> False"

fun feq :: "float64 \<Rightarrow> float64 \<Rightarrow> bool" where
  "feq NaN _ \<longleftrightarrow> False"
| "feq _ NaN \<longleftrightarrow> False"
| "feq a b \<longleftrightarrow> a = b"

definition fle :: "float64 \<Rightarrow> float64 \<Rightarrow> bool" where
  "fle a b \<longleftrightarrow> flt a b \<or> feq a b"

fun fneg :: "float64 \<Rightarrow> float64" where
  "fneg (Fin a) = Fin (- a)"
| "fneg PosInf = NegInf"
| "fneg NegInf = PosInf"
| "fneg NaN = NaN"

fun fadd :: "float64 \<Rightarrow> float64 \<Rightarrow> float64" where
  "fadd (Fin a) (Fin b) = Fin (a + b)"
| "fadd NaN _ = NaN"
| "fadd _ NaN = NaN"
| "fadd PosInf NegInf = NaN"
| "fadd NegInf PosInf = NaN"
| "fadd PosInf _ = PosInf"
| "fadd _ PosInf = PosInf"
| "fadd NegInf _ = NegInf"
| "fadd _ NegInf = NegInf"

text \<open>Multiplication by a finite constant that is not zero, all the server needs.\<close>

fun fscale :: "real \<Rightarrow> float64 \<Rightarrow> float64" where
  "fscale k (Fin a) = Fin (k * a)"
| "fscale k PosInf = (if 0 < k then PosInf else NegInf)"
| "fscale k NegInf = (if 0 < k then NegInf else PosInf)"
| "fscale k NaN = NaN"

text \<open>\<open>math.Max\<close>: an infinity wins, then NaN.\<close>

fun fmax :: "float64 \<Rightarrow> float64 \<Rightarrow> float64" where
  "fmax PosInf _ = PosInf"
| "fmax _ PosInf = PosInf"
| "fmax NaN _ = NaN"
| "fmax _ NaN = NaN"
| "fmax (Fin a) (Fin b) = Fin (max a b)"
| "fmax NegInf b = b"
| "fmax a NegInf = a"

text \<open>\<open>math.MaxFloat64\<close>\<close>

definition MaxFloat64 :: real where
  "MaxFloat64 = 2 ^ 1024 - 2 ^ 971"

lemma feq_refl_iff: "feq a a \<longleftrightarrow> a \<noteq> NaN"
  by (cases a) simp_all

lemma feq_sym: "feq a b \<longleftrightarrow> feq b a"
  by (cases a; cases b) auto

lemma fmax_sym: "fmax a b = fmax b a"
  by (cases a; cases b) (simp_all add: max.commute)

lemma fadd_sym: "fadd a b = fadd b a"
  by (cases a; cases b) (simp_all add: add.commute)

lemma fle_trans: "fle a b \<Longrightarrow> fle b c \<Longrightarrow> fle a c"
  by (cases a; cases b; cases c) (auto simp: fle_def)

lemma fle_NaN [simp]: "\<not> fle NaN b" "\<not> fle a NaN"
  by (cases a; cases b; simp add: fle_def)+

lemma flt_NaN [simp]: "\<not> flt NaN b" "\<not> flt a NaN"
  by (cases a; cases b; simp)+

lemma flt_asym: "flt a b \<Longrightarrow> \<not> flt b a"
  by (cases a; cases b) auto

lemma not_flt_imp_fle: "a \<noteq> NaN \<Longrightarrow> b \<noteq> NaN \<Longrightarrow> \<not> flt a b \<Longrightarrow> fle b a"
  by (cases a; cases b) (auto simp: fle_def)

lemma flt_imp_fle: "flt a b \<Longrightarrow> fle a b"
  by (simp add: fle_def)

lemma fle_refl: "a \<noteq> NaN \<Longrightarrow> fle a a"
  by (simp add: fle_def feq_refl_iff)

lemma fle_Fin [simp]: "fle (Fin a) (Fin b) \<longleftrightarrow> a \<le> b"
  by (auto simp: fle_def)

section \<open>Parsing\<close>

text \<open>
  \<open>strconv.ParseFloat(s, 64)\<close>: the words for infinity and NaN in any case, and decimal or
  hexadecimal numerals with an optional fraction and exponent, with underscores between
  digits. A numeral too large for a \<open>float64\<close> is an error, one too small is zero.
\<close>

definition to_lower_char :: "char \<Rightarrow> char" where
  "to_lower_char c = (let n = (of_char c :: nat) in if 65 \<le> n \<and> n \<le> 90 then char_of (n + 32) else c)"

definition is_hex :: "char \<Rightarrow> bool" where
  "is_hex c \<longleftrightarrow> is_digit c \<or> to_lower_char c \<in> set ''abcdef''"

definition hex_val :: "char \<Rightarrow> nat" where
  "hex_val c = (if is_digit c then digit_val c else of_char (to_lower_char c) - 87)"

record mantissa =
  m_value :: nat
  m_frac :: nat
  m_dot :: bool
  m_digits :: bool

text \<open>The mantissa loop: digits of the base, underscores, and at most one dot.\<close>

fun read_mantissa :: "bool \<Rightarrow> mantissa \<Rightarrow> string \<Rightarrow> mantissa \<times> string" where
  "read_mantissa hex m [] = (m, [])"
| "read_mantissa hex m (c # cs) =
     (if c = CHR ''_'' then read_mantissa hex m cs
      else if c = CHR ''.'' \<and> \<not> m_dot m then read_mantissa hex (m\<lparr>m_dot := True\<rparr>) cs
      else if (if hex then is_hex c else is_digit c) then
        read_mantissa hex
          \<lparr>m_value = (if hex then 16 else 10) * m_value m + hex_val c,
           m_frac = (if m_dot m then Suc (m_frac m) else m_frac m),
           m_dot = m_dot m, m_digits = True\<rparr> cs
      else (m, c # cs))"

text \<open>The exponent: a letter, an optional sign, a digit, then digits and underscores.\<close>

definition read_exponent :: "bool \<Rightarrow> string \<Rightarrow> int option" where
  "read_exponent hex s =
     (case s of
        [] \<Rightarrow> if hex then None else Some 0
      | c # cs \<Rightarrow>
          if to_lower_char c \<noteq> (if hex then CHR ''p'' else CHR ''e'') then None
          else let neg = has_prefix cs ''-'';
                   ds = (if has_prefix cs ''-'' \<or> has_prefix cs ''+'' then tl cs else cs)
               in if ds = [] \<or> \<not> is_digit (hd ds) then None
                  else map_option (\<lambda>n. if neg then - int n else int n)
                         (dec_value 0 (filter (\<lambda>x. x \<noteq> CHR ''_'') ds)))"

text \<open>\<open>strconv.underscoreOK\<close> on the numeral without its sign.\<close>

fun underscores_ok :: "bool \<Rightarrow> char \<Rightarrow> string \<Rightarrow> bool" where
  "underscores_ok hex saw [] \<longleftrightarrow> saw \<noteq> CHR ''_''"
| "underscores_ok hex saw (c # cs) \<longleftrightarrow>
     (if is_digit c \<or> (hex \<and> is_hex c) then underscores_ok hex CHR ''0'' cs
      else if c = CHR ''_'' then saw = CHR ''0'' \<and> underscores_ok hex CHR ''_'' cs
      else saw \<noteq> CHR ''_'' \<and> underscores_ok hex CHR ''!'' cs)"

definition parse_unsigned :: "string \<Rightarrow> real option" where
  "parse_unsigned s =
     (let hex = has_prefix (map to_lower_char s) ''0x'';
          body = (if hex then drop 2 s else s);
          (m, rest) = read_mantissa hex \<lparr>m_value = 0, m_frac = 0, m_dot = False, m_digits = False\<rparr> body
      in if \<not> m_digits m \<or> (CHR ''_'' \<in> set s \<and> \<not> underscores_ok hex (if hex then CHR ''0'' else CHR ''^'') body)
         then None
         else case read_exponent hex rest of
                None \<Rightarrow> None
              | Some e \<Rightarrow>
                  Some (of_nat (m_value m) / (if hex then 16 else 10) ^ m_frac m
                        * (if hex then 2 else 10) powi e))"

definition ParseFloat :: "string \<Rightarrow> float64 option" where
  "ParseFloat s =
     (let neg = has_prefix s ''-'';
          body = (if has_prefix s ''-'' \<or> has_prefix s ''+'' then tl s else s);
          low = map to_lower_char body
      in if low = ''inf'' \<or> low = ''infinity'' then Some (if neg then NegInf else PosInf)
         else if map to_lower_char s = ''nan'' then Some NaN
         else case parse_unsigned body of
                None \<Rightarrow> None
              | Some x \<Rightarrow>
                  if 2 ^ 1024 - 2 ^ 970 \<le> x then None
                  else let y = (if x \<le> 1 / 2 ^ 1075 then 0 else x)
                       in Some (Fin (if neg then - y else y)))"

text \<open>\<open>utils.StrToFloat\<close>\<close>

definition StrToFloat :: "string \<Rightarrow> real \<Rightarrow> float64" where
  "StrToFloat str defaultValue =
     (case ParseFloat str of None \<Rightarrow> Fin defaultValue | Some result \<Rightarrow> result)"

lemma read_mantissa_shorter: "length (snd (read_mantissa hex m s)) \<le> length s"
  by (induction hex m s rule: read_mantissa.induct) auto

end
