(* ===== verification/Utils.thy ===== *)
theory Utils
  imports Float64 "HOL-Library.Word"
begin

unbundle bit_operations_syntax

text \<open>
  The package \<open>internal/utils\<close>: the overflow trigger that thins out recorded positions
  (\<open>overflow_trigger.go\<close>), the cached value (\<open>cached_value.go\<close>), the packed attitude word
  (\<open>pbh_utils.go\<close>) and the slice helpers (\<open>slice_utils.go\<close>).
\<close>

section \<open>Overflow trigger\<close>

text \<open>The callback is the caller's: \<open>Tick\<close> returns whether the trigger calls it.\<close>

record overflow_trigger =
  ot_count :: int
  ot_targetValue :: int

definition NewOverflowTrigger :: "int \<Rightarrow> overflow_trigger" where
  "NewOverflowTrigger targetValue = \<lparr>ot_count = 0, ot_targetValue = targetValue\<rparr>"

definition Tick :: "overflow_trigger \<Rightarrow> overflow_trigger \<times> bool" where
  "Tick t =
     (if ot_targetValue t \<le> 0 then (t, False)
      else if ot_targetValue t = 1 then (t, True)
      else let t' = t\<lparr>ot_count := ot_count t + 1\<rparr>
           in if ot_targetValue t' \<le> ot_count t' then (t'\<lparr>ot_count := 0\<rparr>, True) else (t', False))"

definition Reset :: "overflow_trigger \<Rightarrow> overflow_trigger" where
  "Reset t = t\<lparr>ot_count := 0\<rparr>"

fun ticks :: "overflow_trigger \<Rightarrow> nat \<Rightarrow> overflow_trigger \<times> bool list" where
  "ticks t 0 = (t, [])"
| "ticks t (Suc n) = (let (t', b) = Tick t; (t'', bs) = ticks t' n in (t'', b # bs))"

definition trigger_ok :: "overflow_trigger \<Rightarrow> bool" where
  "trigger_ok t \<longleftrightarrow> 0 \<le> ot_count t \<and> (1 < ot_targetValue t \<longrightarrow> ot_count t < ot_targetValue t)
     \<and> (ot_targetValue t \<le> 1 \<longrightarrow> ot_count t = 0)"

lemma trigger_ok_new [simp]: "trigger_ok (NewOverflowTrigger n)"
  by (simp add: trigger_ok_def NewOverflowTrigger_def)

lemma trigger_ok_Tick: "trigger_ok t \<Longrightarrow> trigger_ok (fst (Tick t))"
  by (auto simp: trigger_ok_def Tick_def Let_def)

lemma Tick_target [simp]: "ot_targetValue (fst (Tick t)) = ot_targetValue t"
  by (auto simp: Tick_def Let_def)

text \<open>The invariant that counts callbacks: ticks so far, as callbacks and remainder.\<close>

lemma Tick_account:
  "trigger_ok t \<Longrightarrow> 0 < ot_targetValue t \<Longrightarrow>
   ot_count t + 1 = ot_count (fst (Tick t)) + ot_targetValue t * of_bool (snd (Tick t))"
  by (auto simp: trigger_ok_def Tick_def Let_def)

lemma ticks_account:
  "trigger_ok t \<Longrightarrow> 0 < ot_targetValue t \<Longrightarrow>
   ot_count t + int n = ot_count (fst (ticks t n)) + ot_targetValue t * int (count_list (snd (ticks t n)) True)
   \<and> trigger_ok (fst (ticks t n)) \<and> ot_targetValue (fst (ticks t n)) = ot_targetValue t"
proof (induction n arbitrary: t)
  case 0
  then show ?case by simp
next
  case (Suc n)
  obtain t' b where tb: "Tick t = (t', b)" by (cases "Tick t")
  obtain t'' bs where tbs: "ticks t' n = (t'', bs)" by (cases "ticks t' n")
  have ok: "trigger_ok t'" "ot_targetValue t' = ot_targetValue t"
    using trigger_ok_Tick [OF Suc.prems(1)] Tick_target [of t] tb by auto
  have "ot_count t + 1 = ot_count t' + ot_targetValue t * of_bool b"
    using Tick_account [OF Suc.prems] tb by simp
  with Suc.IH [of t'] ok Suc.prems(2) show ?case
    by (auto simp: tb tbs algebra_simps)
qed

lemma trigger_disabled: "ot_targetValue t \<le> 0 \<Longrightarrow> ticks t n = (t, replicate n False)"
  by (induction n) (simp_all add: Tick_def)

text \<open>
  A trigger with a positive target \<open>n\<close> calls back on every \<open>n\<close>-th tick and on no other: of \<open>k\<close>
  ticks exactly \<open>k div n\<close> call back.
\<close>

theorem trigger_every_nth:
  assumes "0 < n"
  shows "count_list (snd (ticks (NewOverflowTrigger (int n)) k)) True = k div n"
proof -
  let ?t = "fst (ticks (NewOverflowTrigger (int n)) k)" and ?f = "count_list (snd (ticks (NewOverflowTrigger (int n)) k)) True"
  have z: "ot_count (NewOverflowTrigger (int n)) = 0" "ot_targetValue (NewOverflowTrigger (int n)) = int n"
    by (simp_all add: NewOverflowTrigger_def)
  from ticks_account [OF trigger_ok_new, of "int n" k] assms
  have k: "int k = ot_count ?t + int n * int ?f" and t: "trigger_ok ?t" "ot_targetValue ?t = int n"
    unfolding z by simp_all
  from t assms have "0 \<le> ot_count ?t" "ot_count ?t < int n" by (auto simp: trigger_ok_def)
  with k have "int k div int n = int ?f" by simp
  then show ?thesis by (metis of_nat_eq_iff zdiv_int)
qed

theorem trigger_every_nth_witness:
  "count_list (snd (ticks (NewOverflowTrigger (int 3)) 7)) True = 2"
  using trigger_every_nth [of 3 7] by simp

section \<open>Cached value\<close>

text \<open>
  \<open>GetValue\<close> at time \<open>now\<close> with a getter whose result is \<open>fresh\<close>; the flag of the result says
  whether the getter ran. A duration that is not positive means the value of the constructor
  is kept for ever.
\<close>

record 'a cached_value =
  cv_generateTime :: int
  cv_cachedData :: "'a option"
  cv_cachedTime :: int

definition NewCachedValue :: "int \<Rightarrow> int \<Rightarrow> 'a \<Rightarrow> 'a cached_value" where
  "NewCachedValue now cachedTime fresh =
     \<lparr>cv_generateTime = now, cv_cachedData = (if cachedTime \<le> 0 then Some fresh else None),
      cv_cachedTime = cachedTime\<rparr>"

definition cache_valid :: "int \<Rightarrow> 'a cached_value \<Rightarrow> bool" where
  "cache_valid now c \<longleftrightarrow> cv_cachedData c \<noteq> None \<and> now - cv_generateTime c \<le> cv_cachedTime c"

definition GetValue :: "int \<Rightarrow> 'a \<Rightarrow> 'a cached_value \<Rightarrow> 'a cached_value \<times> 'a option \<times> bool" where
  "GetValue now fresh c =
     (if cv_cachedTime c \<le> 0 then (c, cv_cachedData c, False)
      else if cache_valid now c then (c, cv_cachedData c, False)
      else (c\<lparr>cv_cachedData := Some fresh, cv_generateTime := now\<rparr>, Some fresh, True))"

section \<open>Packed pitch, bank and heading\<close>

text \<open>\<open>math.Round\<close>: halves away from zero.\<close>

definition go_round :: "real \<Rightarrow> int" where
  "go_round x = (if 0 \<le> x then \<lfloor>x + 1 / 2\<rfloor> else - \<lfloor>1 / 2 - x\<rfloor>)"

lemma go_round_of_int [simp]: "go_round (of_int n) = n"
proof -
  have "\<lfloor>(of_int k :: real) + 1 / 2\<rfloor> = k" for k :: int by linarith
  from this [of n] this [of "- n"] show ?thesis
    by (auto simp: go_round_def)
qed

definition PackPBH :: "real \<Rightarrow> real \<Rightarrow> real \<Rightarrow> bool \<Rightarrow> 32 word" where
  "PackPBH pitch bank heading onGround =
     (let pbh = (if onGround then 2 else 0);
          hdgVal = word_of_int (go_round (heading * (1024 / 360))) AND 0x3FF;
          bankVal = go_round (bank * - (512 / 180));
          pitchVal = go_round (pitch * - (256 / 90))
      in pbh OR push_bit 2 hdgVal OR push_bit 12 (word_of_int bankVal AND 0x3FF)
           OR push_bit 22 (word_of_int pitchVal AND 0x3FF))"

definition UnpackPBH :: "32 word \<Rightarrow> real \<times> real \<times> real \<times> bool" where
  "UnpackPBH pbh =
     (let onGround = (drop_bit 1 (pbh AND 2) = 1);
          hdgBits = drop_bit 2 (pbh AND 0xFFC);
          heading = real (unat hdgBits) * (360 / 1024);
          bankVal = sint (signed_drop_bit 22 (push_bit 10 (pbh AND 0x3FF000)));
          bank = real_of_int bankVal * (- 180 / 512);
          pitchVal = sint (signed_drop_bit 22 (pbh AND 0xFFC00000));
          pitch = real_of_int pitchVal * (- 90 / 256)
      in (pitch, bank, heading, onGround))"

text \<open>The masks as shifted runs of ones, which is what the bit lemmas know about.\<close>

lemma pbh_masks:
  "(0xFFC :: 32 word) = push_bit 2 (mask 10)" "(0x3FF000 :: 32 word) = push_bit 12 (mask 10)"
  "(0xFFC00000 :: 32 word) = push_bit 22 (mask 10)" "(0x3FF :: 32 word) = mask 10"
  "(2 :: 32 word) = push_bit 1 (mask 1)"
  by (simp_all add: mask_eq_exp_minus_1)

lemma Suc_Suc_minus_2: "2 \<le> n \<Longrightarrow> Suc (Suc (n - 2)) = n"
  by simp

lemma pbh_heading_bits:
  fixes w :: "32 word"
  shows "push_bit 2 (drop_bit 2 (w AND 0xFFC) AND 0x3FF) = w AND 0xFFC"
  unfolding pbh_masks by (rule bit_word_eqI) (auto simp: bit_simps Suc_Suc_minus_2)

lemma pbh_bank_bits:
  fixes w :: "32 word"
  shows "push_bit 12 (signed_drop_bit 22 (push_bit 10 (w AND 0x3FF000)) AND 0x3FF) = w AND 0x3FF000"
  unfolding pbh_masks by (rule bit_word_eqI) (auto simp: bit_simps min_def)

lemma pbh_pitch_bits:
  fixes w :: "32 word"
  shows "push_bit 22 (signed_drop_bit 22 (w AND 0xFFC00000) AND 0x3FF) = w AND 0xFFC00000"
  unfolding pbh_masks by (rule bit_word_eqI) (auto simp: bit_simps min_def)

lemma pbh_ground_bit:
  fixes w :: "32 word"
  shows "(if drop_bit 1 (w AND 2) = 1 then 2 else 0) = w AND 2"
proof -
  have "drop_bit 1 (w AND 2) = of_bool (bit w 1)"
    unfolding pbh_masks by (rule bit_word_eqI) (auto simp: bit_simps)
  moreover have "w AND 2 = (if bit w 1 then 2 else 0)"
    unfolding pbh_masks by (rule bit_word_eqI) (auto simp: bit_simps)
  ultimately show ?thesis by simp
qed

lemma pbh_recombine:
  fixes w :: "32 word"
  shows "(w AND 2) OR (w AND 0xFFC) OR (w AND 0x3FF000) OR (w AND 0xFFC00000) = w AND NOT 1"
proof -
  have one: "(1 :: 32 word) = mask 1" by simp
  show ?thesis
    unfolding pbh_masks unfolding one by (rule bit_word_eqI) (auto simp: bit_simps)
qed

text \<open>
  Round trip of the attitude word: packing what was unpacked from a word restores every bit
  but the lowest one, which carries nothing.
\<close>

theorem PackPBH_UnpackPBH:
  "(case UnpackPBH w of (pitch, bank, heading, onGround) \<Rightarrow> PackPBH pitch bank heading onGround)
   = w AND NOT 1"
proof -
  have h: "real (unat x) * (360 / 1024) * (1024 / 360) = of_int (uint x)" for x :: "32 word"
    by (simp add: of_nat_unat)
  have b: "real_of_int n * (- 180 / 512) * - (512 / 180) = of_int n" for n
    by simp
  have p: "real_of_int n * (- 90 / 256) * - (256 / 90) = of_int n" for n
    by simp
  have w: "(word_of_int (uint x) :: 32 word) = x" "(word_of_int (sint x) :: 32 word) = x" for x :: "32 word"
    by simp_all
  show ?thesis
    unfolding UnpackPBH_def PackPBH_def Let_def prod.case h b p go_round_of_int w
    by (simp only: pbh_heading_bits pbh_bank_bits pbh_pitch_bits pbh_ground_bit pbh_recombine)
qed

section \<open>Slice helpers\<close>

text \<open>
  \<open>Find\<close>, \<open>Filter\<close> and \<open>ReverseForEach\<close>; the callback of the latter is a state transformer
  of the index and the element.
\<close>

fun Find :: "('a \<Rightarrow> bool) \<Rightarrow> 'a list \<Rightarrow> 'a option" where
  "Find comparator [] = None"
| "Find comparator (v # vs) = (if comparator v then Some v else Find comparator vs)"

fun Filter :: "('a \<Rightarrow> bool) \<Rightarrow> 'a list \<Rightarrow> 'a list" where
  "Filter p [] = []"
| "Filter p (v # vs) = (if p v then v # Filter p vs else Filter p vs)"

fun rev_loop :: "nat \<Rightarrow> (nat \<Rightarrow> 'a \<Rightarrow> 's \<Rightarrow> 's) \<Rightarrow> 'a list \<Rightarrow> 's \<Rightarrow> 's" where
  "rev_loop 0 f xs s = s"
| "rev_loop (Suc i) f xs s = rev_loop i f xs (f i (xs ! i) s)"

definition ReverseForEach :: "'a list \<Rightarrow> (nat \<Rightarrow> 'a \<Rightarrow> 's \<Rightarrow> 's) \<Rightarrow> 's \<Rightarrow> 's" where
  "ReverseForEach xs f s = rev_loop (length xs) f xs s"

lemma Find_eq_find: "Find p xs = find p xs"
  by (induction xs) simp_all

lemma Filter_eq_filter: "Filter p xs = filter p xs"
  by (induction xs) simp_all

lemma rev_loop_append: "n \<le> length xs \<Longrightarrow> rev_loop n f (xs @ ys) s = rev_loop n f xs s"
  by (induction n arbitrary: s) (simp_all add: nth_append)

lemma ReverseForEach_fold:
  "ReverseForEach xs (\<lambda>_. g) s = fold g (rev xs) s"
proof (induction xs arbitrary: s rule: rev_induct)
  case (snoc x xs)
  then show ?case by (simp add: ReverseForEach_def rev_loop_append)
qed (simp add: ReverseForEach_def)

text \<open>
  The loops over the elements, whose callbacks change what the elements point to, here the state
  \<open>'s\<close>, and the fluent wrapper, which the program does not use.
\<close>

fun ForEach :: "('a \<Rightarrow> 's \<Rightarrow> 's) \<Rightarrow> 'a list \<Rightarrow> 's \<Rightarrow> 's" where
  "ForEach callback [] s = s"
| "ForEach callback (v # vs) s = ForEach callback vs (callback v s)"

fun MapEach :: "('a \<Rightarrow> 's \<Rightarrow> 's) \<Rightarrow> 'a list \<Rightarrow> 's \<Rightarrow> 's" where
  "MapEach mapper [] s = s"
| "MapEach mapper (v # vs) s = MapEach mapper vs (mapper v s)"

record 'a SliceOperation =
  so_value :: "'a list"

definition NewSlickOperation :: "'a list \<Rightarrow> 'a SliceOperation" where
  "NewSlickOperation src = \<lparr>so_value = src\<rparr>"

definition SliceOperation_Append :: "'a \<Rightarrow> 'a SliceOperation \<Rightarrow> 'a SliceOperation" where
  "SliceOperation_Append element operation = operation\<lparr>so_value := so_value operation @ [element]\<rparr>"

definition SliceOperation_Value :: "'a SliceOperation \<Rightarrow> 'a list" where
  "SliceOperation_Value operation = so_value operation"

definition SliceOperation_Find :: "('a \<Rightarrow> bool) \<Rightarrow> 'a SliceOperation \<Rightarrow> 'a option" where
  "SliceOperation_Find comparator operation = Find comparator (so_value operation)"

definition SliceOperation_Filter :: "('a \<Rightarrow> bool) \<Rightarrow> 'a SliceOperation \<Rightarrow> 'a SliceOperation" where
  "SliceOperation_Filter p operation = operation\<lparr>so_value := Filter p (so_value operation)\<rparr>"

definition SliceOperation_Map ::
    "('a \<Rightarrow> 's \<Rightarrow> 's) \<Rightarrow> 'a SliceOperation \<Rightarrow> 's \<Rightarrow> 'a SliceOperation \<times> 's" where
  "SliceOperation_Map mapper operation s = (operation, MapEach mapper (so_value operation) s)"

definition SliceOperation_ForEach ::
    "('a \<Rightarrow> 's \<Rightarrow> 's) \<Rightarrow> 'a SliceOperation \<Rightarrow> 's \<Rightarrow> 'a SliceOperation \<times> 's" where
  "SliceOperation_ForEach callback operation s = (operation, ForEach callback (so_value operation) s)"

lemma ForEach_fold: "ForEach f xs s = fold f xs s" "MapEach f xs s = fold f xs s"
  by (induction xs arbitrary: s) simp_all

text \<open>Going through a slice backwards is going through the reversed slice.\<close>

lemma ReverseForEach_ForEach: "ReverseForEach xs (\<lambda>_. g) s = ForEach g (rev xs) s"
  by (simp add: ReverseForEach_fold ForEach_fold)

end
