(* ===== verification/FsdTypes.thy ===== *)
theory FsdTypes
  imports Utils
begin

unbundle bit_operations_syntax

text \<open>
  The vocabulary of the FSD protocol (\<open>internal/interfaces/fsd\<close>): ratings, facilities and the
  table that relates them, protocol errors and the results of handlers.
\<close>

section \<open>Ratings (rating.go)\<close>

type_synonym Rating = int

abbreviation (input) Ban :: Rating where "Ban \<equiv> - 1"
abbreviation (input) Normal :: Rating where "Normal \<equiv> 0"
abbreviation (input) Observer :: Rating where "Observer \<equiv> 1"
abbreviation (input) STU1 :: Rating where "STU1 \<equiv> 2"
abbreviation (input) STU2 :: Rating where "STU2 \<equiv> 3"
abbreviation (input) STU3 :: Rating where "STU3 \<equiv> 4"
abbreviation (input) CTR1 :: Rating where "CTR1 \<equiv> 5"
abbreviation (input) CTR2 :: Rating where "CTR2 \<equiv> 6"
abbreviation (input) CTR3 :: Rating where "CTR3 \<equiv> 7"
abbreviation (input) Instructor1 :: Rating where "Instructor1 \<equiv> 8"
abbreviation (input) Instructor2 :: Rating where "Instructor2 \<equiv> 9"
abbreviation (input) Instructor3 :: Rating where "Instructor3 \<equiv> 10"
abbreviation (input) Supervisor :: Rating where "Supervisor \<equiv> 11"
abbreviation (input) Administrator :: Rating where "Administrator \<equiv> 12"

record RatingModel =
  rm_Id :: int
  rm_ShortName :: string
  rm_LongName :: string

definition Ratings :: "RatingModel list" where
  "Ratings =
     [\<lparr>rm_Id = -1, rm_ShortName = ''Baned'', rm_LongName = ''Suspended''\<rparr>,
      \<lparr>rm_Id = 0, rm_ShortName = ''Normal'', rm_LongName = ''Normal''\<rparr>,
      \<lparr>rm_Id = 1, rm_ShortName = ''OBS'', rm_LongName = ''Observer''\<rparr>,
      \<lparr>rm_Id = 2, rm_ShortName = ''S1'', rm_LongName = ''Tower Trainee''\<rparr>,
      \<lparr>rm_Id = 3, rm_ShortName = ''S2'', rm_LongName = ''Tower Controller''\<rparr>,
      \<lparr>rm_Id = 4, rm_ShortName = ''S3'', rm_LongName = ''Senior Student''\<rparr>,
      \<lparr>rm_Id = 5, rm_ShortName = ''C1'', rm_LongName = ''Enroute Controller''\<rparr>,
      \<lparr>rm_Id = 6, rm_ShortName = ''C2'', rm_LongName = ''Controller 2 (not in use)''\<rparr>,
      \<lparr>rm_Id = 7, rm_ShortName = ''C3'', rm_LongName = ''Senior Controller''\<rparr>,
      \<lparr>rm_Id = 8, rm_ShortName = ''I1'', rm_LongName = ''Instructor''\<rparr>,
      \<lparr>rm_Id = 9, rm_ShortName = ''I2'', rm_LongName = ''Instructor 2 (not in use)''\<rparr>,
      \<lparr>rm_Id = 10, rm_ShortName = ''I3'', rm_LongName = ''Senior Instructor''\<rparr>,
      \<lparr>rm_Id = 11, rm_ShortName = ''SUP'', rm_LongName = ''Supervisor''\<rparr>,
      \<lparr>rm_Id = 12, rm_ShortName = ''ADM'', rm_LongName = ''Administrator''\<rparr>]"

text \<open>\<open>Rating.String\<close> indexes the table at the rating plus one.\<close>

definition Rating_String :: "Rating \<Rightarrow> string go" where
  "Rating_String r =
     (if r + 1 < 0 then Inl IndexOutOfRange
      else index_at Ratings (nat (r + 1)) (\<lambda>m. Inr (rm_ShortName m)))"

section \<open>Facilities (facility.go)\<close>

type_synonym Facility = "8 word"

abbreviation (input) Pilot :: Facility where "Pilot \<equiv> 1"
abbreviation (input) OBS :: Facility where "OBS \<equiv> 2"
abbreviation (input) DEL :: Facility where "DEL \<equiv> 4"
abbreviation (input) GND :: Facility where "GND \<equiv> 8"
abbreviation (input) TWR :: Facility where "TWR \<equiv> 16"
abbreviation (input) APP :: Facility where "APP \<equiv> 32"
abbreviation (input) CTR :: Facility where "CTR \<equiv> 64"
abbreviation (input) FSS :: Facility where "FSS \<equiv> 128"

record FacilityModel =
  fm_Id :: int
  fm_ShortName :: string
  fm_LongName :: string

definition Facilities :: "FacilityModel list" where
  "Facilities =
     [\<lparr>fm_Id = 0, fm_ShortName = ''Pilot'', fm_LongName = ''Pilot''\<rparr>,
      \<lparr>fm_Id = 1, fm_ShortName = ''OBS'', fm_LongName = ''Observer''\<rparr>,
      \<lparr>fm_Id = 2, fm_ShortName = ''DEL'', fm_LongName = ''Clearance Delivery''\<rparr>,
      \<lparr>fm_Id = 3, fm_ShortName = ''GND'', fm_LongName = ''Ground''\<rparr>,
      \<lparr>fm_Id = 4, fm_ShortName = ''TWR'', fm_LongName = ''Tower''\<rparr>,
      \<lparr>fm_Id = 5, fm_ShortName = ''APP'', fm_LongName = ''Approach/Departure''\<rparr>,
      \<lparr>fm_Id = 6, fm_ShortName = ''CTR'', fm_LongName = ''Enroute''\<rparr>,
      \<lparr>fm_Id = 7, fm_ShortName = ''FSS'', fm_LongName = ''Flight Service Station''\<rparr>]"

definition facilitiesIndex :: "Facility \<Rightarrow> int option" where
  "facilitiesIndex =
     map_of [(Pilot, 0), (OBS, 1), (DEL, 2), (GND, 3), (TWR, 4), (APP, 5), (CTR, 6), (FSS, 7)]"

text \<open>
  \<open>Facility.String\<close> indexes the table with the bit mask itself, \<open>Facility.Index\<close> reads the map
  and yields zero for a mask it does not hold.
\<close>

definition Facility_String :: "Facility \<Rightarrow> string go" where
  "Facility_String f = index_at Facilities (unat f) (\<lambda>m. Inr (fm_ShortName m))"

definition Facility_Index :: "Facility \<Rightarrow> int" where
  "Facility_Index f = (case facilitiesIndex f of None \<Rightarrow> 0 | Some i \<Rightarrow> i)"

definition CheckFacility :: "Facility \<Rightarrow> Facility \<Rightarrow> bool" where
  "CheckFacility f facility \<longleftrightarrow> f AND facility \<noteq> 0"

section \<open>Which rating may open which facility (constant.go)\<close>

type_synonym rating_map = "Rating \<rightharpoonup> Facility"

definition SpecialFrequency :: string where "SpecialFrequency = ''@94835''"

definition AllowAtcFacility :: Facility where
  "AllowAtcFacility = DEL OR GND OR TWR OR APP OR CTR OR FSS"

definition AllowKillRating :: "Rating list" where
  "AllowKillRating = [Supervisor, Administrator]"

definition RatingFacilityMap :: rating_map where
  "RatingFacilityMap = map_of
     [(Ban, 0),
      (Normal, Pilot),
      (Observer, Pilot OR OBS),
      (STU1, Pilot OR OBS OR DEL OR GND),
      (STU2, Pilot OR OBS OR DEL OR GND OR TWR),
      (STU3, Pilot OR OBS OR DEL OR GND OR TWR OR APP),
      (CTR1, Pilot OR OBS OR DEL OR GND OR TWR OR APP OR CTR),
      (CTR2, Pilot OR OBS OR DEL OR GND OR TWR OR APP OR CTR),
      (CTR3, Pilot OR OBS OR DEL OR GND OR TWR OR APP OR CTR OR FSS),
      (Instructor1, Pilot OR OBS OR DEL OR GND OR TWR OR APP OR CTR OR FSS),
      (Instructor2, Pilot OR OBS OR DEL OR GND OR TWR OR APP OR CTR OR FSS),
      (Instructor3, Pilot OR OBS OR DEL OR GND OR TWR OR APP OR CTR OR FSS),
      (Supervisor, Pilot OR OBS OR DEL OR GND OR TWR OR APP OR CTR OR FSS),
      (Administrator, Pilot OR OBS OR DEL OR GND OR TWR OR APP OR CTR OR FSS)]"

text \<open>Reading a Go map at a missing key gives the zero value.\<close>

definition rating_facility :: "rating_map \<Rightarrow> Rating \<Rightarrow> Facility" where
  "rating_facility m r = (case m r of None \<Rightarrow> 0 | Some f \<Rightarrow> f)"

definition CheckRatingFacility :: "rating_map \<Rightarrow> Rating \<Rightarrow> Facility \<Rightarrow> bool" where
  "CheckRatingFacility m r facility = CheckFacility (rating_facility m r) facility"

text \<open>
  \<open>SyncRatingConfig\<close> overlays the table with the configured entries in the order the map
  iteration gives them; the first entry out of range stops it with an error.
\<close>

fun SyncRatingConfig :: "(string \<times> int) list \<Rightarrow> rating_map \<Rightarrow> string + rating_map" where
  "SyncRatingConfig [] m = Inr m"
| "SyncRatingConfig ((rating, facility) # rest) m =
     (let r = StrToInt rating (Ban - 1)
      in if r < Ban \<or> r > Administrator then Inl (''illegal permission value '' @ rating)
         else SyncRatingConfig rest (m(r \<mapsto> word_of_int facility)))"

section \<open>Errors and results (error.go, result.go)\<close>

datatype ClientError =
    CommandOk | CallsignInUse | CallsignInvalid | Syntax | SourceCallsignInvalid | AuthFail
  | NoCallsignFound | NoFlightPlan | InvalidProtocolVision | RequestLevelTooHigh | UserBaned

fun ClientError_Index :: "ClientError \<Rightarrow> int" where
  "ClientError_Index CommandOk = 0"
| "ClientError_Index CallsignInUse = 1"
| "ClientError_Index CallsignInvalid = 2"
| "ClientError_Index Syntax = 3"
| "ClientError_Index SourceCallsignInvalid = 4"
| "ClientError_Index AuthFail = 5"
| "ClientError_Index NoCallsignFound = 6"
| "ClientError_Index NoFlightPlan = 7"
| "ClientError_Index InvalidProtocolVision = 8"
| "ClientError_Index RequestLevelTooHigh = 9"
| "ClientError_Index UserBaned = 10"

definition clientErrorsString :: "string list" where
  "clientErrorsString =
     [''No error'', ''callsign in use'', ''Invalid callsign'', ''Syntax error'',
      ''Invalid source callsign'', ''Invalid CID/password'', ''No such callsign'', ''No flightplan'',
      ''Invalid protocol revision'', ''Requested level too high'', ''CID/PID was suspended'']"

definition ClientError_String :: "ClientError \<Rightarrow> string" where
  "ClientError_String e = clientErrorsString ! nat (ClientError_Index e)"

text \<open>
  The error inside a result is only logged: a text, or the error of a database operation,
  of which the type parameter \<open>'e\<close> stands.
\<close>

datatype 'e err = ErrText string | ErrOp 'e

record 'e Result =
  Success :: bool
  Errno :: ClientError
  Fatal :: bool
  Env :: string
  Err :: "'e err option"

definition defaultError :: "'e err" where
  "defaultError = ErrText ''no details error provided''"

definition ResultSuccess :: "'e Result" where
  "ResultSuccess = \<lparr>Success = True, Errno = CommandOk, Fatal = False, Env = '''', Err = None\<rparr>"

definition ResultError :: "ClientError \<Rightarrow> bool \<Rightarrow> string \<Rightarrow> 'e err option \<Rightarrow> 'e Result" where
  "ResultError errno fatal env e =
     \<lparr>Success = False, Errno = errno, Fatal = fatal, Env = env,
      Err = (case e of None \<Rightarrow> Some defaultError | Some x \<Rightarrow> Some x)\<rparr>"

lemma Result_simps [simp]:
  "Success ResultSuccess" "\<not> Success (ResultError c f v e)"
  "Errno (ResultError c f v e) = c" "Fatal (ResultError c f v e) = f" "Env (ResultError c f v e) = v"
  "Err (ResultError c f v e) \<noteq> None" "\<not> Fatal ResultSuccess"
  by (auto simp: ResultSuccess_def ResultError_def split: option.splits)

lemma ResultError_not_Success [simp]:
  "ResultError c f v e \<noteq> ResultSuccess" "ResultSuccess \<noteq> ResultError c f v e"
  using Result_simps(1,2) by metis+

end
