(* ===== verification/Packet.thy ===== *)
theory Packet
  imports FsdTypes
begin

text \<open>
  The wire format: the commands and their requirements (\<open>internal/interfaces/fsd/command.go\<close>,
  \<open>constant.go\<close>), parsing and printing of a packet (\<open>internal/fsd_server/packet/packet_utils.go\<close>)
  and the framing of the TCP stream into lines (\<open>net_utils.go\<close>, the scanner loop of
  \<open>connection_handler.go\<close>).
\<close>

section \<open>Commands\<close>

type_synonym ClientCommand = string

definition AddAtc :: ClientCommand where "AddAtc = ''#AA''"
definition RemoveAtc :: ClientCommand where "RemoveAtc = ''#DA''"
definition AddPilot :: ClientCommand where "AddPilot = ''#AP''"
definition RemovePilot :: ClientCommand where "RemovePilot = ''#DP''"
definition ProController :: ClientCommand where "ProController = ''#PC''"
definition PilotPosition :: ClientCommand where "PilotPosition = ''@''"
definition AtcPosition :: ClientCommand where "AtcPosition = ''%''"
definition AtcSubVisPoint :: ClientCommand where "AtcSubVisPoint = [CHR 0x27]"
definition Message :: ClientCommand where "Message = ''#TM''"
definition WindDelta :: ClientCommand where "WindDelta = ''#DL''"
definition SquawkBox :: ClientCommand where "SquawkBox = ''#SB''"
definition RequestHandoff :: ClientCommand where "RequestHandoff = ''$HO''"
definition AcceptHandoff :: ClientCommand where "AcceptHandoff = ''$HA''"
definition Plan :: ClientCommand where "Plan = ''$FP''"
definition AtcEditPlan :: ClientCommand where "AtcEditPlan = ''$AM''"
definition KillClient :: ClientCommand where "KillClient = ''$!!''"
definition ErrorCommand :: ClientCommand where "ErrorCommand = ''$ER''"
definition ClientQuery :: ClientCommand where "ClientQuery = ''$CQ''"
definition ClientResponse :: ClientCommand where "ClientResponse = ''$CR''"
definition TempData :: ClientCommand where "TempData = ''$TD''"

lemmas command_defs = AddAtc_def RemoveAtc_def AddPilot_def RemovePilot_def ProController_def
  PilotPosition_def AtcPosition_def AtcSubVisPoint_def Message_def WindDelta_def SquawkBox_def
  RequestHandoff_def AcceptHandoff_def Plan_def AtcEditPlan_def KillClient_def ErrorCommand_def
  ClientQuery_def ClientResponse_def TempData_def

definition PossibleClientCommands :: "ClientCommand list" where
  "PossibleClientCommands =
     [PilotPosition, AtcPosition, AtcSubVisPoint, Message, ClientQuery, ClientResponse, Plan,
      AtcEditPlan, RequestHandoff, AcceptHandoff, ProController, SquawkBox, AddAtc, RemoveAtc,
      AddPilot, RemovePilot, KillClient]"

record CommandRequirement =
  RequireLength :: nat
  ReqFatal :: bool

definition CommandRequirements :: "ClientCommand \<rightharpoonup> CommandRequirement" where
  "CommandRequirements = map_of
     [(AddAtc, \<lparr>RequireLength = 12, ReqFatal = True\<rparr>),
      (AddPilot, \<lparr>RequireLength = 8, ReqFatal = True\<rparr>),
      (AtcPosition, \<lparr>RequireLength = 8, ReqFatal = False\<rparr>),
      (PilotPosition, \<lparr>RequireLength = 10, ReqFatal = False\<rparr>),
      (AtcSubVisPoint, \<lparr>RequireLength = 4, ReqFatal = False\<rparr>),
      (ClientQuery, \<lparr>RequireLength = 3, ReqFatal = False\<rparr>),
      (ClientResponse, \<lparr>RequireLength = 3, ReqFatal = False\<rparr>),
      (Message, \<lparr>RequireLength = 3, ReqFatal = False\<rparr>),
      (Plan, \<lparr>RequireLength = 17, ReqFatal = False\<rparr>),
      (AtcEditPlan, \<lparr>RequireLength = 18, ReqFatal = False\<rparr>),
      (KillClient, \<lparr>RequireLength = 2, ReqFatal = False\<rparr>),
      (RequestHandoff, \<lparr>RequireLength = 3, ReqFatal = False\<rparr>),
      (AcceptHandoff, \<lparr>RequireLength = 3, ReqFatal = False\<rparr>),
      (ProController, \<lparr>RequireLength = 3, ReqFatal = False\<rparr>),
      (SquawkBox, \<lparr>RequireLength = 2, ReqFatal = False\<rparr>)]"

section \<open>Packets\<close>

definition FSDServerName :: string where "FSDServerName = ''SERVER''"

definition splitSign :: string where "splitSign = [CHR 0x0D, CHR 0x0A]"

fun parse_prefixes :: "ClientCommand list \<Rightarrow> string \<Rightarrow> ClientCommand \<times> string list" where
  "parse_prefixes [] line = (TempData, [])"
| "parse_prefixes (p # ps) line =
     (if has_prefix line p then (p, split_on (CHR '':'') (drop (length p) line))
      else parse_prefixes ps line)"

definition parserCommandLine :: "string \<Rightarrow> ClientCommand \<times> string list" where
  "parserCommandLine line = parse_prefixes PossibleClientCommands line"

definition makePacket :: "ClientCommand \<Rightarrow> string list \<Rightarrow> string" where
  "makePacket command parts = command @ join_with '':'' parts @ splitSign"

definition CallsignMinLen :: nat where "CallsignMinLen = 3"
definition CallsignMaxLen :: nat where "CallsignMaxLen = 12"
definition ForbiddenChars :: string where "ForbiddenChars = ''!@#$%*:& '' @ [CHR 0x09]"
definition FrequencyMin :: int where "FrequencyMin = 18000"
definition FrequencyMax :: int where "FrequencyMax = 36975"

text \<open>
  A byte above 127 is part of a multi-byte rune or of an invalid encoding, which Go reads as
  U+FFFD: in both cases the rune is above 127.
\<close>

definition callsignValid :: "string \<Rightarrow> bool" where
  "callsignValid callsign =
     (if length callsign < CallsignMinLen \<or> length callsign \<ge> CallsignMaxLen then False
      else if contains_any callsign ForbiddenChars then False
      else if list_ex (\<lambda>r. (of_char r :: nat) > 127) callsign then False
      else True)"

definition frequencyValid :: "int \<Rightarrow> bool" where
  "frequencyValid frequency \<longleftrightarrow> FrequencyMin \<le> frequency \<and> frequency \<le> FrequencyMax"

lemma splitSign_simps [simp]: "length splitSign = 2" "splitSign \<noteq> []"
  by (simp_all add: splitSign_def)

lemma has_suffix_makePacket [simp]: "has_suffix (makePacket c ps) splitSign"
  unfolding makePacket_def by (metis append.assoc has_suffix_append)

lemma makePacket_not_Nil [simp]: "makePacket c ps \<noteq> []"
  by (simp add: makePacket_def)

lemma butlast2_makePacket:
  "take (length (makePacket c ps) - length splitSign) (makePacket c ps) = c @ join_with '':'' ps"
  by (simp add: makePacket_def)

text \<open>No command is a prefix of another one, so the order of the list does not matter.\<close>

lemma commands_prefix_free:
  "p \<in> set PossibleClientCommands \<Longrightarrow> q \<in> set PossibleClientCommands \<Longrightarrow> prefix p q \<Longrightarrow> p = q"
proof -
  have "\<forall>p \<in> set PossibleClientCommands. \<forall>q \<in> set PossibleClientCommands. has_prefix q p \<longrightarrow> p = q"
    by code_simp
  then show "p \<in> set PossibleClientCommands \<Longrightarrow> q \<in> set PossibleClientCommands \<Longrightarrow> prefix p q \<Longrightarrow> p = q"
    by (simp add: has_prefix_iff_prefix)
qed

lemma parse_prefixes_found:
  assumes "p \<in> set ps" and "\<And>q. q \<in> set ps \<Longrightarrow> has_prefix line q \<longleftrightarrow> q = p"
  shows "parse_prefixes ps line = (p, split_on (CHR '':'') (drop (length p) line))"
  using assms
proof (induction ps)
  case (Cons a ps)
  show ?case
  proof (cases "a = p")
    case True
    with Cons.prems(2) [of a] show ?thesis by simp
  next
    case False
    with Cons.prems(1) have "p \<in> set ps" by simp
    then have "parse_prefixes ps line = (p, split_on (CHR '':'') (drop (length p) line))"
      by (rule Cons.IH) (simp add: Cons.prems(2))
    with False Cons.prems(2) [of a] show ?thesis by simp
  qed
qed simp

lemma parserCommandLine_append:
  assumes "p \<in> set PossibleClientCommands"
  shows "parserCommandLine (p @ body) = (p, split_on (CHR '':'') body)"
proof -
  have "has_prefix (p @ body) q \<longleftrightarrow> q = p" if q: "q \<in> set PossibleClientCommands" for q
  proof
    assume "has_prefix (p @ body) q"
    then have "prefix q p \<or> prefix p q"
      using prefix_same_cases [of q "p @ body" p] by (auto simp: has_prefix_iff_prefix)
    then show "q = p"
      using commands_prefix_free [OF assms q] commands_prefix_free [OF q assms] by auto
  qed simp
  from parse_prefixes_found [OF assms this] show ?thesis
    by (simp add: parserCommandLine_def)
qed

text \<open>What the parser returns: a command of the list with at least one field, or nothing.\<close>

lemma parse_prefixes_cases:
  "parse_prefixes ps line = (c, data) \<Longrightarrow>
   (c = TempData \<and> data = [] \<and> (\<forall>p \<in> set ps. \<not> has_prefix line p)) \<or>
   (c \<in> set ps \<and> data \<noteq> [] \<and> line = c @ join_with '':'' data)"
proof (induction ps line rule: parse_prefixes.induct)
  case (2 p ps line)
  show ?case
  proof (cases "has_prefix line p")
    case True
    with 2 have "c = p" "data = split_on (CHR '':'') (drop (length p) line)" by auto
    moreover have "line = p @ drop (length p) line"
      using True by (metis append_take_drop_id has_prefix_def)
    ultimately show ?thesis by (simp add: join_split_on)
  next
    case False
    with 2 show ?thesis by auto
  qed
qed simp

lemmas parserCommandLine_cases = parse_prefixes_cases [of PossibleClientCommands, folded parserCommandLine_def]

section \<open>Framing\<close>

text \<open>
  The split function of the scanner: how far to advance, and the token if there is one.
\<close>

definition splitFunc :: "string \<Rightarrow> string \<Rightarrow> bool \<Rightarrow> nat \<times> string option" where
  "splitFunc sep data atEOF =
     (if atEOF \<and> data = [] then (0, None)
      else case bytes_index data sep of
             Some i \<Rightarrow> (i + length sep, Some (take i data))
           | None \<Rightarrow> if atEOF then (length data, Some data) else (0, None))"

text \<open>
  \<open>bufio.Scanner\<close> over a split function: it asks for a token, reads more of the stream when
  there is none, and gives up when the buffer is full without one. \<open>reads\<close> are the pieces in
  which the network delivers the stream; after them comes the end of the stream. A split
  function that returns a token without advancing is not one the scanner can use.
\<close>

type_synonym split_fn = "string \<Rightarrow> bool \<Rightarrow> nat \<times> string option"

definition MaxScanTokenSize :: nat where "MaxScanTokenSize = 65536"

function scan_eof :: "split_fn \<Rightarrow> string \<Rightarrow> string list" where
  "scan_eof split data =
     (case split data True of
        (adv, None) \<Rightarrow> []
      | (adv, Some tok) \<Rightarrow>
          if 0 < adv \<and> adv \<le> length data then tok # scan_eof split (drop adv data) else [])"
  by pat_completeness auto
termination
  by (relation "measure (\<lambda>(_, data). length data)") auto

function scan_lines :: "split_fn \<Rightarrow> string \<Rightarrow> string list \<Rightarrow> string list" where
  "scan_lines split buf reads =
     (case (if buf = [] then (0, None) else split buf False) of
        (adv, Some tok) \<Rightarrow>
          if 0 < adv \<and> adv \<le> length buf then tok # scan_lines split (drop adv buf) reads else []
      | (adv, None) \<Rightarrow>
          if MaxScanTokenSize \<le> length buf then []
          else (case reads of [] \<Rightarrow> scan_eof split buf | r # rs \<Rightarrow> scan_lines split (buf @ r) rs))"
  by pat_completeness auto
termination
  by (relation "measures [\<lambda>(_, buf, reads). length reads, \<lambda>(_, buf, reads). length buf]") auto

declare scan_eof.simps [simp del] scan_lines.simps [simp del]

text \<open>
  What the scanner relies on: a token makes progress, a token once found stays found when more
  data arrives, and at the end of the stream what is left is a token.
\<close>

locale split_func =
  fixes split :: split_fn
  assumes progress: "split data e = (adv, Some tok) \<Longrightarrow> 0 < adv \<and> adv \<le> length data \<and> length tok \<le> adv"
    and stable: "split data False = (adv, Some tok) \<Longrightarrow> split (data @ ext) e = (adv, Some tok)"
    and at_eof: "data \<noteq> [] \<Longrightarrow> \<exists>adv tok. split data True = (adv, Some tok)"
    and at_end: "split [] True = (0, None)"
    and pending: "split data False = (a, None) \<Longrightarrow> split (data @ ext) True = (adv, Some tok) \<Longrightarrow>
                  length data \<le> Suc (length tok)"
begin

lemma scan_eof_Nil: "scan_eof split [] = []"
  by (subst scan_eof.simps) (simp add: at_end)

lemma scan_eof_step:
  "split data True = (adv, Some tok) \<Longrightarrow> scan_eof split data = tok # scan_eof split (drop adv data)"
  using progress by (subst scan_eof.simps) auto

lemma scan_lines_token:
  assumes "buf \<noteq> []" and "split buf False = (adv, Some tok)"
  shows "scan_lines split buf reads = tok # scan_lines split (drop adv buf) reads"
    and "scan_eof split (buf @ rest) = tok # scan_eof split (drop adv buf @ rest)"
proof -
  from progress [OF assms(2)] have adv: "0 < adv" "adv \<le> length buf" by auto
  with assms show "scan_lines split buf reads = tok # scan_lines split (drop adv buf) reads"
    by (subst scan_lines.simps) simp
  from scan_eof_step [OF stable [OF assms(2)], of rest] adv
  show "scan_eof split (buf @ rest) = tok # scan_eof split (drop adv buf @ rest)" by simp
qed

lemma scan_lines_wait:
  assumes "buf = [] \<or> split buf False = (a, None)" and "length buf < MaxScanTokenSize"
  shows "scan_lines split buf (r # rs) = scan_lines split (buf @ r) rs"
    and "scan_lines split buf [] = scan_eof split buf"
  using assms by (subst scan_lines.simps; auto)+

lemma pending_fits:
  assumes "\<forall>tok \<in> set (scan_eof split (buf @ rest)). Suc (length tok) < MaxScanTokenSize"
    and "buf = [] \<or> split buf False = (a, None)"
  shows "length buf < MaxScanTokenSize"
proof (cases "buf = []")
  case False
  with at_eof obtain adv tok where t: "split (buf @ rest) True = (adv, Some tok)" by blast
  with False assms(2) pending have "length buf \<le> Suc (length tok)" by blast
  moreover have "Suc (length tok) < MaxScanTokenSize"
    using assms(1) scan_eof_step [OF t] by simp
  ultimately show ?thesis by simp
qed (simp add: MaxScanTokenSize_def)

text \<open>How the network cuts the stream does not matter, as long as no line overruns the buffer.\<close>

lemma scan_lines_chunks:
  assumes "\<forall>tok \<in> set (scan_eof split (buf @ concat reads)). Suc (length tok) < MaxScanTokenSize"
  shows "scan_lines split buf reads = scan_eof split (buf @ concat reads)"
  using assms
proof (induction reads arbitrary: buf)
  case Nil
  then show ?case
  proof (induction buf rule: length_induct)
    case (1 buf)
    show ?case
    proof (cases "buf = [] \<or> (\<exists>a. split buf False = (a, None))")
      case True
      then obtain a where a: "buf = [] \<or> split buf False = (a, None)" by blast
      with scan_lines_wait(2) pending_fits [OF 1(2)] show ?thesis by simp
    next
      case False
      then obtain adv tok where t: "buf \<noteq> []" "split buf False = (adv, Some tok)"
        by (metis option.exhaust surj_pair)
      from progress [OF t(2)] have "length (drop adv buf) < length buf" by auto
      with 1 scan_lines_token(1) [OF t, of "[]"] scan_lines_token(2) [OF t, of "[]"]
      show ?thesis by simp
    qed
  qed
next
  case (Cons r rs)
  from Cons.prems show ?case
  proof (induction buf rule: length_induct)
    case (1 buf)
    show ?case
    proof (cases "buf = [] \<or> (\<exists>a. split buf False = (a, None))")
      case True
      then obtain a where a: "buf = [] \<or> split buf False = (a, None)" by blast
      with scan_lines_wait(1) pending_fits [OF 1(2)] Cons.IH [of "buf @ r"] 1(2)
      show ?thesis by simp
    next
      case False
      then obtain adv tok where t: "buf \<noteq> []" "split buf False = (adv, Some tok)"
        by (metis option.exhaust surj_pair)
      from progress [OF t(2)] have "length (drop adv buf) < length buf" by auto
      with 1 scan_lines_token(1) [OF t, of "r # rs"] scan_lines_token(2) [OF t, of "r @ concat rs"]
      show ?thesis by simp
    qed
  qed
qed

end

lemma splitFunc_False:
  "splitFunc sep data False = (adv, Some tok) \<longleftrightarrow>
   (\<exists>i. bytes_index data sep = Some i \<and> adv = i + length sep \<and> tok = take i data)"
  by (auto simp: splitFunc_def split: option.splits)

lemma splitFunc_True:
  "data \<noteq> [] \<Longrightarrow> splitFunc sep data True =
   (case bytes_index data sep of Some i \<Rightarrow> (i + length sep, Some (take i data))
      | None \<Rightarrow> (length data, Some data))"
  by (simp add: splitFunc_def)

lemma bytes_index_pending:
  assumes "bytes_index data sep = None" and "bytes_index (data @ ext) sep = Some j" and "length sep = 2"
  shows "length data \<le> Suc j"
  using assms
proof (induction data arbitrary: j)
  case (Cons x xs)
  then have np: "\<not> has_prefix (x # xs) sep" and none: "bytes_index xs sep = None"
    by (auto split: if_splits)
  show ?case
  proof (cases "has_prefix (x # xs @ ext) sep")
    case True
    have "xs = []"
    proof (rule ccontr)
      assume "xs \<noteq> []"
      then have "length sep \<le> length (x # xs)" using Cons.prems(3) by (cases xs) auto
      with True np show False
        using prefix_length_prefix [of sep "x # xs @ ext" "x # xs"] by (auto simp: has_prefix_iff_prefix)
    qed
    then show ?thesis by simp
  next
    case False
    with Cons.prems(2) obtain j' where "bytes_index (xs @ ext) sep = Some j'" "j = Suc j'" by auto
    with Cons.IH [OF none] Cons.prems(3) show ?thesis by auto
  qed
qed simp

interpretation crlf: split_func "splitFunc splitSign"
proof unfold_locales
  fix data e adv tok
  assume "splitFunc splitSign data e = (adv, Some tok)"
  then show "0 < adv \<and> adv \<le> length data \<and> length tok \<le> adv"
    using bytes_index_Some [of data splitSign] by (auto simp: splitFunc_def split: if_splits option.splits)
next
  fix data adv tok ext e
  assume "splitFunc splitSign data False = (adv, Some tok)"
  then obtain i where i: "bytes_index data splitSign = Some i" "adv = i + 2" "tok = take i data"
    by (auto simp: splitFunc_False)
  with bytes_index_Some [OF i(1)] bytes_index_append [OF i(1), of ext]
  show "splitFunc splitSign (data @ ext) e = (adv, Some tok)"
    by (auto simp: splitFunc_def)
next
  fix data :: string
  assume "data \<noteq> []"
  then show "\<exists>adv tok. splitFunc splitSign data True = (adv, Some tok)"
    by (auto simp: splitFunc_True split: option.splits)
next
  show "splitFunc splitSign [] True = (0, None)" by (simp add: splitFunc_def)
next
  fix data a ext adv tok
  assume n: "splitFunc splitSign data False = (a, None)"
    and t: "splitFunc splitSign (data @ ext) True = (adv, Some tok)"
  from n have none: "bytes_index data splitSign = None"
    by (auto simp: splitFunc_def split: option.splits)
  show "length data \<le> Suc (length tok)"
  proof (cases "bytes_index (data @ ext) splitSign")
    case None
    with t show ?thesis by (auto simp: splitFunc_def split: if_splits)
  next
    case (Some j)
    with t have "tok = take j (data @ ext)" by (auto simp: splitFunc_def split: if_splits)
    with bytes_index_Some [OF Some] bytes_index_pending [OF none Some] show ?thesis by simp
  qed
qed


section \<open>Sending and receiving\<close>

lemma bytes_index_line:
  "bytes_index line splitSign = None \<Longrightarrow> bytes_index (line @ splitSign @ rest) splitSign = Some (length line)"
proof (induction line)
  case Nil
  show ?case by (simp add: splitSign_def has_prefix_def)
next
  case (Cons x xs)
  then have np: "\<not> has_prefix (x # xs) splitSign" and none: "bytes_index xs splitSign = None"
    by (auto split: if_splits)
  have "\<not> has_prefix (x # xs @ splitSign @ rest) splitSign"
    using np by (cases xs) (auto simp: splitSign_def has_prefix_def)
  with Cons.IH [OF none] show ?case by simp
qed

lemma bytes_index_no_newline: "CHR 0x0A \<notin> set s \<Longrightarrow> bytes_index s splitSign = None"
proof (induction s)
  case (Cons x xs)
  then have "\<not> has_prefix (x # xs) splitSign"
    by (cases xs) (auto simp: splitSign_def has_prefix_def)
  with Cons show ?case by auto
qed simp

lemma scan_eof_lines:
  "\<forall>l \<in> set ls. bytes_index l splitSign = None \<Longrightarrow>
   scan_eof (splitFunc splitSign) (concat (map (\<lambda>l. l @ splitSign) ls)) = ls"
proof (induction ls)
  case (Cons l ls)
  let ?rest = "concat (map (\<lambda>l. l @ splitSign) ls)"
  have "splitFunc splitSign (l @ splitSign @ ?rest) True = (length l + 2, Some l)"
    using Cons.prems by (simp add: splitFunc_True bytes_index_line)
  from crlf.scan_eof_step [OF this] Cons show ?case by simp
qed (simp add: crlf.scan_eof_Nil)

text \<open>
  Framing: however the network cuts a stream of CRLF-terminated lines into pieces, the
  connection reads exactly these lines, in order, as long as each line fits the buffer of the
  scanner.
\<close>

theorem scan_lines_framing:
  assumes "concat reads = concat (map (\<lambda>l. l @ splitSign) ls)"
    and "\<forall>l \<in> set ls. bytes_index l splitSign = None \<and> Suc (length l) < MaxScanTokenSize"
  shows "scan_lines (splitFunc splitSign) [] reads = ls"
  using assms crlf.scan_lines_chunks [of "[]" reads] scan_eof_lines [of ls] by auto

theorem scan_lines_framing_witness:
  "scan_lines (splitFunc splitSign) []
     [''$FP'', ''A'' @ [CHR 0x0D], [CHR 0x0A] @ ''@N:1'', [CHR 0x0D, CHR 0x0A]] = [''$FPA'', ''@N:1'']"
  by (rule scan_lines_framing) (simp_all add: splitSign_def has_prefix_def MaxScanTokenSize_def)

definition no_sep :: "string \<Rightarrow> bool" where
  "no_sep s \<longleftrightarrow> CHR '':'' \<notin> set s \<and> CHR 0x0A \<notin> set s"

lemma join_with_chars: "x \<in> set (join_with sep ps) \<Longrightarrow> x \<in> set sep \<or> (\<exists>p \<in> set ps. x \<in> set p)"
  by (induction sep ps rule: join_with.induct) auto

lemma command_no_newline: "c \<in> set PossibleClientCommands \<Longrightarrow> CHR 0x0A \<notin> set c"
  by (auto simp: PossibleClientCommands_def command_defs)

lemma packet_one_line:
  assumes "c \<in> set PossibleClientCommands" and "\<forall>p \<in> set ps. no_sep p"
  shows "bytes_index (c @ join_with '':'' ps) splitSign = None"
proof (rule bytes_index_no_newline)
  show "CHR 0x0A \<notin> set (c @ join_with '':'' ps)"
    using assms command_no_newline [OF assms(1)] join_with_chars [of "CHR 0x0A" "'':''" ps]
    by (auto simp: no_sep_def)
qed

lemma parserCommandLine_print:
  assumes "c \<in> set PossibleClientCommands" and "ps \<noteq> []" and "\<forall>p \<in> set ps. no_sep p"
  shows "parserCommandLine (c @ join_with '':'' ps) = (c, ps)"
  using assms by (simp add: parserCommandLine_append split_on_join no_sep_def)

lemma wire_messages:
  assumes "concat reads = concat (map (\<lambda>(c, ps). makePacket c ps) msgs)"
    and "\<forall>(c, ps) \<in> set msgs. c \<in> set PossibleClientCommands \<and> ps \<noteq> [] \<and> (\<forall>p \<in> set ps. no_sep p)
           \<and> length (makePacket c ps) \<le> MaxScanTokenSize"
  shows "map parserCommandLine (scan_lines (splitFunc splitSign) [] reads) = msgs"
proof -
  let ?line = "\<lambda>(c, ps). c @ join_with '':'' ps"
  have "scan_eof (splitFunc splitSign) (concat reads) = map ?line msgs"
    using assms scan_eof_lines [of "map ?line msgs"] packet_one_line
    by (auto simp: makePacket_def comp_def case_prod_unfold)
  moreover have "\<forall>l \<in> set (map ?line msgs). Suc (length l) < MaxScanTokenSize"
    using assms(2) by (fastforce simp: makePacket_def)
  ultimately have "scan_lines (splitFunc splitSign) [] reads = map ?line msgs"
    using crlf.scan_lines_chunks [of "[]" reads] by simp
  moreover have "map (parserCommandLine \<circ> ?line) msgs = msgs"
    using assms(2) by (intro map_idI) (auto simp: parserCommandLine_print)
  ultimately show ?thesis by simp
qed

text \<open>
  C6. Round trip of the wire format: packets printed by \<open>makePacket\<close> and sent one after the
  other are read back by the framing and the parser as the same commands with the same fields,
  for every way the stream is cut into pieces.
\<close>

theorem wire_roundtrip:
  assumes "concat reads = concat (map (\<lambda>(c, ps). makePacket c ps) msgs)"
    and "\<forall>(c, ps) \<in> set msgs. c \<in> set PossibleClientCommands \<and> ps \<noteq> [] \<and> (\<forall>p \<in> set ps. no_sep p)
           \<and> length (makePacket c ps) \<le> MaxScanTokenSize"
  shows "map parserCommandLine (scan_lines (splitFunc splitSign) [] reads) = msgs"
  using assms by (rule wire_messages)

theorem wire_roundtrip_witness:
  "map parserCommandLine (scan_lines (splitFunc splitSign) []
     [''#TMA:B'', '':hello'' @ splitSign @ ''%'', ''X:Y'' @ splitSign]) =
   [(Message, [''A'', ''B'', ''hello'']), (AtcPosition, [''X'', ''Y''])]"
  by (rule wire_roundtrip)
    (simp_all add: makePacket_def splitSign_def command_defs PossibleClientCommands_def no_sep_def
      MaxScanTokenSize_def)

lemma callsignValid_chars:
  "callsignValid cs \<Longrightarrow> CHR '':'' \<notin> set cs \<and> 3 \<le> length cs \<and> length cs \<le> 11"
  by (auto simp: callsignValid_def contains_any_def ForbiddenChars_def CallsignMinLen_def
      CallsignMaxLen_def list_ex_iff split: if_splits)

end
