(* ===== verification/FlightPlans.thy ===== *)
theory FlightPlans
  imports Database Packet
begin

text \<open>
  The operations on flight plans (\<open>internal/database/flight_plan_operation.go\<close>). A plan is passed
  by value and returned as the operation leaves it, also when the operation fails.
\<close>

definition GetFlightPlanByCid ::
    "'db api \<Rightarrow> bool \<Rightarrow> int \<Rightarrow> 'db \<Rightarrow> op_error + FlightPlan" where
  "GetFlightPlanByCid A SimulatorServer cid db =
     (if SimulatorServer then Inl ErrSimulatorServer
      else case first_plan_by_cid A cid db of
             Inl ErrRecordNotFound \<Rightarrow> Inl ErrFlightPlanNotFound
           | Inl err \<Rightarrow> Inl (DbError err)
           | Inr flightPlan \<Rightarrow> Inr flightPlan)"

text \<open>Assigning the fields reads the indices 2 to 16 in this order.\<close>

definition UpdateFlightPlanData :: "FlightPlan \<Rightarrow> string list \<Rightarrow> FlightPlan go" where
  "UpdateFlightPlanData flightPlan d =
     index_at d 2 (\<lambda>d2. index_at d 3 (\<lambda>d3. index_at d 4 (\<lambda>d4. index_at d 5 (\<lambda>d5.
     index_at d 6 (\<lambda>d6. index_at d 7 (\<lambda>d7. index_at d 8 (\<lambda>d8. index_at d 9 (\<lambda>d9.
     index_at d 10 (\<lambda>d10. index_at d 11 (\<lambda>d11. index_at d 12 (\<lambda>d12. index_at d 13 (\<lambda>d13.
     index_at d 14 (\<lambda>d14. index_at d 15 (\<lambda>d15. index_at d 16 (\<lambda>d16.
       Inr (flightPlan\<lparr>
         fp_FlightType := d2,
         fp_AircraftType := d3,
         fp_Tas := StrToInt d4 100,
         fp_DepartureAirport := d5,
         fp_DepartureTime := StrToInt d6 0,
         fp_AtcDepartureTime := StrToInt d7 0,
         fp_CruiseAltitude := d8,
         fp_ArrivalAirport := d9,
         fp_RouteTimeHour := d10,
         fp_RouteTimeMinute := d11,
         fp_FuelTimeHour := d12,
         fp_FuelTimeMinute := d13,
         fp_AlternateAirport := d14,
         fp_Remarks := d15,
         fp_Route := d16\<rparr>))))))))))))))))"

definition save_plan_tx ::
    "'db api \<Rightarrow> (gorm_error \<Rightarrow> op_error) \<Rightarrow> FlightPlan \<Rightarrow> 'db \<Rightarrow> 'db \<times> FlightPlan \<times> op_error option" where
  "save_plan_tx A err flightPlan db =
     (let (db', gen, e) = save_plan A flightPlan db;
          saved = flightPlan\<lparr>fp_ID := g_ID gen, fp_CreatedAt := g_CreatedAt gen, fp_UpdatedAt := g_UpdatedAt gen\<rparr>
      in (fst (transaction (\<lambda>_. (db', e)) db), saved, map_option err e))"

definition duplicate_error :: "gorm_error \<Rightarrow> op_error" where
  "duplicate_error e = (if e = ErrDuplicatedKey then ErrFlightPlanExists else DbError e)"

text \<open>The plan that is returned, the database, and the error.\<close>

definition UpsertFlightPlan ::
    "'db api \<Rightarrow> bool \<Rightarrow> User \<Rightarrow> string \<Rightarrow> string list \<Rightarrow> 'db \<Rightarrow>
     (FlightPlan option \<times> 'db \<times> op_error option) go" where
  "UpsertFlightPlan A SimulatorServer user callsign flightPlanData db =
     (if length flightPlanData < 17 then Inr (None, db, Some ErrFlightPlanDataTooShort)
      else
        let found = (case GetFlightPlanByCid A SimulatorServer (u_Cid user) db of
                       Inr flightPlan \<Rightarrow> flightPlan
                     | Inl err \<Rightarrow> zero_FlightPlan\<lparr>fp_Cid := u_Cid user, fp_Callsign := callsign,
                                    fp_Locked := False, fp_FromWeb := False\<rparr>)
        in go_bind (UpdateFlightPlanData found flightPlanData) (\<lambda>flightPlan.
             if SimulatorServer then Inr (Some flightPlan, db, None)
             else let (db', saved, err) = save_plan_tx A duplicate_error flightPlan db
                  in Inr (Some saved, db', err)))"

definition UpdateFlightPlan ::
    "'db api \<Rightarrow> bool \<Rightarrow> FlightPlan \<Rightarrow> string list \<Rightarrow> bool \<Rightarrow> 'db \<Rightarrow>
     (FlightPlan \<times> 'db \<times> op_error option) go" where
  "UpdateFlightPlan A SimulatorServer flightPlan flightPlanData atcEdit db =
     (if length flightPlanData < 17 then Inr (flightPlan, db, Some ErrFlightPlanDataTooShort)
      else if \<not> SimulatorServer \<and> \<not> atcEdit \<and> fp_Locked flightPlan
           then Inr (flightPlan, db, Some ErrFlightPlanLocked)
      else go_bind (UpdateFlightPlanData flightPlan flightPlanData) (\<lambda>updated.
             if SimulatorServer then Inr (updated, db, None)
             else let (db', saved, err) = save_plan_tx A DbError updated db
                  in Inr (saved, db', err)))"

definition UpdateCruiseAltitude ::
    "'db api \<Rightarrow> bool \<Rightarrow> FlightPlan \<Rightarrow> string \<Rightarrow> 'db \<Rightarrow> FlightPlan \<times> 'db \<times> op_error option" where
  "UpdateCruiseAltitude A SimulatorServer flightPlan cruiseAltitude db =
     (let p1 = flightPlan\<lparr>fp_CruiseAltitude := cruiseAltitude\<rparr> in
      if SimulatorServer then (p1, db, None)
      else
        let p2 = p1\<lparr>fp_Locked := True\<rparr>;
            (db', err, RowsAffected) = update_plan_altitude A p2 cruiseAltitude db
        in case err of
             Some ErrRecordNotFound \<Rightarrow> (p2, db', Some ErrFlightPlanNotFound)
           | Some e \<Rightarrow> (p2, db', Some (DbError e))
           | None \<Rightarrow> if RowsAffected = 0 then (p2, db', Some ErrFlightPlanLocked) else (p2, db', None))"

definition plan_fields :: "FlightPlan \<Rightarrow> string \<Rightarrow> string list" where
  "plan_fields flightPlan receiver =
     [fp_Callsign flightPlan, receiver, fp_FlightType flightPlan, fp_AircraftType flightPlan,
      itoa (fp_Tas flightPlan), fp_DepartureAirport flightPlan, itoa (fp_DepartureTime flightPlan),
      itoa (fp_AtcDepartureTime flightPlan), fp_CruiseAltitude flightPlan,
      fp_ArrivalAirport flightPlan, fp_RouteTimeHour flightPlan, fp_RouteTimeMinute flightPlan,
      fp_FuelTimeHour flightPlan, fp_FuelTimeMinute flightPlan, fp_AlternateAirport flightPlan,
      fp_Remarks flightPlan, fp_Route flightPlan]"

definition ToString :: "FlightPlan \<Rightarrow> string \<Rightarrow> string" where
  "ToString flightPlan receiver =
     ''$FP'' @ join_with '':'' (plan_fields flightPlan receiver) @ [CHR 0x0D, CHR 0x0A]"

section \<open>Basic facts\<close>

lemma plan_fields_simps [simp]: "length (plan_fields p r) = 17" "plan_fields p r \<noteq> []"
  by (simp_all add: plan_fields_def)

lemma ToString_makePacket: "ToString p r = makePacket Plan (plan_fields p r)"
  by (simp add: ToString_def makePacket_def command_defs splitSign_def)

text \<open>The fields of a plan that a packet does not carry.\<close>

definition same_row :: "FlightPlan \<Rightarrow> FlightPlan \<Rightarrow> bool" where
  "same_row p q \<longleftrightarrow> fp_ID p = fp_ID q \<and> fp_Cid p = fp_Cid q \<and> fp_Callsign p = fp_Callsign q \<and>
     fp_Locked p = fp_Locked q \<and> fp_FromWeb p = fp_FromWeb q \<and>
     fp_CreatedAt p = fp_CreatedAt q \<and> fp_UpdatedAt p = fp_UpdatedAt q"

lemma UpdateFlightPlanData_short:
  "length d < 17 \<Longrightarrow> UpdateFlightPlanData p d = Inl IndexOutOfRange"
  by (simp add: UpdateFlightPlanData_def index_at_def)

lemma UpdateFlightPlanData_Inr:
  "17 \<le> length d \<Longrightarrow> \<exists>q. UpdateFlightPlanData p d = Inr q \<and> same_row q p \<and>
     fp_CruiseAltitude q = d ! 8 \<and> fp_Route q = d ! 16"
  by (simp add: UpdateFlightPlanData_def same_row_def)

lemma UpdateFlightPlanData_row:
  assumes "UpdateFlightPlanData p d = Inr q"
  shows "same_row q p \<and> fp_CruiseAltitude q = d ! 8 \<and> fp_Route q = d ! 16"
proof (cases "length d < 17")
  case True
  with assms UpdateFlightPlanData_short [of d p] show ?thesis by simp
next
  case False
  with assms UpdateFlightPlanData_Inr [of d p] show ?thesis by simp
qed

lemma UpsertFlightPlan_total:
  "\<exists>r. UpsertFlightPlan A s u cs d db = Inr r"
proof (cases "length d < 17")
  case False
  then have len: "17 \<le> length d" by simp
  then obtain f where f: "\<And>p. UpdateFlightPlanData p d = Inr (f p)"
    using UpdateFlightPlanData_Inr by metis
  show ?thesis using len by (simp add: UpsertFlightPlan_def Let_def f split: prod.split)
qed (simp add: UpsertFlightPlan_def)

lemma UpsertFlightPlan_Some:
  assumes "17 \<le> length d"
  shows "\<exists>q db' err. UpsertFlightPlan A s u cs d db = Inr (Some q, db', err)"
proof -
  from assms obtain f where f: "\<And>p. UpdateFlightPlanData p d = Inr (f p)"
    using UpdateFlightPlanData_Inr by metis
  from assms show ?thesis by (simp add: UpsertFlightPlan_def Let_def f split: prod.split)
qed

lemma UpdateFlightPlan_total:
  "\<exists>r. UpdateFlightPlan A s p d e db = Inr r"
proof (cases "length d < 17")
  case False
  then obtain q where "UpdateFlightPlanData p d = Inr q" using UpdateFlightPlanData_Inr [of d p] by auto
  then show ?thesis by (auto simp: UpdateFlightPlan_def split: prod.split)
qed (simp add: UpdateFlightPlan_def)

section \<open>Printing and reading back\<close>

definition printable_plan :: "FlightPlan \<Rightarrow> bool" where
  "printable_plan p \<longleftrightarrow>
     list_all no_sep [fp_Callsign p, fp_FlightType p, fp_AircraftType p, fp_DepartureAirport p,
       fp_CruiseAltitude p, fp_ArrivalAirport p, fp_RouteTimeHour p, fp_RouteTimeMinute p,
       fp_FuelTimeHour p, fp_FuelTimeMinute p, fp_AlternateAirport p, fp_Remarks p, fp_Route p] \<and>
     list_all int64 [fp_Tas p, fp_DepartureTime p, fp_AtcDepartureTime p]"

lemma no_sep_itoa: "no_sep (itoa n)"
  using itoa_chars [of "CHR 0x0A" n] by (auto simp: no_sep_def itoa_no_colon is_digit_def)

lemma plan_fields_no_sep: "printable_plan p \<Longrightarrow> no_sep r \<Longrightarrow> \<forall>x \<in> set (plan_fields p r). no_sep x"
  by (simp add: printable_plan_def plan_fields_def no_sep_itoa)

lemma UpdateFlightPlanData_print:
  assumes "printable_plan p" and "same_row q p"
  shows "UpdateFlightPlanData q (plan_fields p r) = Inr p"
proof -
  have "int64 (fp_Tas p)" "int64 (fp_DepartureTime p)" "int64 (fp_AtcDepartureTime p)"
    using assms(1) by (simp_all add: printable_plan_def)
  with assms show ?thesis
    by (cases p; cases q) (simp add: UpdateFlightPlanData_def plan_fields_def same_row_def)
qed

text \<open>
  C22. A flight plan that the server prints for a receiver is read back as the same plan: the
  packet of \<open>ToString\<close>, cut from the stream and parsed, is a \<open>$FP\<close> packet, and storing its
  fields with \<open>UpdateFlightPlanData\<close> in a plan of the same row gives the plan back. It holds of
  plans whose texts have no separator and whose numbers are 64-bit integers.
\<close>

theorem flight_plan_roundtrip:
  assumes "printable_plan p" and "no_sep r" and "same_row q p"
    and "length (ToString p r) \<le> MaxScanTokenSize" and "concat reads = ToString p r"
  shows "\<exists>fields. map parserCommandLine (scan_lines (splitFunc splitSign) [] reads) = [(Plan, fields)] \<and>
           UpdateFlightPlanData q fields = Inr p"
proof -
  have "Plan \<in> set PossibleClientCommands" by (simp add: PossibleClientCommands_def)
  with assms have "map parserCommandLine (scan_lines (splitFunc splitSign) [] reads) = [(Plan, plan_fields p r)]"
    by (intro wire_messages) (auto simp: ToString_makePacket plan_fields_no_sep)
  with UpdateFlightPlanData_print [OF assms(1,3), of r] show ?thesis by (intro exI conjI)
qed

definition example_plan :: FlightPlan where
  "example_plan = zero_FlightPlan\<lparr>fp_ID := 4, fp_Cid := 2352, fp_Callsign := ''CPA421'',
     fp_FlightType := ''I'', fp_AircraftType := ''H/A320/L'', fp_Tas := 474,
     fp_DepartureAirport := ''ZBAA'', fp_DepartureTime := 1230, fp_CruiseAltitude := ''27500'',
     fp_ArrivalAirport := ''ZSPD'', fp_Route := ''IDKUP W40''\<rparr>"

theorem flight_plan_roundtrip_witness:
  "\<exists>fields. map parserCommandLine (scan_lines (splitFunc splitSign) [] [ToString example_plan ''*A'']) =
              [(Plan, fields)] \<and>
            UpdateFlightPlanData (zero_FlightPlan\<lparr>fp_ID := 4, fp_Cid := 2352, fp_Callsign := ''CPA421''\<rparr>)
              fields = Inr example_plan"
proof (rule flight_plan_roundtrip)
  show "length (ToString example_plan ''*A'') \<le> MaxScanTokenSize"
    by (simp add: example_plan_def zero_FlightPlan_def ToString_def plan_fields_def MaxScanTokenSize_def
        itoa_def show_nat.simps)
qed (simp_all add: example_plan_def zero_FlightPlan_def printable_plan_def no_sep_def int64_def same_row_def)

section \<open>Locks and failures\<close>

lemma save_plan_tx_row:
  assumes "save_plan_tx A f p db = (db', s, err)"
  shows "(\<exists>i c t. s = p\<lparr>fp_ID := i, fp_CreatedAt := c, fp_UpdatedAt := t\<rparr>) \<and> (err \<noteq> None \<longrightarrow> db' = db)"
  using assms by (auto simp: save_plan_tx_def transaction_def split: prod.splits)

text \<open>
  Filing again: a locked plan cannot be changed by its pilot on a server with a database (the
  plan and the database stay as they are and the error is reported); an update never changes the
  owner, the callsign or the lock of a plan; a failed one leaves the database as it was, and so
  does every update on a simulator server.
\<close>

theorem UpdateFlightPlan_spec:
  assumes "UpdateFlightPlan A sim p d edit db = Inr (q, db', err)"
  shows "(\<not> sim \<and> \<not> edit \<and> fp_Locked p \<and> 17 \<le> length d \<longrightarrow>
            q = p \<and> db' = db \<and> err = Some ErrFlightPlanLocked) \<and>
         fp_Cid q = fp_Cid p \<and> fp_Callsign q = fp_Callsign p \<and> fp_Locked q = fp_Locked p \<and>
         (err \<noteq> None \<or> sim \<longrightarrow> db' = db) \<and>
         (err = None \<longrightarrow> fp_CruiseAltitude q = d ! 8 \<and> fp_Route q = d ! 16)"
proof (cases "length d < 17 \<or> \<not> sim \<and> \<not> edit \<and> fp_Locked p")
  case True
  with assms show ?thesis by (auto simp: UpdateFlightPlan_def split: if_splits)
next
  case False
  with assms obtain u where u: "UpdateFlightPlanData p d = Inr u"
    and rest: "(if sim then Inr (u, db, None)
                else let (db', saved, err) = save_plan_tx A DbError u db in Inr (saved, db', err))
               = (Inr (q, db', err) :: (FlightPlan \<times> _ \<times> op_error option) go)"
    by (auto simp: UpdateFlightPlan_def go_bind_eq_Inr)
  note row = UpdateFlightPlanData_row [OF u]
  show ?thesis
  proof (cases sim)
    case True
    with rest row show ?thesis by (simp add: same_row_def)
  next
    case sim: False
    with rest have s: "save_plan_tx A DbError u db = (db', q, err)"
      by (simp split: prod.splits)
    from save_plan_tx_row [OF s] obtain i c t where
      "q = u\<lparr>fp_ID := i, fp_CreatedAt := c, fp_UpdatedAt := t\<rparr>" "err \<noteq> None \<longrightarrow> db' = db" by blast
    with row sim False show ?thesis by (auto simp: same_row_def)
  qed
qed

theorem UpdateFlightPlan_spec_witness:
  "\<exists>q db' err. UpdateFlightPlan memory_api False (example_plan\<lparr>fp_Locked := True\<rparr>) (replicate 17 ''X'')
      False empty_memory = Inr (q, db', err) \<and> q = example_plan\<lparr>fp_Locked := True\<rparr> \<and> db' = empty_memory"
proof -
  obtain q db' err where r: "UpdateFlightPlan memory_api False (example_plan\<lparr>fp_Locked := True\<rparr>)
      (replicate 17 ''X'') False empty_memory = Inr (q, db', err)"
    using UpdateFlightPlan_total by (metis prod_cases3)
  with UpdateFlightPlan_spec [OF r] show ?thesis by simp
qed

end
