(* ===== verification/Geo.thy ===== *)
theory Geo
  imports Float64
begin

text \<open>
  Positions and distances (\<open>internal/interfaces/fsd/position.go\<close>, \<open>distance_utils.go\<close>). The
  sine, cosine and arc cosine are the real ones; of an infinity or NaN they are NaN, and so is
  the arc cosine outside of [-1, 1].
\<close>

record Position =
  Latitude :: float64
  Longitude :: float64

definition PositionValid :: "Position \<Rightarrow> bool" where
  "PositionValid p \<longleftrightarrow> \<not> feq (Latitude p) (Fin 0) \<and> \<not> feq (Longitude p) (Fin 0)"

abbreviation (input) earthRadiusMeters :: real where "earthRadiusMeters \<equiv> 6371000"
abbreviation (input) metersPerNauticalMile :: real where "metersPerNauticalMile \<equiv> 1852"

definition f_acos :: "real \<Rightarrow> float64" where
  "f_acos x = (if - 1 \<le> x \<and> x \<le> 1 then Fin (arccos x) else NaN)"

fun central_cos :: "Position \<Rightarrow> Position \<Rightarrow> real option" where
  "central_cos p1 p2 =
     (case (Latitude p1, Longitude p1, Latitude p2, Longitude p2) of
        (Fin la1, Fin lo1, Fin la2, Fin lo2) \<Rightarrow>
          (let lat1 = la1 * pi / 180; lon1 = lo1 * pi / 180;
               lat2 = la2 * pi / 180; lon2 = lo2 * pi / 180
           in Some (sin lat1 * sin lat2 + cos lat1 * cos lat2 * cos (lon2 - lon1)))
      | _ \<Rightarrow> None)"

definition DistanceInNauticalMiles :: "Position \<Rightarrow> Position \<Rightarrow> float64" where
  "DistanceInNauticalMiles p1 p2 =
     (case central_cos p1 p2 of
        None \<Rightarrow> NaN
      | Some x \<Rightarrow> fscale (1 / metersPerNauticalMile) (fscale earthRadiusMeters (f_acos x)))"

fun nearest_inner :: "Position \<Rightarrow> Position list \<Rightarrow> float64 \<Rightarrow> float64" where
  "nearest_inner a [] minDistance = minDistance"
| "nearest_inner a (b # bs) minDistance =
     (if \<not> PositionValid b then nearest_inner a bs minDistance
      else let distance = DistanceInNauticalMiles a b in
           nearest_inner a bs (if flt distance minDistance then distance else minDistance))"

fun nearest_outer :: "Position list \<Rightarrow> Position list \<Rightarrow> float64 \<Rightarrow> float64" where
  "nearest_outer [] groupB minDistance = minDistance"
| "nearest_outer (a # as) groupB minDistance =
     (if \<not> PositionValid a then nearest_outer as groupB minDistance
      else nearest_outer as groupB (nearest_inner a groupB minDistance))"

definition FindNearestDistance :: "Position list \<Rightarrow> Position list \<Rightarrow> float64" where
  "FindNearestDistance groupA groupB = nearest_outer groupA groupB (Fin MaxFloat64)"

section \<open>The distance of two points\<close>

lemma central_cos_sym: "central_cos p1 p2 = central_cos p2 p1"
  by (auto simp: Let_def mult.commute cos_diff split: float64.splits)

lemma abs_le_one_dot:
  fixes s c s' c' t :: real
  assumes "s\<^sup>2 + c\<^sup>2 = 1" and "s'\<^sup>2 + c'\<^sup>2 = 1" and "\<bar>t\<bar> \<le> 1"
  shows "\<bar>s * s' + c * c' * t\<bar> \<le> 1"
proof -
  have "\<bar>s * s' + c * c' * t\<bar> \<le> \<bar>s * s'\<bar> + \<bar>c * c'\<bar> * \<bar>t\<bar>"
    by (metis abs_mult abs_triangle_ineq)
  also have "\<dots> \<le> \<bar>s\<bar> * \<bar>s'\<bar> + \<bar>c\<bar> * \<bar>c'\<bar>"
    using assms(3) by (simp add: abs_mult mult_left_le)
  also have "\<dots> \<le> 1"
    using sum_squares_ge_zero [of "\<bar>s\<bar> - \<bar>s'\<bar>" "\<bar>c\<bar> - \<bar>c'\<bar>"] assms(1,2)
    by (simp add: algebra_simps power2_eq_square)
  finally show ?thesis .
qed

lemma central_cos_bounds: "central_cos p1 p2 = Some x \<Longrightarrow> - 1 \<le> x \<and> x \<le> 1"
proof -
  assume "central_cos p1 p2 = Some x"
  then obtain a b t where x: "x = sin a * sin b + cos a * cos b * cos t"
    by (auto simp: Let_def split: float64.splits)
  have "\<bar>x\<bar> \<le> 1" unfolding x by (rule abs_le_one_dot) auto
  then show ?thesis by auto
qed

lemma Distance_Fin:
  "DistanceInNauticalMiles p q = NaN \<or> (\<exists>d \<ge> 0. DistanceInNauticalMiles p q = Fin d)"
proof (cases "central_cos p q")
  case (Some x)
  with central_cos_bounds have b: "- 1 \<le> x" "x \<le> 1" by blast+
  with arccos_bounded [of x] have "0 \<le> 6371000 * arccos x / 1852" by simp
  with Some b show ?thesis
    by (auto simp: DistanceInNauticalMiles_def f_acos_def simp del: central_cos.simps
        intro!: exI [of _ "6371000 * arccos x / 1852"])
qed (simp add: DistanceInNauticalMiles_def)

lemma Distance_sym: "DistanceInNauticalMiles p q = DistanceInNauticalMiles q p"
  by (simp only: DistanceInNauticalMiles_def central_cos_sym)

section \<open>The nearest distance of two groups\<close>

text \<open>
  The two loops compute the minimum, over the pairs of valid points, of the distances that are
  numbers: it is at most each of them and, when it is not the initial value, one of them.
\<close>

definition valid_distances :: "Position list \<Rightarrow> Position list \<Rightarrow> real set" where
  "valid_distances A B = {d. \<exists>a \<in> set A. \<exists>b \<in> set B. PositionValid a \<and> PositionValid b \<and>
                             DistanceInNauticalMiles a b = Fin d}"

lemma nearest_inner_min:
  "\<exists>r. nearest_inner a bs (Fin m) = Fin r \<and> r \<le> m \<and>
       (\<forall>b \<in> set bs. \<forall>d. PositionValid b \<and> DistanceInNauticalMiles a b = Fin d \<longrightarrow> r \<le> d) \<and>
       (r = m \<or> (\<exists>b \<in> set bs. PositionValid b \<and> DistanceInNauticalMiles a b = Fin r))"
proof (induction bs arbitrary: m)
  case (Cons b bs)
  consider "\<not> PositionValid b" | "DistanceInNauticalMiles a b = NaN"
    | d where "PositionValid b" "DistanceInNauticalMiles a b = Fin d"
    using Distance_Fin [of a b] by blast
  then show ?case
  proof cases
    case 3
    from Cons.IH [of "min d m"] obtain r where "nearest_inner a bs (Fin (min d m)) = Fin r" "r \<le> min d m"
      "\<forall>b \<in> set bs. \<forall>d. PositionValid b \<and> DistanceInNauticalMiles a b = Fin d \<longrightarrow> r \<le> d"
      "r = min d m \<or> (\<exists>b \<in> set bs. PositionValid b \<and> DistanceInNauticalMiles a b = Fin r)" by blast
    with 3 show ?thesis
      by (intro exI [of _ r]) (auto simp: Let_def min_def split: if_splits)
  next
    case 2
    with Cons.IH [of m] show ?thesis by (auto simp: Let_def)
  next
    case 1
    with Cons.IH [of m] show ?thesis by auto
  qed
qed simp

lemma nearest_outer_min:
  "\<exists>r. nearest_outer A B (Fin m) = Fin r \<and> r \<le> m \<and> (\<forall>d \<in> valid_distances A B. r \<le> d) \<and>
       (r = m \<or> r \<in> valid_distances A B)"
proof (induction A arbitrary: m)
  case (Cons a A)
  have ins: "valid_distances (a # A) B = valid_distances A B \<union>
      (if PositionValid a then {d. \<exists>b \<in> set B. PositionValid b \<and> DistanceInNauticalMiles a b = Fin d} else {})"
    by (auto simp: valid_distances_def)
  show ?case
  proof (cases "PositionValid a")
    case True
    obtain r where r: "nearest_inner a B (Fin m) = Fin r" "r \<le> m"
      "\<forall>b \<in> set B. \<forall>d. PositionValid b \<and> DistanceInNauticalMiles a b = Fin d \<longrightarrow> r \<le> d"
      "r = m \<or> (\<exists>b \<in> set B. PositionValid b \<and> DistanceInNauticalMiles a b = Fin r)"
      using nearest_inner_min [of a B m] by blast
    obtain r' where r': "nearest_outer A B (Fin r) = Fin r'" "r' \<le> r" "\<forall>d \<in> valid_distances A B. r' \<le> d"
      "r' = r \<or> r' \<in> valid_distances A B"
      using Cons.IH [of r] by blast
    from r r' True show ?thesis
      by (intro exI [of _ r']) (force simp: ins)
  next
    case False
    with Cons.IH [of m] show ?thesis by (simp add: ins)
  qed
qed (simp add: valid_distances_def)

lemma valid_distances_sym: "valid_distances A B = valid_distances B A"
  unfolding valid_distances_def using Distance_sym by fastforce

lemma FindNearestDistance_min:
  "\<exists>r. FindNearestDistance A B = Fin r \<and> r \<le> MaxFloat64 \<and>
       (\<forall>d \<in> valid_distances A B. r \<le> d) \<and> (r = MaxFloat64 \<or> r \<in> valid_distances A B)"
  unfolding FindNearestDistance_def by (rule nearest_outer_min)

lemma FindNearestDistance_sym: "FindNearestDistance A B = FindNearestDistance B A"
  using FindNearestDistance_min [of A B] FindNearestDistance_min [of B A]
  unfolding valid_distances_sym [of B A] by (metis order_antisym)

text \<open>
  The nearest distance of two groups of points is the least distance between a valid point
  of one and a valid point of the other, and the largest float when there is no such pair (or
  none closer); so it does not depend on the order of the groups.
\<close>

theorem FindNearestDistance_spec:
  "\<exists>r. FindNearestDistance A B = Fin r \<and> FindNearestDistance B A = Fin r \<and> r \<le> MaxFloat64 \<and>
       valid_distances A B \<subseteq> {r..} \<and> (r = MaxFloat64 \<or> r \<in> valid_distances A B)"
  using FindNearestDistance_min [of A B] by (auto simp: FindNearestDistance_sym [of B A])

end
