(* ===== verification/Client.thy ===== *)
theory Client
  imports FlightPlans Geo
begin

text \<open>
  The state of one client and the operations that touch nothing else
  (\<open>internal/fsd_server/packet/client.go\<close>), and the filters of a broadcast, which compare two
  clients (\<open>internal/interfaces/fsd/broadcast.go\<close>).

  The pointers of the Go struct are numbers (\<open>c_socket\<close>, the running timer \<open>c_reconnectTimer\<close>)
  or values where no one else holds them (the plan, the history). A byte slice that can be nil
  is an option.
\<close>

section \<open>State\<close>

record PilotPath =
  pp_Latitude :: float64
  pp_Longitude :: float64
  pp_Altitude :: int

record client =
  c_socket :: nat
  c_isAtc :: bool
  c_callsign :: string
  c_rating :: Rating
  c_facility :: Facility
  c_user :: User
  c_protocol :: int
  c_realName :: string
  c_position :: "Position list"
  c_simType :: int
  c_transponder :: string
  c_altitude :: int
  c_groundSpeed :: int
  c_frequency :: int
  c_pbh :: "32 word"
  c_visualRange :: float64
  c_flightPlan :: "FlightPlan option"
  c_atisInfo :: "string list"
  c_paths :: "PilotPath list"
  c_history :: History
  c_disconnect :: bool
  c_motdBytes :: "string option"
  c_reconnectTimer :: "nat option"
  c_pathTrigger :: overflow_trigger

definition zero_Position :: Position where
  "zero_Position = \<lparr>Latitude = Fin 0, Longitude = Fin 0\<rparr>"

definition new_client ::
    "int \<Rightarrow> int \<Rightarrow> nat \<Rightarrow> User \<Rightarrow> FlightPlan option \<Rightarrow> string \<Rightarrow> Rating \<Rightarrow> int \<Rightarrow> string \<Rightarrow> bool \<Rightarrow> client" where
  "new_client now PosUpdatePoints session user flightPlan callsign rating protocol realName isAtc =
     \<lparr>c_socket = session, c_isAtc = isAtc, c_callsign = callsign, c_rating = rating,
      c_facility = 0, c_user = user, c_protocol = protocol, c_realName = realName,
      c_position = [zero_Position, zero_Position, zero_Position, zero_Position],
      c_simType = 0, c_transponder = ''2000'', c_altitude = 0, c_groundSpeed = 0,
      c_frequency = 99998, c_pbh = 0, c_visualRange = Fin 40, c_flightPlan = flightPlan,
      c_atisInfo = [], c_paths = [], c_history = NewHistory now (u_Cid user) callsign isAtc,
      c_disconnect = False, c_motdBytes = None, c_reconnectTimer = None,
      c_pathTrigger = NewOverflowTrigger PosUpdatePoints\<rparr>"

section \<open>Updates\<close>

text \<open>\<open>SetPosition\<close> reports an index of at least four; a negative one panics.\<close>

definition SetPosition :: "int \<Rightarrow> float64 \<Rightarrow> float64 \<Rightarrow> client \<Rightarrow> (client \<times> string option) go" where
  "SetPosition index lat lon c =
     (if index \<ge> 4 then Inr (c, Some ''position index out of range'')
      else if index < 0 then Inl IndexOutOfRange
      else index_at (c_position c) (nat index) (\<lambda>p.
             Inr (c\<lparr>c_position := (c_position c)[nat index := p\<lparr>Latitude := lat, Longitude := lon\<rparr>]\<rparr>, None)))"

definition recordPathPoint :: "client \<Rightarrow> client go" where
  "recordPathPoint c =
     index_at (c_position c) 0 (\<lambda>p.
       Inr (c\<lparr>c_paths := c_paths c @ [\<lparr>pp_Latitude = Latitude p, pp_Longitude = Longitude p,
                                       pp_Altitude = c_altitude c\<rparr>]\<rparr>))"

text \<open>The goroutine of a tick: the trigger calls \<open>recordPathPoint\<close> when it overflows.\<close>

definition tickPath :: "client \<Rightarrow> client go" where
  "tickPath c =
     (let (t, fired) = Tick (c_pathTrigger c); c' = c\<lparr>c_pathTrigger := t\<rparr>
      in if fired then recordPathPoint c' else Inr c')"

definition UpdatePilotPos ::
    "int \<Rightarrow> float64 \<Rightarrow> float64 \<Rightarrow> int \<Rightarrow> int \<Rightarrow> 32 word \<Rightarrow> client \<Rightarrow> client go" where
  "UpdatePilotPos transponder lat lon alt groundSpeed pbh c =
     go_bind (SetPosition 0 lat lon c) (\<lambda>(c, _).
       Inr (c\<lparr>c_transponder := fmt_0d 4 transponder, c_altitude := alt,
              c_groundSpeed := groundSpeed, c_pbh := pbh\<rparr>))"

definition UpdateAtcPos ::
    "int \<Rightarrow> Facility \<Rightarrow> float64 \<Rightarrow> float64 \<Rightarrow> float64 \<Rightarrow> client \<Rightarrow> client go" where
  "UpdateAtcPos frequency facility visualRange lat lon c =
     go_bind (SetPosition 0 lat lon c) (\<lambda>(c, _).
       Inr (c\<lparr>c_frequency := frequency, c_facility := facility, c_visualRange := visualRange\<rparr>))"

definition UpdateAtcVisPoint :: "int \<Rightarrow> float64 \<Rightarrow> float64 \<Rightarrow> client \<Rightarrow> (client \<times> string option) go" where
  "UpdateAtcVisPoint visIndex lat lon c =
     (if visIndex < 0 \<or> visIndex > 2 then Inr (c, Some ''visIndex out of range [0,2]'')
      else SetPosition (visIndex + 1) lat lon c)"

definition ClearAtcAtisInfo :: "client \<Rightarrow> client" where
  "ClearAtcAtisInfo c = c\<lparr>c_atisInfo := []\<rparr>"

definition AddAtcAtisInfo :: "string \<Rightarrow> client \<Rightarrow> client" where
  "AddAtcAtisInfo atisInfo c = c\<lparr>c_atisInfo := c_atisInfo c @ [atisInfo]\<rparr>"

definition SetUser :: "User \<Rightarrow> client \<Rightarrow> client" where
  "SetUser user c = c\<lparr>c_user := user\<rparr>"

definition SetSimType :: "int \<Rightarrow> client \<Rightarrow> client" where
  "SetSimType simType c = c\<lparr>c_simType := simType\<rparr>"

definition client_CheckFacility :: "Facility \<Rightarrow> client \<Rightarrow> bool" where
  "client_CheckFacility facility c = CheckFacility facility (c_facility c)"

definition CheckRating :: "Rating list \<Rightarrow> client \<Rightarrow> bool" where
  "CheckRating rating c \<longleftrightarrow> c_rating c \<in> set rating"

section \<open>Broadcast filters\<close>

type_synonym BroadcastFilter = "client \<Rightarrow> client option \<Rightarrow> bool"

definition AllATC :: string where "AllATC = ''*A''"
definition AllSup :: string where "AllSup = ''*S''"
definition AllClient :: string where "AllClient = ''*''"

definition BroadcastToAll :: BroadcastFilter where
  "BroadcastToAll toClient fromClient = True"

definition BroadcastToAtc :: BroadcastFilter where
  "BroadcastToAtc toClient fromClient = c_isAtc toClient"

definition BroadcastToSup :: BroadcastFilter where
  "BroadcastToSup toClient fromClient = (if \<not> c_isAtc toClient then False else c_rating toClient \<ge> Supervisor)"

definition range_threshold :: "client \<Rightarrow> client \<Rightarrow> float64" where
  "range_threshold toClient fromClient =
     (if c_isAtc toClient \<and> c_isAtc fromClient
        then fmax (c_visualRange toClient) (c_visualRange fromClient)
      else if c_isAtc toClient then c_visualRange toClient
      else if c_isAtc fromClient then c_visualRange fromClient
      else fadd (c_visualRange toClient) (c_visualRange fromClient))"

definition BroadcastToClientInRange :: BroadcastFilter where
  "BroadcastToClientInRange toClient fromClient =
     (case fromClient of
        None \<Rightarrow> True
      | Some from \<Rightarrow>
          let distance = FindNearestDistance (c_position toClient) (c_position from)
          in fle distance (range_threshold toClient from))"

fun CombineBroadcastFilter :: "BroadcastFilter option list \<Rightarrow> BroadcastFilter" where
  "CombineBroadcastFilter [] toClient fromClient = True"
| "CombineBroadcastFilter (None # fs) toClient fromClient = CombineBroadcastFilter fs toClient fromClient"
| "CombineBroadcastFilter (Some f # fs) toClient fromClient =
     (if \<not> f toClient fromClient then False else CombineBroadcastFilter fs toClient fromClient)"

lemma CombineBroadcastFilter_iff:
  "CombineBroadcastFilter fs to fr \<longleftrightarrow> (\<forall>f. Some f \<in> set fs \<longrightarrow> f to fr)"
  by (induction fs to fr rule: CombineBroadcastFilter.induct) auto

lemma range_threshold_sym: "range_threshold a b = range_threshold b a"
  by (auto simp: range_threshold_def fmax_sym fadd_sym)

text \<open>
  Range is mutual: of two clients either both hear the broadcasts of the other or neither
  does, for pilots and controllers in every combination; and a client in range is one whose
  nearest valid point is within the range that applies.
\<close>

theorem BroadcastToClientInRange_mutual:
  "(BroadcastToClientInRange a (Some b) \<longleftrightarrow> BroadcastToClientInRange b (Some a)) \<and>
   (BroadcastToClientInRange a (Some b) \<longleftrightarrow>
      fle (FindNearestDistance (c_position a) (c_position b)) (range_threshold b a))"
  by (simp add: BroadcastToClientInRange_def FindNearestDistance_sym [of "c_position b"] range_threshold_sym [of b])

section \<open>Invariant\<close>

text \<open>
  A client has four points, a running count of position updates and a callsign of its own
  history; no update changes the callsign, the socket or the kind of the client.
\<close>

definition client_ok :: "client \<Rightarrow> bool" where
  "client_ok c \<longleftrightarrow> length (c_position c) = 4 \<and> trigger_ok (c_pathTrigger c) \<and>
     h_Callsign (c_history c) = c_callsign c \<and> h_IsAtc (c_history c) = c_isAtc c"

definition same_identity :: "client \<Rightarrow> client \<Rightarrow> bool" where
  "same_identity c c' \<longleftrightarrow> c_callsign c' = c_callsign c \<and> c_socket c' = c_socket c \<and>
     c_isAtc c' = c_isAtc c \<and> c_rating c' = c_rating c \<and> c_disconnect c' = c_disconnect c \<and>
     c_reconnectTimer c' = c_reconnectTimer c"

lemma client_ok_new: "client_ok (new_client now n s u fp cs r p rn atc)"
  by (simp add: client_ok_def new_client_def NewHistory_def)

lemma SetPosition_ok:
  assumes "client_ok c" and "0 \<le> i"
  shows "\<exists>c' e. SetPosition i lat lon c = Inr (c', e) \<and> client_ok c' \<and> same_identity c c'"
  using assms by (auto simp: SetPosition_def client_ok_def same_identity_def)

lemma UpdatePilotPos_ok:
  assumes "client_ok c"
  shows "\<exists>c'. UpdatePilotPos t lat lon alt gs pbh c = Inr c' \<and> client_ok c' \<and> same_identity c c'"
  using SetPosition_ok [OF assms, of 0 lat lon]
  by (auto simp: UpdatePilotPos_def client_ok_def same_identity_def)

lemma UpdateAtcPos_ok:
  assumes "client_ok c"
  shows "\<exists>c'. UpdateAtcPos f fac vr lat lon c = Inr c' \<and> client_ok c' \<and> same_identity c c' \<and>
           c_facility c' = fac"
  using SetPosition_ok [OF assms, of 0 lat lon]
  by (auto simp: UpdateAtcPos_def client_ok_def same_identity_def)

lemma UpdateAtcVisPoint_ok:
  assumes "client_ok c"
  shows "\<exists>c' e. UpdateAtcVisPoint i lat lon c = Inr (c', e) \<and> client_ok c' \<and> same_identity c c'"
  using assms SetPosition_ok [OF assms, of "i + 1" lat lon]
  by (auto simp: UpdateAtcVisPoint_def same_identity_def)

lemma tickPath_ok:
  assumes "client_ok c"
  shows "\<exists>c'. tickPath c = Inr c' \<and> client_ok c' \<and> same_identity c c'"
  using assms trigger_ok_Tick [of "c_pathTrigger c"]
  by (auto simp: tickPath_def Let_def recordPathPoint_def client_ok_def same_identity_def split: prod.splits)

lemma small_updates_ok:
  "client_ok c \<Longrightarrow> client_ok (ClearAtcAtisInfo c) \<and> client_ok (AddAtcAtisInfo s c) \<and>
     client_ok (SetUser u c) \<and> client_ok (SetSimType t c)"
  by (simp add: client_ok_def ClearAtcAtisInfo_def AddAtcAtisInfo_def SetUser_def SetSimType_def)

text \<open>
  A controller has four points: its position and three visibility points. Setting
  visibility point \<open>i\<close> (0, 1 or 2) stores the coordinates at index \<open>i + 1\<close> and leaves the other
  points alone; any other index is refused and changes nothing.
\<close>

theorem UpdateAtcVisPoint_spec:
  assumes "length (c_position c) = 4"
  shows "case UpdateAtcVisPoint i lat lon c of
           Inl _ \<Rightarrow> False
         | Inr (c', None) \<Rightarrow> 0 \<le> i \<and> i \<le> 2 \<and>
             (\<forall>j < 4. c_position c' ! j = (if j = Suc (nat i) then \<lparr>Latitude = lat, Longitude = lon\<rparr>
                                          else c_position c ! j))
         | Inr (c', Some _) \<Rightarrow> (i < 0 \<or> 2 < i) \<and> c' = c"
proof (cases "i < 0 \<or> i > 2")
  case False
  then have "nat (i + 1) = Suc (nat i)" "Suc (nat i) < 4" by auto
  with False assms show ?thesis
    by (auto simp: UpdateAtcVisPoint_def SetPosition_def nth_list_update)
qed (simp add: UpdateAtcVisPoint_def)

theorem UpdateAtcVisPoint_spec_witness:
  "UpdateAtcVisPoint 3 (Fin 1) (Fin 2) (new_client 0 1 0 zero_User None ''A'' 1 9 '''' True) =
     Inr (new_client 0 1 0 zero_User None ''A'' 1 9 '''' True, Some ''visIndex out of range [0,2]'')"
  using UpdateAtcVisPoint_spec [of "new_client 0 1 0 zero_User None ''A'' 1 9 '''' True" 3 "Fin 1" "Fin 2"]
  by (simp add: new_client_def UpdateAtcVisPoint_def)

end
