(* ===== verification/World.thy ===== *)
theory World
  imports Client
begin

text \<open>
  The shared state of the FSD server and the operations on it: connections and clients on the
  heap, the registry of the client manager, the tasks that run later (goroutines and timers),
  the database and the clock (\<open>connection_handler.go\<close>, \<open>client.go\<close>, \<open>client_manager.go\<close> of
  \<open>internal/fsd_server/packet\<close>).

  A Go pointer to a connection or a client is its number. Every operation is one atomic step:
  what the locks of the code order, the model orders the same way, and a goroutine or a timer
  is a task that a later step runs.
\<close>

section \<open>State\<close>

record session =
  s_conn_open :: bool
  s_out :: "string list"
  s_connId :: string
  s_callsign :: string
  s_client :: "nat option"
  s_user :: "User option"
  s_disconnected :: bool
  s_reading :: bool

datatype task =
    TBroadcast string "nat option" "BroadcastFilter option"
  | TTick nat
  | TDelete nat
  | TDeleteClient string
  | TCloseConn nat

record 'db world =
  w_clients :: "(string \<times> nat) list"
  w_shuttingDown :: bool
  w_client :: "nat \<Rightarrow> client"
  w_nclient :: nat
  w_session :: "nat \<Rightarrow> session"
  w_nsession :: nat
  w_tasks :: "(nat \<times> task) list"
  w_ntask :: nat
  w_db :: 'db
  w_now :: int

text \<open>What the operations read and never change: the configuration, the database interface.\<close>

record 'db env =
  e_api :: "'db api"
  e_SimulatorServer :: bool
  e_Motd :: "string list"
  e_PosUpdatePoints :: int
  e_RatingFacilityMap :: rating_map

definition upd_client :: "nat \<Rightarrow> (client \<Rightarrow> client) \<Rightarrow> 'db world \<Rightarrow> 'db world" where
  "upd_client cid f w = w\<lparr>w_client := (w_client w)(cid := f (w_client w cid))\<rparr>"

definition upd_session :: "nat \<Rightarrow> (session \<Rightarrow> session) \<Rightarrow> 'db world \<Rightarrow> 'db world" where
  "upd_session sid f w = w\<lparr>w_session := (w_session w)(sid := f (w_session w sid))\<rparr>"

text \<open>\<open>go f()\<close> and \<open>time.AfterFunc\<close> add a task; \<open>Timer.Stop\<close> removes one that has not run.\<close>

definition spawn :: "task \<Rightarrow> 'db world \<Rightarrow> 'db world" where
  "spawn t w = w\<lparr>w_tasks := w_tasks w @ [(w_ntask w, t)], w_ntask := Suc (w_ntask w)\<rparr>"

definition stop_timer :: "nat option \<Rightarrow> 'db world \<Rightarrow> 'db world" where
  "stop_timer t w =
     (case t of None \<Rightarrow> w | Some i \<Rightarrow> w\<lparr>w_tasks := filter (\<lambda>(j, _). j \<noteq> i) (w_tasks w)\<rparr>)"

text \<open>Writing to a closed connection fails, and the error is only logged.\<close>

definition conn_write :: "nat \<Rightarrow> string \<Rightarrow> 'db world \<Rightarrow> 'db world" where
  "conn_write sid line w =
     (if s_conn_open (w_session w sid) then upd_session sid (\<lambda>s. s\<lparr>s_out := s_out s @ [line]\<rparr>) w else w)"

definition conn_close :: "nat \<Rightarrow> 'db world \<Rightarrow> 'db world" where
  "conn_close sid w = upd_session sid (\<lambda>s. s\<lparr>s_conn_open := False\<rparr>) w"

definition NewSession :: "string \<Rightarrow> 'db world \<Rightarrow> nat \<times> 'db world" where
  "NewSession remoteAddr w =
     (let sid = w_nsession w in
      (sid, w\<lparr>w_nsession := Suc sid,
              w_session := (w_session w)(sid := \<lparr>s_conn_open = True, s_out = [], s_connId = remoteAddr,
                s_callsign = ''unknown'', s_client = None, s_user = None, s_disconnected = False,
                s_reading = True\<rparr>)\<rparr>))"

definition SetCallsign :: "nat \<Rightarrow> string \<Rightarrow> 'db world \<Rightarrow> 'db world" where
  "SetCallsign sid callsign w = upd_session sid (\<lambda>s. s\<lparr>s_callsign := callsign\<rparr>) w"

definition SetDisconnected :: "nat \<Rightarrow> bool \<Rightarrow> 'db world \<Rightarrow> 'db world" where
  "SetDisconnected sid b w = upd_session sid (\<lambda>s. s\<lparr>s_disconnected := b\<rparr>) w"

section \<open>Sending to one client\<close>

text \<open>\<open>SendLine\<close> and \<open>SendLineWithoutLog\<close> differ in what they log.\<close>

definition SendLine :: "nat \<Rightarrow> string \<Rightarrow> 'db world \<Rightarrow> 'db world" where
  "SendLine cid line w =
     (let c = w_client w cid in
      if c_disconnect c then w
      else let line' = (if \<not> has_suffix line splitSign then line @ splitSign else line)
           in conn_write (c_socket c) line' w)"

abbreviation (input) SendLineWithoutLog :: "nat \<Rightarrow> string \<Rightarrow> 'db world \<Rightarrow> 'db world" where
  "SendLineWithoutLog \<equiv> SendLine"

definition motd_bytes :: "string list \<Rightarrow> string \<Rightarrow> string option" where
  "motd_bytes Motd callsign =
     (let buffer = concat (map (\<lambda>message. makePacket Message [FSDServerName, callsign, message]) Motd)
      in if buffer = [] then None else Some buffer)"

definition SendMotd :: "'db env \<Rightarrow> nat \<Rightarrow> 'db world \<Rightarrow> 'db world" where
  "SendMotd E cid w =
     (case c_motdBytes (w_client w cid) of
        Some m \<Rightarrow> SendLine cid m w
      | None \<Rightarrow>
          let m = motd_bytes (e_Motd E) (c_callsign (w_client w cid));
              w1 = upd_client cid (\<lambda>c. c\<lparr>c_motdBytes := m\<rparr>) w
          in SendLine cid (case m of None \<Rightarrow> [] | Some b \<Rightarrow> b) w1)"

definition error_packet :: "string \<Rightarrow> string \<Rightarrow> 'e Result \<Rightarrow> string" where
  "error_packet server callsign result =
     makePacket ErrorCommand [server, callsign, fmt_0d 3 (ClientError_Index (Errno result)), Env result,
                              ClientError_String (Errno result)]"

text \<open>
  An error to a registered client carries the text \<open>global.FSDServerName\<close>, not the name it
  stands for; the error on a connection without a client carries the name.
\<close>

definition client_SendError :: "nat \<Rightarrow> 'e Result \<Rightarrow> 'db world \<Rightarrow> 'db world" where
  "client_SendError cid result w =
     (if Success result then w
      else
        let callsign = c_callsign (w_client w cid);
            w1 = SendLine cid (error_packet ''global.FSDServerName'' callsign result) w
        in if Fatal result then
             spawn (TDeleteClient callsign)
               (upd_client cid (\<lambda>c. c\<lparr>c_disconnect := True\<rparr>)
                 (SetDisconnected (c_socket (w_client w cid)) True w1))
           else w1)"

definition session_SendError :: "nat \<Rightarrow> 'e Result \<Rightarrow> 'db world \<Rightarrow> 'db world" where
  "session_SendError sid result w =
     (if Success result then w
      else case s_client (w_session w sid) of
             Some cid \<Rightarrow> client_SendError cid result w
           | None \<Rightarrow>
               let w1 = conn_write sid (error_packet FSDServerName (s_callsign (w_session w sid)) result) w
               in if Fatal result then spawn (TCloseConn sid) (SetDisconnected sid True w1) else w1)"

section \<open>The registry\<close>

definition AddClient :: "nat \<Rightarrow> 'db world \<Rightarrow> 'db world \<times> string option" where
  "AddClient cid w =
     (if w_shuttingDown w then (w, Some ''Server shutting down'')
      else
        let callsign = c_callsign (w_client w cid)
        in case map_of (w_clients w) callsign of
             Some _ \<Rightarrow> (w, Some (''client already registered: '' @ callsign))
           | None \<Rightarrow> (w\<lparr>w_clients := AList.update callsign cid (w_clients w)\<rparr>, None))"

definition GetClient :: "string \<Rightarrow> 'db world \<Rightarrow> nat option" where
  "GetClient callsign w = (if w_shuttingDown w then None else map_of (w_clients w) callsign)"

definition DeleteClient :: "string \<Rightarrow> 'db world \<Rightarrow> 'db world \<times> bool" where
  "DeleteClient callsign w =
     (case map_of (w_clients w) callsign of
        None \<Rightarrow> (w, False)
      | Some _ \<Rightarrow> (w\<lparr>w_clients := AList.delete callsign (w_clients w)\<rparr>, True))"

definition GetClientSnapshot :: "'db world \<Rightarrow> nat list" where
  "GetClientSnapshot w = map snd (w_clients w)"

datatype send_error = ServerShuttingDown | ErrCallsignNotFound

definition SendMessageTo :: "string \<Rightarrow> string \<Rightarrow> 'db world \<Rightarrow> 'db world \<times> send_error option" where
  "SendMessageTo callsign message w =
     (if w_shuttingDown w then (w, Some ServerShuttingDown)
      else case GetClient callsign w of
             None \<Rightarrow> (w, Some ErrCallsignNotFound)
           | Some cid \<Rightarrow> (SendLine cid message w, None))"

definition SendRawMessageTo ::
    "int \<Rightarrow> string \<Rightarrow> string \<Rightarrow> 'db world \<Rightarrow> 'db world \<times> send_error option" where
  "SendRawMessageTo from to message w =
     (case GetClient to w of
        None \<Rightarrow> (w, Some ErrCallsignNotFound)
      | Some cid \<Rightarrow>
          (SendLine cid (makePacket Message [''('' @ fmt_0d 4 from @ '')'', to, message]) w, None))"

text \<open>
  A broadcast writes the message, with a CRLF of its own, to every registered client other than
  the sender that is connected and that the filter lets through. The code sends to them
  concurrently and waits: the model sends in the order of the registry.
\<close>

definition broadcast_target :: "'db world \<Rightarrow> nat option \<Rightarrow> BroadcastFilter option \<Rightarrow> nat \<Rightarrow> bool" where
  "broadcast_target w fromClient filt cid \<longleftrightarrow>
     \<not> (fromClient = Some cid \<or> c_disconnect (w_client w cid)) \<and>
     (case filt of None \<Rightarrow> True | Some f \<Rightarrow> f (w_client w cid) (map_option (w_client w) fromClient))"

definition BroadcastMessage ::
    "string \<Rightarrow> nat option \<Rightarrow> BroadcastFilter option \<Rightarrow> 'db world \<Rightarrow> 'db world" where
  "BroadcastMessage message fromClient filt w =
     (if w_shuttingDown w \<or> length message = 0 then w
      else
        let clients = GetClientSnapshot w; fullMsg = message @ splitSign
        in fold (\<lambda>cid w'. if broadcast_target w fromClient filt cid
                          then SendLineWithoutLog cid fullMsg w' else w') clients w)"

text \<open>The heartbeat broadcasts a random wind; \<open>n\<close> is the random number, not negative.\<close>

definition SendHeartBeat :: "nat \<Rightarrow> 'db world \<Rightarrow> 'db world" where
  "SendHeartBeat n w =
     (if w_shuttingDown w then w
      else BroadcastMessage
             (makePacket WindDelta [''global.FSDServerName'', AllClient, itoa (int (n mod 11) - 5),
                                    itoa (int (n mod 21) - 10)])
             None (Some BroadcastToAll) w)"

section \<open>The life of a client\<close>

definition NewClient ::
    "'db env \<Rightarrow> string \<Rightarrow> Rating \<Rightarrow> int \<Rightarrow> string \<Rightarrow> nat \<Rightarrow> bool \<Rightarrow> 'db world \<Rightarrow> (nat \<times> 'db world) go" where
  "NewClient E callsign rating protocol realName session isAtc w =
     (let w1 = SetCallsign session callsign w in
      deref (s_user (w_session w1 session)) (\<lambda>user.
        let flightPlan =
              (if \<not> isAtc \<and> \<not> e_SimulatorServer E then
                 (case GetFlightPlanByCid (e_api E) (e_SimulatorServer E) (u_Cid user) (w_db w1) of
                    Inr p \<Rightarrow> Some p | Inl err \<Rightarrow> None)
               else None);
            cid = w_nclient w1;
            c = new_client (w_now w1) (e_PosUpdatePoints E) session user flightPlan callsign rating
                  protocol realName isAtc
        in Inr (cid, w1\<lparr>w_client := (w_client w1)(cid := c), w_nclient := Suc cid\<rparr>)))"

text \<open>
  What \<open>Delete\<close> does under the lock of the client, after it has found the client disconnected. The
  check comes before the lock; here both are one step, in theory \<open>Interleave\<close> they are two.
\<close>

definition delete_locked :: "'db env \<Rightarrow> nat \<Rightarrow> 'db world \<Rightarrow> 'db world" where
  "delete_locked E cid w =
     (let A = e_api E;
          w1 = upd_client cid (\<lambda>c. c\<lparr>c_reconnectTimer := None\<rparr>)
                 (stop_timer (c_reconnectTimer (w_client w cid)) w);
          c = w_client w1 cid;
          w2 = (if c_isAtc c \<or> \<not> e_SimulatorServer E then
                  (let (h, db, err) = EndRecordAndSaveHistory A (w_now w1) (c_history c) (w_db w1)
                   in upd_client cid (\<lambda>c. c\<lparr>c_history := h\<rparr>) (w1\<lparr>w_db := db\<rparr>))
                else w1);
          online = h_OnlineTime (c_history (w_client w2 cid));
          w3 = (if c_isAtc c then w2\<lparr>w_db := fst (UpdateUserAtcTime A (c_user c) online (w_db w2))\<rparr>
                else if \<not> e_SimulatorServer E
                then w2\<lparr>w_db := fst (UpdateUserPilotTime A (c_user c) online (w_db w2))\<rparr>
                else w2)
      in fst (DeleteClient (c_callsign c) w3))"

definition client_Delete :: "'db env \<Rightarrow> nat \<Rightarrow> 'db world \<Rightarrow> 'db world" where
  "client_Delete E cid w = (if \<not> c_disconnect (w_client w cid) then w else delete_locked E cid w)"

definition Reconnect :: "nat \<Rightarrow> nat \<Rightarrow> 'db world \<Rightarrow> 'db world \<times> bool" where
  "Reconnect cid socket w =
     (if \<not> c_disconnect (w_client w cid) then (w, False)
      else
        let w1 = stop_timer (c_reconnectTimer (w_client w cid)) w;
            w2 = upd_client cid (\<lambda>c. (ClearAtcAtisInfo (c\<lparr>c_reconnectTimer := None\<rparr>))
                   \<lparr>c_disconnect := False, c_socket := socket\<rparr>) w1
        in (SetCallsign socket (c_callsign (w_client w2 cid)) w2, True))"

text \<open>
  The first disconnection closes the connection; it deletes the client at once or leaves it
  for the reconnection window. Slicing a nil slice gives nil, slicing another one an empty one.
\<close>

definition mark_locked :: "nat \<Rightarrow> bool \<Rightarrow> 'db world \<Rightarrow> 'db world" where
  "mark_locked cid immediate w =
     (let c = w_client w cid in
      if c_disconnect c then w
      else
        let w1 = upd_client cid (\<lambda>c. c\<lparr>c_disconnect := True\<rparr>) w;
            w2 = conn_close (c_socket c) w1;
            w3 = stop_timer (c_reconnectTimer c) w2
        in if immediate then w3
           else spawn (TDelete cid)
                  (upd_client cid (\<lambda>c. c\<lparr>c_motdBytes := map_option (\<lambda>_. []) (c_motdBytes c),
                                         c_reconnectTimer := Some (w_ntask w3)\<rparr>) w3))"

definition MarkedDisconnect :: "'db env \<Rightarrow> nat \<Rightarrow> bool \<Rightarrow> 'db world \<Rightarrow> 'db world" where
  "MarkedDisconnect E cid immediate w =
     (let w' = mark_locked cid immediate w in if immediate then client_Delete E cid w' else w')"

definition client_UpsertFlightPlan ::
    "'db env \<Rightarrow> nat \<Rightarrow> string list \<Rightarrow> 'db world \<Rightarrow> ('db world \<times> op_error option) go" where
  "client_UpsertFlightPlan E cid flightPlanData w =
     (let c = w_client w cid; A = e_api E; sim = e_SimulatorServer E in
      case c_flightPlan c of
        None \<Rightarrow>
          go_bind (UpsertFlightPlan A sim (c_user c) (c_callsign c) flightPlanData (w_db w))
            (\<lambda>(flightPlan, db, err).
               let w1 = w\<lparr>w_db := db\<rparr> in
               if err \<noteq> None then Inr (w1, err)
               else Inr (upd_client cid (\<lambda>c. c\<lparr>c_flightPlan := flightPlan\<rparr>) w1, None))
      | Some p \<Rightarrow>
          if sim then Inr (w, None)
          else
            go_bind (if fp_Locked p then
                       index_at flightPlanData 5 (\<lambda>departureAirport.
                       index_at flightPlanData 9 (\<lambda>arrivalAirport.
                         Inr (if fp_DepartureAirport p \<noteq> departureAirport \<or> fp_ArrivalAirport p \<noteq> arrivalAirport
                              then p\<lparr>fp_Locked := False\<rparr> else p)))
                     else Inr p)
              (\<lambda>p. go_bind (UpdateFlightPlan A sim p flightPlanData False (w_db w))
                (\<lambda>(q, db, err). Inr (upd_client cid (\<lambda>c. c\<lparr>c_flightPlan := Some q\<rparr>) (w\<lparr>w_db := db\<rparr>), err))))"

section \<open>Shutting down\<close>

definition disconnectClients :: "'db env \<Rightarrow> nat list \<Rightarrow> 'db world \<Rightarrow> 'db world" where
  "disconnectClients E clients w = fold (\<lambda>cid. MarkedDisconnect E cid True) clients w"

definition Shutdown :: "'db env \<Rightarrow> 'db world \<Rightarrow> 'db world \<times> string option" where
  "Shutdown E w =
     (if w_shuttingDown w then (w, Some ''shutting down already in progress'')
      else let w1 = w\<lparr>w_shuttingDown := True\<rparr>
           in (disconnectClients E (GetClientSnapshot w1) w1, None))"

end
