(* ===== verification/Handlers.thy ===== *)
theory Handlers
  imports World
begin

text \<open>
  The command handlers of a connection (\<open>internal/fsd_server/packet/command_handler.go\<close>) and the
  life of a connection around them (\<open>connection_handler.go\<close>). A handler returns the new state and
  the result, nil as None, or the panic that ends the process.
\<close>

type_synonym reply = "op_error Result option"

definition not_registered :: "op_error Result" where
  "not_registered = ResultError Syntax False '''' (Some (ErrText ''client not register''))"

definition checkPacketLength :: "string \<Rightarrow> string list \<Rightarrow> CommandRequirement \<Rightarrow> reply \<times> bool" where
  "checkPacketLength callsign data requirement =
     (let len = length data in
      if len < RequireLength requirement
      then (Some (ResultError Syntax (ReqFatal requirement) callsign
              (Some (ErrText (''datapack length too short, require '' @ itoa (int (RequireLength requirement))
                              @ '' but got '' @ itoa (int len))))), False)
      else (None, True))"

section \<open>Login\<close>

definition verifyUserInfo ::
    "'db env \<Rightarrow> nat \<Rightarrow> string \<Rightarrow> int \<Rightarrow> UserId \<Rightarrow> string \<Rightarrow> 'db world \<Rightarrow> 'db world \<times> reply" where
  "verifyUserInfo E sid callsign protocol cid password w =
     (if \<not> callsignValid callsign then (w, Some (ResultError CallsignInvalid True callsign None))
      else if protocol \<noteq> 9 then (w, Some (ResultError InvalidProtocolVision True callsign None))
      else
        let found = GetClient callsign w;
            (w1, ok) = (case found of
                          None \<Rightarrow> (w, True)
                        | Some client \<Rightarrow>
                            let (w', reconnected) = Reconnect client sid w
                            in if reconnected
                               then (upd_session sid (\<lambda>s. s\<lparr>s_client := Some client\<rparr>) w', True)
                               else (w', False))
        in if \<not> ok then (w1, Some (ResultError CallsignInUse True callsign None))
           else
             let (user, err) = GetUser (e_api E) cid (w_db w1)
             in if err \<noteq> None
                then (w1, Some (ResultError AuthFail True callsign (map_option ErrOp err)))
                else if u_Rating user = Ban
                then (w1, Some (ResultError UserBaned True callsign None))
                else if \<not> VerifyUserPassword (e_api E) user password
                then (w1, Some (ResultError AuthFail True callsign None))
                else
                  let w2 = (case found of None \<Rightarrow> w1 | Some client \<Rightarrow> upd_client client (SetUser user) w1)
                  in (upd_session sid (\<lambda>s. s\<lparr>s_user := Some user\<rparr>) w2, None))"

definition handleAddAtc ::
    "'db env \<Rightarrow> nat \<Rightarrow> string list \<Rightarrow> string \<Rightarrow> 'db world \<Rightarrow> ('db world \<times> reply) go" where
  "handleAddAtc E sid data rawLine w =
     index_at data 0 (\<lambda>callsign. index_at data 3 (\<lambda>userId. index_at data 4 (\<lambda>password.
     index_at data 6 (\<lambda>d6.
       let (w1, result) = verifyUserInfo E sid callsign (StrToInt d6 0) (GetUserId userId) password w in
       if result \<noteq> None then Inr (w1, result)
       else
         index_at data 5 (\<lambda>d5. deref (s_user (w_session w1 sid)) (\<lambda>user.
           let reqRating = StrToInt d5 0 in
           if reqRating > u_Rating user
           then Inr (w1, Some (ResultError RequestLevelTooHigh True callsign None))
           else
             index_at data 2 (\<lambda>realName. index_at data 9 (\<lambda>d9. index_at data 10 (\<lambda>d10.
               go_bind
                 (case s_client (w_session w1 sid) of
                    Some cid \<Rightarrow> Inr (cid, w1)
                  | None \<Rightarrow>
                      go_bind (NewClient E callsign reqRating (StrToInt d6 0) realName sid True w1)
                        (\<lambda>(cid, w2).
                           let w3 = upd_session sid (\<lambda>s. s\<lparr>s_client := Some cid\<rparr>) w2 in
                           go_bind (SetPosition 0 (StrToFloat d9 0) (StrToFloat d10 0) (w_client w3 cid))
                             (\<lambda>(c, _). Inr (cid, fst (AddClient cid (upd_client cid (\<lambda>_. c) w3))))))
                 (\<lambda>(cid, w4).
                    let w5 = SendLine cid (makePacket ClientQuery [FSDServerName, callsign, ''ATIS'']) w4;
                        w6 = spawn (TBroadcast rawLine (Some cid) (Some BroadcastToClientInRange)) w5
                    in Inr (SendMotd E cid w6, Some ResultSuccess)))))))))))"

definition web_plan_notice :: "'db env \<Rightarrow> string \<Rightarrow> FlightPlan \<Rightarrow> string" where
  "web_plan_notice E callsign p =
     ''Seems you are connect with callsign('' @ callsign @
     ''), but we found a flightplan submit by web at '' @ time_string (e_api E) (fp_UpdatedAt p) @
     '' which has callsign('' @ fp_Callsign p @ ''), please check it.''"

definition handleAddPilot ::
    "'db env \<Rightarrow> nat \<Rightarrow> string list \<Rightarrow> string \<Rightarrow> 'db world \<Rightarrow> ('db world \<times> reply) go" where
  "handleAddPilot E sid data rawLine w =
     index_at data 0 (\<lambda>callsign. index_at data 2 (\<lambda>userId. index_at data 3 (\<lambda>password.
     index_at data 5 (\<lambda>d5.
       let (w1, result) = verifyUserInfo E sid callsign (StrToInt d5 0) (GetUserId userId) password w in
       if result \<noteq> None then Inr (w1, result)
       else
         index_at data 4 (\<lambda>d4.
           let reqRating = StrToInt d4 0 - 1 in
           if reqRating \<noteq> Normal \<or> \<not> CheckFacility (rating_facility (e_RatingFacilityMap E) reqRating) Pilot
           then Inr (w1, Some (ResultError RequestLevelTooHigh True callsign None))
           else
             index_at data 6 (\<lambda>d6. index_at data 7 (\<lambda>realName.
               go_bind
                 (case s_client (w_session w1 sid) of
                    Some cid \<Rightarrow> Inr (cid, w1)
                  | None \<Rightarrow>
                      go_bind (NewClient E callsign reqRating (StrToInt d5 0) realName sid False w1)
                        (\<lambda>(cid, w2).
                           let w3 = upd_session sid (\<lambda>s. s\<lparr>s_client := Some cid\<rparr>) w2;
                               w4 = upd_client cid (SetSimType (StrToInt d6 0)) w3
                           in Inr (cid, fst (AddClient cid w4))))
                 (\<lambda>(cid, w5).
                    let w6 = spawn (TBroadcast rawLine (Some cid) (Some BroadcastToClientInRange)) w5;
                        w7 = SendMotd E cid w6;
                        w8 = (if e_SimulatorServer E then w7
                              else case c_flightPlan (w_client w7 cid) of
                                     None \<Rightarrow> w7
                                   | Some p \<Rightarrow>
                                       if fp_FromWeb p \<and> callsign \<noteq> fp_Callsign p
                                       then SendLine cid (makePacket Message
                                              [''FPlanManager'', callsign, web_plan_notice E callsign p]) w7
                                       else w7)
                    in Inr (w8, Some ResultSuccess))))))))) "

section \<open>Positions\<close>

definition handleAtcPosUpdate ::
    "'db env \<Rightarrow> nat \<Rightarrow> string list \<Rightarrow> string \<Rightarrow> 'db world \<Rightarrow> ('db world \<times> reply) go" where
  "handleAtcPosUpdate E sid data rawLine w =
     index_at data 0 (\<lambda>callsign. index_at data 2 (\<lambda>d2.
       let shift = StrToInt d2 0 in
       if shift < 0 then Inl NegativeShift
       else
         let facility = push_bit (nat shift) (1 :: Facility) in
         index_at data 4 (\<lambda>d4.
           let rating = StrToInt d4 0 in
           if \<not> CheckRatingFacility (e_RatingFacilityMap E) rating facility
           then Inr (w, Some (ResultError RequestLevelTooHigh True callsign None))
           else
             index_at data 1 (\<lambda>d1. index_at data 3 (\<lambda>d3. index_at data 5 (\<lambda>d5. index_at data 6 (\<lambda>d6.
               case s_client (w_session w sid) of
                 None \<Rightarrow> Inr (w, Some not_registered)
               | Some cid \<Rightarrow>
                   let w1 = spawn (TBroadcast rawLine (Some cid) (Some BroadcastToClientInRange)) w in
                   go_bind (UpdateAtcPos (StrToInt d1 0) facility (StrToFloat d3 0) (StrToFloat d5 0)
                              (StrToFloat d6 0) (w_client w1 cid))
                     (\<lambda>c. Inr (upd_client cid (\<lambda>_. c) w1, Some ResultSuccess)))))))))"

definition handlePilotPosUpdate ::
    "'db env \<Rightarrow> nat \<Rightarrow> string list \<Rightarrow> string \<Rightarrow> 'db world \<Rightarrow> ('db world \<times> reply) go" where
  "handlePilotPosUpdate E sid data rawLine w =
     index_at data 2 (\<lambda>d2. index_at data 4 (\<lambda>d4. index_at data 5 (\<lambda>d5. index_at data 6 (\<lambda>d6.
     index_at data 7 (\<lambda>d7. index_at data 8 (\<lambda>d8.
       case s_client (w_session w sid) of
         None \<Rightarrow> Inr (w, Some not_registered)
       | Some cid \<Rightarrow>
           let w1 = spawn (TBroadcast rawLine (Some cid) (Some BroadcastToClientInRange)) w in
           go_bind (UpdatePilotPos (StrToInt d2 0) (StrToFloat d4 0) (StrToFloat d5 0) (StrToInt d6 0)
                      (StrToInt d7 0) (word_of_int (StrToInt d8 0)) (w_client w1 cid))
             (\<lambda>c. Inr (spawn (TTick cid) (upd_client cid (\<lambda>_. c) w1), Some ResultSuccess))))))))"

definition handleAtcVisPointUpdate ::
    "'db env \<Rightarrow> nat \<Rightarrow> string list \<Rightarrow> string \<Rightarrow> 'db world \<Rightarrow> ('db world \<times> reply) go" where
  "handleAtcVisPointUpdate E sid data rawLine w =
     index_at data 1 (\<lambda>d1. index_at data 2 (\<lambda>d2. index_at data 3 (\<lambda>d3.
       case s_client (w_session w sid) of
         None \<Rightarrow> Inr (w, Some not_registered)
       | Some cid \<Rightarrow>
           go_bind (UpdateAtcVisPoint (StrToInt d1 0) (StrToFloat d2 0) (StrToFloat d3 0) (w_client w cid))
             (\<lambda>(c, _). Inr (upd_client cid (\<lambda>_. c) w, Some ResultSuccess)))))"

section \<open>Messages\<close>

definition sendFrequencyMessage ::
    "nat \<Rightarrow> string \<Rightarrow> string \<Rightarrow> 'db world \<Rightarrow> ('db world \<times> reply) go" where
  "sendFrequencyMessage sid targetStation rawLine w =
     (case s_client (w_session w sid) of
        None \<Rightarrow> Inr (w, Some not_registered)
      | Some cid \<Rightarrow>
          if targetStation = [] then Inl IndexOutOfRange
          else
            let frequency = StrToInt (tl targetStation) (- 1) in
            if frequency = - 1
            then Inr (w, Some (ResultError Syntax False (c_callsign (w_client w cid))
                        (Some (ErrText (''illegal frequency '' @ targetStation)))))
            else if frequencyValid frequency
            then Inr (spawn (TBroadcast rawLine (Some cid) (Some BroadcastToClientInRange)) w, None)
            else Inr (spawn (TBroadcast rawLine (Some cid) (Some (CombineBroadcastFilter
                        [Some BroadcastToAtc, Some BroadcastToClientInRange]))) w, None))"

text \<open>The end of three handlers: a frequency gets a broadcast, anything else one client.\<close>

definition forward_to ::
    "nat \<Rightarrow> string \<Rightarrow> string \<Rightarrow> 'db world \<Rightarrow> ('db world \<times> reply) go" where
  "forward_to sid targetStation rawLine w =
     (if has_prefix targetStation ''@'' then
        go_bind (sendFrequencyMessage sid targetStation rawLine w) (\<lambda>(w1, result).
          if result \<noteq> None then Inr (w1, result) else Inr (w1, Some ResultSuccess))
      else Inr (fst (SendMessageTo targetStation rawLine w), Some ResultSuccess))"

definition handleMessage ::
    "'db env \<Rightarrow> nat \<Rightarrow> string list \<Rightarrow> string \<Rightarrow> 'db world \<Rightarrow> ('db world \<times> reply) go" where
  "handleMessage E sid data rawLine w =
     index_at data 1 (\<lambda>targetStation.
       if \<not> has_prefix targetStation ''@'' \<and> has_prefix targetStation ''*'' then
         Inr (if targetStation = AllSup
              then spawn (TBroadcast rawLine (s_client (w_session w sid)) (Some BroadcastToSup)) w
              else w, Some ResultSuccess)
       else forward_to sid targetStation rawLine w)"

definition altitude_text :: "int \<Rightarrow> string" where
  "altitude_text cruiseAltitude = ''FL'' @ fmt_0d 3 (go_div cruiseAltitude 100)"

definition handleClientQuery ::
    "'db env \<Rightarrow> nat \<Rightarrow> string list \<Rightarrow> string \<Rightarrow> 'db world \<Rightarrow> ('db world \<times> reply) go" where
  "handleClientQuery E sid data rawLine w =
     (case s_client (w_session w sid) of
        None \<Rightarrow> Inr (w, Some not_registered)
      | Some cid \<Rightarrow>
          index_at data 1 (\<lambda>targetStation.
            if targetStation = FSDServerName then
              index_at data 2 (\<lambda>subQuery.
                if subQuery = ''FP'' then
                  index_at data 3 (\<lambda>targetCallsign.
                    case Option.bind (GetClient targetCallsign w) (\<lambda>t. c_flightPlan (w_client w t)) of
                      None \<Rightarrow> Inr (w, Some (ResultError NoFlightPlan False (c_callsign (w_client w cid)) None))
                    | Some p \<Rightarrow>
                        index_at data 0 (\<lambda>d0.
                          forward_to sid targetStation rawLine (SendLine cid (ToString p d0) w)))
                else forward_to sid targetStation rawLine w)
            else if has_prefix targetStation ''@'' \<and> \<not> e_SimulatorServer E \<and> targetStation = SpecialFrequency then
              if \<not> client_CheckFacility AllowAtcFacility (w_client w cid) then Inr (w, Some ResultSuccess)
              else
                index_at data 2 (\<lambda>subQuery.
                  if subQuery = ''FA'' \<and> length data \<ge> 5 then
                    index_at data 3 (\<lambda>targetCallsign.
                      case GetClient targetCallsign w of
                        None \<Rightarrow> Inr (w, Some ResultSuccess)
                      | Some t \<Rightarrow>
                          index_at data 4 (\<lambda>d4. deref (c_flightPlan (w_client w t)) (\<lambda>p.
                            let (p', db, err) = UpdateCruiseAltitude (e_api E) (e_SimulatorServer E) p
                                                  (altitude_text (StrToInt d4 0)) (w_db w);
                                w1 = upd_client t (\<lambda>c. c\<lparr>c_flightPlan := Some p'\<rparr>) (w\<lparr>w_db := db\<rparr>)
                            in if err \<noteq> None then Inr (w1, Some ResultSuccess)
                               else forward_to sid targetStation rawLine w1)))
                  else forward_to sid targetStation rawLine w)
            else forward_to sid targetStation rawLine w))"

definition handleClientResponse ::
    "'db env \<Rightarrow> nat \<Rightarrow> string list \<Rightarrow> string \<Rightarrow> 'db world \<Rightarrow> ('db world \<times> reply) go" where
  "handleClientResponse E sid data rawLine w =
     (case s_client (w_session w sid) of
        None \<Rightarrow> Inr (w, Some not_registered)
      | Some cid \<Rightarrow>
          index_at data 1 (\<lambda>targetStation.
            go_bind
              (if targetStation = FSDServerName then
                 index_at data 2 (\<lambda>subQuery.
                   if subQuery = ''ATIS'' \<and> length data \<ge> 5 then
                     index_at data 3 (\<lambda>d3.
                       if d3 = ''T'' then index_at data 4 (\<lambda>d4. Inr (upd_client cid (AddAtcAtisInfo d4) w))
                       else Inr w)
                   else Inr w)
               else Inr w)
              (\<lambda>w1. forward_to sid targetStation rawLine w1)))"

definition handleRequest ::
    "'db env \<Rightarrow> nat \<Rightarrow> string list \<Rightarrow> string \<Rightarrow> 'db world \<Rightarrow> ('db world \<times> reply) go" where
  "handleRequest E sid data rawLine w =
     index_at data 1 (\<lambda>targetStation.
       Inr (fst (SendMessageTo targetStation rawLine w), Some ResultSuccess))"

definition handleSquawkBox ::
    "'db env \<Rightarrow> nat \<Rightarrow> string list \<Rightarrow> string \<Rightarrow> 'db world \<Rightarrow> ('db world \<times> reply) go" where
  "handleSquawkBox E sid data rawLine w =
     (case s_client (w_session w sid) of
        None \<Rightarrow> Inr (w, Some not_registered)
      | Some cid \<Rightarrow>
          index_at data 1 (\<lambda>targetStation.
            case GetClient targetStation w of
              None \<Rightarrow> Inr (w, Some (ResultError SourceCallsignInvalid False (c_callsign (w_client w cid))
                               (Some (ErrText (targetStation @ '' not exists'')))))
            | Some t \<Rightarrow> Inr (SendLine t rawLine w, Some ResultSuccess)))"

section \<open>Flight plans\<close>

definition handlePlan ::
    "'db env \<Rightarrow> nat \<Rightarrow> string list \<Rightarrow> string \<Rightarrow> 'db world \<Rightarrow> ('db world \<times> reply) go" where
  "handlePlan E sid data rawLine w =
     (case s_client (w_session w sid) of
        None \<Rightarrow> Inr (w, Some not_registered)
      | Some cid \<Rightarrow>
          if c_isAtc (w_client w cid)
          then Inr (w, Some (ResultError Syntax False (c_callsign (w_client w cid))
                      (Some (ErrText ''atc can not submit fligth plan''))))
          else
            go_bind (client_UpsertFlightPlan E cid data w) (\<lambda>(w1, err).
              if err \<noteq> None
              then Inr (w1, Some (ResultError Syntax False (c_callsign (w_client w1 cid)) (map_option ErrOp err)))
              else
                deref (c_flightPlan (w_client w1 cid)) (\<lambda>p.
                  Inr (if \<not> fp_Locked p
                       then spawn (TBroadcast rawLine (Some cid) (Some (CombineBroadcastFilter
                              [Some BroadcastToAtc, Some BroadcastToClientInRange]))) w1
                       else w1, Some ResultSuccess))))"

text \<open>
  The handler asks whether the method \<open>client.FlightPlan\<close> is nil, which it never is; the plan
  itself may be.
\<close>

definition handleAtcEditPlan ::
    "'db env \<Rightarrow> nat \<Rightarrow> string list \<Rightarrow> string \<Rightarrow> 'db world \<Rightarrow> ('db world \<times> reply) go" where
  "handleAtcEditPlan E sid data rawLine w =
     (case s_client (w_session w sid) of
        None \<Rightarrow> Inr (w, Some not_registered)
      | Some cid \<Rightarrow>
          let c = w_client w cid in
          if \<not> c_isAtc c
          then Inr (w, Some (ResultError Syntax False (c_callsign c)
                      (Some (ErrText ''only act can edit flight plan''))))
          else if \<not> client_CheckFacility AllowAtcFacility c
          then go_bind (Facility_String (c_facility c)) (\<lambda>name.
                 Inr (w, Some (ResultError Syntax False (c_callsign c)
                   (Some (ErrText (name @ '' facility not allowed to edit plan''))))))
          else
            index_at data 2 (\<lambda>targetCallsign.
              case GetClient targetCallsign w of
                None \<Rightarrow> Inr (w, Some (ResultError SourceCallsignInvalid False (c_callsign c)
                                 (Some (ErrText (targetCallsign @ '' not exists'')))))
              | Some t \<Rightarrow>
                  deref (c_flightPlan (w_client w t)) (\<lambda>p.
                    let p1 = p\<lparr>fp_Locked := \<not> e_SimulatorServer E\<rparr> in
                    if length data < 1 then Inl IndexOutOfRange
                    else
                      go_bind (UpdateFlightPlan (e_api E) (e_SimulatorServer E) p1 (drop 1 data) True (w_db w))
                        (\<lambda>(q, db, err).
                           let w1 = upd_client t (\<lambda>c. c\<lparr>c_flightPlan := Some q\<rparr>) (w\<lparr>w_db := db\<rparr>) in
                           if err \<noteq> None
                           then Inr (w1, Some (ResultError Syntax False (c_callsign (w_client w1 cid))
                                           (map_option ErrOp err)))
                           else Inr (spawn (TBroadcast (ToString q AllATC) (Some cid)
                                       (Some (CombineBroadcastFilter
                                         [Some BroadcastToAtc, Some BroadcastToClientInRange]))) w1,
                                     Some ResultSuccess)))))"

section \<open>Removal\<close>

definition handleKillClient ::
    "'db env \<Rightarrow> nat \<Rightarrow> string list \<Rightarrow> string \<Rightarrow> 'db world \<Rightarrow> ('db world \<times> reply) go" where
  "handleKillClient E sid data rawLine w =
     (case s_client (w_session w sid) of
        None \<Rightarrow> Inr (w, Some not_registered)
      | Some cid \<Rightarrow>
          let c = w_client w cid in
          if \<not> (c_isAtc c \<and> CheckRating AllowKillRating c)
          then go_bind (Facility_String (c_facility c)) (\<lambda>name.
                 Inr (w, Some (ResultError Syntax False (c_callsign c)
                   (Some (ErrText (name @ '' facility not allowed to kill client''))))))
          else
            index_at data 1 (\<lambda>targetStation.
              case GetClient targetStation w of
                None \<Rightarrow> Inr (w, Some (ResultError NoCallsignFound False (c_callsign c)
                                 (Some (ErrText (targetStation @ '' not exists'')))))
              | Some t \<Rightarrow> Inr (MarkedDisconnect E t False w, Some ResultSuccess)))"

definition removeClient ::
    "'db env \<Rightarrow> nat \<Rightarrow> string list \<Rightarrow> string \<Rightarrow> 'db world \<Rightarrow> ('db world \<times> reply) go" where
  "removeClient E sid data rawLine w =
     deref (s_client (w_session w sid)) (\<lambda>cid. Inr (w, Some ResultSuccess))"

section \<open>Dispatch\<close>

definition dispatch ::
    "'db env \<Rightarrow> nat \<Rightarrow> ClientCommand \<Rightarrow> string list \<Rightarrow> string \<Rightarrow> 'db world \<Rightarrow> ('db world \<times> reply) go" where
  "dispatch E sid commandType data rawLine w =
     (if commandType = AddAtc then handleAddAtc E sid data rawLine w
      else if commandType = AddPilot then handleAddPilot E sid data rawLine w
      else if commandType \<in> {RequestHandoff, AcceptHandoff, ProController}
      then handleRequest E sid data rawLine w
      else if commandType = PilotPosition then handlePilotPosUpdate E sid data rawLine w
      else if commandType = Plan then handlePlan E sid data rawLine w
      else if commandType = AtcEditPlan then handleAtcEditPlan E sid data rawLine w
      else if commandType = KillClient then handleKillClient E sid data rawLine w
      else if commandType = AtcPosition then handleAtcPosUpdate E sid data rawLine w
      else if commandType = AtcSubVisPoint then handleAtcVisPointUpdate E sid data rawLine w
      else if commandType = Message then handleMessage E sid data rawLine w
      else if commandType = ClientQuery then handleClientQuery E sid data rawLine w
      else if commandType = ClientResponse then handleClientResponse E sid data rawLine w
      else if commandType \<in> {RemoveAtc, RemovePilot} then removeClient E sid data rawLine w
      else if commandType = SquawkBox then handleSquawkBox E sid data rawLine w
      else Inr (w, Some ResultSuccess))"

definition handleCommand ::
    "'db env \<Rightarrow> nat \<Rightarrow> ClientCommand \<Rightarrow> string list \<Rightarrow> string \<Rightarrow> 'db world \<Rightarrow> ('db world \<times> reply) go" where
  "handleCommand E sid commandType data rawLine w =
     (case CommandRequirements commandType of
        Some requirement \<Rightarrow>
          let (err, ok) = checkPacketLength (s_callsign (w_session w sid)) data requirement
          in if \<not> ok then Inr (w, err) else dispatch E sid commandType data rawLine w
      | None \<Rightarrow> dispatch E sid commandType data rawLine w)"

definition handleLine :: "'db env \<Rightarrow> nat \<Rightarrow> string \<Rightarrow> 'db world \<Rightarrow> 'db world go" where
  "handleLine E sid line w =
     (if s_disconnected (w_session w sid) then Inr w
      else
        let (command, data) = parserCommandLine line in
        go_bind (handleCommand E sid command data line w) (\<lambda>(w1, result).
          case result of
            None \<Rightarrow> Inr w1
          | Some r \<Rightarrow> if \<not> Success r then Inr (session_SendError sid r w1) else Inr w1))"

text \<open>What follows the read loop: tell the others, give up the client, close the connection.\<close>

definition connection_end :: "'db env \<Rightarrow> nat \<Rightarrow> 'db world \<Rightarrow> 'db world" where
  "connection_end E sid w =
     (let w1 =
        (case s_client (w_session w sid) of
           None \<Rightarrow> w
         | Some cid \<Rightarrow>
             let command = (if c_isAtc (w_client w cid) then RemoveAtc else RemovePilot)
             in MarkedDisconnect E cid False
                  (BroadcastMessage (makePacket command [c_callsign (w_client w cid), FSDServerName])
                     (Some cid) (Some BroadcastToClientInRange) w))
      in upd_session sid (\<lambda>s. s\<lparr>s_reading := False\<rparr>) (conn_close sid w1))"

end
