(* ===== verification/Invariants.thy ===== *)
theory Invariants
  imports Handlers
begin

text \<open>
  The invariant of the shared state and that every operation keeps it: the registry holds each
  callsign once, under it a client with that valid callsign; every number stored anywhere is an
  allocated one; a pending deletion belongs to a client that is disconnected and whose current
  timer it is.
\<close>

section \<open>The invariant\<close>

definition registry_ok :: "'db world \<Rightarrow> bool" where
  "registry_ok w \<longleftrightarrow> distinct (map fst (w_clients w)) \<and>
     (\<forall>cs cid. map_of (w_clients w) cs = Some cid \<longrightarrow>
        cid < w_nclient w \<and> c_callsign (w_client w cid) = cs)"

definition heap_ok :: "'db world \<Rightarrow> bool" where
  "heap_ok w \<longleftrightarrow>
     (\<forall>cid < w_nclient w. client_ok (w_client w cid) \<and> callsignValid (c_callsign (w_client w cid)) \<and>
        c_socket (w_client w cid) < w_nsession w) \<and>
     (\<forall>sid < w_nsession w. \<forall>cid. s_client (w_session w sid) = Some cid \<longrightarrow> cid < w_nclient w)"

fun task_ok :: "'db world \<Rightarrow> task \<Rightarrow> bool" where
  "task_ok w (TBroadcast m from f) \<longleftrightarrow> (\<forall>cid. from = Some cid \<longrightarrow> cid < w_nclient w)"
| "task_ok w (TTick cid) \<longleftrightarrow> cid < w_nclient w"
| "task_ok w (TDelete cid) \<longleftrightarrow> cid < w_nclient w"
| "task_ok w (TDeleteClient cs) \<longleftrightarrow> True"
| "task_ok w (TCloseConn sid) \<longleftrightarrow> sid < w_nsession w"

definition tasks_ok :: "'db world \<Rightarrow> bool" where
  "tasks_ok w \<longleftrightarrow> distinct (map fst (w_tasks w)) \<and>
     (\<forall>(i, t) \<in> set (w_tasks w). i < w_ntask w \<and> task_ok w t)"

definition timers_ok :: "'db world \<Rightarrow> bool" where
  "timers_ok w \<longleftrightarrow>
     (\<forall>i cid. (i, TDelete cid) \<in> set (w_tasks w) \<longrightarrow>
        c_disconnect (w_client w cid) \<and> c_reconnectTimer (w_client w cid) = Some i)"

definition world_ok :: "'db world \<Rightarrow> bool" where
  "world_ok w \<longleftrightarrow> registry_ok w \<and> heap_ok w \<and> tasks_ok w \<and> timers_ok w"

lemmas world_ok_defs = world_ok_def registry_ok_def heap_ok_def tasks_ok_def timers_ok_def

text \<open>What an operation on existing clients and connections leaves alone.\<close>

definition same_sizes :: "'db world \<Rightarrow> 'db world \<Rightarrow> bool" where
  "same_sizes w w' \<longleftrightarrow> w_nclient w' = w_nclient w \<and> w_nsession w' = w_nsession w \<and>
     w_shuttingDown w' = w_shuttingDown w"

lemma same_sizes_refl [simp]: "same_sizes w w"
  by (simp add: same_sizes_def)

lemma same_sizes_trans: "same_sizes a b \<Longrightarrow> same_sizes b c \<Longrightarrow> same_sizes a c"
  by (simp add: same_sizes_def)

lemma task_ok_mono:
  "task_ok w t \<Longrightarrow> w_nclient w \<le> w_nclient w' \<Longrightarrow> w_nsession w \<le> w_nsession w' \<Longrightarrow> task_ok w' t"
  by (cases t) auto

section \<open>Primitives\<close>

lemma world_frame [simp]:
  "w_clients (upd_client cid f w) = w_clients w" "w_nclient (upd_client cid f w) = w_nclient w"
  "w_session (upd_client cid f w) = w_session w" "w_nsession (upd_client cid f w) = w_nsession w"
  "w_tasks (upd_client cid f w) = w_tasks w" "w_ntask (upd_client cid f w) = w_ntask w"
  "w_shuttingDown (upd_client cid f w) = w_shuttingDown w" "w_db (upd_client cid f w) = w_db w"
  "w_now (upd_client cid f w) = w_now w"
  "w_clients (upd_session sid g w) = w_clients w" "w_nclient (upd_session sid g w) = w_nclient w"
  "w_client (upd_session sid g w) = w_client w" "w_nsession (upd_session sid g w) = w_nsession w"
  "w_tasks (upd_session sid g w) = w_tasks w" "w_ntask (upd_session sid g w) = w_ntask w"
  "w_shuttingDown (upd_session sid g w) = w_shuttingDown w" "w_db (upd_session sid g w) = w_db w"
  "w_now (upd_session sid g w) = w_now w"
  "w_clients (spawn t w) = w_clients w" "w_nclient (spawn t w) = w_nclient w"
  "w_client (spawn t w) = w_client w" "w_session (spawn t w) = w_session w"
  "w_nsession (spawn t w) = w_nsession w" "w_shuttingDown (spawn t w) = w_shuttingDown w"
  "w_db (spawn t w) = w_db w" "w_now (spawn t w) = w_now w"
  "w_tasks (spawn t w) = w_tasks w @ [(w_ntask w, t)]" "w_ntask (spawn t w) = Suc (w_ntask w)"
  by (simp_all add: upd_client_def upd_session_def spawn_def)

lemma upd_simps [simp]:
  "w_client (upd_client cid f w) c = (if c = cid then f (w_client w cid) else w_client w c)"
  "w_session (upd_session sid g w) s = (if s = sid then g (w_session w sid) else w_session w s)"
  by (simp_all add: upd_client_def upd_session_def)

lemma stop_timer_frame [simp]:
  "w_clients (stop_timer t w) = w_clients w" "w_nclient (stop_timer t w) = w_nclient w"
  "w_client (stop_timer t w) = w_client w" "w_session (stop_timer t w) = w_session w"
  "w_nsession (stop_timer t w) = w_nsession w" "w_shuttingDown (stop_timer t w) = w_shuttingDown w"
  "w_db (stop_timer t w) = w_db w" "w_now (stop_timer t w) = w_now w"
  "w_ntask (stop_timer t w) = w_ntask w"
  "set (w_tasks (stop_timer t w)) = {(i, x) \<in> set (w_tasks w). t \<noteq> Some i}"
  by (auto simp: stop_timer_def split: option.splits)

lemma distinct_stop_timer:
  "distinct (map fst (w_tasks w)) \<Longrightarrow> distinct (map fst (w_tasks (stop_timer t w)))"
  by (auto simp: stop_timer_def distinct_map_filter split: option.split)

text \<open>Each part of the invariant, when the fields it reads stay as they are.\<close>

lemma registry_ok_keep:
  assumes "registry_ok w" and "w_clients w' = w_clients w" and "w_nclient w \<le> w_nclient w'"
    and "\<And>cid. cid < w_nclient w \<Longrightarrow> c_callsign (w_client w' cid) = c_callsign (w_client w cid)"
  shows "registry_ok w'"
  using assms unfolding registry_ok_def by fastforce

lemma tasks_ok_keep:
  assumes "tasks_ok w" and "distinct (map fst (w_tasks w'))" and "set (w_tasks w') \<subseteq> set (w_tasks w)"
    and "w_ntask w' = w_ntask w"
    and "w_nclient w \<le> w_nclient w'" and "w_nsession w \<le> w_nsession w'"
  shows "tasks_ok w'"
  using assms task_ok_mono [of w _ w'] unfolding tasks_ok_def by (auto dest!: subsetD)

lemma timers_ok_keep:
  assumes "timers_ok w" and "set (w_tasks w') \<subseteq> set (w_tasks w)"
    and "\<And>i cid. (i, TDelete cid) \<in> set (w_tasks w') \<Longrightarrow>
           c_disconnect (w_client w cid) \<Longrightarrow> c_reconnectTimer (w_client w cid) = Some i \<Longrightarrow>
           c_disconnect (w_client w' cid) \<and> c_reconnectTimer (w_client w' cid) = Some i"
  shows "timers_ok w'"
  using assms unfolding timers_ok_def by blast

lemma heap_okI:
  assumes "\<And>cid. cid < w_nclient w \<Longrightarrow> client_ok (w_client w cid) \<and>
             callsignValid (c_callsign (w_client w cid)) \<and> c_socket (w_client w cid) < w_nsession w"
    and "\<And>sid cid. sid < w_nsession w \<Longrightarrow> s_client (w_session w sid) = Some cid \<Longrightarrow> cid < w_nclient w"
  shows "heap_ok w"
  using assms unfolding heap_ok_def by blast

lemma heap_okD:
  "heap_ok w \<Longrightarrow> cid < w_nclient w \<Longrightarrow> client_ok (w_client w cid)"
  "heap_ok w \<Longrightarrow> cid < w_nclient w \<Longrightarrow> callsignValid (c_callsign (w_client w cid))"
  "heap_ok w \<Longrightarrow> cid < w_nclient w \<Longrightarrow> c_socket (w_client w cid) < w_nsession w"
  "heap_ok w \<Longrightarrow> sid < w_nsession w \<Longrightarrow> s_client (w_session w sid) = Some cid \<Longrightarrow> cid < w_nclient w"
  unfolding heap_ok_def by blast+

lemma world_okD:
  assumes "world_ok w"
  shows "registry_ok w" "heap_ok w" "tasks_ok w" "timers_ok w"
  using assms unfolding world_ok_def by blast+

lemma world_ok_client:
  assumes "world_ok w" and "cid < w_nclient w"
  shows "client_ok (w_client w cid)" "callsignValid (c_callsign (w_client w cid))"
    "c_socket (w_client w cid) < w_nsession w"
  using assms heap_okD world_okD(2) by blast+

lemma world_ok_session:
  "world_ok w \<Longrightarrow> sid < w_nsession w \<Longrightarrow> s_client (w_session w sid) = Some cid \<Longrightarrow> cid < w_nclient w"
  using heap_okD(4) world_okD(2) by blast

text \<open>
  A client of a valid heap may be replaced by one with the same callsign, as long as no pending
  deletion loses its client.
\<close>

lemma upd_client_ok':
  assumes "world_ok w" and "client_ok (f (w_client w cid))"
    and "c_callsign (f (w_client w cid)) = c_callsign (w_client w cid)"
    and "c_socket (f (w_client w cid)) < w_nsession w"
    and "(\<forall>i. (i, TDelete cid) \<notin> set (w_tasks w)) \<or>
         (c_disconnect (w_client w cid) \<longrightarrow> c_disconnect (f (w_client w cid))) \<and>
         c_reconnectTimer (f (w_client w cid)) = c_reconnectTimer (w_client w cid)"
  shows "world_ok (upd_client cid f w)"
proof -
  note ok = world_okD [OF assms(1)]
  have "registry_ok (upd_client cid f w)"
    by (rule registry_ok_keep [OF ok(1)]) (simp_all add: assms(3))
  moreover have "heap_ok (upd_client cid f w)"
    using heap_okD [OF ok(2)] assms(2-4) by (intro heap_okI) (auto split: if_splits)
  moreover have "tasks_ok (upd_client cid f w)"
    by (rule tasks_ok_keep [OF ok(3)]) (use ok(3) in \<open>simp_all add: tasks_ok_def\<close>)
  moreover have "timers_ok (upd_client cid f w)"
    by (rule timers_ok_keep [OF ok(4)]) (use assms(5) in \<open>auto split: if_splits\<close>)
  ultimately show ?thesis by (simp add: world_ok_def)
qed

lemma upd_client_ok:
  assumes "world_ok w" and "cid < w_nclient w" and "client_ok (f (w_client w cid))"
    and "same_identity (w_client w cid) (f (w_client w cid))"
  shows "world_ok (upd_client cid f w)"
  using assms world_ok_client(3) [OF assms(1,2)]
  by (intro upd_client_ok') (simp_all add: same_identity_def)

lemma upd_session_ok:
  assumes "world_ok w" and "\<forall>cid. s_client (f (w_session w sid)) = Some cid \<longrightarrow> cid < w_nclient w"
  shows "world_ok (upd_session sid f w)"
proof -
  note ok = world_okD [OF assms(1)]
  have "registry_ok (upd_session sid f w)" by (rule registry_ok_keep [OF ok(1)]) simp_all
  moreover have "heap_ok (upd_session sid f w)"
    using heap_okD [OF ok(2)] assms(2) by (intro heap_okI) (auto split: if_splits)
  moreover have "tasks_ok (upd_session sid f w)"
    by (rule tasks_ok_keep [OF ok(3)]) (use ok(3) in \<open>simp_all add: tasks_ok_def\<close>)
  moreover have "timers_ok (upd_session sid f w)"
    by (rule timers_ok_keep [OF ok(4)]) simp_all
  ultimately show ?thesis by (simp add: world_ok_def)
qed

lemma upd_session_keep_ok:
  assumes "world_ok w" and "sid < w_nsession w" and "s_client (f (w_session w sid)) = s_client (w_session w sid)"
  shows "world_ok (upd_session sid f w)"
  using assms world_ok_session by (intro upd_session_ok) fastforce+

lemma tasks_ok_spawn:
  assumes "tasks_ok w" and "task_ok w t"
  shows "tasks_ok (spawn t w)"
proof -
  have "(i, u) \<in> set (w_tasks w) \<Longrightarrow> i < w_ntask w" for i u
    using assms(1) unfolding tasks_ok_def by blast
  then have "w_ntask w \<notin> fst ` set (w_tasks w)" by fastforce
  with assms task_ok_mono [of w _ "spawn t w"] show ?thesis
    unfolding tasks_ok_def by fastforce
qed

lemma spawn_ok:
  assumes "world_ok w" and "task_ok w t" and "\<forall>cid. t \<noteq> TDelete cid"
  shows "world_ok (spawn t w)"
proof -
  note ok = world_okD [OF assms(1)]
  have "registry_ok (spawn t w)" by (rule registry_ok_keep [OF ok(1)]) simp_all
  moreover have "heap_ok (spawn t w)" using heap_okD [OF ok(2)] by (intro heap_okI) auto
  moreover have "timers_ok (spawn t w)"
    using ok(4) assms(3) unfolding timers_ok_def by auto
  ultimately show ?thesis using tasks_ok_spawn [OF ok(3) assms(2)] by (simp add: world_ok_def)
qed

text \<open>A deletion may be scheduled for a client that has none, with the new task as its timer.\<close>

lemma spawn_timer_ok:
  assumes "world_ok w" and "cid < w_nclient w" and "\<forall>i. (i, TDelete cid) \<notin> set (w_tasks w)"
    and "c_disconnect (w_client w cid)" and "c_reconnectTimer (w_client w cid) = Some (w_ntask w)"
  shows "world_ok (spawn (TDelete cid) w)"
proof -
  note ok = world_okD [OF assms(1)]
  have "registry_ok (spawn (TDelete cid) w)" by (rule registry_ok_keep [OF ok(1)]) simp_all
  moreover have "heap_ok (spawn (TDelete cid) w)" using heap_okD [OF ok(2)] by (intro heap_okI) auto
  moreover have "tasks_ok (spawn (TDelete cid) w)" using ok(3) assms(2) by (intro tasks_ok_spawn) simp_all
  moreover have "timers_ok (spawn (TDelete cid) w)" using ok(4) assms(4,5) unfolding timers_ok_def by auto
  ultimately show ?thesis by (simp add: world_ok_def)
qed

lemma stop_timer_ok: "world_ok w \<Longrightarrow> world_ok (stop_timer t w)"
proof -
  assume w: "world_ok w"
  note ok = world_okD [OF w]
  have "registry_ok (stop_timer t w)" by (rule registry_ok_keep [OF ok(1)]) simp_all
  moreover have "heap_ok (stop_timer t w)" using heap_okD [OF ok(2)] by (intro heap_okI) auto
  moreover have "tasks_ok (stop_timer t w)"
    by (rule tasks_ok_keep [OF ok(3)]) (use ok(3) in \<open>auto simp: tasks_ok_def distinct_stop_timer\<close>)
  moreover have "timers_ok (stop_timer t w)"
    by (rule timers_ok_keep [OF ok(4)]) auto
  ultimately show ?thesis by (simp add: world_ok_def)
qed

text \<open>After its own timer is stopped, a client has no pending deletion.\<close>

lemma stop_own_timer:
  "timers_ok w \<Longrightarrow> (i, TDelete cid) \<notin> set (w_tasks (stop_timer (c_reconnectTimer (w_client w cid)) w))"
  by (auto simp: timers_ok_def)

lemma w_db_ok: "world_ok (w\<lparr>w_db := db\<rparr>) = world_ok w"
proof -
  have "task_ok (w\<lparr>w_db := db\<rparr>) t = task_ok w t" for t by (cases t) auto
  then show ?thesis by (simp add: world_ok_defs)
qed

lemma w_now_ok: "world_ok (w\<lparr>w_now := t\<rparr>) = world_ok w"
proof -
  have "task_ok (w\<lparr>w_now := t\<rparr>) u = task_ok w u" for u by (cases u) auto
  then show ?thesis by (simp add: world_ok_defs)
qed

lemma w_shuttingDown_ok: "world_ok (w\<lparr>w_shuttingDown := b\<rparr>) = world_ok w"
proof -
  have "task_ok (w\<lparr>w_shuttingDown := b\<rparr>) u = task_ok w u" for u by (cases u) auto
  then show ?thesis by (simp add: world_ok_defs)
qed

section \<open>Sending\<close>

lemma conn_ok:
  "world_ok w \<Longrightarrow> sid < w_nsession w \<Longrightarrow> world_ok (conn_write sid line w)"
  "world_ok w \<Longrightarrow> sid < w_nsession w \<Longrightarrow> world_ok (conn_close sid w)"
  "world_ok w \<Longrightarrow> sid < w_nsession w \<Longrightarrow> world_ok (SetCallsign sid cs w)"
  "world_ok w \<Longrightarrow> sid < w_nsession w \<Longrightarrow> world_ok (SetDisconnected sid b w)"
  by (auto simp: conn_write_def conn_close_def SetCallsign_def SetDisconnected_def intro: upd_session_keep_ok)

lemma conn_frame [simp]:
  "w_clients (conn_write sid line w) = w_clients w" "w_client (conn_write sid line w) = w_client w"
  "w_tasks (conn_write sid line w) = w_tasks w" "w_db (conn_write sid line w) = w_db w"
  "w_nclient (conn_write sid line w) = w_nclient w" "w_nsession (conn_write sid line w) = w_nsession w"
  "w_ntask (conn_write sid line w) = w_ntask w" "w_now (conn_write sid line w) = w_now w"
  "w_shuttingDown (conn_write sid line w) = w_shuttingDown w"
  "s_client (w_session (conn_write sid line w) s) = s_client (w_session w s)"
  "s_user (w_session (conn_write sid line w) s) = s_user (w_session w s)"
  "s_conn_open (w_session (conn_write sid line w) s) = s_conn_open (w_session w s)"
  "s_disconnected (w_session (conn_write sid line w) s) = s_disconnected (w_session w s)"
  "s_callsign (w_session (conn_write sid line w) s) = s_callsign (w_session w s)"
  "s_reading (w_session (conn_write sid line w) s) = s_reading (w_session w s)"
  by (simp_all add: conn_write_def)

lemma SendLine_frame [simp]:
  "w_clients (SendLine cid line w) = w_clients w" "w_client (SendLine cid line w) = w_client w"
  "w_tasks (SendLine cid line w) = w_tasks w" "w_db (SendLine cid line w) = w_db w"
  "w_nclient (SendLine cid line w) = w_nclient w" "w_nsession (SendLine cid line w) = w_nsession w"
  "w_ntask (SendLine cid line w) = w_ntask w" "w_now (SendLine cid line w) = w_now w"
  "w_shuttingDown (SendLine cid line w) = w_shuttingDown w"
  "s_client (w_session (SendLine cid line w) s) = s_client (w_session w s)"
  "s_user (w_session (SendLine cid line w) s) = s_user (w_session w s)"
  "s_conn_open (w_session (SendLine cid line w) s) = s_conn_open (w_session w s)"
  "s_disconnected (w_session (SendLine cid line w) s) = s_disconnected (w_session w s)"
  "s_reading (w_session (SendLine cid line w) s) = s_reading (w_session w s)"
  by (simp_all add: SendLine_def Let_def)

lemma SendLine_ok: "world_ok w \<Longrightarrow> cid < w_nclient w \<Longrightarrow> world_ok (SendLine cid line w)"
  using world_ok_client(3) [of w cid] by (simp add: SendLine_def Let_def conn_ok)

lemma client_field_ok:
  assumes "world_ok w" and "cid < w_nclient w"
  shows "world_ok (upd_client cid (\<lambda>c. c\<lparr>c_motdBytes := m\<rparr>) w)"
    and "world_ok (upd_client cid (\<lambda>c. c\<lparr>c_flightPlan := p\<rparr>) w)"
    and "world_ok (upd_client cid (SetUser u) w)" and "world_ok (upd_client cid (SetSimType t) w)"
    and "world_ok (upd_client cid (AddAtcAtisInfo a) w)"
  using assms world_ok_client(1) [OF assms]
  by (auto intro!: upd_client_ok simp: same_identity_def client_ok_def SetUser_def SetSimType_def
      AddAtcAtisInfo_def)

lemma SendMotd_ok: "world_ok w \<Longrightarrow> cid < w_nclient w \<Longrightarrow> world_ok (SendMotd E cid w)"
  by (auto simp: SendMotd_def Let_def SendLine_ok client_field_ok split: option.split)

lemma SendMotd_frame [simp]:
  "w_clients (SendMotd E cid w) = w_clients w" "w_nclient (SendMotd E cid w) = w_nclient w"
  "w_nsession (SendMotd E cid w) = w_nsession w" "w_tasks (SendMotd E cid w) = w_tasks w"
  "w_shuttingDown (SendMotd E cid w) = w_shuttingDown w" "w_db (SendMotd E cid w) = w_db w"
  "c_socket (w_client (SendMotd E cid w) c) = c_socket (w_client w c)"
  "c_reconnectTimer (w_client (SendMotd E cid w) c) = c_reconnectTimer (w_client w c)"
  "c_user (w_client (SendMotd E cid w) c) = c_user (w_client w c)"
  "c_rating (w_client (SendMotd E cid w) c) = c_rating (w_client w c)"
  "c_isAtc (w_client (SendMotd E cid w) c) = c_isAtc (w_client w c)"
  "c_callsign (w_client (SendMotd E cid w) c) = c_callsign (w_client w c)"
  "c_facility (w_client (SendMotd E cid w) c) = c_facility (w_client w c)"
  "s_conn_open (w_session (SendMotd E cid w) s) = s_conn_open (w_session w s)"
  "s_disconnected (w_session (SendMotd E cid w) s) = s_disconnected (w_session w s)"
  "s_reading (w_session (SendMotd E cid w) s) = s_reading (w_session w s)"
  "c_flightPlan (w_client (SendMotd E cid w) c) = c_flightPlan (w_client w c)"
  "c_disconnect (w_client (SendMotd E cid w) c) = c_disconnect (w_client w c)"
  "s_client (w_session (SendMotd E cid w) s) = s_client (w_session w s)"
  by (simp_all add: SendMotd_def Let_def split: option.split)

lemma client_SendError_ok:
  assumes "world_ok w" and "cid < w_nclient w"
  shows "world_ok (client_SendError cid r w)"
proof (cases "Success r \<or> \<not> Fatal r")
  case True
  with assms show ?thesis by (auto simp: client_SendError_def Let_def SendLine_ok)
next
  case False
  let ?line = "error_packet ''global.FSDServerName'' (c_callsign (w_client w cid)) r"
  have 1: "world_ok (SetDisconnected (c_socket (w_client w cid)) True (SendLine cid ?line w))"
    using assms world_ok_client(3) [OF assms] by (simp add: conn_ok SendLine_ok)
  then have "world_ok (upd_client cid (\<lambda>c. c\<lparr>c_disconnect := True\<rparr>)
      (SetDisconnected (c_socket (w_client w cid)) True (SendLine cid ?line w)))"
    using world_ok_client [OF assms]
    by (intro upd_client_ok') (auto simp: SetDisconnected_def client_ok_def)
  with False show ?thesis by (simp add: client_SendError_def Let_def spawn_ok)
qed

lemma session_SendError_ok:
  assumes "world_ok w" and "sid < w_nsession w"
  shows "world_ok (session_SendError sid r w)"
  using assms world_ok_session [OF assms]
  by (auto simp: session_SendError_def Let_def client_SendError_ok conn_ok SetDisconnected_def
      intro!: spawn_ok upd_session_keep_ok split: option.split)

lemma SendMessageTo_ok: "world_ok w \<Longrightarrow> world_ok (fst (SendMessageTo cs m w))"
  using world_okD(1) [of w]
  by (fastforce simp: SendMessageTo_def GetClient_def registry_ok_def 
      intro: SendLine_ok split: option.split)

lemma GetClient_ok: "world_ok w \<Longrightarrow> GetClient cs w = Some cid \<Longrightarrow> cid < w_nclient w \<and> c_callsign (w_client w cid) = cs"
  by (fastforce simp: GetClient_def world_ok_def registry_ok_def split: if_splits)

lemma snapshot_ok: "world_ok w \<Longrightarrow> cid \<in> set (GetClientSnapshot w) \<Longrightarrow> cid < w_nclient w"
  by (auto simp: GetClientSnapshot_def world_ok_def registry_ok_def dest: map_of_is_SomeI)

lemma fold_SendLine_frame:
  fixes w w0 :: "'db world"
  shows "w_clients (fold (\<lambda>cid w'. if P cid then SendLine cid m w' else w') cs w) = w_clients w \<and>
   w_client (fold (\<lambda>cid w'. if P cid then SendLine cid m w' else w') cs w) = w_client w \<and>
   w_nclient (fold (\<lambda>cid w'. if P cid then SendLine cid m w' else w') cs w) = w_nclient w \<and>
   w_nsession (fold (\<lambda>cid w'. if P cid then SendLine cid m w' else w') cs w) = w_nsession w \<and>
   w_tasks (fold (\<lambda>cid w'. if P cid then SendLine cid m w' else w') cs w) = w_tasks w \<and>
   w_ntask (fold (\<lambda>cid w'. if P cid then SendLine cid m w' else w') cs w) = w_ntask w \<and>
   w_shuttingDown (fold (\<lambda>cid w'. if P cid then SendLine cid m w' else w') cs w) = w_shuttingDown w \<and>
   w_db (fold (\<lambda>cid w'. if P cid then SendLine cid m w' else w') cs w) = w_db w"
  by (induction cs arbitrary: w) simp_all

lemma fold_SendLine_ok:
  "world_ok w \<Longrightarrow> \<forall>cid \<in> set cs. cid < w_nclient w \<Longrightarrow>
   world_ok (fold (\<lambda>cid w'. if P cid then SendLine cid m w' else w') cs w)"
  by (induction cs arbitrary: w) (simp_all add: SendLine_ok)

lemma BroadcastMessage_ok: "world_ok w \<Longrightarrow> world_ok (BroadcastMessage m from f w)"
  by (simp add: BroadcastMessage_def Let_def fold_SendLine_ok snapshot_ok)

lemma BroadcastMessage_frame [simp]:
  "w_clients (BroadcastMessage m from f w) = w_clients w"
  "w_client (BroadcastMessage m from f w) = w_client w"
  "w_nclient (BroadcastMessage m from f w) = w_nclient w"
  "w_nsession (BroadcastMessage m from f w) = w_nsession w"
  "w_tasks (BroadcastMessage m from f w) = w_tasks w"
  "w_ntask (BroadcastMessage m from f w) = w_ntask w"
  "w_shuttingDown (BroadcastMessage m from f w) = w_shuttingDown w"
  "w_db (BroadcastMessage m from f w) = w_db w"
  using fold_SendLine_frame [of "broadcast_target w from f" "m @ splitSign" "GetClientSnapshot w" w]
  by (simp_all add: BroadcastMessage_def Let_def)

section \<open>The registry\<close>

lemma registry_add_ok:
  assumes "world_ok w" and "cid < w_nclient w"
  shows "world_ok (w\<lparr>w_clients := AList.update (c_callsign (w_client w cid)) cid (w_clients w)\<rparr>)"
    (is "world_ok ?w'")
proof -
  note ok = world_okD [OF assms(1)]
  have t: "task_ok ?w' t = task_ok w t" for t by (cases t) auto
  have "registry_ok ?w'"
    unfolding registry_ok_def
  proof (intro conjI allI impI)
    show "distinct (map fst (w_clients ?w'))"
      using ok(1) by (simp add: registry_ok_def distinct_update)
  next
    fix cs' cid'
    assume "map_of (w_clients ?w') cs' = Some cid'"
    then have "cs' = c_callsign (w_client w cid) \<and> cid' = cid \<or> map_of (w_clients w) cs' = Some cid'"
      by (simp add: update_conv' split: if_splits)
    with ok(1) assms(2) have "cid' < w_nclient w \<and> c_callsign (w_client w cid') = cs'"
      unfolding registry_ok_def by blast
    then show "cid' < w_nclient ?w'" "c_callsign (w_client ?w' cid') = cs'" by simp_all
  qed
  with ok(2-4) t show ?thesis by (simp add: world_ok_def heap_ok_def tasks_ok_def timers_ok_def)
qed

lemma AddClient_ok:
  "world_ok w \<Longrightarrow> cid < w_nclient w \<Longrightarrow> world_ok (fst (AddClient cid w))"
  by (simp add: AddClient_def Let_def registry_add_ok split: option.split)

lemma AddClient_frame [simp]:
  "w_client (fst (AddClient cid w)) = w_client w" "w_nclient (fst (AddClient cid w)) = w_nclient w"
  "w_session (fst (AddClient cid w)) = w_session w" "w_nsession (fst (AddClient cid w)) = w_nsession w"
  "w_tasks (fst (AddClient cid w)) = w_tasks w" "w_db (fst (AddClient cid w)) = w_db w"
  "w_shuttingDown (fst (AddClient cid w)) = w_shuttingDown w"
  by (simp_all add: AddClient_def Let_def split: option.split)

lemma DeleteClient_ok: "world_ok w \<Longrightarrow> world_ok (fst (DeleteClient cs w))"
proof -
  assume w: "world_ok w"
  let ?w' = "w\<lparr>w_clients := AList.delete cs (w_clients w)\<rparr>"
  note ok = world_okD [OF w]
  have "task_ok ?w' t = task_ok w t" for t by (cases t) auto
  moreover have "registry_ok ?w'"
    using ok(1) by (auto simp: registry_ok_def distinct_delete split: if_splits)
  ultimately have "world_ok ?w'" using ok(2-4) by (simp add: world_ok_defs)
  with w show ?thesis by (auto simp: DeleteClient_def split: option.split)
qed

lemma DeleteClient_frame [simp]:
  "w_client (fst (DeleteClient cs w)) = w_client w" "w_nclient (fst (DeleteClient cs w)) = w_nclient w"
  "w_session (fst (DeleteClient cs w)) = w_session w" "w_nsession (fst (DeleteClient cs w)) = w_nsession w"
  "w_tasks (fst (DeleteClient cs w)) = w_tasks w" "w_db (fst (DeleteClient cs w)) = w_db w"
  "w_shuttingDown (fst (DeleteClient cs w)) = w_shuttingDown w"
  by (simp_all add: DeleteClient_def split: option.split)

lemma DeleteClient_map: "map_of (w_clients (fst (DeleteClient cs w))) = (map_of (w_clients w))(cs := None)"
  by (auto simp: DeleteClient_def fun_eq_iff split: option.split)

section \<open>The life of a client\<close>

lemma new_client_simps [simp]:
  "c_callsign (new_client now n s u fp cs r p rn atc) = cs"
  "c_socket (new_client now n s u fp cs r p rn atc) = s"
  "c_isAtc (new_client now n s u fp cs r p rn atc) = atc"
  "c_disconnect (new_client now n s u fp cs r p rn atc) = False"
  "c_user (new_client now n s u fp cs r p rn atc) = u"
  "c_rating (new_client now n s u fp cs r p rn atc) = r"
  "c_flightPlan (new_client now n s u fp cs r p rn atc) = fp"
  "c_reconnectTimer (new_client now n s u fp cs r p rn atc) = None"
  by (simp_all add: new_client_def)

lemma SetSimType_client [simp]:
  "c_user (SetSimType t c) = c_user c" "c_rating (SetSimType t c) = c_rating c"
  "c_isAtc (SetSimType t c) = c_isAtc c" "c_callsign (SetSimType t c) = c_callsign c"
  "c_socket (SetSimType t c) = c_socket c" "c_reconnectTimer (SetSimType t c) = c_reconnectTimer c"
  "c_disconnect (SetSimType t c) = c_disconnect c"
  "c_flightPlan (SetSimType t c) = c_flightPlan c"
  by (simp_all add: SetSimType_def)

text \<open>A client put at the next number; nothing refers to that number yet.\<close>

lemma new_number_ok:
  assumes "world_ok w" and "client_ok c" and "callsignValid (c_callsign c)" and "c_socket c < w_nsession w"
  shows "world_ok (w\<lparr>w_client := (w_client w)(w_nclient w := c), w_nclient := Suc (w_nclient w)\<rparr>)"
    (is "world_ok ?w'")
proof -
  note ok = world_okD [OF assms(1)]
  have "registry_ok ?w'" by (rule registry_ok_keep [OF ok(1)]) simp_all
  moreover have "heap_ok ?w'"
    using heap_okD [OF ok(2)] assms(2-4) by (intro heap_okI) (auto simp: less_Suc_eq)
  moreover have "tasks_ok ?w'"
    by (rule tasks_ok_keep [OF ok(3)]) (use ok(3) in \<open>simp_all add: tasks_ok_def\<close>)
  moreover have "timers_ok ?w'"
  proof (rule timers_ok_keep [OF ok(4)])
    fix i cid
    assume "(i, TDelete cid) \<in> set (w_tasks ?w')"
    with ok(3) have "cid < w_nclient w" by (auto simp: tasks_ok_def)
    moreover assume "c_disconnect (w_client w cid)" "c_reconnectTimer (w_client w cid) = Some i"
    ultimately show "c_disconnect (w_client ?w' cid) \<and> c_reconnectTimer (w_client ?w' cid) = Some i"
      by simp
  qed simp
  ultimately show ?thesis by (simp add: world_ok_def)
qed

lemma NewClient_ok:
  assumes "world_ok w" and "sid < w_nsession w" and "callsignValid cs"
    and "s_user (w_session w sid) = Some u"
  shows "\<exists>c. NewClient E cs r p rn sid atc w =
     Inr (w_nclient w, (SetCallsign sid cs w)\<lparr>w_client := (w_client w)(w_nclient w := c),
                                              w_nclient := Suc (w_nclient w)\<rparr>) \<and>
     world_ok ((SetCallsign sid cs w)\<lparr>w_client := (w_client w)(w_nclient w := c),
                                      w_nclient := Suc (w_nclient w)\<rparr>) \<and>
     client_ok c \<and> c_callsign c = cs \<and> c_socket c = sid \<and> c_isAtc c = atc \<and> c_user c = u \<and>
     c_rating c = r \<and> \<not> c_disconnect c"
proof -
  let ?w1 = "SetCallsign sid cs w"
  have s: "w_client ?w1 = w_client w" "w_nclient ?w1 = w_nclient w" "w_nsession ?w1 = w_nsession w"
    "s_user (w_session ?w1 sid) = Some u"
    using assms(4) by (simp_all add: SetCallsign_def)
  have "world_ok ?w1" using assms(1,2) by (rule conn_ok(3))
  from new_number_ok [OF this client_ok_new] s assms(2,3) show ?thesis
    by (intro exI conjI) (auto simp: NewClient_def Let_def client_ok_new)
qed

lemma Reconnect_ok:
  assumes "world_ok w" and "cid < w_nclient w" and "sid < w_nsession w"
  shows "world_ok (fst (Reconnect cid sid w))"
proof (cases "c_disconnect (w_client w cid)")
  case True
  let ?w1 = "stop_timer (c_reconnectTimer (w_client w cid)) w"
  let ?f = "\<lambda>c. (ClearAtcAtisInfo (c\<lparr>c_reconnectTimer := None\<rparr>))\<lparr>c_disconnect := False, c_socket := sid\<rparr>"
  have "world_ok (upd_client cid ?f ?w1)"
    using stop_timer_ok [OF assms(1)] world_ok_client [OF assms(1,2)] assms(3)
      stop_own_timer [OF world_okD(4) [OF assms(1)], of _ cid]
    by (intro upd_client_ok') (auto simp: ClearAtcAtisInfo_def client_ok_def)
  with True assms(3) show ?thesis by (simp add: Reconnect_def Let_def conn_ok)
qed (use assms in \<open>simp add: Reconnect_def\<close>)

lemma Reconnect_frame [simp]:
  "w_clients (fst (Reconnect cid sid w)) = w_clients w" "w_nclient (fst (Reconnect cid sid w)) = w_nclient w"
  "w_nsession (fst (Reconnect cid sid w)) = w_nsession w" "w_db (fst (Reconnect cid sid w)) = w_db w"
  "w_shuttingDown (fst (Reconnect cid sid w)) = w_shuttingDown w"
  "s_client (w_session (fst (Reconnect cid sid w)) s) = s_client (w_session w s)"
  "s_user (w_session (fst (Reconnect cid sid w)) s) = s_user (w_session w s)"
  by (simp_all add: Reconnect_def Let_def SetCallsign_def)

lemma EndRecord_callsign:
  "h_Callsign (fst (EndRecordAndSaveHistory A now h db)) = h_Callsign h"
  "h_IsAtc (fst (EndRecordAndSaveHistory A now h db)) = h_IsAtc h"
  by (simp_all add: EndRecordAndSaveHistory_def SaveHistory_def Let_def split: prod.split)

lemma delete_locked_ok:
  assumes "world_ok w" and "cid < w_nclient w"
  shows "world_ok (delete_locked E cid w)"
proof -
  let ?w1 = "upd_client cid (\<lambda>c. c\<lparr>c_reconnectTimer := None\<rparr>)
               (stop_timer (c_reconnectTimer (w_client w cid)) w)"
  have w1: "world_ok ?w1"
    using stop_timer_ok [OF assms(1)] world_ok_client [OF assms(1,2)]
      stop_own_timer [OF world_okD(4) [OF assms(1)], of _ cid]
    by (intro upd_client_ok') (auto simp: client_ok_def)
  obtain h db e where h: "EndRecordAndSaveHistory (e_api E) (w_now w) (c_history (w_client w cid)) (w_db w)
      = (h, db, e)" by (metis prod_cases3)
  let ?w2 = "upd_client cid (\<lambda>c. c\<lparr>c_history := h\<rparr>) (?w1\<lparr>w_db := db\<rparr>)"
  have "world_ok (?w1\<lparr>w_db := db\<rparr>)" using w1 by (simp add: w_db_ok)
  moreover have "client_ok (w_client ?w2 cid)"
    using world_ok_client [OF assms] h EndRecord_callsign [of "e_api E" "w_now w" "c_history (w_client w cid)" "w_db w"]
    by (auto simp: client_ok_def upd_client_def)
  ultimately have w2: "world_ok ?w2"
    using assms(2) by (intro upd_client_ok) (auto simp: same_identity_def upd_client_def)
  from w1 w2 show ?thesis
    by (simp add: delete_locked_def Let_def h DeleteClient_ok w_db_ok)
qed

lemma client_Delete_ok: "world_ok w \<Longrightarrow> cid < w_nclient w \<Longrightarrow> world_ok (client_Delete E cid w)"
  by (simp add: client_Delete_def delete_locked_ok)

lemma delete_locked_frame [simp]:
  "w_nclient (delete_locked E cid w) = w_nclient w" "w_nsession (delete_locked E cid w) = w_nsession w"
  "w_session (delete_locked E cid w) = w_session w" "w_shuttingDown (delete_locked E cid w) = w_shuttingDown w"
  by (simp_all add: delete_locked_def Let_def split: prod.split)

lemma client_Delete_frame [simp]:
  "w_nclient (client_Delete E cid w) = w_nclient w" "w_nsession (client_Delete E cid w) = w_nsession w"
  "w_session (client_Delete E cid w) = w_session w" "w_shuttingDown (client_Delete E cid w) = w_shuttingDown w"
  by (simp_all add: client_Delete_def)

lemma mark_locked_ok:
  assumes "world_ok w" and "cid < w_nclient w"
  shows "world_ok (mark_locked cid imm w)"
proof (cases "c_disconnect (w_client w cid)")
  case True
  with assms show ?thesis by (simp add: mark_locked_def Let_def)
next
  case False
  let ?w1 = "upd_client cid (\<lambda>c. c\<lparr>c_disconnect := True\<rparr>) w"
  let ?w2 = "conn_close (c_socket (w_client w cid)) ?w1"
  let ?w3 = "stop_timer (c_reconnectTimer (w_client w cid)) ?w2"
  have "world_ok ?w1"
    using assms world_ok_client [OF assms] by (intro upd_client_ok') (auto simp: client_ok_def)
  then have w3: "world_ok ?w3"
    using world_ok_client [OF assms] by (simp add: stop_timer_ok conn_ok)
  show ?thesis
  proof (cases imm)
    case True
    with w3 False show ?thesis by (simp add: mark_locked_def Let_def)
  next
    case imm: False
    let ?f = "\<lambda>c. c\<lparr>c_motdBytes := map_option (\<lambda>_. []) (c_motdBytes c), c_reconnectTimer := Some (w_ntask w)\<rparr>"
    have none: "(i, TDelete cid) \<notin> set (w_tasks ?w3)" for i
      using stop_own_timer [OF world_okD(4) [OF \<open>world_ok ?w1\<close>], of i cid] by (simp add: conn_close_def)
    have w4: "world_ok (upd_client cid ?f ?w3)"
      using w3 world_ok_client [OF assms] none
      by (intro upd_client_ok') (auto simp: client_ok_def conn_close_def)
    have "world_ok (spawn (TDelete cid) (upd_client cid ?f ?w3))"
      using w4 none assms(2) by (intro spawn_timer_ok) (simp_all add: conn_close_def)
    then show ?thesis using imm False
      by (simp add: mark_locked_def Let_def conn_close_def)
  qed
qed

lemma mark_locked_frame [simp]:
  "w_nclient (mark_locked cid imm w) = w_nclient w" "w_nsession (mark_locked cid imm w) = w_nsession w"
  "w_shuttingDown (mark_locked cid imm w) = w_shuttingDown w" "w_clients (mark_locked cid imm w) = w_clients w"
  "s_client (w_session (mark_locked cid imm w) s) = s_client (w_session w s)"
  "s_user (w_session (mark_locked cid imm w) s) = s_user (w_session w s)"
  by (simp_all add: mark_locked_def Let_def conn_close_def)

lemma MarkedDisconnect_ok: "world_ok w \<Longrightarrow> cid < w_nclient w \<Longrightarrow> world_ok (MarkedDisconnect E cid imm w)"
  by (simp add: MarkedDisconnect_def Let_def client_Delete_ok mark_locked_ok)

lemma MarkedDisconnect_frame [simp]:
  "w_nclient (MarkedDisconnect E cid imm w) = w_nclient w"
  "w_nsession (MarkedDisconnect E cid imm w) = w_nsession w"
  "w_shuttingDown (MarkedDisconnect E cid imm w) = w_shuttingDown w"
  "s_client (w_session (MarkedDisconnect E cid imm w) s) = s_client (w_session w s)"
  by (simp_all add: MarkedDisconnect_def Let_def)

lemma upd_plan_same: "upd_client cid (\<lambda>c. c\<lparr>c_flightPlan := c_flightPlan (w_client w cid)\<rparr>) w = w"
proof -
  have "(w_client w cid)\<lparr>c_flightPlan := c_flightPlan (w_client w cid)\<rparr> = w_client w cid" by simp
  then show ?thesis by (simp add: upd_client_def)
qed

lemma client_UpsertFlightPlan_total:
  assumes "17 \<le> length d"
  shows "\<exists>p db err. client_UpsertFlightPlan E cid d w =
           Inr (upd_client cid (\<lambda>c. c\<lparr>c_flightPlan := p\<rparr>) (w\<lparr>w_db := db\<rparr>), err) \<and>
           (err = None \<longrightarrow> p \<noteq> None)"
proof (cases "c_flightPlan (w_client w cid)")
  case None
  obtain q db err where u: "UpsertFlightPlan (e_api E) (e_SimulatorServer E) (c_user (w_client w cid))
      (c_callsign (w_client w cid)) d (w_db w) = Inr (Some q, db, err)"
    using UpsertFlightPlan_Some [OF assms] by metis
  show ?thesis
  proof (cases err)
    case None
    with \<open>c_flightPlan (w_client w cid) = None\<close> show ?thesis
      by (intro exI [of _ "Some q"] exI [of _ db] exI [of _ None])
        (simp add: client_UpsertFlightPlan_def u Let_def)
  next
    case (Some e)
    with None upd_plan_same [of cid "w\<lparr>w_db := db\<rparr>"] show ?thesis
      by (intro exI [of _ None] exI [of _ db] exI [of _ err])
        (simp add: client_UpsertFlightPlan_def u Let_def)
  qed
next
  case (Some p)
  show ?thesis
  proof (cases "e_SimulatorServer E")
    case True
    with Some show ?thesis
      using upd_plan_same [of cid w]
      by (intro exI [of _ "Some p"] exI [of _ "w_db w"]) (simp add: client_UpsertFlightPlan_def)
  next
    case False
    define p' where "p' = (if fp_Locked p \<and> (fp_DepartureAirport p \<noteq> d ! 5 \<or> fp_ArrivalAirport p \<noteq> d ! 9)
                           then p\<lparr>fp_Locked := False\<rparr> else p)"
    obtain q db err where u: "UpdateFlightPlan (e_api E) False p' d False (w_db w) = Inr (q, db, err)"
      using UpdateFlightPlan_total by (metis prod_cases3)
    with False Some assms show ?thesis
      by (intro exI [of _ "Some q"] exI [of _ db] exI [of _ err])
        (auto simp: client_UpsertFlightPlan_def Let_def p'_def split: if_splits)
  qed
qed

lemma client_UpsertFlightPlan_ok:
  assumes "world_ok w" and "cid < w_nclient w" and "client_UpsertFlightPlan E cid d w = Inr (w', err)"
    and "17 \<le> length d"
  shows "world_ok w'"
proof -
  obtain p db where "w' = upd_client cid (\<lambda>c. c\<lparr>c_flightPlan := p\<rparr>) (w\<lparr>w_db := db\<rparr>)"
    using client_UpsertFlightPlan_total [OF assms(4), of E cid w] assms(3) by auto
  with assms(1,2) show ?thesis by (simp add: client_field_ok w_db_ok)
qed

end
