(* ===== verification/Safety.thy ===== *)
theory Safety
  imports Invariants
begin

text \<open>
  Every command handler keeps the invariant of the shared state, and the exact conditions under
  which a line makes the server panic.
\<close>

section \<open>When a command panics\<close>

text \<open>
  A panic ends the process. These are the lines that cause one, for a session \<open>sid\<close>: removing a
  client before login; a negative facility in a controller position; asking the server for a
  flight plan without naming a callsign; assigning an altitude to, or editing the plan of, a
  client without a plan; a kill by a controller that may not kill and works a facility from GND.
\<close>

definition no_plan :: "string \<Rightarrow> 'db world \<Rightarrow> bool" where
  "no_plan cs w \<longleftrightarrow> (case GetClient cs w of None \<Rightarrow> False | Some t \<Rightarrow> c_flightPlan (w_client w t) = None)"

definition crashes :: "'db env \<Rightarrow> nat \<Rightarrow> ClientCommand \<Rightarrow> string list \<Rightarrow> 'db world \<Rightarrow> bool" where
  "crashes E sid command data w \<longleftrightarrow>
     command = AtcPosition \<and> StrToInt (data ! 2) 0 < 0 \<or>
     (case s_client (w_session w sid) of
        None \<Rightarrow> command = RemoveAtc \<or> command = RemovePilot
      | Some cid \<Rightarrow>
          let c = w_client w cid in
          command = ClientQuery \<and> data ! 1 = FSDServerName \<and> data ! 2 = ''FP'' \<and> length data = 3 \<or>
          command = ClientQuery \<and> data ! 1 = SpecialFrequency \<and> \<not> e_SimulatorServer E \<and>
            client_CheckFacility AllowAtcFacility c \<and> data ! 2 = ''FA'' \<and> 5 \<le> length data \<and>
            no_plan (data ! 3) w \<or>
          command = AtcEditPlan \<and> c_isAtc c \<and> client_CheckFacility AllowAtcFacility c \<and>
            no_plan (data ! 2) w \<or>
          command = KillClient \<and> \<not> (c_isAtc c \<and> CheckRating AllowKillRating c) \<and>
            8 \<le> unat (c_facility c))"

definition long_enough :: "ClientCommand \<Rightarrow> string list \<Rightarrow> bool" where
  "long_enough command data \<longleftrightarrow>
     (case CommandRequirements command of None \<Rightarrow> True | Some r \<Rightarrow> RequireLength r \<le> length data)"

text \<open>The outcome of a handler: it panics if and only if it should, and else all is well.\<close>

definition good :: "'db world \<Rightarrow> 'db world \<Rightarrow> bool" where
  "good w w' \<longleftrightarrow> world_ok w' \<and> w_nsession w' = w_nsession w \<and> w_nclient w \<le> w_nclient w' \<and>
     w_shuttingDown w' = w_shuttingDown w"

definition outcome :: "bool \<Rightarrow> 'db world \<Rightarrow> ('db world \<times> reply) go \<Rightarrow> bool" where
  "outcome bad w r \<longleftrightarrow>
     (case r of Inl _ \<Rightarrow> bad | Inr (w', res) \<Rightarrow> \<not> bad \<and> good w w' \<and> res \<noteq> None)"

lemma outcome_simps [simp]:
  "outcome bad w (Inl p) \<longleftrightarrow> bad"
  "outcome bad w (Inr (w', Some res)) \<longleftrightarrow> \<not> bad \<and> good w w'"
  by (simp_all add: outcome_def)

lemma good_refl [simp]: "world_ok w \<Longrightarrow> good w w"
  by (simp add: good_def)

lemma good_SendLine: "good w0 w \<Longrightarrow> cid < w_nclient w \<Longrightarrow> good w0 (SendLine cid l w)"
  by (simp add: good_def SendLine_ok)

lemma good_SendMotd: "good w0 w \<Longrightarrow> cid < w_nclient w \<Longrightarrow> good w0 (SendMotd E cid w)"
  by (simp add: good_def SendMotd_ok)

lemma good_spawn: "good w0 w \<Longrightarrow> task_ok w t \<Longrightarrow> \<forall>cid. t \<noteq> TDelete cid \<Longrightarrow> good w0 (spawn t w)"
  by (simp add: good_def spawn_ok)

lemma good_db: "good w0 (w\<lparr>w_db := db\<rparr>) = good w0 w"
  by (simp add: good_def w_db_ok)

lemma good_plan: "good w0 w \<Longrightarrow> cid < w_nclient w \<Longrightarrow> good w0 (upd_client cid (\<lambda>c. c\<lparr>c_flightPlan := p\<rparr>) w)"
  by (simp add: good_def client_field_ok)

lemma good_client:
  "good w0 w \<Longrightarrow> cid < w_nclient w \<Longrightarrow> client_ok c \<Longrightarrow> same_identity (w_client w cid) c \<Longrightarrow>
   good w0 (upd_client cid (\<lambda>_. c) w)"
  by (simp add: good_def upd_client_ok)

lemma good_SendMessageTo: "good w0 w \<Longrightarrow> good w0 (fst (SendMessageTo cs m w))"
  using SendMessageTo_ok [of w cs m] by (auto simp: good_def SendMessageTo_def split: option.splits)

lemma good_MarkedDisconnect: "good w0 w \<Longrightarrow> cid < w_nclient w \<Longrightarrow> good w0 (MarkedDisconnect E cid b w)"
  by (simp add: good_def MarkedDisconnect_ok)

lemmas good_intros = good_SendLine good_SendMotd good_spawn good_plan good_client
  good_SendMessageTo good_MarkedDisconnect

lemma session_client_lt:
  "world_ok w \<Longrightarrow> sid < w_nsession w \<Longrightarrow> s_client (w_session w sid) = Some cid \<Longrightarrow> cid < w_nclient w"
  by (rule world_ok_session)

section \<open>Handlers\<close>

lemma forward_to_outcome:
  assumes "world_ok w" and "sid < w_nsession w" and "good w0 w"
  shows "outcome False w0 (forward_to sid t raw w)"
proof (cases "has_prefix t ''@''")
  case True
  then have "t \<noteq> []" by (auto simp: has_prefix_def)
  with True assms session_client_lt [OF assms(1,2)] show ?thesis
    by (auto simp: forward_to_def sendFrequencyMessage_def Let_def not_registered_def
        intro!: good_spawn split: option.split)
qed (use assms in \<open>simp add: forward_to_def good_SendMessageTo\<close>)

lemma handleRequest_outcome:
  assumes "world_ok w" and "2 \<le> length data"
  shows "outcome False w (handleRequest E sid data raw w)"
  using assms by (simp add: handleRequest_def good_SendMessageTo)

lemma handleMessage_outcome:
  assumes "world_ok w" and "sid < w_nsession w" and "2 \<le> length data"
  shows "outcome False w (handleMessage E sid data raw w)"
  using assms forward_to_outcome [OF assms(1,2) good_refl] session_client_lt [OF assms(1,2)]
  by (auto simp: handleMessage_def intro!: good_spawn)

lemma handleSquawkBox_outcome:
  assumes "world_ok w" and "sid < w_nsession w" and "2 \<le> length data"
  shows "outcome False w (handleSquawkBox E sid data raw w)"
  using assms GetClient_ok [OF assms(1)]
  by (auto simp: handleSquawkBox_def not_registered_def intro!: good_SendLine split: option.split)

lemma removeClient_outcome:
  assumes "world_ok w"
  shows "outcome (s_client (w_session w sid) = None) w (removeClient E sid data raw w)"
  using assms by (cases "s_client (w_session w sid)") (simp_all add: removeClient_def)

lemma handleAtcPosUpdate_outcome:
  assumes "world_ok w" and "sid < w_nsession w" and "8 \<le> length data"
  shows "outcome (StrToInt (data ! 2) 0 < 0) w (handleAtcPosUpdate E sid data raw w)"
proof (cases "StrToInt (data ! 2) 0 < 0 \<or> s_client (w_session w sid) = None \<or>
    \<not> CheckRatingFacility (e_RatingFacilityMap E) (StrToInt (data ! 4) 0) (push_bit (nat (StrToInt (data ! 2) 0)) 1)")
  case True
  from assms(3) have "data \<noteq> []" by auto
  with True assms show ?thesis by (auto simp: handleAtcPosUpdate_def Let_def not_registered_def split: option.split)
next
  case False
  then obtain cid where cid: "s_client (w_session w sid) = Some cid" by auto
  note lt = session_client_lt [OF assms(1,2) cid]
  obtain c where "UpdateAtcPos (StrToInt (data ! 1) 0) (push_bit (nat (StrToInt (data ! 2) 0)) 1)
      (StrToFloat (data ! 3) 0) (StrToFloat (data ! 5) 0) (StrToFloat (data ! 6) 0) (w_client w cid) = Inr c"
    "client_ok c" "same_identity (w_client w cid) c"
    using UpdateAtcPos_ok [OF world_ok_client(1) [OF assms(1) lt]] by metis
  moreover from assms(3) have "data \<noteq> []" by auto
  ultimately show ?thesis using False cid lt assms
    by (auto simp: handleAtcPosUpdate_def Let_def intro!: good_intros)
qed

lemma handlePilotPosUpdate_outcome:
  assumes "world_ok w" and "sid < w_nsession w" and "10 \<le> length data"
  shows "outcome False w (handlePilotPosUpdate E sid data raw w)"
proof (cases "s_client (w_session w sid)")
  case None
  with assms show ?thesis by (simp add: handlePilotPosUpdate_def not_registered_def)
next
  case (Some cid)
  note lt = session_client_lt [OF assms(1,2) Some]
  obtain c where "UpdatePilotPos (StrToInt (data ! 2) 0) (StrToFloat (data ! 4) 0) (StrToFloat (data ! 5) 0)
      (StrToInt (data ! 6) 0) (StrToInt (data ! 7) 0) (word_of_int (StrToInt (data ! 8) 0)) (w_client w cid) = Inr c"
    "client_ok c" "same_identity (w_client w cid) c"
    using UpdatePilotPos_ok [OF world_ok_client(1) [OF assms(1) lt]] by metis
  with Some lt assms show ?thesis
    by (auto simp: handlePilotPosUpdate_def Let_def intro!: good_intros)
qed

lemma handleAtcVisPointUpdate_outcome:
  assumes "world_ok w" and "sid < w_nsession w" and "4 \<le> length data"
  shows "outcome False w (handleAtcVisPointUpdate E sid data raw w)"
proof (cases "s_client (w_session w sid)")
  case None
  with assms show ?thesis by (simp add: handleAtcVisPointUpdate_def not_registered_def)
next
  case (Some cid)
  note lt = session_client_lt [OF assms(1,2) Some]
  obtain c e where "UpdateAtcVisPoint (StrToInt (data ! 1) 0) (StrToFloat (data ! 2) 0)
      (StrToFloat (data ! 3) 0) (w_client w cid) = Inr (c, e)"
    "client_ok c" "same_identity (w_client w cid) c"
    using UpdateAtcVisPoint_ok [OF world_ok_client(1) [OF assms(1) lt]] by metis
  with Some lt assms show ?thesis
    by (auto simp: handleAtcVisPointUpdate_def intro!: good_intros)
qed

section \<open>Handlers of flight plans\<close>

lemma no_plan_bind:
  "Option.bind (GetClient cs w) (\<lambda>t. c_flightPlan (w_client w t)) = None \<longleftrightarrow> GetClient cs w = None \<or> no_plan cs w"
  by (auto simp: no_plan_def split: option.splits)

lemma handlePlan_outcome:
  assumes "world_ok w" and "sid < w_nsession w" and "17 \<le> length data"
  shows "outcome False w (handlePlan E sid data raw w)"
proof (cases "s_client (w_session w sid)")
  case None
  with assms show ?thesis by (simp add: handlePlan_def not_registered_def)
next
  case (Some cid)
  note lt = session_client_lt [OF assms(1,2) Some]
  obtain p db err where u: "client_UpsertFlightPlan E cid data w =
      Inr (upd_client cid (\<lambda>c. c\<lparr>c_flightPlan := p\<rparr>) (w\<lparr>w_db := db\<rparr>), err)" "err = None \<longrightarrow> p \<noteq> None"
    using client_UpsertFlightPlan_total [OF assms(3)] by metis
  have g: "good w (upd_client cid (\<lambda>c. c\<lparr>c_flightPlan := p\<rparr>) (w\<lparr>w_db := db\<rparr>))"
    using assms(1) lt by (intro good_plan) (simp_all add: good_db)
  show ?thesis
  proof (cases err)
    case None
    with u obtain q where "p = Some q" by auto
    with u None Some g lt assms show ?thesis
      by (auto simp: handlePlan_def intro!: good_spawn)
  next
    case (Some e)
    with u \<open>s_client (w_session w sid) = Some cid\<close> g assms show ?thesis
      by (simp add: handlePlan_def)
  qed
qed

lemma not_atc_facility:
  assumes "\<not> CheckFacility AllowAtcFacility f"
  shows "unat f < 8"
proof -
  have "AllowAtcFacility = 252" by (simp add: AllowAtcFacility_def)
  with assms have 0: "f AND 252 = 0" by (simp add: CheckFacility_def and.commute)
  have "252 OR 3 = (- 1 :: Facility)" by code_simp
  then have "f = f AND (252 OR 3)" by (simp only: and.right_neutral)
  also have "\<dots> = f AND 3" using 0 by (simp only: bit.conj_disj_distrib or.left_neutral)
  finally have "f \<le> 3" using word_and_le1 [of f 3] by (metis and.commute)
  then have "unat f \<le> 3" by (simp add: word_le_nat_alt)
  then show ?thesis by simp
qed

lemma Facility_String_Inr: "unat f < 8 \<Longrightarrow> \<exists>s. Facility_String f = Inr s"
  by (simp add: Facility_String_def Facilities_def)

lemma Facility_String_Inl: "\<not> unat f < 8 \<Longrightarrow> Facility_String f = Inl IndexOutOfRange"
  by (simp add: Facility_String_def Facilities_def)

lemma handleAtcEditPlan_outcome:
  assumes "world_ok w" and "sid < w_nsession w" and "18 \<le> length data"
  shows "outcome (case s_client (w_session w sid) of None \<Rightarrow> False
           | Some cid \<Rightarrow> c_isAtc (w_client w cid) \<and> client_CheckFacility AllowAtcFacility (w_client w cid) \<and>
                         no_plan (data ! 2) w) w (handleAtcEditPlan E sid data raw w)"
proof (cases "s_client (w_session w sid)")
  case None
  with assms show ?thesis by (simp add: handleAtcEditPlan_def not_registered_def)
next
  case cid: (Some cid)
  let ?c = "w_client w cid"
  consider "\<not> c_isAtc ?c" | "c_isAtc ?c" "\<not> client_CheckFacility AllowAtcFacility ?c"
    | "c_isAtc ?c" "client_CheckFacility AllowAtcFacility ?c" "GetClient (data ! 2) w = None"
    | t where "c_isAtc ?c" "client_CheckFacility AllowAtcFacility ?c" "GetClient (data ! 2) w = Some t"
        "c_flightPlan (w_client w t) = None"
    | t p where "c_isAtc ?c" "client_CheckFacility AllowAtcFacility ?c" "GetClient (data ! 2) w = Some t"
        "c_flightPlan (w_client w t) = Some p"
    by (metis option.exhaust)
  then show ?thesis
  proof cases
    case 2
    with not_atc_facility Facility_String_Inr obtain name where "Facility_String (c_facility ?c) = Inr name"
      unfolding client_CheckFacility_def by blast
    with 2 cid assms show ?thesis by (simp add: handleAtcEditPlan_def Let_def)
  next
    case (5 t p)
    then have t: "t < w_nclient w" using GetClient_ok [OF assms(1)] by blast
    obtain q db err where u: "UpdateFlightPlan (e_api E) (e_SimulatorServer E)
        (p\<lparr>fp_Locked := \<not> e_SimulatorServer E\<rparr>) (drop 1 data) True (w_db w) = Inr (q, db, err)"
      using UpdateFlightPlan_total by (metis prod_cases3)
    have "good w (upd_client t (\<lambda>c. c\<lparr>c_flightPlan := Some q\<rparr>) (w\<lparr>w_db := db\<rparr>))"
      using assms(1) t by (intro good_plan) (simp_all add: good_db)
    moreover have "length data \<ge> 1" using assms(3) by simp
    ultimately show ?thesis
      using 5 cid assms u session_client_lt [OF assms(1,2) cid]
      by (auto simp: handleAtcEditPlan_def Let_def no_plan_def intro!: good_spawn)
  qed (use cid assms in \<open>auto simp: handleAtcEditPlan_def Let_def no_plan_def\<close>)
qed

lemma handleKillClient_outcome:
  assumes "world_ok w" and "sid < w_nsession w" and "2 \<le> length data"
  shows "outcome (case s_client (w_session w sid) of None \<Rightarrow> False
           | Some cid \<Rightarrow> \<not> (c_isAtc (w_client w cid) \<and> CheckRating AllowKillRating (w_client w cid)) \<and>
                         8 \<le> unat (c_facility (w_client w cid))) w (handleKillClient E sid data raw w)"
proof (cases "s_client (w_session w sid)")
  case None
  with assms show ?thesis by (simp add: handleKillClient_def not_registered_def)
next
  case cid: (Some cid)
  show ?thesis
  proof (cases "c_isAtc (w_client w cid) \<and> CheckRating AllowKillRating (w_client w cid)")
    case True
    with cid assms GetClient_ok [OF assms(1), of "data ! 1"] show ?thesis
      by (auto simp: handleKillClient_def Let_def intro!: good_MarkedDisconnect split: option.split)
  next
    case False
    with cid assms Facility_String_Inr [of "c_facility (w_client w cid)"]
      Facility_String_Inl [of "c_facility (w_client w cid)"] show ?thesis
      by (cases "unat (c_facility (w_client w cid)) < 8") (auto simp: handleKillClient_def Let_def)
  qed
qed

lemma handleClientResponse_outcome:
  assumes "world_ok w" and "sid < w_nsession w" and "3 \<le> length data"
  shows "outcome False w (handleClientResponse E sid data raw w)"
proof (cases "s_client (w_session w sid)")
  case None
  with assms show ?thesis by (simp add: handleClientResponse_def not_registered_def)
next
  case (Some cid)
  note lt = session_client_lt [OF assms(1,2) Some]
  let ?w1 = "upd_client cid (AddAtcAtisInfo (data ! 4)) w"
  have "world_ok ?w1" by (rule client_field_ok(5) [OF assms(1) lt])
  then have "outcome False w (forward_to sid (data ! 1) raw ?w1)"
    using assms(2) by (intro forward_to_outcome) (simp_all add: good_def)
  with Some assms forward_to_outcome [OF assms(1,2) good_refl] show ?thesis
    by (auto simp: handleClientResponse_def)
qed

lemma special_names:
  "FSDServerName \<noteq> SpecialFrequency" "has_prefix SpecialFrequency ''@''"
  by (simp_all add: FSDServerName_def SpecialFrequency_def has_prefix_def)

lemma query_plan_outcome:
  assumes "world_ok w" and "sid < w_nsession w" and cid: "s_client (w_session w sid) = Some cid"
    and 2: "data ! 1 = FSDServerName" "data ! 2 = ''FP''" "3 < length data"
  shows "outcome False w (handleClientQuery E sid data raw w)"
proof (cases "Option.bind (GetClient (data ! 3) w) (\<lambda>t. c_flightPlan (w_client w t))")
  case None
  with 2 cid assms(1) special_names show ?thesis by (simp add: handleClientQuery_def)
next
  case (Some p)
  let ?w1 = "SendLine cid (ToString p (data ! 0)) w"
  have "outcome False w (forward_to sid (data ! 1) raw ?w1)"
    using assms(1,2) session_client_lt [OF assms(1-3)]
    by (intro forward_to_outcome) (simp_all add: SendLine_ok good_SendLine)
  moreover have "data \<noteq> []" using 2(3) by auto
  ultimately show ?thesis using Some 2 cid special_names by (simp add: handleClientQuery_def)
qed

lemma query_altitude_outcome:
  assumes "world_ok w" and "sid < w_nsession w" and cid: "s_client (w_session w sid) = Some cid"
    and 4: "data ! 1 = SpecialFrequency" "\<not> e_SimulatorServer E" "client_CheckFacility AllowAtcFacility (w_client w cid)"
        "data ! 2 = ''FA''" "5 \<le> length data"
  shows "outcome (no_plan (data ! 3) w) w (handleClientQuery E sid data raw w)"
proof (cases "GetClient (data ! 3) w")
  case None
  with 4 cid assms(1) special_names show ?thesis by (simp add: handleClientQuery_def no_plan_def)
next
  case t: (Some t)
  then have tlt: "t < w_nclient w" using GetClient_ok [OF assms(1)] by blast
  show ?thesis
  proof (cases "c_flightPlan (w_client w t)")
    case None
    with t 4 cid special_names show ?thesis by (simp add: handleClientQuery_def no_plan_def)
  next
    case (Some p)
    obtain p' db err where u: "UpdateCruiseAltitude (e_api E) False p
        (altitude_text (StrToInt (data ! 4) 0)) (w_db w) = (p', db, err)" by (metis prod_cases3)
    let ?w1 = "upd_client t (\<lambda>c. c\<lparr>c_flightPlan := Some p'\<rparr>) (w\<lparr>w_db := db\<rparr>)"
    have g: "good w ?w1"
      using assms(1) tlt by (intro good_plan) (simp_all add: good_db)
    then have "outcome False w (forward_to sid (data ! 1) raw ?w1)"
      using assms(1,2) by (intro forward_to_outcome) (simp_all add: good_def)
    with Some t 4 cid special_names u g show ?thesis
      by (simp add: handleClientQuery_def no_plan_def Let_def)
  qed
qed

lemma handleClientQuery_outcome:
  assumes "world_ok w" and "sid < w_nsession w" and "3 \<le> length data"
  shows "outcome (case s_client (w_session w sid) of None \<Rightarrow> False
           | Some cid \<Rightarrow>
               data ! 1 = FSDServerName \<and> data ! 2 = ''FP'' \<and> length data = 3 \<or>
               data ! 1 = SpecialFrequency \<and> \<not> e_SimulatorServer E \<and>
               client_CheckFacility AllowAtcFacility (w_client w cid) \<and> data ! 2 = ''FA'' \<and>
               5 \<le> length data \<and> no_plan (data ! 3) w) w (handleClientQuery E sid data raw w)"
proof (cases "s_client (w_session w sid)")
  case None
  with assms show ?thesis by (simp add: handleClientQuery_def not_registered_def)
next
  case cid: (Some cid)
  note fwd = forward_to_outcome [OF assms(1,2) good_refl [OF assms(1)], of "data ! 1" raw]
  have "data \<noteq> []" using assms(3) by auto
  note ne = special_names this
  consider "data ! 1 = FSDServerName" "data ! 2 = ''FP''" "length data = 3"
    | "data ! 1 = FSDServerName" "data ! 2 = ''FP''" "3 < length data"
    | "data ! 1 = FSDServerName" "data ! 2 \<noteq> ''FP''"
    | "data ! 1 = SpecialFrequency" "\<not> e_SimulatorServer E" "client_CheckFacility AllowAtcFacility (w_client w cid)"
        "data ! 2 = ''FA''" "5 \<le> length data"
    | "data ! 1 \<noteq> FSDServerName" "\<not> (data ! 1 = SpecialFrequency \<and> \<not> e_SimulatorServer E \<and>
         client_CheckFacility AllowAtcFacility (w_client w cid) \<and> data ! 2 = ''FA'' \<and> 5 \<le> length data)"
    using assms(3) by linarith
  then show ?thesis
  proof cases
    case 2
    with query_plan_outcome [OF assms(1,2) cid this] cid ne show ?thesis by simp
  next
    case 4
    with query_altitude_outcome [OF assms(1,2) cid this] cid ne show ?thesis by simp
  next
    case 5
    with fwd cid ne assms show ?thesis by (auto simp: handleClientQuery_def)
  qed (use fwd cid assms ne in \<open>auto simp: handleClientQuery_def\<close>)
qed

end
