(* ===== verification/Login.thy ===== *)
theory Login
  imports Safety
begin

text \<open>
  Logging in: what \<open>verifyUserInfo\<close>, \<open>handleAddAtc\<close> and \<open>handleAddPilot\<close> establish, and that they
  keep the invariant without a panic.
\<close>

section \<open>Verification\<close>

lemma verifyUserInfo_good:
  assumes "world_ok w" and "sid < w_nsession w"
  shows "good w (fst (verifyUserInfo E sid cs proto ident pw w)) \<and>
         w_clients (fst (verifyUserInfo E sid cs proto ident pw w)) = w_clients w \<and>
         w_nclient (fst (verifyUserInfo E sid cs proto ident pw w)) = w_nclient w \<and>
         w_db (fst (verifyUserInfo E sid cs proto ident pw w)) = w_db w"
proof (cases "GetClient cs w")
  case None
  have "world_ok (upd_session sid (\<lambda>s. s\<lparr>s_user := u\<rparr>) w)" for u
    using assms by (rule upd_session_keep_ok) simp
  with None assms show ?thesis
    by (simp add: verifyUserInfo_def Let_def good_def split: prod.split)
next
  case (Some c)
  then have c: "c < w_nclient w" using GetClient_ok [OF assms(1)] by blast
  obtain w' ok where r: "Reconnect c sid w = (w', ok)" by (metis surj_pair)
  have w': "w_clients w' = w_clients w" "w_nclient w' = w_nclient w" "w_nsession w' = w_nsession w"
    "w_db w' = w_db w" "w_shuttingDown w' = w_shuttingDown w" "world_ok w'"
    using Reconnect_frame [of c sid w] Reconnect_ok [OF assms(1) c assms(2)] unfolding r fst_conv by auto
  let ?w1 = "upd_session sid (\<lambda>s. s\<lparr>s_client := Some c\<rparr>) w'"
  have w1: "world_ok ?w1"
    using w' c by (intro upd_session_ok) simp_all
  then have w2: "world_ok (upd_client c (SetUser u) ?w1)" for u
    using w' c by (intro client_field_ok) simp_all
  then have w3: "world_ok (upd_session sid (\<lambda>s. s\<lparr>s_user := u'\<rparr>) (upd_client c (SetUser u) ?w1))" for u u'
    using w' assms(2) by (intro upd_session_keep_ok) simp_all
  obtain user err where "GetUser (e_api E) ident (w_db w) = (user, err)" by (metis surj_pair)
  with Some r w' w1 w3 assms show ?thesis
    by (auto simp: verifyUserInfo_def Let_def good_def)
qed

text \<open>What a verification that raises no objection has checked, and what it did.\<close>

lemma verifyUserInfo_None:
  assumes "verifyUserInfo E sid cs proto ident pw w = (w1, None)"
  shows "callsignValid cs \<and> proto = 9 \<and>
     (\<exists>user. GetUser (e_api E) ident (w_db w) = (user, None) \<and> u_Rating user \<noteq> Ban \<and>
        VerifyUserPassword (e_api E) user pw \<and>
        (case GetClient cs w of
           None \<Rightarrow> w1 = upd_session sid (\<lambda>s. s\<lparr>s_user := Some user\<rparr>) w
         | Some c \<Rightarrow> c_disconnect (w_client w c) \<and>
             w1 = upd_session sid (\<lambda>s. s\<lparr>s_user := Some user\<rparr>) (upd_client c (SetUser user)
                    (upd_session sid (\<lambda>s. s\<lparr>s_client := Some c\<rparr>) (fst (Reconnect c sid w))))))"
  using assms
  by (auto simp: verifyUserInfo_def Let_def Reconnect_def SetCallsign_def split: if_splits option.splits prod.splits)

lemma verifyUserInfo_user:
  assumes "verifyUserInfo E sid cs proto ident pw w = (w1, None)"
  shows "\<exists>user. s_user (w_session w1 sid) = Some user"
  using verifyUserInfo_None [OF assms] by (auto split: option.splits)

section \<open>The two login handlers\<close>

lemma login_new_client:
  assumes "world_ok w" and "sid < w_nsession w" and "callsignValid cs"
    and "s_user (w_session w sid) = Some u"
  shows "\<exists>c w2. NewClient E cs r p rn sid atc w = Inr (w_nclient w, w2) \<and> world_ok w2 \<and>
     w_client w2 = (w_client w)(w_nclient w := c) \<and> client_ok c \<and> c_callsign c = cs \<and> c_socket c = sid \<and>
     w_nclient w2 = Suc (w_nclient w) \<and> w_nsession w2 = w_nsession w \<and> w_clients w2 = w_clients w \<and>
     w_shuttingDown w2 = w_shuttingDown w \<and> w_db w2 = w_db w \<and>
     c_user c = u \<and> c_rating c = r \<and> c_isAtc c = atc"
proof -
  obtain c where "NewClient E cs r p rn sid atc w =
     Inr (w_nclient w, (SetCallsign sid cs w)\<lparr>w_client := (w_client w)(w_nclient w := c),
                                              w_nclient := Suc (w_nclient w)\<rparr>)"
    "world_ok ((SetCallsign sid cs w)\<lparr>w_client := (w_client w)(w_nclient w := c),
                                      w_nclient := Suc (w_nclient w)\<rparr>)"
    "client_ok c \<and> c_callsign c = cs \<and> c_socket c = sid \<and> c_isAtc c = atc \<and> c_user c = u \<and>
     c_rating c = r \<and> \<not> c_disconnect c"
    using NewClient_ok [OF assms, of E r p rn atc] by blast
  then show ?thesis
    by (intro exI [of _ c] exI [of _ "(SetCallsign sid cs w)\<lparr>w_client := (w_client w)(w_nclient w := c),
                                        w_nclient := Suc (w_nclient w)\<rparr>"]) (simp add: SetCallsign_def)
qed

lemma good_upd_session_client:
  assumes "good w0 w" and "cid < w_nclient w"
  shows "good w0 (upd_session sid (\<lambda>s. s\<lparr>s_client := Some cid\<rparr>) w)"
  using assms by (simp add: good_def upd_session_ok)

lemma good_AddClient: "good w0 w \<Longrightarrow> cid < w_nclient w \<Longrightarrow> good w0 (fst (AddClient cid w))"
  by (simp add: good_def AddClient_ok)

lemma good_SetSimType: "good w0 w \<Longrightarrow> cid < w_nclient w \<Longrightarrow> good w0 (upd_client cid (SetSimType t) w)"
  by (simp add: good_def client_field_ok)

lemma handleAddAtc_outcome:
  assumes "world_ok w" and "sid < w_nsession w" and "12 \<le> length data"
  shows "outcome False w (handleAddAtc E sid data raw w)"
proof -
  obtain w1 res where v: "verifyUserInfo E sid (data ! 0) (StrToInt (data ! 6) 0) (GetUserId (data ! 3))
      (data ! 4) w = (w1, res)" by (metis surj_pair)
  have ne: "data \<noteq> []" using assms(3) by auto
  have g: "good w w1" using verifyUserInfo_good [OF assms(1,2)] v by (metis fst_conv)
  then have w1: "world_ok w1" "sid < w_nsession w1" using assms(2) by (simp_all add: good_def)
  show ?thesis
  proof (cases res)
    case (Some r)
    with v g ne assms(3) show ?thesis by (simp add: handleAddAtc_def)
  next
    case None
    with v obtain user where u: "s_user (w_session w1 sid) = Some user" using verifyUserInfo_user by blast
    have cs: "callsignValid (data ! 0)" using verifyUserInfo_None v None by blast
    show ?thesis
    proof (cases "s_client (w_session w1 sid)")
      case (Some cid)
      then have lt: "cid < w_nclient w1" using session_client_lt w1 by blast
      with Some v None u g ne assms(3) show ?thesis
        by (auto simp: handleAddAtc_def Let_def intro!: good_intros)
    next
      case nocl: None
      let ?cid = "w_nclient w1"
      obtain c w2 where n: "NewClient E (data ! 0) (StrToInt (data ! 5) 0) (StrToInt (data ! 6) 0) (data ! 2)
          sid True w1 = Inr (?cid, w2)"
        and w2: "world_ok w2" "w_client w2 = (w_client w1)(?cid := c)" "client_ok c" "w_nclient w2 = Suc ?cid"
          "w_nsession w2 = w_nsession w1" "w_shuttingDown w2 = w_shuttingDown w1"
        using login_new_client [OF w1 cs u] by blast
      have g2: "good w (upd_session sid (\<lambda>s. s\<lparr>s_client := Some ?cid\<rparr>) w2)" (is "good w ?w3")
        using g w2 by (intro good_upd_session_client) (simp_all add: good_def)
      obtain c' e where p: "SetPosition 0 (StrToFloat (data ! 9) 0) (StrToFloat (data ! 10) 0) c = Inr (c', e)"
          "client_ok c'" "same_identity c c'"
        using SetPosition_ok [OF w2(3), of 0] by fastforce
      have "good w (upd_client ?cid (\<lambda>_. c') ?w3)"
        using g2 p w2 by (intro good_client) simp_all
      then have "good w (fst (AddClient ?cid (upd_client ?cid (\<lambda>_. c') ?w3)))"
        using w2 by (intro good_AddClient) simp_all
      with v None u n p w2 nocl g ne assms(3) show ?thesis
        by (auto simp: handleAddAtc_def Let_def intro!: good_intros)
    qed
  qed
qed

lemma handleAddPilot_outcome:
  assumes "world_ok w" and "sid < w_nsession w" and "8 \<le> length data"
  shows "outcome False w (handleAddPilot E sid data raw w)"
proof -
  obtain w1 res where v: "verifyUserInfo E sid (data ! 0) (StrToInt (data ! 5) 0) (GetUserId (data ! 2))
      (data ! 3) w = (w1, res)" by (metis surj_pair)
  have ne: "data \<noteq> []" using assms(3) by auto
  have g: "good w w1" using verifyUserInfo_good [OF assms(1,2)] v by (metis fst_conv)
  then have w1: "world_ok w1" "sid < w_nsession w1" using assms(2) by (simp_all add: good_def)
  show ?thesis
  proof (cases res)
    case (Some r)
    with v g ne assms(3) show ?thesis by (simp add: handleAddPilot_def)
  next
    case None
    with v obtain user where u: "s_user (w_session w1 sid) = Some user" using verifyUserInfo_user by blast
    have cs: "callsignValid (data ! 0)" using verifyUserInfo_None v None by blast
    show ?thesis
    proof (cases "s_client (w_session w1 sid)")
      case (Some cid)
      then have lt: "cid < w_nclient w1" using session_client_lt w1 by blast
      with Some v None g ne assms(3) show ?thesis
        by (auto simp: handleAddPilot_def Let_def intro!: good_intros split: option.split)
    next
      case nocl: None
      let ?cid = "w_nclient w1"
      obtain c w2 where n: "NewClient E (data ! 0) (StrToInt (data ! 4) 0 - 1) (StrToInt (data ! 5) 0) (data ! 7)
          sid False w1 = Inr (?cid, w2)"
        and w2: "world_ok w2" "w_client w2 = (w_client w1)(?cid := c)" "client_ok c" "w_nclient w2 = Suc ?cid"
          "w_nsession w2 = w_nsession w1" "w_shuttingDown w2 = w_shuttingDown w1"
        using login_new_client [OF w1 cs u] by blast
      have "good w (upd_session sid (\<lambda>s. s\<lparr>s_client := Some ?cid\<rparr>) w2)" (is "good w ?w3")
        using g w2 by (intro good_upd_session_client) (simp_all add: good_def)
      then have "good w (fst (AddClient ?cid (upd_client ?cid (SetSimType (StrToInt (data ! 6) 0)) ?w3)))"
        using w2 by (intro good_AddClient good_SetSimType) simp_all
      with v None n w2 nocl g ne assms(3) show ?thesis
        by (auto simp: handleAddPilot_def Let_def intro!: good_intros split: option.split)
    qed
  qed
qed

end
