(* ===== verification/System.thy ===== *)
theory System
  imports Login
begin

text \<open>
  The whole FSD server as a transition system: connections arrive and end, lines are received,
  goroutines and timers run, the HTTP server kills clients and sends messages, the database
  changes under the server, time passes, the server shuts down. A step that panics has no
  successor.
\<close>

section \<open>Commands\<close>

lemma requirement_simps [simp]:
  "CommandRequirements AddAtc = Some \<lparr>RequireLength = 12, ReqFatal = True\<rparr>"
  "CommandRequirements AddPilot = Some \<lparr>RequireLength = 8, ReqFatal = True\<rparr>"
  "CommandRequirements AtcPosition = Some \<lparr>RequireLength = 8, ReqFatal = False\<rparr>"
  "CommandRequirements PilotPosition = Some \<lparr>RequireLength = 10, ReqFatal = False\<rparr>"
  "CommandRequirements AtcSubVisPoint = Some \<lparr>RequireLength = 4, ReqFatal = False\<rparr>"
  "CommandRequirements ClientQuery = Some \<lparr>RequireLength = 3, ReqFatal = False\<rparr>"
  "CommandRequirements ClientResponse = Some \<lparr>RequireLength = 3, ReqFatal = False\<rparr>"
  "CommandRequirements Message = Some \<lparr>RequireLength = 3, ReqFatal = False\<rparr>"
  "CommandRequirements Plan = Some \<lparr>RequireLength = 17, ReqFatal = False\<rparr>"
  "CommandRequirements AtcEditPlan = Some \<lparr>RequireLength = 18, ReqFatal = False\<rparr>"
  "CommandRequirements KillClient = Some \<lparr>RequireLength = 2, ReqFatal = False\<rparr>"
  "CommandRequirements RequestHandoff = Some \<lparr>RequireLength = 3, ReqFatal = False\<rparr>"
  "CommandRequirements AcceptHandoff = Some \<lparr>RequireLength = 3, ReqFatal = False\<rparr>"
  "CommandRequirements ProController = Some \<lparr>RequireLength = 3, ReqFatal = False\<rparr>"
  "CommandRequirements SquawkBox = Some \<lparr>RequireLength = 2, ReqFatal = False\<rparr>"
  "CommandRequirements RemoveAtc = None" "CommandRequirements RemovePilot = None"
  by (simp_all add: CommandRequirements_def command_defs)

lemma crashes_simps:
  "crashes E sid AtcPosition data w \<longleftrightarrow> StrToInt (data ! 2) 0 < 0"
  "crashes E sid RemoveAtc data w \<longleftrightarrow> s_client (w_session w sid) = None"
  "crashes E sid RemovePilot data w \<longleftrightarrow> s_client (w_session w sid) = None"
  "crashes E sid ClientQuery data w \<longleftrightarrow> (case s_client (w_session w sid) of None \<Rightarrow> False
     | Some cid \<Rightarrow>
         data ! 1 = FSDServerName \<and> data ! 2 = ''FP'' \<and> length data = 3 \<or>
         data ! 1 = SpecialFrequency \<and> \<not> e_SimulatorServer E \<and>
         client_CheckFacility AllowAtcFacility (w_client w cid) \<and> data ! 2 = ''FA'' \<and>
         5 \<le> length data \<and> no_plan (data ! 3) w)"
  "crashes E sid AtcEditPlan data w \<longleftrightarrow> (case s_client (w_session w sid) of None \<Rightarrow> False
     | Some cid \<Rightarrow> c_isAtc (w_client w cid) \<and> client_CheckFacility AllowAtcFacility (w_client w cid) \<and>
         no_plan (data ! 2) w)"
  "crashes E sid KillClient data w \<longleftrightarrow> (case s_client (w_session w sid) of None \<Rightarrow> False
     | Some cid \<Rightarrow> \<not> (c_isAtc (w_client w cid) \<and> CheckRating AllowKillRating (w_client w cid)) \<and>
         8 \<le> unat (c_facility (w_client w cid)))"
  "command \<notin> {AtcPosition, RemoveAtc, RemovePilot, ClientQuery, AtcEditPlan, KillClient} \<Longrightarrow>
     \<not> crashes E sid command data w"
  by (auto simp: crashes_def Let_def command_defs split: option.split)

lemma dispatch_simps:
  "dispatch E sid AddAtc d r w = handleAddAtc E sid d r w"
  "dispatch E sid AddPilot d r w = handleAddPilot E sid d r w"
  "dispatch E sid RequestHandoff d r w = handleRequest E sid d r w"
  "dispatch E sid AcceptHandoff d r w = handleRequest E sid d r w"
  "dispatch E sid ProController d r w = handleRequest E sid d r w"
  "dispatch E sid PilotPosition d r w = handlePilotPosUpdate E sid d r w"
  "dispatch E sid Plan d r w = handlePlan E sid d r w"
  "dispatch E sid AtcEditPlan d r w = handleAtcEditPlan E sid d r w"
  "dispatch E sid KillClient d r w = handleKillClient E sid d r w"
  "dispatch E sid AtcPosition d r w = handleAtcPosUpdate E sid d r w"
  "dispatch E sid AtcSubVisPoint d r w = handleAtcVisPointUpdate E sid d r w"
  "dispatch E sid Message d r w = handleMessage E sid d r w"
  "dispatch E sid ClientQuery d r w = handleClientQuery E sid d r w"
  "dispatch E sid ClientResponse d r w = handleClientResponse E sid d r w"
  "dispatch E sid RemoveAtc d r w = removeClient E sid d r w"
  "dispatch E sid RemovePilot d r w = removeClient E sid d r w"
  "dispatch E sid SquawkBox d r w = handleSquawkBox E sid d r w"
  by (simp_all add: dispatch_def command_defs)

definition handled :: "ClientCommand list" where
  "handled = [AddAtc, AddPilot, RequestHandoff, AcceptHandoff, ProController, PilotPosition, Plan,
     AtcEditPlan, KillClient, AtcPosition, AtcSubVisPoint, Message, ClientQuery, ClientResponse,
     RemoveAtc, RemovePilot, SquawkBox]"

lemma dispatch_other: "command \<notin> set handled \<Longrightarrow> dispatch E sid command d r w = Inr (w, Some ResultSuccess)"
  by (simp add: dispatch_def handled_def)

text \<open>The commands that never panic, and those that may.\<close>

lemma quiet_outcome:
  assumes "outcome False w r" and "command \<notin> {AtcPosition, RemoveAtc, RemovePilot, ClientQuery, AtcEditPlan, KillClient}"
  shows "outcome (crashes E sid command data w) w r"
  using assms(1) crashes_simps(7) [OF assms(2), of E sid data w] by simp

lemma quiet_dispatch_outcome:
  assumes "world_ok w" and "sid < w_nsession w" and "long_enough command data"
    and "command \<in> {AddAtc, AddPilot, RequestHandoff, AcceptHandoff, ProController, PilotPosition, Plan,
           AtcSubVisPoint, Message, ClientResponse, SquawkBox}"
  shows "outcome (crashes E sid command data w) w (dispatch E sid command data raw w)"
proof (rule quiet_outcome)
  show "command \<notin> {AtcPosition, RemoveAtc, RemovePilot, ClientQuery, AtcEditPlan, KillClient}"
    using assms(4) by (auto simp: command_defs)
  note rules = handleAddAtc_outcome [OF assms(1,2)] handleAddPilot_outcome [OF assms(1,2)] handleRequest_outcome [OF assms(1)]
    handlePilotPosUpdate_outcome [OF assms(1,2)] handlePlan_outcome [OF assms(1,2)]
    handleAtcVisPointUpdate_outcome [OF assms(1,2)] handleMessage_outcome [OF assms(1,2)]
    handleClientResponse_outcome [OF assms(1,2)] handleSquawkBox_outcome [OF assms(1,2)]
  show "outcome False w (dispatch E sid command data raw w)"
    using assms(3,4) by (auto simp: dispatch_simps long_enough_def rules)
qed

lemma crashing_dispatch_outcome:
  assumes "world_ok w" and "sid < w_nsession w" and "long_enough command data"
    and "command \<in> {AtcEditPlan, KillClient, AtcPosition, ClientQuery, RemoveAtc, RemovePilot}"
  shows "outcome (crashes E sid command data w) w (dispatch E sid command data raw w)"
  using assms(3,4) handleAtcEditPlan_outcome [OF assms(1,2), of data E raw] handleKillClient_outcome [OF assms(1,2), of data E raw]
    handleAtcPosUpdate_outcome [OF assms(1,2), of data E raw] handleClientQuery_outcome [OF assms(1,2), of data E raw]
    removeClient_outcome [OF assms(1), of sid E data raw]
  by (elim insertE emptyE) (simp_all add: dispatch_simps crashes_simps long_enough_def)

lemma dispatch_outcome:
  assumes "world_ok w" and "sid < w_nsession w" and "long_enough command data"
  shows "outcome (crashes E sid command data w) w (dispatch E sid command data raw w)"
proof (cases "command \<in> set handled")
  case False
  with assms show ?thesis by (intro quiet_outcome) (auto simp: handled_def dispatch_other)
next
  case True
  then consider "command \<in> {AddAtc, AddPilot, RequestHandoff, AcceptHandoff, ProController, PilotPosition, Plan,
        AtcSubVisPoint, Message, ClientResponse, SquawkBox}"
    | "command \<in> {AtcEditPlan, KillClient, AtcPosition, ClientQuery, RemoveAtc, RemovePilot}"
    by (auto simp: handled_def)
  then show ?thesis by cases (use assms quiet_dispatch_outcome crashing_dispatch_outcome in blast)+
qed

lemma handleCommand_outcome:
  assumes "world_ok w" and "sid < w_nsession w"
  shows "outcome (long_enough command data \<and> crashes E sid command data w) w
           (handleCommand E sid command data raw w)"
proof (cases "long_enough command data")
  case True
  with dispatch_outcome [OF assms True, of E raw] show ?thesis
    by (auto simp: handleCommand_def long_enough_def checkPacketLength_def split: option.splits)
next
  case False
  with assms show ?thesis
    by (auto simp: handleCommand_def long_enough_def checkPacketLength_def split: option.splits)
qed

lemma handleLine_outcome:
  assumes "world_ok w" and "sid < w_nsession w" and "parserCommandLine line = (command, data)"
  shows "case handleLine E sid line w of
           Inl _ \<Rightarrow> \<not> s_disconnected (w_session w sid) \<and> long_enough command data \<and> crashes E sid command data w
         | Inr w' \<Rightarrow> good w w' \<and>
             (s_disconnected (w_session w sid) \<or> \<not> (long_enough command data \<and> crashes E sid command data w))"
proof (cases "s_disconnected (w_session w sid)")
  case True
  with assms show ?thesis by (simp add: handleLine_def)
next
  case False
  note h = handleCommand_outcome [OF assms(1,2), of command data E line]
  show ?thesis
  proof (cases "handleCommand E sid command data line w")
    case (Inl p)
    with h False assms(3) show ?thesis by (simp add: handleLine_def)
  next
    case (Inr r)
    then obtain w1 res where r: "handleCommand E sid command data line w = Inr (w1, Some res)"
      using h by (cases r) (auto simp: outcome_def)
    with h have g: "good w w1" "\<not> (long_enough command data \<and> crashes E sid command data w)" by auto
    then have "world_ok (session_SendError sid res w1)"
      using assms(2) by (intro session_SendError_ok) (simp_all add: good_def)
    moreover have "w_nsession (session_SendError sid res w1) = w_nsession w1"
      "w_nclient (session_SendError sid res w1) = w_nclient w1"
      "w_shuttingDown (session_SendError sid res w1) = w_shuttingDown w1"
      by (simp_all add: session_SendError_def client_SendError_def SetDisconnected_def Let_def split: option.split)
    ultimately have "good w (session_SendError sid res w1)" using g(1) by (simp add: good_def)
    with r g False assms(3) show ?thesis by (simp add: handleLine_def)
  qed
qed

section \<open>Steps\<close>

datatype 'db event =
    Accept string
  | RecvLine nat string
  | ConnEnd nat
  | RunTask nat
  | HeartBeat nat
  | HttpKill string
  | HttpMessage int string string
  | DbChange 'db
  | Advance nat
  | ShutdownServer

fun run_task :: "'db env \<Rightarrow> task \<Rightarrow> 'db world \<Rightarrow> 'db world go" where
  "run_task E (TBroadcast message from filt) w = Inr (BroadcastMessage message from filt w)"
| "run_task E (TTick cid) w =
     go_bind (tickPath (w_client w cid)) (\<lambda>c. Inr (upd_client cid (\<lambda>_. c) w))"
| "run_task E (TDelete cid) w = Inr (client_Delete E cid w)"
| "run_task E (TDeleteClient callsign) w = Inr (fst (DeleteClient callsign w))"
| "run_task E (TCloseConn sid) w = Inr (conn_close sid w)"

text \<open>
  A connection handles lines until its loop ends; the loop ends at the end of the stream, on a
  read error or after a fatal reply, in each case by \<open>ConnEnd\<close>.
\<close>

fun step :: "'db env \<Rightarrow> 'db event \<Rightarrow> 'db world \<Rightarrow> 'db world go" where
  "step E (Accept remoteAddr) w = Inr (snd (NewSession remoteAddr w))"
| "step E (RecvLine sid line) w =
     (if sid < w_nsession w \<and> s_reading (w_session w sid) then handleLine E sid line w else Inr w)"
| "step E (ConnEnd sid) w =
     (if sid < w_nsession w \<and> s_reading (w_session w sid) then Inr (connection_end E sid w) else Inr w)"
| "step E (RunTask i) w =
     (case map_of (w_tasks w) i of
        None \<Rightarrow> Inr w
      | Some t \<Rightarrow> run_task E t (stop_timer (Some i) w))"
| "step E (HeartBeat n) w = Inr (SendHeartBeat n w)"
| "step E (HttpKill callsign) w =
     (case GetClient callsign w of None \<Rightarrow> Inr w | Some cid \<Rightarrow> Inr (MarkedDisconnect E cid False w))"
| "step E (HttpMessage from to message) w = Inr (fst (SendRawMessageTo from to message w))"
| "step E (DbChange db) w = Inr (w\<lparr>w_db := db\<rparr>)"
| "step E (Advance d) w = Inr (w\<lparr>w_now := w_now w + int d\<rparr>)"
| "step E ShutdownServer w = Inr (fst (Shutdown E w))"

definition initial :: "'db \<Rightarrow> int \<Rightarrow> 'db world" where
  "initial db now =
     \<lparr>w_clients = [], w_shuttingDown = False,
      w_client = (\<lambda>_. new_client 0 0 0 zero_User None '''' 0 0 '''' False), w_nclient = 0,
      w_session = (\<lambda>_. \<lparr>s_conn_open = False, s_out = [], s_connId = '''', s_callsign = '''',
        s_client = None, s_user = None, s_disconnected = False, s_reading = False\<rparr>),
      w_nsession = 0, w_tasks = [], w_ntask = 0, w_db = db, w_now = now\<rparr>"

inductive reachable :: "'db env \<Rightarrow> 'db world \<Rightarrow> bool" for E where
  start: "reachable E (initial db now)"
| next_step: "reachable E w \<Longrightarrow> step E ev w = Inr w' \<Longrightarrow> reachable E w'"

inductive_cases reachable_cases: "reachable E w"

lemma reachable_steps: "run (step E) es s = Inr w \<Longrightarrow> reachable E s \<Longrightarrow> reachable E w"
proof (induction es arbitrary: s)
  case (Cons e es)
  then obtain s1 where "step E e s = Inr s1" "run (step E) es s1 = Inr w"
    by (cases "step E e s") simp_all
  with Cons.IH Cons.prems(2) reachable.next_step show ?case by blast
qed simp

lemma reachable_as_run: "reachable E w \<Longrightarrow> \<exists>db now es. run (step E) es (initial db now) = Inr w"
proof (induction rule: reachable.induct)
  case (start db now)
  show ?case by (intro exI [of _ db] exI [of _ now] exI [of _ "[]"]) simp
next
  case (next_step w ev w')
  then obtain db now es where "run (step E) es (initial db now) = Inr w" by blast
  with next_step(2) show ?case
    by (intro exI [of _ db] exI [of _ now] exI [of _ "es @ [ev]"]) (simp only: run_snoc go_bind_simps)
qed

lemma reachable_run: "reachable E w \<longleftrightarrow> (\<exists>db now es. run (step E) es (initial db now) = Inr w)"
  by (metis reachable_as_run reachable_steps reachable.start)

section \<open>The invariant of the server\<close>

lemma world_ok_initial: "world_ok (initial db now)"
  by (simp add: initial_def world_ok_defs)

lemma NewSession_ok:
  assumes "world_ok w"
  shows "world_ok (snd (NewSession addr w))"
proof -
  note ok = world_okD [OF assms]
  let ?w' = "snd (NewSession addr w)"
  have "registry_ok ?w'" by (rule registry_ok_keep [OF ok(1)]) (simp_all add: NewSession_def Let_def)
  moreover have "heap_ok ?w'"
    using heap_okD [OF ok(2)]
    by (intro heap_okI) (auto simp: NewSession_def Let_def less_Suc_eq split: if_splits)
  moreover have "tasks_ok ?w'"
    by (rule tasks_ok_keep [OF ok(3)])
      (use ok(3) in \<open>simp_all add: tasks_ok_def NewSession_def Let_def\<close>)
  moreover have "timers_ok ?w'"
    by (rule timers_ok_keep [OF ok(4)]) (simp_all add: NewSession_def Let_def)
  ultimately show ?thesis by (simp add: world_ok_def)
qed

lemma connection_end_ok:
  assumes "world_ok w" and "sid < w_nsession w"
  shows "world_ok (connection_end E sid w)"
  using assms world_ok_session [OF assms]
  by (auto simp: connection_end_def Let_def conn_close_def
      intro!: upd_session_keep_ok MarkedDisconnect_ok BroadcastMessage_ok split: option.split)

lemma SendRawMessageTo_ok: "world_ok w \<Longrightarrow> world_ok (fst (SendRawMessageTo from to m w))"
  using GetClient_ok [of w to] by (auto simp: SendRawMessageTo_def SendLine_ok split: option.split)

lemma disconnectClients_ok:
  "world_ok w \<Longrightarrow> \<forall>cid \<in> set cids. cid < w_nclient w \<Longrightarrow> world_ok (disconnectClients E cids w)"
  unfolding disconnectClients_def
  by (induction cids arbitrary: w) (simp_all add: MarkedDisconnect_ok)

lemma Shutdown_ok: "world_ok w \<Longrightarrow> world_ok (fst (Shutdown E w))"
  using snapshot_ok [of w]
  by (auto simp: Shutdown_def Let_def w_shuttingDown_ok GetClientSnapshot_def intro!: disconnectClients_ok)

lemma run_task_ok:
  assumes "world_ok w" and "task_ok w t"
  shows "\<exists>w'. run_task E t w = Inr w' \<and> world_ok w'"
proof (cases t)
  case (TTick cid)
  with assms obtain c where "tickPath (w_client w cid) = Inr c" "client_ok c" "same_identity (w_client w cid) c"
    using tickPath_ok [OF world_ok_client(1)] by fastforce
  with TTick assms show ?thesis by (simp add: upd_client_ok)
qed (use assms in \<open>simp_all add: BroadcastMessage_ok client_Delete_ok DeleteClient_ok conn_ok\<close>)

lemma task_of_ok:
  assumes "world_ok w" and "map_of (w_tasks w) i = Some t"
  shows "\<exists>w'. run_task E t (stop_timer (Some i) w) = Inr w' \<and> world_ok w'"
proof -
  from assms have "task_ok w t" by (auto simp: world_ok_def tasks_ok_def dest!: map_of_SomeD)
  then have "task_ok (stop_timer (Some i) w) t" by (rule task_ok_mono) simp_all
  with assms show ?thesis by (intro run_task_ok stop_timer_ok)
qed

lemma step_ok:
  assumes "world_ok w" and "step E ev w = Inr w'"
  shows "world_ok w'"
proof (cases ev)
  case (RecvLine sid line)
  obtain command data where p: "parserCommandLine line = (command, data)" by fastforce
  from RecvLine assms handleLine_outcome [OF assms(1) _ p, of sid E] show ?thesis
    by (auto simp: good_def split: if_splits)
next
  case (RunTask i)
  with assms task_of_ok [OF assms(1), of i _ E] show ?thesis by (auto split: option.splits)
next
  case (HttpKill cs)
  with assms GetClient_ok [OF assms(1), of cs] show ?thesis
    by (auto simp: MarkedDisconnect_ok split: option.splits)
qed (use assms in \<open>auto simp: NewSession_ok connection_end_ok SendHeartBeat_def BroadcastMessage_ok
      SendRawMessageTo_ok w_db_ok w_now_ok Shutdown_ok split: if_splits\<close>)

interpretation fsd: step_invariant "step E" world_ok
  by unfold_locales (rule step_ok)

lemma reachable_ok: "reachable E w \<Longrightarrow> world_ok w"
  using fsd.run_keep [OF world_ok_initial] by (auto simp: reachable_run)

end
