(* ===== verification/Example.thy ===== *)
theory Example
  imports System
begin

text \<open>
  A small run of the server: a connection is accepted and a pilot logs in over it, with the
  in-memory database. The theorems about reachable states are applied to its states.
\<close>

definition example_env :: "memory env" where
  "example_env = \<lparr>e_api = memory_api, e_SimulatorServer = False, e_Motd = [''Hi''],
     e_PosUpdatePoints = 1, e_RatingFacilityMap = RatingFacilityMap\<rparr>"

definition example_user :: User where
  "example_user = zero_User\<lparr>u_ID := 1, u_Username := ''pilot'', u_Cid := 2352,
     u_Password := ''$pw'', u_Rating := 5\<rparr>"

definition example_db :: memory where
  "example_db = empty_memory\<lparr>m_users := [example_user]\<rparr>"

definition example_line :: string where
  "example_line = ''#APCPA421:SERVER:2352:pw:1:9:16:Name''"

definition example_fields :: "string list" where
  "example_fields = [''CPA421'', ''SERVER'', ''2352'', ''pw'', ''1'', ''9'', ''16'', ''Name'']"

definition example_start :: "memory world" where
  "example_start = snd (NewSession ''127.0.0.1:5000'' (initial example_db 0))"

definition example_online :: "memory world" where
  "example_online = (case step example_env (RecvLine 0 example_line) example_start of
     Inr w \<Rightarrow> w | Inl _ \<Rightarrow> example_start)"

section \<open>The steps of the run\<close>

lemma example_parse: "parserCommandLine example_line = (AddPilot, example_fields)"
  by code_simp

lemma example_numbers:
  "StrToInt ''9'' 0 = 9" "StrToInt ''1'' 0 = 1" "StrToInt ''16'' 0 = 16"
  "GetUserId ''2352'' = IntUserId 2352"
  by (simp_all add: StrToInt_def atoi_def has_prefix_def is_digit_def digit_val_def GetUserId_def)

lemma example_callsign: "callsignValid ''CPA421''"
  by code_simp

lemma example_account:
  "GetUserByCid memory_api 2352 example_db = (example_user, None)"
  "VerifyUserPassword memory_api example_user ''pw''"
  "GetFlightPlanByCid memory_api False 2352 example_db = Inl ErrFlightPlanNotFound"
  "u_Rating example_user = 5" "u_Cid example_user = 2352"
  by (simp_all add: GetUserByCid_def VerifyUserPassword_def GetFlightPlanByCid_def memory_api_def
      first_such_def example_db_def example_user_def found_user_def zero_User_def empty_memory_def)

lemma example_facility: "CheckFacility (rating_facility RatingFacilityMap 0) 1"
  by code_simp

lemma example_env_simps [simp]:
  "e_api example_env = memory_api" "\<not> e_SimulatorServer example_env" "e_PosUpdatePoints example_env = 1"
  "e_RatingFacilityMap example_env = RatingFacilityMap"
  by (simp_all add: example_env_def)

lemma example_start_simps [simp]:
  "w_nsession example_start = 1" "s_reading (w_session example_start 0)"
  "\<not> s_disconnected (w_session example_start 0)" "s_client (w_session example_start 0) = None"
  "w_clients example_start = []" "w_nclient example_start = 0" "\<not> w_shuttingDown example_start"
  "w_db example_start = example_db" "s_conn_open (w_session example_start 0)"
  by (simp_all add: example_start_def NewSession_def initial_def)

lemma example_start_reachable: "reachable example_env example_start"
  unfolding example_start_def by (rule next_step [OF start, of _ "Accept ''127.0.0.1:5000''"]) simp

lemma example_login:
  "\<exists>w. step example_env (RecvLine 0 example_line) example_start = Inr w \<and> w_clients w = [(''CPA421'', 0)] \<and>
     s_client (w_session w 0) = Some 0 \<and> c_user (w_client w 0) = example_user \<and>
     \<not> c_disconnect (w_client w 0) \<and> w_nsession w = 1 \<and> w_nclient w = 1 \<and> \<not> w_shuttingDown w \<and>
     s_reading (w_session w 0) \<and> \<not> s_disconnected (w_session w 0) \<and> c_socket (w_client w 0) = 0 \<and>
     s_conn_open (w_session w 0) \<and> c_callsign (w_client w 0) = ''CPA421'' \<and>
     c_rating (w_client w 0) = 0 \<and> \<not> c_isAtc (w_client w 0) \<and>
     c_flightPlan (w_client w 0) = None \<and> w_db w = example_db \<and> c_reconnectTimer (w_client w 0) = None"
  by (simp add: handleLine_def example_parse example_fields_def handleCommand_def checkPacketLength_def
      dispatch_simps handleAddPilot_def verifyUserInfo_def example_numbers example_callsign GetClient_def
      example_account example_facility NewClient_def SetCallsign_def SetSimType_def AddClient_def Let_def)

lemma example_step: "step example_env (RecvLine 0 example_line) example_start = Inr example_online"
  using example_login by (auto simp: example_online_def simp del: step.simps)

lemma example_online_simps [simp]:
  "w_clients example_online = [(''CPA421'', 0)]" "s_client (w_session example_online 0) = Some 0"
  "c_user (w_client example_online 0) = example_user" "\<not> c_disconnect (w_client example_online 0)"
  "w_nsession example_online = 1" "w_nclient example_online = 1" "\<not> w_shuttingDown example_online"
  "s_reading (w_session example_online 0)" "\<not> s_disconnected (w_session example_online 0)"
  "c_socket (w_client example_online 0) = 0" "s_conn_open (w_session example_online 0)"
  "c_callsign (w_client example_online 0) = ''CPA421''" "c_rating (w_client example_online 0) = 0"
  "\<not> c_isAtc (w_client example_online 0)" "c_flightPlan (w_client example_online 0) = None"
  "w_db example_online = example_db" "c_reconnectTimer (w_client example_online 0) = None"
  using example_login example_step by (auto simp del: step.simps)

lemma example_reachable: "reachable example_env example_online"
  by (rule next_step [OF example_start_reachable example_step])

end
