(* ===== verification/Access.thy ===== *)
theory Access
  imports Example
begin

text \<open>
  Who gets into the registry, and with what rights: the registry grows only by a login with the
  password of an account that is not banned, and what a login grants. The places where the code
  grants more than that are theorems too.
\<close>

section \<open>Handlers that leave the registry alone\<close>

lemma SendMessageTo_clients [simp]: "w_clients (fst (SendMessageTo cs m w)) = w_clients w"
  by (simp add: SendMessageTo_def split: option.split)

lemma MarkedDisconnect_clients [simp]: "w_clients (MarkedDisconnect E cid False w) = w_clients w"
  by (simp add: MarkedDisconnect_def mark_locked_def Let_def conn_close_def)

lemma session_SendError_clients [simp]: "w_clients (session_SendError sid r w) = w_clients w"
  by (simp add: session_SendError_def client_SendError_def SetDisconnected_def Let_def split: option.split)

lemma forward_to_clients: "forward_to sid t raw w = Inr (w', r) \<Longrightarrow> w_clients w' = w_clients w"
  by (auto simp: forward_to_def sendFrequencyMessage_def Let_def go_simps split: if_splits option.splits)

lemma client_UpsertFlightPlan_clients:
  assumes "client_UpsertFlightPlan E cid d w = Inr (w', e)"
  shows "w_clients w' = w_clients w"
  using assms
  by (auto simp: client_UpsertFlightPlan_def Let_def go_simps split: if_splits option.splits)

lemma handler_clients:
  "handleAtcPosUpdate E sid d raw w = Inr (w', r) \<Longrightarrow> w_clients w' = w_clients w"
  "handlePilotPosUpdate E sid d raw w = Inr (w', r) \<Longrightarrow> w_clients w' = w_clients w"
  "handleAtcVisPointUpdate E sid d raw w = Inr (w', r) \<Longrightarrow> w_clients w' = w_clients w"
  "handleMessage E sid d raw w = Inr (w', r) \<Longrightarrow> w_clients w' = w_clients w"
  "handleRequest E sid d raw w = Inr (w', r) \<Longrightarrow> w_clients w' = w_clients w"
  "handleSquawkBox E sid d raw w = Inr (w', r) \<Longrightarrow> w_clients w' = w_clients w"
  "handleKillClient E sid d raw w = Inr (w', r) \<Longrightarrow> w_clients w' = w_clients w"
  "removeClient E sid d raw w = Inr (w', r) \<Longrightarrow> w_clients w' = w_clients w"
  by (auto simp: handleAtcPosUpdate_def handlePilotPosUpdate_def handleAtcVisPointUpdate_def
      handleMessage_def handleRequest_def handleSquawkBox_def handleKillClient_def removeClient_def
      Let_def go_simps dest: forward_to_clients split: if_splits option.splits)

lemma handleClientResponse_clients:
  "handleClientResponse E sid d raw w = Inr (w', r) \<Longrightarrow> w_clients w' = w_clients w"
  by (auto simp: handleClientResponse_def go_simps dest!: forward_to_clients split: if_splits option.splits)

lemma handlePlan_clients:
  "handlePlan E sid d raw w = Inr (w', r) \<Longrightarrow> w_clients w' = w_clients w"
  by (auto simp: handlePlan_def go_simps dest!: client_UpsertFlightPlan_clients split: if_splits option.splits)

lemma handleAtcEditPlan_clients:
  "handleAtcEditPlan E sid d raw w = Inr (w', r) \<Longrightarrow> w_clients w' = w_clients w"
  by (auto simp: handleAtcEditPlan_def Let_def go_simps split: if_splits option.splits)

lemma handleClientQuery_clients:
  "handleClientQuery E sid d raw w = Inr (w', r) \<Longrightarrow> w_clients w' = w_clients w"
  by (auto simp: handleClientQuery_def Let_def go_simps case_prod_beta dest!: forward_to_clients
      split: if_splits option.splits)

lemma dispatch_clients:
  assumes "dispatch E sid command d raw w = Inr (w', r)" and "command \<noteq> AddAtc" and "command \<noteq> AddPilot"
  shows "w_clients w' = w_clients w"
  using assms unfolding dispatch_def
  by (auto dest: handler_clients handleClientResponse_clients handlePlan_clients
      handleAtcEditPlan_clients handleClientQuery_clients split: if_splits)

section \<open>Login\<close>

lemma AddClient_new:
  "map_of (w_clients (fst (AddClient cid w))) cs = Some c \<Longrightarrow>
   map_of (w_clients w) cs = Some c \<or> (c = cid \<and> cs = c_callsign (w_client w cid))"
  by (auto simp: AddClient_def Let_def update_conv' split: if_splits option.splits)

text \<open>
  What stands behind a client: the account whose password opened the session, and that the
  client it made has the callsign, the account and the rating that the login asked for.
\<close>

definition authentic ::
    "'db env \<Rightarrow> 'db \<Rightarrow> string \<Rightarrow> string \<Rightarrow> string \<Rightarrow> string \<Rightarrow> client \<Rightarrow> bool" where
  "authentic E db callsign userId password protocol c \<longleftrightarrow>
     callsignValid callsign \<and> StrToInt protocol 0 = 9 \<and> c_callsign c = callsign \<and>
     GetUser (e_api E) (GetUserId userId) db = (c_user c, None) \<and>
     VerifyUserPassword (e_api E) (c_user c) password \<and> u_Rating (c_user c) \<noteq> Ban"

lemma verified_session:
  assumes "verifyUserInfo E sid cs proto ident pw w = (w1, None)"
  shows "\<exists>user. s_user (w_session w1 sid) = Some user \<and> GetUser (e_api E) ident (w_db w) = (user, None) \<and>
     u_Rating user \<noteq> Ban \<and> VerifyUserPassword (e_api E) user pw \<and> callsignValid cs \<and> proto = 9"
  using verifyUserInfo_None [OF assms] by (auto split: option.splits)

lemma handleAddPilot_new:
  assumes "world_ok w" and "sid < w_nsession w" and "8 \<le> length d"
    and "handleAddPilot E sid d raw w = Inr (w', r)"
    and "map_of (w_clients w') cs = Some cid" and "map_of (w_clients w) cs = None"
  shows "cs = d ! 0 \<and> authentic E (w_db w) (d ! 0) (d ! 2) (d ! 3) (d ! 5) (w_client w' cid) \<and>
    \<not> c_isAtc (w_client w' cid) \<and> c_rating (w_client w' cid) = Normal"
proof -
  have ne: "d \<noteq> []" using assms(3) by auto
  obtain w1 res where v: "verifyUserInfo E sid (d ! 0) (StrToInt (d ! 5) 0) (GetUserId (d ! 2)) (d ! 3) w
      = (w1, res)" by (metis surj_pair)
  from verifyUserInfo_good [OF assms(1,2)] v have g: "good w w1" "w_clients w1 = w_clients w"
    by (metis fst_conv)+
  then have w1: "world_ok w1" "sid < w_nsession w1" using assms(2) by (simp_all add: good_def)
  show ?thesis
  proof (cases "res = None \<and> StrToInt (d ! 4) 0 - 1 = Normal \<and> s_client (w_session w1 sid) = None")
    case True
    with v obtain user where user: "s_user (w_session w1 sid) = Some user"
      "GetUser (e_api E) (GetUserId (d ! 2)) (w_db w) = (user, None)" "u_Rating user \<noteq> Ban"
      "VerifyUserPassword (e_api E) user (d ! 3)" "callsignValid (d ! 0)" "StrToInt (d ! 5) 0 = 9"
      using verified_session by blast
    obtain c w2 where n: "NewClient E (d ! 0) Normal (StrToInt (d ! 5) 0) (d ! 7) sid False w1
        = Inr (w_nclient w1, w2)" and w2: "w_client w2 = (w_client w1)(w_nclient w1 := c)" "c_callsign c = d ! 0"
      "c_user c = user" "c_rating c = Normal" "\<not> c_isAtc c" "w_clients w2 = w_clients w1"
      using login_new_client [OF w1 user(5,1), of E Normal "StrToInt (d ! 5) 0" "d ! 7" False] by blast
    let ?cid = "w_nclient w1"
    let ?w4 = "upd_client ?cid (SetSimType (StrToInt (d ! 6) 0))
                 (upd_session sid (\<lambda>s. s\<lparr>s_client := Some ?cid\<rparr>) w2)"
    have "w_clients w' = w_clients w1 \<or> w_clients w' = w_clients (fst (AddClient ?cid ?w4)) \<and>
            c_user (w_client w' ?cid) = user \<and> c_rating (w_client w' ?cid) = Normal \<and>
            \<not> c_isAtc (w_client w' ?cid) \<and> c_callsign (w_client w' ?cid) = d ! 0"
      using assms(3,4) v True n ne w2
      by (auto simp: handleAddPilot_def Let_def split: if_splits option.splits)
    moreover have "c_callsign (w_client ?w4 ?cid) = d ! 0" "w_clients ?w4 = w_clients w"
      using w2 g by simp_all
    ultimately show ?thesis
      using assms(5,6) g user AddClient_new [of ?cid ?w4 cs cid] by (auto simp: authentic_def)
  next
    case False
    with assms(3,4) v ne have "w_clients w' = w_clients w1"
      by (auto simp: handleAddPilot_def Let_def split: if_splits option.splits)
    with g assms(5,6) show ?thesis by simp
  qed
qed

lemma SetPosition_keeps:
  "SetPosition i lat lon c = Inr (c', e) \<Longrightarrow>
   c_user c' = c_user c \<and> c_rating c' = c_rating c \<and> c_isAtc c' = c_isAtc c \<and> c_callsign c' = c_callsign c"
  by (auto simp: SetPosition_def go_simps split: if_splits)

lemma handleAddAtc_new:
  assumes "world_ok w" and "sid < w_nsession w" and "12 \<le> length d"
    and "handleAddAtc E sid d raw w = Inr (w', r)"
    and "map_of (w_clients w') cs = Some cid" and "map_of (w_clients w) cs = None"
  shows "cs = d ! 0 \<and> authentic E (w_db w) (d ! 0) (d ! 3) (d ! 4) (d ! 6) (w_client w' cid) \<and>
    c_isAtc (w_client w' cid) \<and> c_rating (w_client w' cid) = StrToInt (d ! 5) 0 \<and>
    c_rating (w_client w' cid) \<le> u_Rating (c_user (w_client w' cid))"
proof -
  have ne: "d \<noteq> []" using assms(3) by auto
  obtain w1 res where v: "verifyUserInfo E sid (d ! 0) (StrToInt (d ! 6) 0) (GetUserId (d ! 3)) (d ! 4) w
      = (w1, res)" by (metis surj_pair)
  from verifyUserInfo_good [OF assms(1,2)] v have g: "good w w1" "w_clients w1 = w_clients w"
    by (metis fst_conv)+
  then have w1: "world_ok w1" "sid < w_nsession w1" using assms(2) by (simp_all add: good_def)
  show ?thesis
  proof (cases "res = None \<and> s_client (w_session w1 sid) = None")
    case True
    with v obtain user where user: "s_user (w_session w1 sid) = Some user"
      "GetUser (e_api E) (GetUserId (d ! 3)) (w_db w) = (user, None)" "u_Rating user \<noteq> Ban"
      "VerifyUserPassword (e_api E) user (d ! 4)" "callsignValid (d ! 0)" "StrToInt (d ! 6) 0 = 9"
      using verified_session by blast
    let ?r = "StrToInt (d ! 5) 0" and ?cid = "w_nclient w1"
    obtain c w2 where n: "NewClient E (d ! 0) ?r (StrToInt (d ! 6) 0) (d ! 2) sid True w1 = Inr (?cid, w2)"
      and w2: "w_client w2 = (w_client w1)(?cid := c)" "c_callsign c = d ! 0" "client_ok c"
      "c_user c = user" "c_rating c = ?r" "c_isAtc c" "w_clients w2 = w_clients w1"
      using login_new_client [OF w1 user(5,1), of E ?r "StrToInt (d ! 6) 0" "d ! 2" True] by blast
    let ?w3 = "upd_session sid (\<lambda>s. s\<lparr>s_client := Some ?cid\<rparr>) w2"
    obtain c' e where p: "SetPosition 0 (StrToFloat (d ! 9) 0) (StrToFloat (d ! 10) 0) c = Inr (c', e)"
      using SetPosition_ok [OF w2(3), of 0] by fastforce
    note k = SetPosition_keeps [OF p]
    let ?w4 = "upd_client ?cid (\<lambda>_. c') ?w3"
    have "w_clients w' = w_clients w1 \<or> ?r \<le> u_Rating user \<and>
            w_clients w' = w_clients (fst (AddClient ?cid ?w4)) \<and>
            c_user (w_client w' ?cid) = user \<and> c_rating (w_client w' ?cid) = ?r \<and>
            c_isAtc (w_client w' ?cid) \<and> c_callsign (w_client w' ?cid) = d ! 0"
      using assms(3,4) v True n ne w2 p k user(1)
      by (auto simp: handleAddAtc_def Let_def split: if_splits)
    moreover have "c_callsign (w_client ?w4 ?cid) = d ! 0" "w_clients ?w4 = w_clients w"
      using w2 g k by simp_all
    ultimately show ?thesis
      using assms(5,6) g user AddClient_new [of ?cid ?w4 cs cid] by (auto simp: authentic_def)
  next
    case False
    with assms(3,4) v ne have "w_clients w' = w_clients w1"
      by (auto simp: handleAddAtc_def Let_def go_simps split: if_splits option.splits)
    with g assms(5,6) show ?thesis by simp
  qed
qed

section \<open>Every other step\<close>

lemma DeleteClient_clients:
  "w_clients (fst (DeleteClient cs w)) =
     (if map_of (w_clients w) cs = None then w_clients w else AList.delete cs (w_clients w))"
  by (auto simp: DeleteClient_def split: option.split)

lemma client_Delete_clients:
  "w_clients (client_Delete E cid w) =
     (if c_disconnect (w_client w cid) then w_clients (fst (DeleteClient (c_callsign (w_client w cid)) w))
      else w_clients w)"
  by (auto simp: client_Delete_def delete_locked_def Let_def case_prod_beta DeleteClient_clients)

lemma client_Delete_map:
  "map_of (w_clients (client_Delete E cid w)) =
     (if c_disconnect (w_client w cid) then (map_of (w_clients w))(c_callsign (w_client w cid) := None)
      else map_of (w_clients w))"
  by (simp add: client_Delete_clients DeleteClient_map)

lemma MarkedDisconnect_map:
  "map_of (w_clients (MarkedDisconnect E cid imm w)) =
     (if imm then (map_of (w_clients w))(c_callsign (w_client w cid) := None) else map_of (w_clients w))"
  by (simp add: MarkedDisconnect_def mark_locked_def Let_def conn_close_def client_Delete_map)

lemma disconnectClients_map:
  "map_of (w_clients (disconnectClients E cids w)) cs = Some c \<Longrightarrow> map_of (w_clients w) cs = Some c"
  unfolding disconnectClients_def
proof (induction cids arbitrary: w)
  case (Cons cid cids)
  from Cons.IH [of "MarkedDisconnect E cid True w"] Cons.prems show ?case
    by (auto simp: MarkedDisconnect_map split: if_splits)
qed simp

lemma run_task_map:
  assumes "run_task E t w = Inr w'" and "map_of (w_clients w') cs = Some c"
  shows "map_of (w_clients w) cs = Some c"
  using assms by (cases t)
    (auto simp: go_simps conn_close_def DeleteClient_map client_Delete_map split: if_splits)

lemma step_map:
  assumes "step E ev w = Inr w'" and "map_of (w_clients w') cs = Some c" and "\<forall>sid line. ev \<noteq> RecvLine sid line"
  shows "map_of (w_clients w) cs = Some c"
proof (cases ev)
  case (RunTask i)
  with assms run_task_map show ?thesis by (fastforce split: option.splits)
next
  case ShutdownServer
  with assms disconnectClients_map [of E _ "w\<lparr>w_shuttingDown := True\<rparr>"] show ?thesis
    by (fastforce simp: Shutdown_def Let_def split: if_splits)
qed (use assms in \<open>auto simp: NewSession_def Let_def connection_end_def conn_close_def SendHeartBeat_def
      SendRawMessageTo_def split: if_splits option.splits\<close>)

section \<open>The registry grows by logins only\<close>

lemma session_SendError_client [simp]:
  "c_user (w_client (session_SendError sid r w) c) = c_user (w_client w c)"
  "c_rating (w_client (session_SendError sid r w) c) = c_rating (w_client w c)"
  "c_isAtc (w_client (session_SendError sid r w) c) = c_isAtc (w_client w c)"
  "c_callsign (w_client (session_SendError sid r w) c) = c_callsign (w_client w c)"
  by (simp_all add: session_SendError_def client_SendError_def SetDisconnected_def Let_def split: option.split)

definition logged_in ::
    "'db env \<Rightarrow> 'db \<Rightarrow> ClientCommand \<Rightarrow> string list \<Rightarrow> string \<Rightarrow> client \<Rightarrow> bool" where
  "logged_in E db command d callsign c \<longleftrightarrow>
     callsign = d ! 0 \<and>
     (command = AddPilot \<and> 8 \<le> length d \<and> authentic E db (d ! 0) (d ! 2) (d ! 3) (d ! 5) c \<and>
        \<not> c_isAtc c \<and> c_rating c = Normal \<or>
      command = AddAtc \<and> 12 \<le> length d \<and> authentic E db (d ! 0) (d ! 3) (d ! 4) (d ! 6) c \<and>
        c_isAtc c \<and> c_rating c = StrToInt (d ! 5) 0 \<and> c_rating c \<le> u_Rating (c_user c))"

lemma dispatch_new:
  assumes "world_ok w" and "sid < w_nsession w" and "long_enough command d"
    and "dispatch E sid command d raw w = Inr (w', r)"
    and "map_of (w_clients w') cs = Some cid" and "map_of (w_clients w) cs = None"
  shows "logged_in E (w_db w) command d cs (w_client w' cid)"
proof -
  from assms(4-6) dispatch_clients have "command = AddAtc \<or> command = AddPilot" by fastforce
  then show ?thesis
  proof
    assume c: "command = AddAtc"
    with assms(3,4) have "12 \<le> length d" "handleAddAtc E sid d raw w = Inr (w', r)"
      by (simp_all add: long_enough_def dispatch_simps)
    with handleAddAtc_new [OF assms(1,2) this assms(5,6)] c show ?thesis by (simp add: logged_in_def)
  next
    assume c: "command = AddPilot"
    with assms(3,4) have "8 \<le> length d" "handleAddPilot E sid d raw w = Inr (w', r)"
      by (simp_all add: long_enough_def dispatch_simps)
    with handleAddPilot_new [OF assms(1,2) this assms(5,6)] c show ?thesis by (simp add: logged_in_def)
  qed
qed

lemma handleCommand_new:
  assumes "world_ok w" and "sid < w_nsession w"
    and "handleCommand E sid command d raw w = Inr (w', r)"
    and "map_of (w_clients w') cs = Some cid" and "map_of (w_clients w) cs = None"
  shows "logged_in E (w_db w) command d cs (w_client w' cid)"
proof (cases "long_enough command d")
  case True
  with assms(3) have "dispatch E sid command d raw w = Inr (w', r)"
    by (auto simp: handleCommand_def long_enough_def checkPacketLength_def split: option.splits)
  with dispatch_new [OF assms(1,2) True _ assms(4,5)] show ?thesis by blast
next
  case False
  with assms(3) have "w' = w"
    by (auto simp: handleCommand_def long_enough_def checkPacketLength_def split: option.splits)
  with assms(4,5) show ?thesis by simp
qed

lemma handleLine_new:
  assumes "world_ok w" and "sid < w_nsession w" and "handleLine E sid line w = Inr w'"
    and "map_of (w_clients w') cs = Some cid" and "map_of (w_clients w) cs = None"
  shows "\<exists>command d. parserCommandLine line = (command, d) \<and> logged_in E (w_db w) command d cs (w_client w' cid)"
proof -
  obtain command d where p: "parserCommandLine line = (command, d)" by fastforce
  from assms(3-5) p have "\<not> s_disconnected (w_session w sid)" by (auto simp: handleLine_def)
  with assms(3) p obtain w1 res where h: "handleCommand E sid command d line w = Inr (w1, res)"
    by (cases "handleCommand E sid command d line w") (auto simp: handleLine_def)
  with assms(3) p \<open>\<not> s_disconnected (w_session w sid)\<close>
  have w': "w' = w1 \<or> (\<exists>r :: op_error Result. w' = session_SendError sid r w1)"
    by (auto simp: handleLine_def split: option.splits if_splits)
  have "map_of (w_clients w1) cs = Some cid" using w' assms(4) by auto
  from handleCommand_new [OF assms(1,2) h this assms(5)] w' have
    "logged_in E (w_db w) command d cs (w_client w' cid)"
    by (auto simp: logged_in_def authentic_def)
  with p show ?thesis by blast
qed



section \<open>What the code grants beyond that\<close>

text \<open>
  C35. A login attempt takes over a disconnected client before the password is looked at: for
  every account name and every password, after the verification of a valid callsign whose client
  waits for its reconnection the client is connected to the connection of the attempt. The
  verification may then fail, but the client is no longer waiting for its owner.
\<close>

theorem takeover_before_password:
  assumes "callsignValid cs" and "GetClient cs w = Some c" and "c_disconnect (w_client w c)"
  shows "let w1 = fst (verifyUserInfo E sid cs 9 ident password w) in
           s_client (w_session w1 sid) = Some c \<and> c_socket (w_client w1 c) = sid \<and>
           \<not> c_disconnect (w_client w1 c) \<and> c_rating (w_client w1 c) = c_rating (w_client w c) \<and>
           c_isAtc (w_client w1 c) = c_isAtc (w_client w c)"
  using assms
  by (simp add: verifyUserInfo_def Reconnect_def SetCallsign_def ClearAtcAtisInfo_def SetUser_def Let_def
      split: prod.split)

lemma example_disconnected:
  "GetClient ''CPA421'' (MarkedDisconnect example_env 0 False example_online) = Some 0 \<and>
   c_disconnect (w_client (MarkedDisconnect example_env 0 False example_online) 0)"
  by (simp add: GetClient_def MarkedDisconnect_def mark_locked_def conn_close_def Let_def)

theorem takeover_before_password_witness:
  "c_socket (w_client (fst (verifyUserInfo example_env 7 ''CPA421'' 9 (IntUserId 0) ''wrong''
     (MarkedDisconnect example_env 0 False example_online))) 0) = 7"
  using takeover_before_password [of "''CPA421''" "MarkedDisconnect example_env 0 False example_online" 0
      example_env 7 "IntUserId 0" "''wrong''"] example_disconnected example_callsign
  by (simp add: Let_def)

text \<open>
  The facility of a controller is what the position packet claims: the rating that is checked
  against the facility is a field of the packet, not the rating of the client, so a packet that
  claims a rating allowed to work the facility (Supervisor for example) is accepted from every
  client, which then has the facility.
\<close>

theorem facility_from_claimed_rating:
  assumes "world_ok w" and "sid < w_nsession w" and "8 \<le> length d"
    and "s_client (w_session w sid) = Some cid" and "0 \<le> StrToInt (d ! 2) 0"
    and "CheckRatingFacility (e_RatingFacilityMap E) (StrToInt (d ! 4) 0) (push_bit (nat (StrToInt (d ! 2) 0)) 1)"
  shows "\<exists>w'. handleAtcPosUpdate E sid d raw w = Inr (w', Some ResultSuccess) \<and>
           c_facility (w_client w' cid) = push_bit (nat (StrToInt (d ! 2) 0)) 1 \<and>
           c_rating (w_client w' cid) = c_rating (w_client w cid)"
proof -
  have ne: "d \<noteq> []" using assms(3) by auto
  have "client_ok (w_client w cid)"
    using assms(1,2,4) world_ok_session world_ok_client(1) by blast
  then obtain c where "UpdateAtcPos (StrToInt (d ! 1) 0) (push_bit (nat (StrToInt (d ! 2) 0)) 1)
      (StrToFloat (d ! 3) 0) (StrToFloat (d ! 5) 0) (StrToFloat (d ! 6) 0) (w_client w cid) = Inr c"
    "same_identity (w_client w cid) c" "c_facility c = push_bit (nat (StrToInt (d ! 2) 0)) 1"
    using UpdateAtcPos_ok by metis
  with assms ne show ?thesis
    by (simp add: handleAtcPosUpdate_def Let_def same_identity_def)
qed

lemma example_claim:
  "StrToInt ''6'' 0 = 6" "StrToInt ''11'' 0 = 11" "CheckRatingFacility RatingFacilityMap 11 64"
  by (simp_all add: StrToInt_def atoi_def has_prefix_def is_digit_def digit_val_def
      CheckRatingFacility_def rating_facility_def RatingFacilityMap_def CheckFacility_def)

theorem facility_from_claimed_rating_witness:
  "\<exists>w'. handleAtcPosUpdate example_env 0 [''CPA421'', ''24550'', ''6'', ''600'', ''11'', ''0'', ''0'', ''0''] ''''
          example_online = Inr (w', Some ResultSuccess) \<and>
        c_facility (w_client w' 0) = CTR \<and> c_rating (w_client w' 0) = Normal"
  using facility_from_claimed_rating [OF reachable_ok [OF example_reachable], of 0
      "[''CPA421'', ''24550'', ''6'', ''600'', ''11'', ''0'', ''0'', ''0'']" 0 example_env "''''"]
    example_claim
  by simp

end
