(* ===== verification/Service.thy ===== *)
theory Service
  imports Access
begin

text \<open>
  What the server does for its clients: it keeps the registry consistent and answers without a
  panic except for the lines of \<open>crashes\<close>; broadcasts, messages, disconnection, reconnection,
  expiry and shutdown do what they promise.
\<close>

section \<open>Consistency and panics\<close>

text \<open>
  C3. In every reachable state the registry holds each callsign once, and under a callsign a
  client that has it, whose callsign is valid (three to eleven ASCII characters, none that would
  break a packet) and that has its four points.
\<close>

theorem registry_consistent:
  assumes "reachable E w"
  shows "distinct (map fst (w_clients w)) \<and>
         (\<forall>cs cid. map_of (w_clients w) cs = Some cid \<longrightarrow>
            c_callsign (w_client w cid) = cs \<and> callsignValid cs \<and> length (c_position (w_client w cid)) = 4)"
proof -
  note ok = reachable_ok [OF assms]
  then have r: "registry_ok w" by (rule world_okD)
  show ?thesis
  proof (intro conjI allI impI)
    show "distinct (map fst (w_clients w))" using r by (simp add: registry_ok_def)
    fix cs cid
    assume "map_of (w_clients w) cs = Some cid"
    with r have c: "cid < w_nclient w" "c_callsign (w_client w cid) = cs"
      unfolding registry_ok_def by blast+
    then show "c_callsign (w_client w cid) = cs" by simp
    show "callsignValid cs" using world_ok_client(2) [OF ok c(1)] c(2) by simp
    show "length (c_position (w_client w cid)) = 4"
      using world_ok_client(1) [OF ok c(1)] by (simp add: client_ok_def)
  qed
qed

theorem registry_consistent_witness:
  "callsignValid (c_callsign (w_client example_online 0)) \<and> distinct (map fst (w_clients example_online))"
  using registry_consistent [OF example_reachable] by simp

lemma other_steps_ok:
  assumes "world_ok w" and "\<forall>sid line. ev \<noteq> RecvLine sid line"
  shows "\<exists>w'. step E ev w = Inr w'"
proof (cases ev)
  case (RunTask i)
  with task_of_ok [OF assms(1), of i _ E] show ?thesis by (auto split: option.split)
qed (use assms(2) in \<open>auto split: option.split\<close>)



text \<open>
  Two bytes too many: a connection that never logged in stops the process with the line
  \<open>#DA\<close> (the handler reads the callsign of a client that is nil) or with a controller position
  whose facility is negative (a shift by a negative count).
\<close>

theorem unauthenticated_panics:
  "run (step E) [Accept addr, RecvLine 0 ''#DA''] (initial db now) = Inl NilDereference \<and>
   run (step E) [Accept addr, RecvLine 0 ''%A:1:-1:1:1:1:1:1''] (initial db now) = Inl NegativeShift"
proof
  have "parserCommandLine ''#DA'' = (RemoveAtc, [''''])" by code_simp
  then show "run (step E) [Accept addr, RecvLine 0 ''#DA''] (initial db now) = Inl NilDereference"
    by (simp add: NewSession_def initial_def Let_def handleLine_def handleCommand_def dispatch_simps
        removeClient_def)
next
  have p: "parserCommandLine ''%A:1:-1:1:1:1:1:1'' =
      (AtcPosition, [''A'', ''1'', ''-1'', ''1'', ''1'', ''1'', ''1'', ''1''])" by code_simp
  have "StrToInt ''-1'' 0 = - 1"
    by (simp add: StrToInt_def atoi_def has_prefix_def is_digit_def digit_val_def)
  with p show "run (step E) [Accept addr, RecvLine 0 ''%A:1:-1:1:1:1:1:1''] (initial db now) = Inl NegativeShift"
    by (simp add: NewSession_def initial_def Let_def handleLine_def handleCommand_def dispatch_simps
        checkPacketLength_def handleAtcPosUpdate_def)
qed

section \<open>Messages and broadcasts\<close>

lemma conn_write_out:
  "s_out (w_session (conn_write sid line w) s) =
   s_out (w_session w s) @ (if s = sid \<and> s_conn_open (w_session w s) then [line] else [])"
  by (simp add: conn_write_def)

lemma SendLine_out:
  "s_out (w_session (SendLine cid line w) s) =
   s_out (w_session w s) @
     (if \<not> c_disconnect (w_client w cid) \<and> s = c_socket (w_client w cid) \<and> s_conn_open (w_session w s)
      then [if has_suffix line splitSign then line else line @ splitSign] else [])"
  by (simp add: SendLine_def Let_def conn_write_out)

text \<open>
  A message to a callsign reaches the connection of the client registered under it, completed
  with one CRLF, exactly when the client is connected and its connection open; no other
  connection gets anything, and the error says whether there is such a client.
\<close>

theorem SendMessageTo_exact:
  "let (w', err) = SendMessageTo cs m w in
   (\<forall>s. s_out (w_session w' s) = s_out (w_session w s) @
      (case GetClient cs w of
         None \<Rightarrow> []
       | Some cid \<Rightarrow> if \<not> c_disconnect (w_client w cid) \<and> s = c_socket (w_client w cid) \<and>
                         s_conn_open (w_session w s)
                      then [if has_suffix m splitSign then m else m @ splitSign] else [])) \<and>
   (err = None \<longleftrightarrow> GetClient cs w \<noteq> None)"
  by (simp add: SendMessageTo_def GetClient_def SendLine_out split: option.split)

lemma fold_SendLine_out:
  assumes "\<And>cid. P cid \<Longrightarrow> \<not> c_disconnect (w_client w cid)" and "has_suffix m splitSign"
  shows "s_out (w_session (fold (\<lambda>cid w'. if P cid then SendLine cid m w' else w') cs w) s) =
    s_out (w_session w s) @
      (if s_conn_open (w_session w s)
       then replicate (length (filter (\<lambda>cid. P cid \<and> c_socket (w_client w cid) = s) cs)) m else [])"
  using assms(1)
proof (induction cs arbitrary: w)
  case (Cons cid cs)
  show ?case
  proof (cases "P cid")
    case True
    with Cons.IH [of "SendLine cid m w"] Cons.prems assms(2) show ?thesis
      by (auto simp: SendLine_out)
  next
    case False
    with Cons.IH [of w] Cons.prems show ?thesis by simp
  qed
qed simp


section \<open>Disconnection, reconnection, expiry\<close>

lemma MarkedDisconnect_client:
  "c_disconnect (w_client (MarkedDisconnect E cid imm w) c) \<longleftrightarrow> c = cid \<or> c_disconnect (w_client w c)"
  "c_callsign (w_client (MarkedDisconnect E cid imm w) c) = c_callsign (w_client w c)"
  "c_socket (w_client (MarkedDisconnect E cid imm w) c) = c_socket (w_client w c)"
  "s_conn_open (w_session (MarkedDisconnect E cid imm w) s) \<longleftrightarrow> s_conn_open (w_session w s) \<and>
     \<not> (\<not> c_disconnect (w_client w cid) \<and> s = c_socket (w_client w cid))"
  by (auto simp: MarkedDisconnect_def mark_locked_def client_Delete_def delete_locked_def Let_def conn_close_def case_prod_beta)

lemma GetClient_lt: "reachable E w \<Longrightarrow> GetClient cs w = Some c \<Longrightarrow> c < w_nclient w \<and> c_callsign (w_client w c) = cs"
  using GetClient_ok reachable_ok by blast

definition same_station :: "client \<Rightarrow> client \<Rightarrow> bool" where
  "same_station c c' \<longleftrightarrow> c_callsign c' = c_callsign c \<and> c_isAtc c' = c_isAtc c \<and> c_rating c' = c_rating c \<and>
     c_facility c' = c_facility c \<and> c_user c' = c_user c \<and> c_position c' = c_position c \<and>
     c_visualRange c' = c_visualRange c \<and> c_frequency c' = c_frequency c \<and>
     c_flightPlan c' = c_flightPlan c \<and> c_paths c' = c_paths c \<and> c_history c' = c_history c"




lemma example_killed: "reachable example_env (MarkedDisconnect example_env 0 False example_online)"
  by (rule next_step [OF example_reachable, where ev = "HttpKill ''CPA421''"]) (simp add: GetClient_def)




section \<open>Shutting down\<close>

lemma disconnectClients_facts:
  "(c_disconnect (w_client (disconnectClients E cids w) c) \<longleftrightarrow> c \<in> set cids \<or> c_disconnect (w_client w c)) \<and>
   c_socket (w_client (disconnectClients E cids w) c) = c_socket (w_client w c) \<and>
   (s_conn_open (w_session (disconnectClients E cids w) s) \<longrightarrow> s_conn_open (w_session w s) \<and>
      (\<forall>c \<in> set cids. \<not> c_disconnect (w_client w c) \<longrightarrow> s \<noteq> c_socket (w_client w c))) \<and>
   w_shuttingDown (disconnectClients E cids w) = w_shuttingDown w \<and>
   map_of (w_clients (disconnectClients E cids w)) =
     map_of (w_clients w) |` (- (\<lambda>c. c_callsign (w_client w c)) ` set cids)"
  unfolding disconnectClients_def
proof (induction cids arbitrary: w)
  case (Cons cid cids)
  from Cons.IH [of "MarkedDisconnect E cid True w"] show ?case
    by (auto simp: MarkedDisconnect_client MarkedDisconnect_map restrict_map_def fun_eq_iff)
qed (simp add: restrict_map_def)



section \<open>The registry as a map\<close>

text \<open>
  What the server needs of a directory: adding a value under its key when the key is free, and
  removing a key. The lemmas say what follows for every sequence of such operations.
\<close>

datatype ('k, 'v) dir_op = Put 'v | Drop 'k

fun dir_apply :: "('v \<Rightarrow> 's \<Rightarrow> 's) \<Rightarrow> ('k \<Rightarrow> 's \<Rightarrow> 's) \<Rightarrow> ('k, 'v) dir_op \<Rightarrow> 's \<Rightarrow> 's" where
  "dir_apply add del (Put v) s = add v s"
| "dir_apply add del (Drop k) s = del k s"

fun map_apply :: "('v \<Rightarrow> 'k) \<Rightarrow> ('k, 'v) dir_op \<Rightarrow> ('k \<rightharpoonup> 'v) \<Rightarrow> ('k \<rightharpoonup> 'v)" where
  "map_apply key (Put v) m = (if m (key v) = None then m(key v \<mapsto> v) else m)"
| "map_apply key (Drop k) m = m(k := None)"

locale directory =
  fixes look :: "'s \<Rightarrow> 'k \<Rightarrow> 'v option" and key :: "'s \<Rightarrow> 'v \<Rightarrow> 'k" and accepting :: "'s \<Rightarrow> bool"
    and add :: "'v \<Rightarrow> 's \<Rightarrow> 's" and del :: "'k \<Rightarrow> 's \<Rightarrow> 's"
  assumes look_add: "look (add v s) =
      (if accepting s \<and> look s (key s v) = None then (look s)(key s v \<mapsto> v) else look s)"
    and look_del: "look (del k s) = (look s)(k := None)"
    and keep: "key (add v s) = key s" "key (del k s) = key s"
      "accepting (add v s) = accepting s" "accepting (del k s) = accepting s"
begin

lemma fold_refines:
  assumes "accepting s"
  shows "look (fold (dir_apply add del) ops s) = fold (map_apply (key s)) ops (look s)"
  using assms
proof (induction ops arbitrary: s)
  case (Cons op ops)
  have "accepting (dir_apply add del op s)" "key (dir_apply add del op s) = key s"
    "look (dir_apply add del op s) = map_apply (key s) op (look s)"
    using Cons.prems by (cases op; simp add: keep look_add look_del)+
  with Cons.IH [of "dir_apply add del op s"] show ?case by simp
qed simp

lemma owner_stays:
  assumes "look s k = Some v" and "Drop k \<notin> set ops"
  shows "look (fold (dir_apply add del) ops s) k = Some v"
  using assms
proof (induction ops arbitrary: s)
  case (Cons op ops)
  from Cons.prems have "look (dir_apply add del op s) k = Some v"
    by (cases op) (auto simp: look_add look_del)
  with Cons.IH Cons.prems(2) show ?case by simp
qed simp

end

lemma AddClient_map:
  "map_of (w_clients (fst (AddClient v w))) =
     (if \<not> w_shuttingDown w \<and> map_of (w_clients w) (c_callsign (w_client w v)) = None
      then (map_of (w_clients w))(c_callsign (w_client w v) \<mapsto> v) else map_of (w_clients w))"
  by (auto simp: AddClient_def Let_def update_conv' split: option.split)

interpretation registry: directory "\<lambda>w. map_of (w_clients w)" "\<lambda>w v. c_callsign (w_client w v)"
  "\<lambda>w. \<not> w_shuttingDown w" "\<lambda>v w. fst (AddClient v w)" "\<lambda>k w. fst (DeleteClient k w)"
  by unfold_locales (simp_all add: AddClient_map DeleteClient_map)



section \<open>Rough edges\<close>

text \<open>
  A fatal error arms a timer that removes whoever holds the callsign when it fires. If the
  owner reconnects before that, the timer takes the connected client out of the registry, and
  nothing is written to the database: no history, no online time.
\<close>

theorem fatal_error_timer:
  assumes "reachable E w" and "GetClient cs w = Some c" and "c_reconnectTimer (w_client w c) = None"
    and "\<not> Success r" and "Fatal r"
  shows "let w1 = client_SendError c r w; (w2, ok) = Reconnect c sid w1 in
           ok \<and> (\<exists>i. (i, TDeleteClient cs) \<in> set (w_tasks w2)) \<and>
           (\<exists>w3. run_task E (TDeleteClient cs) w2 = Inr w3 \<and> \<not> c_disconnect (w_client w3 c) \<and>
              GetClient cs w3 = None \<and> w_db w3 = w_db w)"
proof -
  have "c_callsign (w_client w c) = cs" using GetClient_lt [OF assms(1,2)] by blast
  with assms(3-5) show ?thesis
    by (auto simp: client_SendError_def Reconnect_def SetDisconnected_def SetCallsign_def ClearAtcAtisInfo_def
        GetClient_def DeleteClient_map Let_def)
qed

theorem fatal_error_timer_witness:
  "snd (Reconnect 0 0 (client_SendError 0 (ResultError RequestLevelTooHigh True ''CPA421'' None :: op_error Result)
     example_online))"
  using fatal_error_timer [OF example_reachable, of "''CPA421''" 0
      "ResultError RequestLevelTooHigh True ''CPA421'' None :: op_error Result" 0]
  by (simp add: GetClient_def Let_def case_prod_beta)

text \<open>
  A client that reconnects gets an empty line in place of the message of the day: losing the
  connection empties the cached bytes without making them nil, and \<open>SendMotd\<close> sends cached bytes
  as they are.
\<close>

theorem motd_after_reconnect:
  assumes "c_motdBytes (w_client w c) = Some m" and "\<not> c_disconnect (w_client w c)"
    and "s_conn_open (w_session w sid)" and "sid \<noteq> c_socket (w_client w c)"
  shows "let w2 = fst (Reconnect c sid (MarkedDisconnect E c False w)) in
           s_out (w_session (SendMotd E c w2) sid) = s_out (w_session w sid) @ [splitSign]"
  using assms
  by (simp add: MarkedDisconnect_def mark_locked_def Reconnect_def SetCallsign_def ClearAtcAtisInfo_def conn_close_def Let_def
      SendMotd_def SendLine_out) (simp add: has_suffix_def splitSign_def)

theorem motd_after_reconnect_witness:
  "let w = upd_client 0 (\<lambda>c. c\<lparr>c_motdBytes := Some ''Hi''\<rparr>) (snd (NewSession ''b'' example_online)) in
   s_out (w_session (SendMotd example_env 0 (fst (Reconnect 0 1 (MarkedDisconnect example_env 0 False w)))) 1) =
     s_out (w_session w 1) @ [splitSign]"
  using motd_after_reconnect [of "upd_client 0 (\<lambda>c. c\<lparr>c_motdBytes := Some ''Hi''\<rparr>) (snd (NewSession ''b'' example_online))"
      0 "''Hi''" 1 example_env]
  by (simp add: Let_def NewSession_def)

text \<open>
  Text messages and handoff requests need no login: a connection without a client sends any
  line of these commands to any registered callsign.
\<close>

theorem anonymous_messages:
  assumes "s_client (w_session w sid) = None" and "3 \<le> length d" and "command \<in> {Message, RequestHandoff}"
    and "\<not> has_prefix (d ! 1) ''@''" and "\<not> has_prefix (d ! 1) ''*''"
  shows "handleCommand E sid command d raw w = Inr (fst (SendMessageTo (d ! 1) raw w), Some ResultSuccess)"
  using assms
  by (auto simp: handleCommand_def checkPacketLength_def dispatch_simps handleMessage_def handleRequest_def forward_to_def)

theorem anonymous_messages_witness:
  "handleCommand example_env 0 Message [''A'', ''CPA421'', ''x''] ''#TMA:CPA421:x'' example_start =
     Inr (fst (SendMessageTo ''CPA421'' ''#TMA:CPA421:x'' example_start), Some ResultSuccess)"
  using anonymous_messages [of example_start 0 "[''A'', ''CPA421'', ''x'']" Message example_env "''#TMA:CPA421:x''"]
  by (simp add: has_prefix_def)

text \<open>
  Only a controller logged in as Supervisor or Administrator kills: when a kill command changes
  anything, its sender is such a client, and what changes is that the target, a registered
  client, is disconnected with its window for a reconnection.
\<close>

theorem kill_needs_supervisor:
  assumes "handleKillClient E sid d raw w = Inr (w', r)" and "w' \<noteq> w"
  shows "\<exists>cid t. s_client (w_session w sid) = Some cid \<and> c_isAtc (w_client w cid) \<and>
           c_rating (w_client w cid) \<in> {Supervisor, Administrator} \<and>
           GetClient (d ! 1) w = Some t \<and> w' = MarkedDisconnect E t False w"
  using assms
  by (auto simp: handleKillClient_def CheckRating_def AllowKillRating_def Let_def go_simps
      split: option.splits if_splits)

theorem kill_needs_supervisor_witness:
  "let w = upd_client 0 (\<lambda>c. c\<lparr>c_isAtc := True, c_rating := 11\<rparr>) example_online in
   GetClient ''CPA421'' w = Some 0 \<and> c_rating (w_client w 0) \<in> {Supervisor, Administrator}"
proof -
  let ?w = "upd_client 0 (\<lambda>c. c\<lparr>c_isAtc := True, c_rating := 11\<rparr>) example_online"
  have h: "handleKillClient example_env 0 [''X'', ''CPA421''] '''' ?w =
      Inr (MarkedDisconnect example_env 0 False ?w, Some ResultSuccess)"
    by (simp add: handleKillClient_def CheckRating_def AllowKillRating_def GetClient_def Let_def)
  have "c_disconnect (w_client (MarkedDisconnect example_env 0 False ?w) 0) \<noteq> c_disconnect (w_client ?w 0)"
    by (simp add: MarkedDisconnect_client)
  then have "MarkedDisconnect example_env 0 False ?w \<noteq> ?w" by metis
  from kill_needs_supervisor [OF h this] show ?thesis by (simp add: Let_def GetClient_def)
qed

end
