(* ===== verification/Frame.thy ===== *)
theory Frame
  imports Access
begin

text \<open>
  What the operations of the FSD server leave alone. A quantity that depends neither on the clients,
  the registry, the pending tasks and the database, nor on a connection but for whether its loop
  runs and its account, is kept by every handler that is not a login, by every task and call (locale
  \<open>observed\<close>). One that does not depend on the account either is also kept by the logins (locale
  \<open>kept\<close>); then only the arrival and the end of a connection, the passing of time and the shutdown
  change it. The clock is one such quantity, the loops that run are another, and the flag of the
  shutdown is the third; the first two are also kept by the shutdown. The account of a connection is
  of the first kind.
\<close>

locale observed =
  fixes obs :: "'db world \<Rightarrow> 'x"
  assumes kept_registry [simp]: "obs (w\<lparr>w_clients := reg\<rparr>) = obs w"
    and kept_clients [simp]: "obs (w\<lparr>w_client := clients\<rparr>) = obs w" "obs (w\<lparr>w_nclient := n\<rparr>) = obs w"
    and kept_tasks [simp]: "obs (w\<lparr>w_tasks := tasks\<rparr>) = obs w" "obs (w\<lparr>w_ntask := n\<rparr>) = obs w"
    and kept_db [simp]: "obs (w\<lparr>w_db := db\<rparr>) = obs w"
    and kept_session [simp]: 
      "\<forall>s. s_reading (g s) = s_reading s \<and> s_user (g s) = s_user s \<Longrightarrow> obs (upd_session sid g w) = obs w"
begin

lemma kept_heap [simp]: "obs (upd_client cid g w) = obs w" "obs (spawn t w) = obs w" "obs (stop_timer tm w) = obs w"
  by (simp_all add: upd_client_def spawn_def stop_timer_def split: option.split)

lemma kept_write [simp]: "obs (conn_write sid line w) = obs w" "obs (SendLine cid line w) = obs w"
  by (simp_all add: conn_write_def SendLine_def Let_def)

lemma kept_simps [simp]:
  "obs (fst (SendMessageTo cs m w)) = obs w"
  "obs (conn_close sid w) = obs w"
  "obs (session_SendError sid r w) = obs w"
  "obs (SetCallsign sid cs w) = obs w"
  "obs (fst (DeleteClient cs w)) = obs w"
  "obs (fst (AddClient cid w)) = obs w"
  "obs (fst (SendRawMessageTo sender cs m w)) = obs w"
  by (simp_all add: SendMessageTo_def conn_close_def session_SendError_def client_SendError_def SetDisconnected_def
      SetCallsign_def DeleteClient_def AddClient_def SendRawMessageTo_def Let_def split: option.split)

lemma fold_kept: "(\<And>x w. obs (h x w) = obs w) \<Longrightarrow> obs (fold h xs w) = obs w"
  by (induction xs arbitrary: w) simp_all

lemma SendMotd_kept [simp]: "obs (SendMotd E cid w) = obs w"
  by (simp add: SendMotd_def Let_def split: option.split)

lemma delete_locked_kept [simp]: "obs (delete_locked E cid w) = obs w"
  by (simp add: delete_locked_def Let_def case_prod_beta)

lemma client_Delete_kept [simp]: "obs (client_Delete E cid w) = obs w"
  by (simp add: client_Delete_def)

lemma mark_locked_kept [simp]: "obs (mark_locked cid b w) = obs w"
  by (simp add: mark_locked_def Let_def)

lemma MarkedDisconnect_kept [simp]: "obs (MarkedDisconnect E cid b w) = obs w"
  by (simp add: MarkedDisconnect_def Let_def)

lemma BroadcastMessage_kept [simp]: "obs (BroadcastMessage m from filt w) = obs w"
  by (simp add: BroadcastMessage_def Let_def fold_kept)

lemma connection_end_kept:
  "\<exists>w1. connection_end E sid w = upd_session sid (\<lambda>s. s\<lparr>s_reading := False\<rparr>) w1 \<and> obs w1 = obs w"
  by (auto simp: connection_end_def Let_def split: option.split)

lemma SendHeartBeat_kept [simp]: "obs (SendHeartBeat n w) = obs w"
  by (simp add: SendHeartBeat_def)

lemma Reconnect_kept [simp]: "obs (fst (Reconnect cid sid w)) = obs w"
  by (simp add: Reconnect_def Let_def)

section \<open>Handlers\<close>

lemma forward_to_kept: "forward_to sid t raw w = Inr (w', r) \<Longrightarrow> obs w' = obs w"
  by (auto simp: forward_to_def sendFrequencyMessage_def Let_def go_simps split: if_splits option.splits)

lemma client_UpsertFlightPlan_kept: "client_UpsertFlightPlan E cid d w = Inr (w', e) \<Longrightarrow> obs w' = obs w"
  by (auto simp: client_UpsertFlightPlan_def Let_def go_simps split: if_splits option.splits)

lemma handler_kept:
  "handleAtcPosUpdate E sid d raw w = Inr (w', r) \<Longrightarrow> obs w' = obs w"
  "handlePilotPosUpdate E sid d raw w = Inr (w', r) \<Longrightarrow> obs w' = obs w"
  "handleAtcVisPointUpdate E sid d raw w = Inr (w', r) \<Longrightarrow> obs w' = obs w"
  "handleMessage E sid d raw w = Inr (w', r) \<Longrightarrow> obs w' = obs w"
  "handleRequest E sid d raw w = Inr (w', r) \<Longrightarrow> obs w' = obs w"
  "handleSquawkBox E sid d raw w = Inr (w', r) \<Longrightarrow> obs w' = obs w"
  "handleKillClient E sid d raw w = Inr (w', r) \<Longrightarrow> obs w' = obs w"
  "removeClient E sid d raw w = Inr (w', r) \<Longrightarrow> obs w' = obs w"
  by (auto simp: handleAtcPosUpdate_def handlePilotPosUpdate_def handleAtcVisPointUpdate_def
      handleMessage_def handleRequest_def handleSquawkBox_def handleKillClient_def removeClient_def
      Let_def go_simps dest: forward_to_kept split: if_splits option.splits)

lemma handleClientResponse_kept:
  "handleClientResponse E sid d raw w = Inr (w', r) \<Longrightarrow> obs w' = obs w"
  by (auto simp: handleClientResponse_def go_simps dest!: forward_to_kept split: if_splits option.splits)

lemma handlePlan_kept:
  "handlePlan E sid d raw w = Inr (w', r) \<Longrightarrow> obs w' = obs w"
  by (auto simp: handlePlan_def go_simps dest!: client_UpsertFlightPlan_kept split: if_splits option.splits)

lemma handleAtcEditPlan_kept:
  "handleAtcEditPlan E sid d raw w = Inr (w', r) \<Longrightarrow> obs w' = obs w"
  by (auto simp: handleAtcEditPlan_def Let_def go_simps split: if_splits option.splits)

lemma handleClientQuery_kept:
  "handleClientQuery E sid d raw w = Inr (w', r) \<Longrightarrow> obs w' = obs w"
  by (auto simp: handleClientQuery_def Let_def go_simps case_prod_beta dest!: forward_to_kept
      split: if_splits option.splits)

lemma NewClient_kept: "NewClient E cs rat p name sid atc w = Inr (cid, w') \<Longrightarrow> obs w' = obs w"
  by (auto simp: NewClient_def Let_def go_simps split: option.splits if_splits)

text \<open>A login keeps what it does not depend on the account, from the verification on.\<close>

lemma handleAddAtc_rest:
  assumes "handleAddAtc E sid d raw w = Inr (w', r)"
  shows "obs w' = obs (fst (verifyUserInfo E sid (d ! 0) (StrToInt (d ! 6) 0) (GetUserId (d ! 3)) (d ! 4) w))"
proof -
  obtain w1 result where v: "verifyUserInfo E sid (d ! 0) (StrToInt (d ! 6) 0) (GetUserId (d ! 3)) (d ! 4) w = (w1, result)"
    by fastforce
  show ?thesis
  proof (cases result)
    case (Some e)
    with assms v show ?thesis by (auto simp: handleAddAtc_def go_simps Let_def)
  next
    case None
    show ?thesis
    proof (cases "s_client (w_session w1 sid)")
      case (Some cid)
      with assms v None show ?thesis
        by (auto simp: handleAddAtc_def go_simps Let_def split: if_split_asm)
    next
      case none: None
      with assms v None show ?thesis
        by (auto simp: handleAddAtc_def go_simps Let_def dest!: NewClient_kept split: if_split_asm)
    qed
  qed
qed

lemma notice_kept:
  "obs (case p of None \<Rightarrow> w | Some q \<Rightarrow> if c q then SendLine cid (l q) w else w) = obs w"
  by (simp split: option.split)

lemma handleAddPilot_rest:
  assumes "handleAddPilot E sid d raw w = Inr (w', r)"
  shows "obs w' = obs (fst (verifyUserInfo E sid (d ! 0) (StrToInt (d ! 5) 0) (GetUserId (d ! 2)) (d ! 3) w))"
proof -
  obtain w1 result where v: "verifyUserInfo E sid (d ! 0) (StrToInt (d ! 5) 0) (GetUserId (d ! 2)) (d ! 3) w = (w1, result)"
    by fastforce
  show ?thesis
  proof (cases result)
    case (Some e)
    with assms v show ?thesis by (auto simp: handleAddPilot_def go_simps Let_def)
  next
    case None
    show ?thesis
    proof (cases "s_client (w_session w1 sid)")
      case (Some cid)
      with assms v None show ?thesis
        by (auto simp: handleAddPilot_def go_simps Let_def notice_kept split: if_split_asm)
    next
      case none: None
      with assms v None show ?thesis
        by (auto simp: handleAddPilot_def go_simps Let_def notice_kept dest!: NewClient_kept split: if_split_asm)
    qed
  qed
qed

lemma dispatch_observed:
  assumes "dispatch E sid command d raw w = Inr (w', r)"
    and "command = AddAtc \<Longrightarrow> handleAddAtc E sid d raw w = Inr (w', r) \<Longrightarrow> obs w' = obs w"
    and "command = AddPilot \<Longrightarrow> handleAddPilot E sid d raw w = Inr (w', r) \<Longrightarrow> obs w' = obs w"
  shows "obs w' = obs w"
  using assms unfolding dispatch_def
  by (auto dest: handler_kept handleClientResponse_kept handlePlan_kept handleAtcEditPlan_kept handleClientQuery_kept
      split: if_splits)

lemma run_task_kept: "run_task E t w = Inr w' \<Longrightarrow> obs w' = obs w"
  by (cases t) (auto simp: go_simps)

end

locale kept = observed +
  assumes kept_user [simp]: "obs (upd_session sid (\<lambda>s. s\<lparr>s_user := u\<rparr>) w) = obs w"
begin

lemma verifyUserInfo_kept: "obs (fst (verifyUserInfo E sid cs p uid pw w)) = obs w"
proof (cases "GetClient cs w")
  case None
  then show ?thesis by (simp add: verifyUserInfo_def Let_def case_prod_beta)
next
  case (Some cid)
  then show ?thesis
    using Reconnect_kept [of cid sid w] by (simp add: verifyUserInfo_def Let_def case_prod_beta)
qed

lemma dispatch_kept: "dispatch E sid command d raw w = Inr (w', r) \<Longrightarrow> obs w' = obs w"
  by (rule dispatch_observed) (auto dest: handleAddAtc_rest handleAddPilot_rest simp: verifyUserInfo_kept)

lemma handleCommand_kept: "handleCommand E sid command d raw w = Inr (w', r) \<Longrightarrow> obs w' = obs w"
  by (auto simp: handleCommand_def checkPacketLength_def Let_def dest: dispatch_kept split: if_splits option.splits)

lemma handleLine_kept: "handleLine E sid line w = Inr w' \<Longrightarrow> obs w' = obs w"
  by (auto simp: handleLine_def go_simps case_prod_beta dest!: handleCommand_kept split: if_splits option.splits)

lemma step_kept:
  assumes "step E ev w = Inr w'" and "case ev of Accept _ \<Rightarrow> False | ConnEnd _ \<Rightarrow> False | Advance _ \<Rightarrow> False
      | ShutdownServer \<Rightarrow> False | _ \<Rightarrow> True"
  shows "obs w' = obs w"
proof (cases ev)
  case (RecvLine sid line)
  with assms(1) show ?thesis by (auto dest: handleLine_kept split: if_splits)
next
  case (RunTask i)
  with assms(1) show ?thesis by (auto dest!: run_task_kept split: option.splits)
qed (use assms in \<open>auto split: if_splits option.splits\<close>)

end

locale kept_always = kept +
  assumes kept_shutdown [simp]: "obs (w\<lparr>w_shuttingDown := b\<rparr>) = obs w"
begin

lemma Shutdown_kept [simp]: "obs (fst (Shutdown E w)) = obs w"
  by (simp add: Shutdown_def Let_def disconnectClients_def fold_kept)

lemma step_kept_always:
  assumes "step E ev w = Inr w'" and "case ev of Accept _ \<Rightarrow> False | ConnEnd _ \<Rightarrow> False | Advance _ \<Rightarrow> False | _ \<Rightarrow> True"
  shows "obs w' = obs w"
  using assms step_kept [OF assms(1)] by (cases ev) auto

end

section \<open>The clock\<close>

interpretation clock: kept_always w_now
  by unfold_locales (simp_all add: upd_session_def)

lemma connection_end_now [simp]: "w_now (connection_end E sid w) = w_now w"
  using clock.connection_end_kept [of E sid w] by (auto simp: upd_session_def)

lemma step_now:
  assumes "step E ev w = Inr w'"
  shows "w_now w' = (case ev of Advance d \<Rightarrow> w_now w + int d | _ \<Rightarrow> w_now w)"
proof (cases "case ev of Accept _ \<Rightarrow> False | ConnEnd _ \<Rightarrow> False | Advance _ \<Rightarrow> False | _ \<Rightarrow> True")
  case True
  with clock.step_kept_always [OF assms] show ?thesis by (cases ev) simp_all
next
  case False
  with assms show ?thesis by (cases ev) (auto simp: NewSession_def Let_def split: if_splits)
qed

lemma step_time: "step E ev w = Inr w' \<Longrightarrow> w_now w \<le> w_now w'"
  by (simp add: step_now split: event.split)

section \<open>The loops that run\<close>

definition loops_of :: "'db world \<Rightarrow> nat \<times> (nat \<Rightarrow> bool)" where
  "loops_of w = (w_nsession w, \<lambda>sid. s_reading (w_session w sid))"

interpretation loops: kept_always loops_of
  by unfold_locales (auto simp: loops_of_def upd_session_def)

text \<open>The connections whose loop runs.\<close>

definition running :: "'db world \<Rightarrow> nat set" where
  "running w = {sid. sid < w_nsession w \<and> s_reading (w_session w sid)}"

lemma running_finite [simp]: "finite (running w)"
  by (simp add: running_def)

lemma running_loops: "loops_of w' = loops_of w \<Longrightarrow> running w' = running w"
  by (auto simp: loops_of_def running_def fun_eq_iff)

lemma step_running:
  assumes "step E ev w = Inr w'"
  shows "running w' = (case ev of Accept _ \<Rightarrow> insert (w_nsession w) (running w) | ConnEnd sid \<Rightarrow> running w - {sid}
                       | _ \<Rightarrow> running w)"
proof (cases ev)
  case (Accept addr)
  with assms show ?thesis by (auto simp: running_def NewSession_def Let_def)
next
  case (ConnEnd sid)
  show ?thesis
  proof (cases "sid \<in> running w")
    case True
    with ConnEnd assms have w': "w' = connection_end E sid w" by (simp add: running_def)
    obtain w1 where w1: "connection_end E sid w = upd_session sid (\<lambda>s. s\<lparr>s_reading := False\<rparr>) w1"
      "loops_of w1 = loops_of w" using loops.connection_end_kept by blast
    from running_loops [OF w1(2)] have "running (upd_session sid (\<lambda>s. s\<lparr>s_reading := False\<rparr>) w1) = running w - {sid}"
      by (auto simp: running_def upd_session_def split: if_splits)
    with ConnEnd w' w1(1) show ?thesis by simp
  next
    case False
    with ConnEnd assms show ?thesis by (auto simp: running_def split: if_splits)
  qed
next
  case (Advance d)
  with assms show ?thesis by (auto simp: running_def)
qed (use running_loops [OF loops.step_kept_always [OF assms]] in simp_all)

section \<open>The flag of the shutdown\<close>

interpretation flag: kept w_shuttingDown
  by unfold_locales (simp_all add: upd_session_def)

lemma step_shutting: "step E ev w = Inr w' \<Longrightarrow> w_shuttingDown w \<Longrightarrow> w_shuttingDown w'"
proof -
  assume s: "step E ev w = Inr w'" and d: "w_shuttingDown w"
  have c: "w_shuttingDown (connection_end E sid w) = w_shuttingDown w" for sid
    using flag.connection_end_kept [of E sid w] by (auto simp: upd_session_def)
  from s d c flag.step_kept [OF s] show ?thesis
    by (cases ev) (auto simp: NewSession_def Let_def Shutdown_def split: if_splits)
qed

end
