(* ===== verification/Interleave.thy ===== *)
theory Interleave
  imports Frame "HOL-Library.Multiset"
begin

text \<open>
  The FSD server with the interleavings that its locks leave open. In theory \<open>System\<close> the handler
  of a line, a timer and the shutdown are one step each; here a login, a deletion and the shutdown
  are cut where the code holds no lock, and other goroutines run between the cuts.

  A login (\<open>verifyUserInfo\<close> and the rest of \<open>handleAddAtc\<close> or \<open>handleAddPilot\<close>) is cut after the lookup of
  the callsign, the reconnection, the check of the password, the creation of the client, the load
  of the flag of the shutdown and the insertion into the registry. \<open>Delete\<close> is cut between its check,
  which holds no lock, and the section under the lock of the client. The shutdown is cut after its
  flag, after the snapshot of the registry, and in each of its goroutines.
\<close>

section \<open>A login in stages\<close>

datatype stage =
    Lookup
  | Rejoin "nat option"
  | Authenticate "nat option"
  | Create
  | Admit nat
  | Register nat
  | Welcome nat

record login =
  l_isAtc :: bool
  l_data :: "string list"
  l_rawLine :: string

text \<open>Where the two commands have their fields.\<close>

definition l_callsign :: "login \<Rightarrow> string" where
  "l_callsign l = l_data l ! 0"

definition l_cid :: "login \<Rightarrow> UserId" where
  "l_cid l = GetUserId (l_data l ! (if l_isAtc l then 3 else 2))"

definition l_password :: "login \<Rightarrow> string" where
  "l_password l = l_data l ! (if l_isAtc l then 4 else 3)"

definition l_protocol :: "login \<Rightarrow> int" where
  "l_protocol l = StrToInt (l_data l ! (if l_isAtc l then 6 else 5)) 0"

definition l_rating :: "login \<Rightarrow> Rating" where
  "l_rating l = (if l_isAtc l then StrToInt (l_data l ! 5) 0 else StrToInt (l_data l ! 4) 0 - 1)"

definition l_realName :: "login \<Rightarrow> string" where
  "l_realName l = l_data l ! (if l_isAtc l then 2 else 7)"

definition long_login :: "login \<Rightarrow> bool" where
  "long_login l \<longleftrightarrow> (if l_isAtc l then 12 else 8) \<le> length (l_data l)"

text \<open>\<open>SetPosition\<close> of a controller that logs in, \<open>SetSimType\<close> of a pilot.\<close>

definition first_update :: "login \<Rightarrow> client \<Rightarrow> client go" where
  "first_update l c =
     (if l_isAtc l
      then go_bind (SetPosition 0 (StrToFloat (l_data l ! 9) 0) (StrToFloat (l_data l ! 10) 0) c) (\<lambda>(c', _). Inr c')
      else Inr (SetSimType (StrToInt (l_data l ! 6) 0) c))"

definition rating_refused :: "'db env \<Rightarrow> login \<Rightarrow> User \<Rightarrow> bool" where
  "rating_refused E l user \<longleftrightarrow>
     (if l_isAtc l then l_rating l > u_Rating user
      else l_rating l \<noteq> Normal \<or> \<not> CheckFacility (rating_facility (e_RatingFacilityMap E) (l_rating l)) Pilot)"

definition greet :: "'db env \<Rightarrow> login \<Rightarrow> nat \<Rightarrow> 'db world \<Rightarrow> 'db world" where
  "greet E l cid w =
     (let cs = l_callsign l;
          w1 = (if l_isAtc l then SendLine cid (makePacket ClientQuery [FSDServerName, cs, ''ATIS'']) w else w);
          w2 = SendMotd E cid (spawn (TBroadcast (l_rawLine l) (Some cid) (Some BroadcastToClientInRange)) w1)
      in if l_isAtc l \<or> e_SimulatorServer E then w2
         else case c_flightPlan (w_client w2 cid) of
                None \<Rightarrow> w2
              | Some p \<Rightarrow>
                  if fp_FromWeb p \<and> cs \<noteq> fp_Callsign p
                  then SendLine cid (makePacket Message [''FPlanManager'', cs, web_plan_notice E cs p]) w2
                  else w2)"

text \<open>One stage gives the next one, or the reply of the handler.\<close>

fun login_step ::
    "'db env \<Rightarrow> nat \<Rightarrow> login \<Rightarrow> stage \<Rightarrow> 'db world \<Rightarrow> ('db world \<times> (stage + reply)) go" where
  "login_step E sid l Lookup w =
     Inr (w, if \<not> callsignValid (l_callsign l) then Inr (Some (ResultError CallsignInvalid True (l_callsign l) None))
             else if l_protocol l \<noteq> 9 then Inr (Some (ResultError InvalidProtocolVision True (l_callsign l) None))
             else Inl (Rejoin (GetClient (l_callsign l) w)))"
| "login_step E sid l (Rejoin None) w = Inr (w, Inl (Authenticate None))"
| "login_step E sid l (Rejoin (Some client)) w =
     (let (w', reconnected) = Reconnect client sid w
      in Inr (if reconnected
              then (upd_session sid (\<lambda>s. s\<lparr>s_client := Some client\<rparr>) w', Inl (Authenticate (Some client)))
              else (w', Inr (Some (ResultError CallsignInUse True (l_callsign l) None)))))"
| "login_step E sid l (Authenticate found) w =
     (let (user, err) = GetUser (e_api E) (l_cid l) (w_db w)
      in Inr (if err \<noteq> None then (w, Inr (Some (ResultError AuthFail True (l_callsign l) (map_option ErrOp err))))
              else if u_Rating user = Ban then (w, Inr (Some (ResultError UserBaned True (l_callsign l) None)))
              else if \<not> VerifyUserPassword (e_api E) user (l_password l)
              then (w, Inr (Some (ResultError AuthFail True (l_callsign l) None)))
              else
                let w2 = (case found of None \<Rightarrow> w | Some client \<Rightarrow> upd_client client (SetUser user) w)
                in (upd_session sid (\<lambda>s. s\<lparr>s_user := Some user\<rparr>) w2, Inl Create)))"
| "login_step E sid l Create w =
     deref (s_user (w_session w sid)) (\<lambda>user.
       if rating_refused E l user
       then Inr (w, Inr (Some (ResultError RequestLevelTooHigh True (l_callsign l) None)))
       else
         case s_client (w_session w sid) of
           Some cid \<Rightarrow> Inr (w, Inl (Welcome cid))
         | None \<Rightarrow>
             go_bind (NewClient E (l_callsign l) (l_rating l) (l_protocol l) (l_realName l) sid (l_isAtc l) w)
               (\<lambda>(cid, w2).
                  let w3 = upd_session sid (\<lambda>s. s\<lparr>s_client := Some cid\<rparr>) w2 in
                  go_bind (first_update l (w_client w3 cid)) (\<lambda>c.
                    Inr (upd_client cid (\<lambda>_. c) w3, Inl (Admit cid)))))"
| "login_step E sid l (Admit cid) w = Inr (w, Inl (if w_shuttingDown w then Welcome cid else Register cid))"
| "login_step E sid l (Register cid) w =
     Inr (case map_of (w_clients w) (c_callsign (w_client w cid)) of
            Some _ \<Rightarrow> w
          | None \<Rightarrow> w\<lparr>w_clients := AList.update (c_callsign (w_client w cid)) cid (w_clients w)\<rparr>,
          Inl (Welcome cid))"
| "login_step E sid l (Welcome cid) w = Inr (greet E l cid w, Inr (Some ResultSuccess))"

text \<open>The stages without anything in between; a login has at most seven.\<close>

fun login_run ::
    "nat \<Rightarrow> 'db env \<Rightarrow> nat \<Rightarrow> login \<Rightarrow> stage \<Rightarrow> 'db world \<Rightarrow> ('db world \<times> reply) go" where
  "login_run 0 E sid l st w = Inr (w, None)"
| "login_run (Suc n) E sid l st w =
     go_bind (login_step E sid l st w) (\<lambda>(w', r).
       case r of Inl st' \<Rightarrow> login_run n E sid l st' w' | Inr result \<Rightarrow> Inr (w', result))"

definition login_handler ::
    "'db env \<Rightarrow> nat \<Rightarrow> login \<Rightarrow> 'db world \<Rightarrow> ('db world \<times> reply) go" where
  "login_handler E sid l w =
     (if l_isAtc l then handleAddAtc else handleAddPilot) E sid (l_data l) (l_rawLine l) w"

section \<open>The stages are the handlers\<close>

text \<open>The first three stages are the verification.\<close>

lemma login_run_verify:
  "login_run (Suc (Suc (Suc n))) E sid l Lookup w =
     (case verifyUserInfo E sid (l_callsign l) (l_protocol l) (l_cid l) (l_password l) w of
        (w1, None) \<Rightarrow> login_run n E sid l Create w1
      | (w1, Some r) \<Rightarrow> Inr (w1, Some r))"
proof (cases "GetClient (l_callsign l) w")
  case None
  then show ?thesis
    by (simp add: verifyUserInfo_def Let_def split: prod.split)
next
  case (Some c)
  then show ?thesis
    by (cases "Reconnect c sid w") (simp add: verifyUserInfo_def Let_def split: prod.split)
qed

text \<open>The last four stages are what follows it.\<close>

lemma AddClient_stages:
  "fst (AddClient cid w) =
     (if w_shuttingDown w then w
      else case map_of (w_clients w) (c_callsign (w_client w cid)) of
             Some _ \<Rightarrow> w
           | None \<Rightarrow> w\<lparr>w_clients := AList.update (c_callsign (w_client w cid)) cid (w_clients w)\<rparr>)"
  by (simp add: AddClient_def Let_def split: option.split)

lemma login_run_admit:
  "login_run (Suc (Suc (Suc 0))) E sid l (Admit cid) w = Inr (greet E l cid (fst (AddClient cid w)), Some ResultSuccess)"
  by (simp add: AddClient_stages)

definition new_client_stage :: "'db env \<Rightarrow> nat \<Rightarrow> login \<Rightarrow> 'db world \<Rightarrow> (nat \<times> 'db world) go" where
  "new_client_stage E sid l w =
     go_bind (NewClient E (l_callsign l) (l_rating l) (l_protocol l) (l_realName l) sid (l_isAtc l) w)
       (\<lambda>(cid, w2).
          let w3 = upd_session sid (\<lambda>s. s\<lparr>s_client := Some cid\<rparr>) w2 in
          go_bind (first_update l (w_client w3 cid)) (\<lambda>c. Inr (cid, upd_client cid (\<lambda>_. c) w3)))"

lemma login_run_create:
  assumes "s_user (w_session w sid) = Some user"
  shows "login_run (Suc (Suc (Suc (Suc 0)))) E sid l Create w =
     (if rating_refused E l user
      then Inr (w, Some (ResultError RequestLevelTooHigh True (l_callsign l) None))
      else
        go_bind
          (case s_client (w_session w sid) of
             Some cid \<Rightarrow> Inr (cid, w)
           | None \<Rightarrow> go_bind (new_client_stage E sid l w) (\<lambda>(cid, w4). Inr (cid, fst (AddClient cid w4))))
          (\<lambda>(cid, w5). Inr (greet E l cid w5, Some ResultSuccess)))"
proof (cases "s_client (w_session w sid)")
  case (Some cid)
  with assms show ?thesis by simp
next
  case None
  show ?thesis
  proof (cases "NewClient E (l_callsign l) (l_rating l) (l_protocol l) (l_realName l) sid (l_isAtc l) w")
    case (Inl p)
    with None assms show ?thesis by (simp add: new_client_stage_def)
  next
    case (Inr r)
    obtain cid w2 where r: "r = (cid, w2)" by fastforce
    let ?w3 = "upd_session sid (\<lambda>s. s\<lparr>s_client := Some cid\<rparr>) w2"
    show ?thesis
    proof (cases "first_update l (w_client ?w3 cid)")
      case (Inl p)
      with None assms Inr r show ?thesis by (simp add: new_client_stage_def)
    next
      case c: (Inr c)
      with None assms Inr r login_run_admit [of E sid l cid "upd_client cid (\<lambda>_. c) ?w3"] show ?thesis
        by (simp add: new_client_stage_def)
    qed
  qed
qed

lemma go_bind_assoc: "go_bind (go_bind m f) g = go_bind m (\<lambda>x. go_bind (f x) g)"
  by (cases m) simp_all

lemma controller_stages:
  assumes "long_login l" and "l_isAtc l"
  shows "handleAddAtc E sid (l_data l) (l_rawLine l) w = login_run (Suc (Suc (Suc (Suc (Suc (Suc (Suc 0))))))) E sid l Lookup w"
proof -
  let ?d = "l_data l"
  have len: "12 \<le> length ?d" "?d \<noteq> []" using assms by (auto simp: long_login_def)
  obtain w1 res where v: "verifyUserInfo E sid (?d ! 0) (StrToInt (?d ! 6) 0) (GetUserId (?d ! 3)) (?d ! 4) w = (w1, res)"
    by fastforce
  then have v': "verifyUserInfo E sid (l_callsign l) (l_protocol l) (l_cid l) (l_password l) w = (w1, res)"
    using assms(2) by (simp add: l_callsign_def l_protocol_def l_cid_def l_password_def)
  show ?thesis
  proof (cases res)
    case (Some r)
    with v v' len show ?thesis by (simp add: handleAddAtc_def login_run_verify del: login_run.simps)
  next
    case None
    with v verifyUserInfo_user obtain user where u: "s_user (w_session w1 sid) = Some user" by blast
    have "handleAddAtc E sid ?d (l_rawLine l) w = login_run (Suc (Suc (Suc (Suc 0)))) E sid l Create w1"
      unfolding login_run_create [OF u] using v None u len assms(2)
      by (cases "s_client (w_session w1 sid)")
        (simp_all add: handleAddAtc_def Let_def rating_refused_def l_rating_def l_callsign_def l_realName_def
          l_protocol_def greet_def new_client_stage_def first_update_def go_bind_assoc case_prod_beta del: login_run.simps)
    with v' None show ?thesis by (simp add: login_run_verify del: login_run.simps)
  qed
qed

lemma upd_client_const:
  "upd_client cid (\<lambda>_. f (w_client w cid)) (upd_session sid g w) = upd_client cid f (upd_session sid g w)"
  by (simp add: upd_client_def)

lemma pilot_stages:
  assumes "long_login l" and "\<not> l_isAtc l"
  shows "handleAddPilot E sid (l_data l) (l_rawLine l) w = login_run (Suc (Suc (Suc (Suc (Suc (Suc (Suc 0))))))) E sid l Lookup w"
proof -
  let ?d = "l_data l"
  have len: "8 \<le> length ?d" "?d \<noteq> []" using assms by (auto simp: long_login_def)
  obtain w1 res where v: "verifyUserInfo E sid (?d ! 0) (StrToInt (?d ! 5) 0) (GetUserId (?d ! 2)) (?d ! 3) w = (w1, res)"
    by fastforce
  then have v': "verifyUserInfo E sid (l_callsign l) (l_protocol l) (l_cid l) (l_password l) w = (w1, res)"
    using assms(2) by (simp add: l_callsign_def l_protocol_def l_cid_def l_password_def)
  show ?thesis
  proof (cases res)
    case (Some r)
    with v v' len show ?thesis by (simp add: handleAddPilot_def login_run_verify del: login_run.simps)
  next
    case None
    with v verifyUserInfo_user obtain user where u: "s_user (w_session w1 sid) = Some user" by blast
    have "handleAddPilot E sid ?d (l_rawLine l) w = login_run (Suc (Suc (Suc (Suc 0)))) E sid l Create w1"
      unfolding login_run_create [OF u] using v None u len assms(2)
      by (cases "s_client (w_session w1 sid)";
          cases "NewClient E (?d ! 0) 0 (StrToInt (?d ! 5) 0) (?d ! 7) sid False w1")
        (simp_all add: handleAddPilot_def Let_def rating_refused_def l_rating_def l_callsign_def l_realName_def
          l_protocol_def greet_def new_client_stage_def first_update_def upd_client_const case_prod_beta del: login_run.simps)
    with v' None show ?thesis by (simp add: login_run_verify del: login_run.simps)
  qed
qed



section \<open>The server with its windows\<close>

text \<open>
  \<open>t_login\<close> are the connections whose goroutine is inside a login, with the stage that comes next;
  the multisets are goroutines: of the shutdown, before \<open>MarkedDisconnect\<close> (\<open>t_mark\<close>); before the check
  of \<open>Delete\<close> (\<open>t_check\<close>); between that check and the lock (\<open>t_delete\<close>). \<open>t_snapshot\<close> says that the
  shutdown has set its flag and not yet copied the registry.
\<close>

record 'db threads =
  t_world :: "'db world"
  t_login :: "nat \<rightharpoonup> login \<times> stage"
  t_snapshot :: bool
  t_mark :: "nat multiset"
  t_check :: "nat multiset"
  t_delete :: "nat multiset"

definition no_threads :: "'db world \<Rightarrow> 'db threads" where
  "no_threads w = \<lparr>t_world = w, t_login = Map.empty, t_snapshot = False, t_mark = {#}, t_check = {#}, t_delete = {#}\<rparr>"

text \<open>A login line that the dispatcher hands to its handler.\<close>

definition login_line :: "string \<Rightarrow> login \<Rightarrow> bool" where
  "login_line line l \<longleftrightarrow>
     parserCommandLine line = (if l_isAtc l then AddAtc else AddPilot, l_data l) \<and> l_rawLine l = line \<and> long_login l"

text \<open>A goroutine that is inside a login reads no line and does not end.\<close>

fun may_step :: "'db threads \<Rightarrow> 'db event \<Rightarrow> bool" where
  "may_step s (RecvLine sid line) \<longleftrightarrow> t_login s sid = None"
| "may_step s (ConnEnd sid) \<longleftrightarrow> t_login s sid = None"
| "may_step s ev \<longleftrightarrow> True"

inductive fine :: "'db env \<Rightarrow> 'db threads \<Rightarrow> 'db threads \<Rightarrow> bool" for E where
  whole: "may_step s ev \<Longrightarrow> step E ev (t_world s) = Inr w' \<Longrightarrow> fine E s (s\<lparr>t_world := w'\<rparr>)"
| login_begins: "sid < w_nsession (t_world s) \<Longrightarrow> s_reading (w_session (t_world s) sid) \<Longrightarrow>
    \<not> s_disconnected (w_session (t_world s) sid) \<Longrightarrow> t_login s sid = None \<Longrightarrow> login_line line l \<Longrightarrow>
    fine E s (s\<lparr>t_login := (t_login s)(sid \<mapsto> (l, Lookup))\<rparr>)"
| login_goes_on: "t_login s sid = Some (l, st) \<Longrightarrow> login_step E sid l st (t_world s) = Inr (w', Inl st') \<Longrightarrow>
    fine E s (s\<lparr>t_world := w', t_login := (t_login s)(sid \<mapsto> (l, st'))\<rparr>)"
| login_ends: "t_login s sid = Some (l, st) \<Longrightarrow> login_step E sid l st (t_world s) = Inr (w', Inr (Some r)) \<Longrightarrow>
    fine E s (s\<lparr>t_world := if Success r then w' else session_SendError sid r w', t_login := (t_login s)(sid := None)\<rparr>)"
| timer_fires: "map_of (w_tasks (t_world s)) i = Some (TDelete cid) \<Longrightarrow>
    fine E s (s\<lparr>t_world := stop_timer (Some i) (t_world s), t_check := add_mset cid (t_check s)\<rparr>)"
| delete_checks: "cid \<in># t_check s \<Longrightarrow>
    fine E s (s\<lparr>t_check := t_check s - {#cid#},
      t_delete := if c_disconnect (w_client (t_world s) cid) then add_mset cid (t_delete s) else t_delete s\<rparr>)"
| delete_locks: "cid \<in># t_delete s \<Longrightarrow>
    fine E s (s\<lparr>t_world := delete_locked E cid (t_world s), t_delete := t_delete s - {#cid#}\<rparr>)"
| shutdown_flag: "\<not> w_shuttingDown (t_world s) \<Longrightarrow>
    fine E s (s\<lparr>t_world := (t_world s)\<lparr>w_shuttingDown := True\<rparr>, t_snapshot := True\<rparr>)"
| shutdown_snapshot: "t_snapshot s \<Longrightarrow>
    fine E s (s\<lparr>t_snapshot := False, t_mark := t_mark s + mset (GetClientSnapshot (t_world s))\<rparr>)"
| shutdown_marks: "cid \<in># t_mark s \<Longrightarrow>
    fine E s (s\<lparr>t_world := mark_locked cid True (t_world s), t_mark := t_mark s - {#cid#},
      t_check := add_mset cid (t_check s)\<rparr>)"

inductive fine_reachable :: "'db env \<Rightarrow> 'db threads \<Rightarrow> bool" for E where
  fine_start: "fine_reachable E (no_threads (initial db now))"
| fine_next: "fine_reachable E s \<Longrightarrow> fine E s s' \<Longrightarrow> fine_reachable E s'"

text \<open>Every run of whole steps is one of its runs.\<close>

lemma reachable_fine: "reachable E w \<Longrightarrow> fine_reachable E (no_threads w)"
proof (induction rule: reachable.induct)
  case (start db now)
  show ?case by (rule fine_start)
next
  case (next_step w ev w')
  have "may_step (no_threads w) ev" by (cases ev) (simp_all add: no_threads_def)
  with next_step whole [of "no_threads w" ev E w'] show ?case
    by (auto simp: no_threads_def intro: fine_next)
qed

section \<open>What every step keeps of the others\<close>

interpretation account: observed "\<lambda>w. s_user (w_session w sid)"
  by unfold_locales simp_all

text \<open>Numbers stay allocated and an account that is known stays known.\<close>

definition onward :: "'db world \<Rightarrow> 'db world \<Rightarrow> bool" where
  "onward w w' \<longleftrightarrow> w_nsession w \<le> w_nsession w' \<and> w_nclient w \<le> w_nclient w' \<and>
     (\<forall>sid < w_nsession w. s_user (w_session w sid) \<noteq> None \<longrightarrow> s_user (w_session w' sid) \<noteq> None)"

lemma onward_refl [simp]: "onward w w"
  by (simp add: onward_def)

lemma onward_same:
  "w_nsession w' = w_nsession w \<Longrightarrow> w_nclient w' = w_nclient w \<Longrightarrow>
   (\<And>sid. s_user (w_session w' sid) = s_user (w_session w sid)) \<Longrightarrow> onward w w'"
  by (simp add: onward_def)

lemma verify_keeps_user:
  "s_user (w_session w sid') \<noteq> None \<Longrightarrow> s_user (w_session (fst (verifyUserInfo E sid cs p uid pw w)) sid') \<noteq> None"
proof -
  assume u: "s_user (w_session w sid') \<noteq> None"
  show ?thesis
  proof (cases "GetClient cs w")
    case None
    with u show ?thesis by (auto simp: verifyUserInfo_def Let_def case_prod_beta)
  next
    case (Some cid)
    with u show ?thesis
      by (auto simp: verifyUserInfo_def Let_def case_prod_beta)
  qed
qed

lemma dispatch_user:
  assumes "dispatch E sid command d raw w = Inr (w', r)" and "s_user (w_session w sid') \<noteq> None"
  shows "s_user (w_session w' sid') \<noteq> None"
proof (cases "s_user (w_session w' sid') = s_user (w_session w sid')")
  case False
  with account.dispatch_observed [OF assms(1), of sid']
  consider "handleAddAtc E sid d raw w = Inr (w', r)" | "handleAddPilot E sid d raw w = Inr (w', r)" by blast
  then show ?thesis
    by cases (use assms(2) in \<open>simp_all add: account.handleAddAtc_rest account.handleAddPilot_rest verify_keeps_user\<close>)
qed (use assms(2) in simp)

lemma handleLine_user:
  assumes "handleLine E sid line w = Inr w'" and "s_user (w_session w sid') \<noteq> None"
  shows "s_user (w_session w' sid') \<noteq> None"
proof -
  have "s_user (w_session w1 sid') \<noteq> None" if "handleCommand E sid command d line w = Inr (w1, r)" for command d w1 r
    using that assms(2)
    by (auto simp: handleCommand_def checkPacketLength_def Let_def split: if_splits option.splits dest!: dispatch_user)
  with assms show ?thesis
    by (auto simp: handleLine_def go_simps case_prod_beta split: if_splits option.splits)
qed

lemma connection_end_frame:
  "w_nsession (connection_end E sid w) = w_nsession w" "w_nclient (connection_end E sid w) = w_nclient w"
  "s_user (w_session (connection_end E sid w) sid') = s_user (w_session w sid')"
proof -
  obtain w1 where w1: "connection_end E sid w = upd_session sid (\<lambda>s. s\<lparr>s_reading := False\<rparr>) w1"
    "s_user (w_session w1 sid') = s_user (w_session w sid')" using account.connection_end_kept by blast
  then show "s_user (w_session (connection_end E sid w) sid') = s_user (w_session w sid')" by auto
qed (simp_all add: connection_end_def Let_def conn_close_def split: option.split)

lemma disconnectClients_frame:
  "w_nsession (disconnectClients E cids w) = w_nsession w \<and> w_nclient (disconnectClients E cids w) = w_nclient w \<and>
   s_user (w_session (disconnectClients E cids w) sid) = s_user (w_session w sid)"
  unfolding disconnectClients_def by (induction cids arbitrary: w) (simp_all add: account.MarkedDisconnect_kept)

lemma run_task_onward: "run_task E t w = Inr w' \<Longrightarrow> onward w w'"
proof (rule onward_same)
  assume r: "run_task E t w = Inr w'"
  from account.run_task_kept [OF r] show "s_user (w_session w' sid) = s_user (w_session w sid)" for sid .
  from r show "w_nsession w' = w_nsession w" "w_nclient w' = w_nclient w"
    by (cases t; auto simp: go_simps conn_close_def)+
qed

lemma step_onward:
  assumes "world_ok w" and "step E ev w = Inr w'"
  shows "onward w w'"
proof (cases ev)
  case (RecvLine sid line)
  obtain command d where p: "parserCommandLine line = (command, d)" by fastforce
  show ?thesis
  proof (cases "sid < w_nsession w \<and> s_reading (w_session w sid)")
    case True
    with RecvLine assms(2) have h: "handleLine E sid line w = Inr w'" by simp
    with handleLine_outcome [OF assms(1) _ p, of sid E] True have "good w w'" by simp
    with handleLine_user [OF h] show ?thesis by (auto simp: onward_def good_def)
  qed (use RecvLine assms(2) in auto)
next
  case (RunTask i)
  with assms(2) run_task_onward [of E _ "stop_timer (Some i) w" w'] show ?thesis
    by (auto simp: onward_def split: option.splits)
next
  case (HttpMessage sender to m)
  with assms(2) show ?thesis by (auto simp: SendRawMessageTo_def intro!: onward_same split: option.splits)
next
  case (HttpKill cs)
  with assms(2) show ?thesis by (auto intro!: onward_same split: option.splits)
next
  case (ConnEnd sid)
  with assms(2) show ?thesis by (auto intro!: onward_same simp: connection_end_frame split: if_splits)
next
  case ShutdownServer
  with assms(2) disconnectClients_frame [of E "GetClientSnapshot w" "w\<lparr>w_shuttingDown := True\<rparr>"] show ?thesis
    by (auto intro!: onward_same simp: Shutdown_def Let_def GetClientSnapshot_def split: if_splits)
next
  case (HeartBeat n)
  with assms(2) show ?thesis by (auto intro!: onward_same simp: SendHeartBeat_def)
next
  case (Accept addr)
  with assms(2) show ?thesis by (auto simp: onward_def NewSession_def Let_def)
qed (use assms(2) in \<open>auto intro!: onward_same\<close>)

section \<open>The invariant of the threads\<close>

text \<open>What a stage relies on: nothing of it is undone by the steps of others.\<close>

fun stage_ok :: "'db world \<Rightarrow> nat \<Rightarrow> login \<Rightarrow> stage \<Rightarrow> bool" where
  "stage_ok w sid l Lookup \<longleftrightarrow> True"
| "stage_ok w sid l (Rejoin found) \<longleftrightarrow> callsignValid (l_callsign l) \<and> (\<forall>c. found = Some c \<longrightarrow> c < w_nclient w)"
| "stage_ok w sid l (Authenticate found) \<longleftrightarrow> callsignValid (l_callsign l) \<and> (\<forall>c. found = Some c \<longrightarrow> c < w_nclient w)"
| "stage_ok w sid l Create \<longleftrightarrow> callsignValid (l_callsign l) \<and> s_user (w_session w sid) \<noteq> None"
| "stage_ok w sid l (Admit cid) \<longleftrightarrow> cid < w_nclient w"
| "stage_ok w sid l (Register cid) \<longleftrightarrow> cid < w_nclient w"
| "stage_ok w sid l (Welcome cid) \<longleftrightarrow> cid < w_nclient w"

lemma stage_ok_onward:
  "stage_ok w sid l st \<Longrightarrow> sid < w_nsession w \<Longrightarrow> onward w w' \<Longrightarrow> stage_ok w' sid l st"
  by (cases st) (auto simp: onward_def)

text \<open>A stage that keeps the invariant, does not panic and leads to one that can go on.\<close>

definition stage_outcome :: "nat \<Rightarrow> login \<Rightarrow> 'db world \<Rightarrow> ('db world \<times> (stage + reply)) go \<Rightarrow> bool" where
  "stage_outcome sid l w res \<longleftrightarrow>
     (case res of
        Inl p \<Rightarrow> False
      | Inr (w', r) \<Rightarrow> world_ok w' \<and> w_nsession w' = w_nsession w \<and> onward w w' \<and>
          (case r of Inl st \<Rightarrow> stage_ok w' sid l st | Inr rep \<Rightarrow> rep \<noteq> None))"

lemma onward_user:
  "w_nsession w' = w_nsession w \<Longrightarrow> w_nclient w \<le> w_nclient w' \<Longrightarrow>
   (\<And>s. s_user (w_session w s) \<noteq> None \<Longrightarrow> s_user (w_session w' s) \<noteq> None) \<Longrightarrow> onward w w'"
  by (simp add: onward_def)

lemma rejoin_outcome:
  assumes "world_ok w" and "sid < w_nsession w" and "stage_ok w sid l (Rejoin found)"
  shows "stage_outcome sid l w (login_step E sid l (Rejoin found) w)"
proof (cases found)
  case None
  with assms show ?thesis by (simp add: stage_outcome_def)
next
  case (Some c)
  with assms have c: "c < w_nclient w" "callsignValid (l_callsign l)" by simp_all
  obtain w' ok where r: "Reconnect c sid w = (w', ok)" by fastforce
  have w': "w_nclient w' = w_nclient w" "w_nsession w' = w_nsession w"
    "\<And>s. s_user (w_session w' s) = s_user (w_session w s)" "world_ok w'"
    using Reconnect_frame [of c sid w] Reconnect_ok [OF assms(1) c(1) assms(2)] unfolding r by auto
  have "world_ok (upd_session sid (\<lambda>s. s\<lparr>s_client := Some c\<rparr>) w')"
    using w' c by (intro upd_session_ok) simp_all
  with Some r w' c show ?thesis by (auto simp: stage_outcome_def onward_def)
qed

lemma authenticate_outcome:
  assumes "world_ok w" and "sid < w_nsession w" and "stage_ok w sid l (Authenticate found)"
  shows "stage_outcome sid l w (login_step E sid l (Authenticate found) w)"
proof -
  let ?w = "\<lambda>u. case found of None \<Rightarrow> w | Some c \<Rightarrow> upd_client c (SetUser u) w"
  have frame: "w_nclient (?w u) = w_nclient w" "w_nsession (?w u) = w_nsession w" "w_session (?w u) = w_session w" for u
    by (simp_all split: option.split)
  have "world_ok (?w u)" for u
    using assms(1,3) client_field_ok(3) [OF assms(1)] by (auto split: option.split)
  then have "world_ok (upd_session sid (\<lambda>s. s\<lparr>s_user := Some u\<rparr>) (?w u))" for u
    using assms(2) frame by (intro upd_session_keep_ok) simp_all
  with assms frame show ?thesis
    by (auto simp: stage_outcome_def onward_def Let_def split: prod.split)
qed

lemma first_update_ok:
  assumes "client_ok c"
  shows "\<exists>c'. first_update l c = Inr c' \<and> client_ok c' \<and> same_identity c c'"
  using SetPosition_ok [OF assms, of 0 "StrToFloat (l_data l ! 9) 0" "StrToFloat (l_data l ! 10) 0"] small_updates_ok [OF assms]
  by (auto simp: first_update_def same_identity_def)

lemma create_outcome:
  assumes "world_ok w" and "sid < w_nsession w" and "stage_ok w sid l Create"
  shows "stage_outcome sid l w (login_step E sid l Create w)"
proof -
  from assms(3) obtain user where u: "s_user (w_session w sid) = Some user" "callsignValid (l_callsign l)" by auto
  show ?thesis
  proof (cases "s_client (w_session w sid)")
    case (Some cid)
    with assms u session_client_lt [OF assms(1,2) Some] show ?thesis by (simp add: stage_outcome_def)
  next
    case None
    let ?cid = "w_nclient w"
    obtain c w2 where n: "NewClient E (l_callsign l) (l_rating l) (l_protocol l) (l_realName l) sid (l_isAtc l) w
        = Inr (?cid, w2)"
      and w2: "world_ok w2" "w_client w2 = (w_client w)(?cid := c)" "client_ok c" "w_nclient w2 = Suc ?cid"
        "w_nsession w2 = w_nsession w"
      using login_new_client [OF assms(1,2) u(2,1)] by blast
    have users: "s_user (w_session w2 s) = s_user (w_session w s)" for s
      using account.NewClient_kept [OF n] by simp
    let ?w3 = "upd_session sid (\<lambda>s. s\<lparr>s_client := Some ?cid\<rparr>) w2"
    have w3: "world_ok ?w3" using w2 by (intro upd_session_ok) simp_all
    obtain c' where c': "first_update l c = Inr c'" "client_ok c'" "same_identity c c'"
      using first_update_ok [OF w2(3)] by blast
    have "world_ok (upd_client ?cid (\<lambda>_. c') ?w3)"
      using w3 w2 c' by (intro upd_client_ok) simp_all
    with None n u w2 c' users assms(1) show ?thesis by (auto simp: stage_outcome_def onward_def)
  qed
qed

lemma greet_ok:
  assumes "world_ok w" and "cid < w_nclient w"
  shows "world_ok (greet E l cid w) \<and> w_nsession (greet E l cid w) = w_nsession w \<and> onward w (greet E l cid w)"
proof -
  have "good w (greet E l cid w)"
    unfolding greet_def Let_def using assms by (auto intro!: good_intros split: option.split)
  moreover have "s_user (w_session (greet E l cid w) s) = s_user (w_session w s)" for s
    unfolding greet_def Let_def by (simp add: account.kept_simps split: option.split)
  ultimately show ?thesis by (simp add: good_def onward_def)
qed

lemma login_step_outcome:
  assumes "world_ok w" and "sid < w_nsession w" and "stage_ok w sid l st"
  shows "stage_outcome sid l w (login_step E sid l st w)"
proof (cases st)
  case Lookup
  with assms GetClient_ok [OF assms(1), of "l_callsign l"] show ?thesis by (auto simp: stage_outcome_def)
next
  case (Rejoin found)
  with assms rejoin_outcome show ?thesis by blast
next
  case (Authenticate found)
  with assms authenticate_outcome show ?thesis by blast
next
  case Create
  with assms create_outcome show ?thesis by blast
next
  case (Admit cid)
  with assms show ?thesis by (simp add: stage_outcome_def)
next
  case (Register cid)
  with assms registry_add_ok [OF assms(1), of cid] show ?thesis
    by (auto simp: stage_outcome_def onward_def split: option.split)
next
  case (Welcome cid)
  with assms greet_ok [OF assms(1), of cid E l] show ?thesis by (simp add: stage_outcome_def)
qed

text \<open>
  The shared state keeps the invariant of theory \<open>Invariants\<close>; the logins are at stages they can go
  on from; whatever a goroutine is about to disconnect or delete is a client.
\<close>

definition threads_ok :: "'db threads \<Rightarrow> bool" where
  "threads_ok s \<longleftrightarrow> world_ok (t_world s) \<and>
     (\<forall>sid l st. t_login s sid = Some (l, st) \<longrightarrow> sid < w_nsession (t_world s) \<and> stage_ok (t_world s) sid l st) \<and>
     (\<forall>cid. cid \<in># t_mark s + t_check s + t_delete s \<longrightarrow> cid < w_nclient (t_world s))"

lemma threads_ok_D:
  assumes "threads_ok s"
  shows "world_ok (t_world s)"
    and "t_login s sid = Some (l, st) \<Longrightarrow> sid < w_nsession (t_world s)"
    and "t_login s sid = Some (l, st) \<Longrightarrow> stage_ok (t_world s) sid l st"
    and "cid \<in># t_mark s + t_check s + t_delete s \<Longrightarrow> cid < w_nclient (t_world s)"
  using assms unfolding threads_ok_def by blast+

text \<open>Another state of the world, with at most these logins and these goroutines.\<close>

lemma threads_okI:
  assumes "threads_ok s" and "world_ok (t_world s')" and "onward (t_world s) (t_world s')"
    and "\<And>sid l st. t_login s' sid = Some (l, st) \<Longrightarrow> t_login s sid \<noteq> Some (l, st) \<Longrightarrow>
           sid < w_nsession (t_world s') \<and> stage_ok (t_world s') sid l st"
    and "\<And>cid. cid \<in># t_mark s' + t_check s' + t_delete s' \<Longrightarrow> cid \<notin># t_mark s + t_check s + t_delete s \<Longrightarrow>
           cid < w_nclient (t_world s')"
  shows "threads_ok s'"
  unfolding threads_ok_def
proof (intro conjI allI impI)
  show "world_ok (t_world s')" by (rule assms(2))
next
  fix sid l st
  assume l: "t_login s' sid = Some (l, st)"
  have "sid < w_nsession (t_world s') \<and> stage_ok (t_world s') sid l st"
  proof (cases "t_login s sid = Some (l, st)")
    case True
    note ok = threads_ok_D(2,3) [OF assms(1) True]
    with stage_ok_onward [OF ok(2,1) assms(3)] assms(3) show ?thesis by (simp add: onward_def)
  qed (use assms(4) l in blast)
  then show "sid < w_nsession (t_world s')" "stage_ok (t_world s') sid l st" by blast+
next
  fix cid
  assume c: "cid \<in># t_mark s' + t_check s' + t_delete s'"
  show "cid < w_nclient (t_world s')"
  proof (cases "cid \<in># t_mark s + t_check s + t_delete s")
    case True
    with threads_ok_D(4) [OF assms(1)] assms(3) show ?thesis by (fastforce simp: onward_def)
  qed (use assms(5) c in blast)
qed

lemma session_SendError_sizes:
  "w_nsession (session_SendError sid r w) = w_nsession w" "w_nclient (session_SendError sid r w) = w_nclient w"
  by (simp_all add: session_SendError_def client_SendError_def SetDisconnected_def Let_def split: option.split)

lemma threads_ok_start: "threads_ok (no_threads (initial db now))"
  by (simp add: threads_ok_def no_threads_def world_ok_initial)

lemma fine_ok:
  assumes "fine E s s'" and "threads_ok s"
  shows "threads_ok s'"
  using assms(1)
proof cases
  case (whole ev w')
  with step_ok [OF threads_ok_D(1) [OF assms(2)]] step_onward [OF threads_ok_D(1) [OF assms(2)]]
  show ?thesis by (intro threads_okI [OF assms(2)]) simp_all
next
  case (login_begins sid line l)
  with threads_ok_D(1) [OF assms(2)] show ?thesis
    by (intro threads_okI [OF assms(2)]) (auto split: if_splits)
next
  case (login_goes_on sid l st w' st')
  note ok = threads_ok_D(1-3) [OF assms(2)]
  from login_step_outcome [OF ok(1) ok(2,3) [OF login_goes_on(2)], of E] login_goes_on
  have "world_ok w'" "w_nsession w' = w_nsession (t_world s)" "onward (t_world s) w'" "stage_ok w' sid l st'"
    by (auto simp: stage_outcome_def)
  with login_goes_on ok(2) [OF login_goes_on(2)] show ?thesis
    by (intro threads_okI [OF assms(2)]) (auto split: if_splits)
next
  case (login_ends sid l st w' r)
  note ok = threads_ok_D(1-3) [OF assms(2)]
  from login_step_outcome [OF ok(1) ok(2,3) [OF login_ends(2)], of E] login_ends
  have w': "world_ok w'" "w_nsession w' = w_nsession (t_world s)" "onward (t_world s) w'"
    by (auto simp: stage_outcome_def)
  with ok(2) [OF login_ends(2)] have "world_ok (session_SendError sid r w')"
    by (intro session_SendError_ok) simp_all
  moreover have "onward w' (session_SendError sid r w')"
    by (rule onward_same) (simp_all add: account.kept_simps session_SendError_sizes)
  ultimately show ?thesis using w' login_ends
    by (intro threads_okI [OF assms(2)]) (auto simp: onward_def split: if_splits)
next
  case (timer_fires i cid)
  note ok = threads_ok_D(1) [OF assms(2)]
  have "cid < w_nclient (t_world s)"
    using world_okD(3) [OF ok] timer_fires(2) by (auto simp: tasks_ok_def dest!: map_of_SomeD)
  with timer_fires stop_timer_ok [OF ok] show ?thesis
    by (intro threads_okI [OF assms(2)]) (auto intro: onward_same)
next
  case (delete_checks cid)
  with threads_ok_D(1) [OF assms(2)] show ?thesis
    by (intro threads_okI [OF assms(2)]) (auto split: if_splits dest: in_diffD)
next
  case (delete_locks cid)
  with delete_locked_ok [OF threads_ok_D(1) [OF assms(2)]] threads_ok_D(4) [OF assms(2), of cid] show ?thesis
    by (intro threads_okI [OF assms(2)]) (auto intro: onward_same dest: in_diffD)
next
  case shutdown_flag
  with threads_ok_D(1) [OF assms(2)] show ?thesis
    by (intro threads_okI [OF assms(2)]) (auto simp: w_shuttingDown_ok intro: onward_same)
next
  case shutdown_snapshot
  with threads_ok_D(1) [OF assms(2)] show ?thesis
    by (intro threads_okI [OF assms(2)]) (auto simp: snapshot_ok)
next
  case (shutdown_marks cid)
  with mark_locked_ok [OF threads_ok_D(1) [OF assms(2)]] threads_ok_D(4) [OF assms(2), of cid] show ?thesis
    by (intro threads_okI [OF assms(2)]) (auto intro: onward_same dest: in_diffD)
qed

lemma fine_reachable_ok: "fine_reachable E s \<Longrightarrow> threads_ok s"
  by (induction rule: fine_reachable.induct) (simp_all add: threads_ok_start fine_ok)


lemma step_panics:
  assumes "world_ok w" and "step E ev w = Inl p"
  shows "\<exists>sid line command d. ev = RecvLine sid line \<and> parserCommandLine line = (command, d) \<and>
           long_enough command d \<and> crashes E sid command d w"
proof (cases ev)
  case (RecvLine sid line)
  obtain command d where c: "parserCommandLine line = (command, d)" by fastforce
  with RecvLine assms handleLine_outcome [OF assms(1) _ c, of sid E] show ?thesis by (auto split: if_splits)
next
  case (RunTask i)
  with assms task_of_ok [OF assms(1), of i _ E] show ?thesis by (fastforce split: option.splits)
qed (use assms(2) in \<open>auto split: if_splits option.splits\<close>)

text \<open>
  C4. What the interleavings leave intact. In every state that the server reaches with logins,
  deletions and the shutdown cut into their atomic parts, in any order with everything else: each
  callsign is registered once, and under it is a client with that valid callsign; a login that
  is under way goes on, without a panic and without a nil result; and a whole step panics
  only for the lines that it also panics for without interleavings.
\<close>

theorem interleaving_safe:
  assumes "fine_reachable E s"
  shows "distinct (map fst (w_clients (t_world s))) \<and>
         (\<forall>cs cid. map_of (w_clients (t_world s)) cs = Some cid \<longrightarrow>
            cid < w_nclient (t_world s) \<and> c_callsign (w_client (t_world s) cid) = cs \<and> callsignValid cs) \<and>
         (\<forall>sid l st. t_login s sid = Some (l, st) \<longrightarrow>
            (\<exists>w' r. login_step E sid l st (t_world s) = Inr (w', r) \<and> r \<noteq> Inr None)) \<and>
         (\<forall>ev p. step E ev (t_world s) = Inl p \<longrightarrow>
            (\<exists>sid line command d. ev = RecvLine sid line \<and> parserCommandLine line = (command, d) \<and>
               long_enough command d \<and> crashes E sid command d (t_world s)))"
proof (intro conjI allI impI)
  note ok = fine_reachable_ok [OF assms]
  note w = threads_ok_D(1) [OF ok]
  show "distinct (map fst (w_clients (t_world s)))" using w by (simp add: world_ok_def registry_ok_def)
  fix cs cid
  assume "map_of (w_clients (t_world s)) cs = Some cid"
  with world_okD(1) [OF w] show "cid < w_nclient (t_world s)" and "c_callsign (w_client (t_world s) cid) = cs"
    by (auto simp: registry_ok_def)
  with world_ok_client(2) [OF w] show "callsignValid cs" by blast
next
  note ok = fine_reachable_ok [OF assms]
  fix sid l st
  assume l: "t_login s sid = Some (l, st)"
  from login_step_outcome [OF threads_ok_D(1,2,3) [OF ok], OF l l, of E]
  show "\<exists>w' r. login_step E sid l st (t_world s) = Inr (w', r) \<and> r \<noteq> Inr None"
    by (auto simp: stage_outcome_def split: sum.splits prod.splits)
next
  fix ev p
  assume p: "step E ev (t_world s) = Inl p"
  from step_panics [OF threads_ok_D(1) [OF fine_reachable_ok [OF assms]] p]
  show "\<exists>sid line command d. ev = RecvLine sid line \<and> parserCommandLine line = (command, d) \<and>
      long_enough command d \<and> crashes E sid command d (t_world s)" by blast
qed

theorem interleaving_safe_witness:
  "distinct (map fst (w_clients example_online)) \<and> callsignValid (c_callsign (w_client example_online 0))"
  using interleaving_safe [OF reachable_fine [OF example_reachable]] by (simp add: no_threads_def)

end
