(* ===== verification/Races.thy ===== *)
theory Races
  imports Service Interleave
begin

text \<open>
  What the windows between the locks let through, as runs of theory \<open>Interleave\<close>: two connections
  that log in with one callsign at the same time, a deletion whose check came before a
  reconnection, and a login that loaded the flag of the shutdown before it was set.
\<close>

section \<open>Runs of several steps\<close>

abbreviation fine_runs :: "'db env \<Rightarrow> 'db threads \<Rightarrow> 'db threads \<Rightarrow> bool" where
  "fine_runs E \<equiv> (fine E)\<^sup>*\<^sup>*"

lemma fine_runs_reachable: "fine_runs E s s' \<Longrightarrow> fine_reachable E s \<Longrightarrow> fine_reachable E s'"
  by (induction rule: rtranclp_induct) (auto intro: fine_next)

lemma then_runs: "fine E s s1 \<Longrightarrow> fine_runs E s1 s2 \<Longrightarrow> fine_runs E s s2"
  by (rule converse_rtranclp_into_rtranclp)

section \<open>A deletion that comes too late\<close>

lemma delete_locked_map:
  "map_of (w_clients (delete_locked E cid w)) = (map_of (w_clients w))(c_callsign (w_client w cid) := None)"
  by (simp add: delete_locked_def Let_def case_prod_beta DeleteClient_map)

lemma delete_locked_client [simp]:
  "c_disconnect (w_client (delete_locked E cid w) c) = c_disconnect (w_client w c)"
  "c_socket (w_client (delete_locked E cid w) c) = c_socket (w_client w c)"
  "c_callsign (w_client (delete_locked E cid w) c) = c_callsign (w_client w c)"
  by (simp_all add: delete_locked_def Let_def case_prod_beta)

lemma Reconnect_client:
  assumes "c_disconnect (w_client w cid)"
  shows "snd (Reconnect cid sid w)" and "\<not> c_disconnect (w_client (fst (Reconnect cid sid w)) cid)"
    and "c_socket (w_client (fst (Reconnect cid sid w)) cid) = sid"
    and "c_callsign (w_client (fst (Reconnect cid sid w)) c) = c_callsign (w_client w c)"
  using assms by (auto simp: Reconnect_def Let_def SetCallsign_def ClearAtcAtisInfo_def)

text \<open>
  C18. The check of \<open>Delete\<close> is not under the lock. When the deletion timer of a disconnected client
  fires while a login on its callsign has looked the client up and not yet reconnected it, there is a
  run in which the client reconnects to the new connection and is then deleted all the same: it
  stays connected, with the connection that goes on, and its callsign is free for anyone.
\<close>

theorem late_deletion:
  assumes "fine_reachable E s" and "map_of (w_tasks (t_world s)) i = Some (TDelete cid)"
    and "t_login s sid = Some (l, Rejoin (Some cid))"
  shows "\<exists>s'. fine_runs E s s' \<and> t_login s' sid = Some (l, Authenticate (Some cid)) \<and>
           s_client (w_session (t_world s') sid) = Some cid \<and> \<not> c_disconnect (w_client (t_world s') cid) \<and>
           c_socket (w_client (t_world s') cid) = sid \<and>
           map_of (w_clients (t_world s')) (c_callsign (w_client (t_world s') cid)) = None"
proof -
  let ?w = "t_world s"
  have "world_ok ?w" by (rule threads_ok_D(1) [OF fine_reachable_ok [OF assms(1)]])
  with assms(2) have d: "c_disconnect (w_client ?w cid)"
    by (auto simp: world_ok_def timers_ok_def dest: map_of_SomeD)
  let ?s1 = "s\<lparr>t_world := stop_timer (Some i) ?w, t_check := add_mset cid (t_check s)\<rparr>"
  let ?s2 = "s\<lparr>t_world := stop_timer (Some i) ?w, t_delete := add_mset cid (t_delete s)\<rparr>"
  obtain w3 where r: "Reconnect cid sid (stop_timer (Some i) ?w) = (w3, True)"
    using Reconnect_client(1) [of "stop_timer (Some i) ?w" cid sid] d by (metis prod.collapse stop_timer_frame(3))
  let ?w3 = "upd_session sid (\<lambda>s. s\<lparr>s_client := Some cid\<rparr>) w3"
  let ?s3 = "?s2\<lparr>t_world := ?w3, t_login := (t_login s)(sid \<mapsto> (l, Authenticate (Some cid)))\<rparr>"
  let ?s4 = "?s3\<lparr>t_world := delete_locked E cid ?w3, t_delete := t_delete s\<rparr>"
  have w3: "\<not> c_disconnect (w_client w3 cid)" "c_socket (w_client w3 cid) = sid"
    using Reconnect_client(2,3) [of "stop_timer (Some i) ?w" cid sid] d r by simp_all
  have 1: "fine E s ?s1" by (rule timer_fires [OF assms(2)])
  have 2: "fine E ?s1 ?s2" using delete_checks [of cid ?s1 E] d by simp
  have 3: "fine E ?s2 ?s3" using login_goes_on [of ?s2 sid l "Rejoin (Some cid)" E ?w3] assms(3) r by simp
  have 4: "fine E ?s3 ?s4" using delete_locks [of cid ?s3 E] by simp
  have runs: "fine_runs E s ?s4" by (rule then_runs [OF 1 then_runs [OF 2 then_runs [OF 3 then_runs [OF 4 rtranclp.rtrancl_refl]]]])
  show ?thesis
    by (intro exI [of _ ?s4] conjI runs) (simp_all add: w3 delete_locked_map)
qed

text \<open>A second pilot connection in the reconnection window of the first, up to the lookup.\<close>

definition example_login2 :: login where
  "example_login2 = \<lparr>l_isAtc = False, l_data = example_fields, l_rawLine = example_line\<rparr>"

definition example_window :: "memory world" where
  "example_window = snd (NewSession ''127.0.0.1:5001'' (MarkedDisconnect example_env 0 False example_online))"

lemma example_window_simps [simp]:
  "w_nsession example_window = 2" "s_reading (w_session example_window (Suc 0))"
  "\<not> s_disconnected (w_session example_window (Suc 0))" "GetClient ''CPA421'' example_window = Some 0"
  "map_of (w_tasks example_window) (w_ntask example_online) = Some (TDelete 0)"
proof -
  have "(i, t) \<in> set (w_tasks example_online) \<Longrightarrow> i < w_ntask example_online" for i t
    using reachable_ok [OF example_reachable] by (auto simp: world_ok_def tasks_ok_def)
  then have "w_ntask example_online \<notin> fst ` set (w_tasks example_online)" by fastforce
  then have "map_of (w_tasks example_online) (w_ntask example_online) = None" by (simp add: map_of_eq_None_iff)
  then show "map_of (w_tasks example_window) (w_ntask example_online) = Some (TDelete 0)"
    by (simp add: example_window_def NewSession_def Let_def MarkedDisconnect_def mark_locked_def conn_close_def
        map_add_Some_iff stop_timer_def)
qed (simp_all add: example_window_def NewSession_def Let_def MarkedDisconnect_def mark_locked_def conn_close_def
    GetClient_def)

lemma example_line_login: "login_line example_line example_login2"
  by (simp add: login_line_def example_login2_def example_parse long_login_def example_fields_def)

lemma example_waiting_login:
  "fine_reachable example_env
     ((no_threads example_window)\<lparr>t_login := [Suc 0 \<mapsto> (example_login2, Rejoin (Some 0))]\<rparr>)"
proof -
  have "reachable example_env example_window"
    unfolding example_window_def by (rule next_step [OF example_killed, where ev = "Accept ''127.0.0.1:5001''"]) simp
  then have 0: "fine_reachable example_env (no_threads example_window)" by (rule reachable_fine)
  have 1: "fine example_env (no_threads example_window)
      ((no_threads example_window)\<lparr>t_login := [Suc 0 \<mapsto> (example_login2, Lookup)]\<rparr>)"
    using login_begins [of "Suc 0" "no_threads example_window" example_line example_login2 example_env] example_line_login
    by (simp add: no_threads_def)
  have "login_step example_env (Suc 0) example_login2 Lookup example_window =
      Inr (example_window, Inl (Rejoin (Some 0)))"
    by (simp add: l_callsign_def l_protocol_def example_login2_def example_fields_def example_callsign example_numbers)
  with login_goes_on [of "(no_threads example_window)\<lparr>t_login := [Suc 0 \<mapsto> (example_login2, Lookup)]\<rparr>" "Suc 0"
      example_login2 Lookup example_env example_window "Rejoin (Some 0)"]
  have 2: "fine example_env ((no_threads example_window)\<lparr>t_login := [Suc 0 \<mapsto> (example_login2, Lookup)]\<rparr>)
      ((no_threads example_window)\<lparr>t_login := [Suc 0 \<mapsto> (example_login2, Rejoin (Some 0))]\<rparr>)"
    by (simp add: no_threads_def)
  from fine_next [OF fine_next [OF 0 1] 2] show ?thesis .
qed

theorem late_deletion_witness:
  "\<exists>s'. fine_reachable example_env s' \<and> s_client (w_session (t_world s') 1) = Some 0 \<and>
        \<not> c_disconnect (w_client (t_world s') 0) \<and> map_of (w_clients (t_world s')) (c_callsign (w_client (t_world s') 0)) = None"
  using late_deletion [OF example_waiting_login, of "w_ntask example_online" 0 "Suc 0" example_login2]
    fine_runs_reachable [OF _ example_waiting_login]
  by (fastforce simp: no_threads_def)

section \<open>Two logins with one callsign\<close>

lemma greet_frame [simp]:
  "w_clients (greet E l cid w) = w_clients w" "w_nclient (greet E l cid w) = w_nclient w"
  "w_nsession (greet E l cid w) = w_nsession w" "w_shuttingDown (greet E l cid w) = w_shuttingDown w"
  "c_callsign (w_client (greet E l cid w) c) = c_callsign (w_client w c)"
  "c_disconnect (w_client (greet E l cid w) c) = c_disconnect (w_client w c)"
  "c_socket (w_client (greet E l cid w) c) = c_socket (w_client w c)"
  "s_client (w_session (greet E l cid w) s) = s_client (w_session w s)"
  "s_reading (w_session (greet E l cid w) s) = s_reading (w_session w s)"
  by (simp_all add: greet_def Let_def split: option.split)

lemma greet_user [simp]: "s_user (w_session (greet E l cid w) s) = s_user (w_session w s)"
  by (simp add: greet_def Let_def account.SendMotd_kept account.kept_heap account.kept_write split: option.split)

text \<open>What the creation of a client does to the state.\<close>

lemma create_new:
  assumes "world_ok w" and "sid < w_nsession w" and "stage_ok w sid l Create"
    and "s_client (w_session w sid) = None" and "s_user (w_session w sid) = Some user" and "\<not> rating_refused E l user"
  shows "\<exists>c w'. login_step E sid l Create w = Inr (w', Inl (Admit (w_nclient w))) \<and>
           w_client w' = (w_client w)(w_nclient w := c) \<and> w_nclient w' = Suc (w_nclient w) \<and>
           c_callsign c = l_callsign l \<and> \<not> c_disconnect c \<and> c_socket c = sid \<and>
           w_clients w' = w_clients w \<and> w_nsession w' = w_nsession w \<and> w_shuttingDown w' = w_shuttingDown w \<and>
           (\<forall>s. s_client (w_session w' s) = (if s = sid then Some (w_nclient w) else s_client (w_session w s)) \<and>
                s_user (w_session w' s) = s_user (w_session w s) \<and> s_reading (w_session w' s) = s_reading (w_session w s))"
proof -
  let ?cid = "w_nclient w"
  have cs: "callsignValid (l_callsign l)" using assms(3) by simp
  obtain c where n: "NewClient E (l_callsign l) (l_rating l) (l_protocol l) (l_realName l) sid (l_isAtc l) w =
      Inr (?cid, (SetCallsign sid (l_callsign l) w)\<lparr>w_client := (w_client w)(?cid := c), w_nclient := Suc ?cid\<rparr>)"
    and c: "client_ok c" "c_callsign c = l_callsign l" "c_socket c = sid" "\<not> c_disconnect c"
    using NewClient_ok [OF assms(1,2) cs assms(5), of E "l_rating l" "l_protocol l" "l_realName l" "l_isAtc l"] by blast
  obtain c' where c': "first_update l c = Inr c'" "same_identity c c'" using first_update_ok [OF c(1)] by blast
  let ?w = "upd_client ?cid (\<lambda>_. c') (upd_session sid (\<lambda>s. s\<lparr>s_client := Some ?cid\<rparr>)
     ((SetCallsign sid (l_callsign l) w)\<lparr>w_client := (w_client w)(?cid := c), w_nclient := Suc ?cid\<rparr>))"
  have "login_step E sid l Create w = Inr (?w, Inl (Admit ?cid))"
    using n c' assms(4-6) by (simp add: SetCallsign_def)
  with c c' show ?thesis
    by (intro exI [of _ c'] exI [of _ ?w]) (auto simp: same_identity_def SetCallsign_def upd_client_def)
qed

text \<open>A login on a free connection from the creation of its client to its end, undisturbed.\<close>

definition newly_logged_in :: "'db threads \<Rightarrow> nat \<Rightarrow> login \<Rightarrow> 'db threads \<Rightarrow> bool" where
  "newly_logged_in s sid l s' \<longleftrightarrow>
     (let w = t_world s; w' = t_world s'; cid = w_nclient w; cs = l_callsign l in
      t_login s' = (t_login s)(sid := None) \<and> w_nclient w' = Suc cid \<and> w_nsession w' = w_nsession w \<and>
      w_shuttingDown w' = w_shuttingDown w \<and>
      (\<forall>s. s_client (w_session w' s) = (if s = sid then Some cid else s_client (w_session w s)) \<and>
           s_user (w_session w' s) = s_user (w_session w s) \<and> s_reading (w_session w' s) = s_reading (w_session w s)) \<and>
      (\<forall>c. c \<noteq> cid \<longrightarrow> c_callsign (w_client w' c) = c_callsign (w_client w c) \<and>
           c_disconnect (w_client w' c) = c_disconnect (w_client w c) \<and> c_socket (w_client w' c) = c_socket (w_client w c)) \<and>
      c_callsign (w_client w' cid) = cs \<and> \<not> c_disconnect (w_client w' cid) \<and> c_socket (w_client w' cid) = sid \<and>
      map_of (w_clients w') =
        (if map_of (w_clients w) cs = None then (map_of (w_clients w))(cs \<mapsto> cid) else map_of (w_clients w)))"

lemma finish_login:
  assumes "threads_ok s" and "t_login s sid = Some (l, Create)" and "s_client (w_session (t_world s) sid) = None"
    and "s_user (w_session (t_world s) sid) = Some user" and "\<not> rating_refused E l user"
    and "\<not> w_shuttingDown (t_world s)"
  shows "\<exists>s'. fine_runs E s s' \<and> newly_logged_in s sid l s'"
proof -
  let ?w = "t_world s" and ?cid = "w_nclient (t_world s)"
  note ok = threads_ok_D(1-3) [OF assms(1)]
  from create_new [OF ok(1) ok(2,3) [OF assms(2)] assms(3-5)] obtain c w1 where
    c: "login_step E sid l Create ?w = Inr (w1, Inl (Admit ?cid))"
    and w1: "w_client w1 = (w_client ?w)(?cid := c)" "w_nclient w1 = Suc ?cid" "c_callsign c = l_callsign l"
    "\<not> c_disconnect c" "c_socket c = sid" "w_clients w1 = w_clients ?w" "w_nsession w1 = w_nsession ?w"
    "w_shuttingDown w1 = w_shuttingDown ?w"
    "\<And>s. s_client (w_session w1 s) = (if s = sid then Some ?cid else s_client (w_session ?w s))"
    "\<And>s. s_user (w_session w1 s) = s_user (w_session ?w s)" "\<And>s. s_reading (w_session w1 s) = s_reading (w_session ?w s)"
    by blast
  let ?at = "\<lambda>w st. s\<lparr>t_world := w, t_login := (t_login s)(sid \<mapsto> (l, st))\<rparr>"
  let ?w2 = "case map_of (w_clients w1) (c_callsign (w_client w1 ?cid)) of Some _ \<Rightarrow> w1
     | None \<Rightarrow> w1\<lparr>w_clients := AList.update (c_callsign (w_client w1 ?cid)) ?cid (w_clients w1)\<rparr>"
  let ?s' = "s\<lparr>t_world := greet E l ?cid ?w2, t_login := (t_login s)(sid := None)\<rparr>"
  have 1: "fine E s (?at w1 (Admit ?cid))" by (rule login_goes_on [OF assms(2) c])
  have 2: "fine E (?at w1 (Admit ?cid)) (?at w1 (Register ?cid))"
    using login_goes_on [of "?at w1 (Admit ?cid)" sid l "Admit ?cid" E w1 "Register ?cid"] w1(8) assms(6) by simp
  have 3: "fine E (?at w1 (Register ?cid)) (?at ?w2 (Welcome ?cid))"
    using login_goes_on [of "?at w1 (Register ?cid)" sid l "Register ?cid" E ?w2 "Welcome ?cid"] by simp
  have 4: "fine E (?at ?w2 (Welcome ?cid)) ?s'"
    using login_ends [of "?at ?w2 (Welcome ?cid)" sid l "Welcome ?cid" E "greet E l ?cid ?w2" ResultSuccess] by simp
  have "newly_logged_in s sid l ?s'"
    using w1 by (simp add: newly_logged_in_def Let_def update_conv' split: option.split)
  moreover have "fine_runs E s ?s'"
    by (rule then_runs [OF 1 then_runs [OF 2 then_runs [OF 3 then_runs [OF 4 rtranclp.rtrancl_refl]]]])
  ultimately show ?thesis by blast
qed

text \<open>
  The end of a connection and the deletion of its client after the window. The deletion takes the
  callsign out of the registry, whoever is registered under it.
\<close>

lemma fresh_task: "world_ok w \<Longrightarrow> map_of (w_tasks w) (w_ntask w) = None"
  by (fastforce simp: world_ok_def tasks_ok_def map_of_eq_None_iff)

lemma map_of_filter_None: "map_of xs k = None \<Longrightarrow> map_of (filter P xs) k = None"
  by (induction xs) (auto split: if_splits)

lemma BroadcastMessage_clients [simp]:
  "s_client (w_session (BroadcastMessage m from f w) s) = s_client (w_session w s)"
proof -
  have "s_client (w_session (fold (\<lambda>cid w'. if P cid then SendLine cid line w' else w') cs w) s) = s_client (w_session w s)"
    for P line cs and w :: "'a world"
    by (induction cs arbitrary: w) simp_all
  then show ?thesis by (simp add: BroadcastMessage_def Let_def)
qed

lemma connection_end_disconnects:
  assumes "world_ok w" and "s_client (w_session w sid) = Some cid" and "\<not> c_disconnect (w_client w cid)"
  shows "w_clients (connection_end E sid w) = w_clients w"
    and "map_of (w_tasks (connection_end E sid w)) (w_ntask w) = Some (TDelete cid)"
    and "c_disconnect (w_client (connection_end E sid w) c) = (c = cid \<or> c_disconnect (w_client w c))"
    and "c_callsign (w_client (connection_end E sid w) c) = c_callsign (w_client w c)"
    and "s_client (w_session (connection_end E sid w) s) = s_client (w_session w s)"
  using assms(2,3) fresh_task [OF assms(1)]
  by (auto simp: connection_end_def Let_def MarkedDisconnect_def mark_locked_def conn_close_def map_add_Some_iff
      stop_timer_def map_of_filter_None split: option.split)

lemma end_and_delete:
  assumes "threads_ok s" and "t_login s sid = None" and "sid < w_nsession (t_world s)"
    and "s_reading (w_session (t_world s) sid)" and "s_client (w_session (t_world s) sid) = Some cid"
    and "\<not> c_disconnect (w_client (t_world s) cid)"
  shows "\<exists>s'. fine_runs E s s' \<and>
           map_of (w_clients (t_world s')) = (map_of (w_clients (t_world s)))(c_callsign (w_client (t_world s) cid) := None) \<and>
           (\<forall>c. c \<noteq> cid \<longrightarrow> c_disconnect (w_client (t_world s') c) = c_disconnect (w_client (t_world s) c)) \<and>
           (\<forall>c. c_callsign (w_client (t_world s') c) = c_callsign (w_client (t_world s) c)) \<and>
           (\<forall>sid. s_client (w_session (t_world s') sid) = s_client (w_session (t_world s) sid))"
proof -
  let ?w = "t_world s" and ?w1 = "connection_end E sid (t_world s)" and ?i = "w_ntask (t_world s)"
  note c = connection_end_disconnects [OF threads_ok_D(1) [OF assms(1)] assms(5,6)]
  let ?w2 = "stop_timer (Some ?i) ?w1"
  let ?s1 = "s\<lparr>t_world := ?w1\<rparr>" and ?s2 = "s\<lparr>t_world := ?w2, t_check := add_mset cid (t_check s)\<rparr>"
  let ?s3 = "s\<lparr>t_world := ?w2, t_delete := add_mset cid (t_delete s)\<rparr>" and ?s4 = "s\<lparr>t_world := delete_locked E cid ?w2\<rparr>"
  have 1: "fine E s ?s1" using whole [of s "ConnEnd sid" E ?w1] assms(2-4) by simp
  have 2: "fine E ?s1 ?s2" using timer_fires [of ?s1 ?i cid E] c(2) by simp
  have 3: "fine E ?s2 ?s3" using delete_checks [of cid ?s2 E] c(3) by simp
  have 4: "fine E ?s3 ?s4" using delete_locks [of cid ?s3 E] by simp
  have "fine_runs E s ?s4"
    by (rule then_runs [OF 1 then_runs [OF 2 then_runs [OF 3 then_runs [OF 4 rtranclp.rtrancl_refl]]]])
  with c(1,3-5) show ?thesis by (intro exI [of _ ?s4]) (simp add: delete_locked_map)
qed

text \<open>
  C5. The lookup of a login and its insertion into the registry are not one step, and the error of
  the insertion is ignored. When two connections have both passed the password check for the same
  free callsign, there is a run after which both are logged in under it, each with a connected client
  of its own, but only the first client is registered; and it goes on, when the second connection
  ends, with the deletion of the second client taking the first out of the registry while it is
  connected.
\<close>

theorem racing_logins:
  assumes "fine_reachable E s" and "sid1 \<noteq> sid2"
    and "t_login s sid1 = Some (l1, Create)" and "t_login s sid2 = Some (l2, Create)"
    and "l_callsign l1 = cs" and "l_callsign l2 = cs" and "map_of (w_clients (t_world s)) cs = None"
    and "\<not> w_shuttingDown (t_world s)"
    and "s_client (w_session (t_world s) sid1) = None" and "s_client (w_session (t_world s) sid2) = None"
    and "s_user (w_session (t_world s) sid1) = Some user1" and "s_user (w_session (t_world s) sid2) = Some user2"
    and "\<not> rating_refused E l1 user1" and "\<not> rating_refused E l2 user2"
    and "s_reading (w_session (t_world s) sid2)"
  shows "\<exists>c1 c2 s1 s2. c1 \<noteq> c2 \<and> fine_runs E s s1 \<and>
           t_login s1 sid1 = None \<and> s_client (w_session (t_world s1) sid1) = Some c1 \<and>
           t_login s1 sid2 = None \<and> s_client (w_session (t_world s1) sid2) = Some c2 \<and>
           (\<forall>c \<in> {c1, c2}. c_callsign (w_client (t_world s1) c) = cs \<and> \<not> c_disconnect (w_client (t_world s1) c)) \<and>
           map_of (w_clients (t_world s1)) cs = Some c1 \<and>
           fine_runs E s1 s2 \<and> s_client (w_session (t_world s2) sid1) = Some c1 \<and>
           \<not> c_disconnect (w_client (t_world s2) c1) \<and> c_callsign (w_client (t_world s2) c1) = cs \<and>
           map_of (w_clients (t_world s2)) cs = None"
proof -
  note ok = fine_reachable_ok [OF assms(1)]
  from finish_login [OF ok assms(3,9,11,13,8)] obtain sa where
    a: "fine_runs E s sa" "newly_logged_in s sid1 l1 sa" by blast
  note oka = fine_reachable_ok [OF fine_runs_reachable [OF a(1) assms(1)]]
  note na = a(2) [unfolded newly_logged_in_def Let_def]
  have pa: "t_login sa sid2 = Some (l2, Create)" "s_client (w_session (t_world sa) sid2) = None"
    "s_user (w_session (t_world sa) sid2) = Some user2" "\<not> w_shuttingDown (t_world sa)"
    using na assms(2,4,8,10,12) by auto
  from finish_login [OF oka pa(1-3) assms(14) pa(4)] obtain sb where
    b: "fine_runs E sa sb" "newly_logged_in sa sid2 l2 sb" by blast
  note reach = fine_runs_reachable [OF b(1) fine_runs_reachable [OF a(1) assms(1)]]
  note nb = b(2) [unfolded newly_logged_in_def Let_def]
  let ?c1 = "w_nclient (t_world s)" and ?c2 = "Suc (w_nclient (t_world s))" and ?w = "t_world sb"
  have n: "w_nclient (t_world sa) = ?c2" using na by simp
  have w: "s_client (w_session ?w sid1) = Some ?c1" "s_client (w_session ?w sid2) = Some ?c2"
    "c_callsign (w_client ?w ?c1) = cs" "c_callsign (w_client ?w ?c2) = cs"
    "\<not> c_disconnect (w_client ?w ?c1)" "\<not> c_disconnect (w_client ?w ?c2)"
    "map_of (w_clients ?w) cs = Some ?c1" "t_login sb sid1 = None" "t_login sb sid2 = None"
    "sid2 < w_nsession ?w" "s_reading (w_session ?w sid2)"
    using na nb n assms(2,5-7,15) threads_ok_D(2) [OF ok assms(4)] by auto
  from end_and_delete [OF fine_reachable_ok [OF reach] w(9,10,11,2,6), of E] obtain sc where
    c: "fine_runs E sb sc" "map_of (w_clients (t_world sc)) = (map_of (w_clients ?w))(cs := None)"
    "\<not> c_disconnect (w_client (t_world sc) ?c1)" "c_callsign (w_client (t_world sc) ?c1) = cs"
    "s_client (w_session (t_world sc) sid1) = Some ?c1"
    using w by auto
  have "fine_runs E s sb" using a(1) b(1) by (rule rtranclp_trans)
  with w c show ?thesis by (intro exI [of _ ?c1] exI [of _ ?c2] exI [of _ sb] exI [of _ sc]) simp
qed

section \<open>A login during the shutdown\<close>

text \<open>
  \<open>AddClient\<close> loads the flag of the shutdown before it takes the lock. A login that loaded it in time
  is registered after the snapshot of the shutdown, which then never disconnects it: its client
  stays connected and registered in a server that has shut down.
\<close>

theorem late_registration:
  assumes "fine_reachable E s" and "t_login s sid = Some (l, Admit cid)" and "\<not> w_shuttingDown (t_world s)"
    and "map_of (w_clients (t_world s)) (c_callsign (w_client (t_world s) cid)) = None"
    and "cid \<notin># t_mark s + t_check s + t_delete s" and "cid \<notin> snd ` set (w_clients (t_world s))"
  shows "\<exists>s'. fine_runs E s s' \<and> w_shuttingDown (t_world s') \<and> \<not> t_snapshot s' \<and>
           cid \<notin># t_mark s' + t_check s' + t_delete s' \<and>
           map_of (w_clients (t_world s')) (c_callsign (w_client (t_world s') cid)) = Some cid \<and>
           c_disconnect (w_client (t_world s') cid) = c_disconnect (w_client (t_world s) cid)"
proof -
  let ?w = "t_world s" and ?cs = "c_callsign (w_client (t_world s) cid)"
  let ?down = "(t_world s)\<lparr>w_shuttingDown := True\<rparr>"
  let ?w4 = "?down\<lparr>w_clients := AList.update ?cs cid (w_clients ?w)\<rparr>"
  let ?s1 = "s\<lparr>t_login := (t_login s)(sid \<mapsto> (l, Register cid))\<rparr>"
  let ?s2 = "?s1\<lparr>t_world := ?down, t_snapshot := True\<rparr>"
  let ?s3 = "?s2\<lparr>t_snapshot := False, t_mark := t_mark s + mset (GetClientSnapshot ?down)\<rparr>"
  let ?s4 = "?s3\<lparr>t_world := ?w4, t_login := (t_login s)(sid \<mapsto> (l, Welcome cid))\<rparr>"
  have 1: "fine E s ?s1" using login_goes_on [OF assms(2), of E ?w "Register cid"] assms(3) by simp
  have 2: "fine E ?s1 ?s2" using shutdown_flag [of ?s1 E] assms(3) by simp
  have 3: "fine E ?s2 ?s3" using shutdown_snapshot [of ?s2 E] by simp
  have 4: "fine E ?s3 ?s4" using login_goes_on [of ?s3 sid l "Register cid" E ?w4 "Welcome cid"] assms(4) by simp
  have "fine_runs E s ?s4"
    by (rule then_runs [OF 1 then_runs [OF 2 then_runs [OF 3 then_runs [OF 4 rtranclp.rtrancl_refl]]]])
  with assms(5,6) show ?thesis
    by (intro exI [of _ ?s4]) (auto simp: GetClientSnapshot_def update_conv')
qed

section \<open>The races on the example\<close>

lemma example_GetUser:
  "GetUser memory_api (IntUserId 2352) example_db = (example_user, None)"
  "VerifyUserPassword memory_api example_user ''pw''"
  by (simp_all add: example_account)

text \<open>The pilot of the example, from its line to the end of the password check.\<close>

lemma example_verifies:
  assumes "fine_reachable example_env s" and "t_login s sid = None" and "sid < w_nsession (t_world s)"
    and "s_reading (w_session (t_world s) sid)" and "\<not> s_disconnected (w_session (t_world s) sid)"
    and "GetClient ''CPA421'' (t_world s) = None" and "w_db (t_world s) = example_db"
  shows "fine_reachable example_env
     (s\<lparr>t_world := upd_session sid (\<lambda>x. x\<lparr>s_user := Some example_user\<rparr>) (t_world s),
        t_login := (t_login s)(sid \<mapsto> (example_login2, Create))\<rparr>)"
proof -
  let ?l = example_login2 and ?w = "t_world s"
  let ?at = "\<lambda>st. s\<lparr>t_login := (t_login s)(sid \<mapsto> (?l, st))\<rparr>"
  let ?w1 = "upd_session sid (\<lambda>x. x\<lparr>s_user := Some example_user\<rparr>) ?w"
  have fields: "l_callsign ?l = ''CPA421''" "l_protocol ?l = 9" "l_cid ?l = IntUserId 2352" "l_password ?l = ''pw''"
    by (simp_all add: l_callsign_def l_protocol_def l_cid_def l_password_def example_login2_def example_fields_def
        example_numbers)
  have 1: "fine example_env s (?at Lookup)" by (rule login_begins [OF assms(3-5,2) example_line_login])
  have 2: "fine example_env (?at Lookup) (?at (Rejoin None))"
    using login_goes_on [of "?at Lookup" sid ?l Lookup example_env ?w "Rejoin None"] fields assms(6) example_callsign by simp
  have 3: "fine example_env (?at (Rejoin None)) (?at (Authenticate None))"
    using login_goes_on [of "?at (Rejoin None)" sid ?l "Rejoin None" example_env ?w "Authenticate None"] by simp
  have "login_step example_env sid ?l (Authenticate None) ?w = Inr (?w1, Inl Create)"
    using assms(7) fields example_GetUser example_account(4) by (simp add: Let_def)
  then have 4: "fine example_env (?at (Authenticate None)) (s\<lparr>t_world := ?w1, t_login := (t_login s)(sid \<mapsto> (?l, Create))\<rparr>)"
    using login_goes_on [of "?at (Authenticate None)" sid ?l "Authenticate None" example_env ?w1 Create] by simp
  show ?thesis by (rule fine_next [OF fine_next [OF fine_next [OF fine_next [OF assms(1) 1] 2] 3] 4])
qed

definition example_two :: "memory world" where
  "example_two = snd (NewSession ''127.0.0.1:5001'' example_start)"

lemma example_two_simps [simp]:
  "w_nsession example_two = 2" "s_reading (w_session example_two 0)" "s_reading (w_session example_two (Suc 0))"
  "\<not> s_disconnected (w_session example_two 0)" "\<not> s_disconnected (w_session example_two (Suc 0))"
  "s_client (w_session example_two 0) = None" "s_client (w_session example_two (Suc 0)) = None"
  "w_clients example_two = []" "\<not> w_shuttingDown example_two" "w_db example_two = example_db" "w_nclient example_two = 0"
  "GetClient cs example_two = None"
  by (simp_all add: example_two_def NewSession_def Let_def GetClient_def)

lemma example_two_reachable: "reachable example_env example_two"
  unfolding example_two_def
  by (rule next_step [OF example_start_reachable, where ev = "Accept ''127.0.0.1:5001''"]) simp

definition verified :: "nat \<Rightarrow> memory world \<Rightarrow> memory world" where
  "verified sid w = upd_session sid (\<lambda>x. x\<lparr>s_user := Some example_user\<rparr>) w"

lemma example_one_verified:
  "fine_reachable example_env
     ((no_threads (verified 0 example_two))\<lparr>t_login := [0 \<mapsto> (example_login2, Create)]\<rparr>)"
  using example_verifies [OF reachable_fine [OF example_two_reachable], of 0] by (simp add: no_threads_def verified_def)

lemma example_both_verified:
  "fine_reachable example_env ((no_threads (verified (Suc 0) (verified 0 example_two)))
     \<lparr>t_login := [0 \<mapsto> (example_login2, Create), Suc 0 \<mapsto> (example_login2, Create)]\<rparr>)"
  using example_verifies [OF example_one_verified, of "Suc 0"]
  by (simp add: no_threads_def verified_def GetClient_def)

lemma example_not_refused: "\<not> rating_refused example_env example_login2 example_user"
  by (simp add: rating_refused_def l_rating_def example_login2_def example_fields_def example_numbers example_facility)

theorem racing_logins_witness:
  "\<exists>c1 c2 s1. c1 \<noteq> c2 \<and> fine_reachable example_env s1 \<and>
     s_client (w_session (t_world s1) 0) = Some c1 \<and> s_client (w_session (t_world s1) 1) = Some c2 \<and>
     map_of (w_clients (t_world s1)) ''CPA421'' = Some c1"
proof -
  have "l_callsign example_login2 = ''CPA421''"
    by (simp add: l_callsign_def example_login2_def example_fields_def)
  from racing_logins [OF example_both_verified, of 0 "Suc 0" example_login2 example_login2 "''CPA421''" example_user example_user]
    this example_not_refused fine_runs_reachable [OF _ example_both_verified]
  show ?thesis by (fastforce simp: no_threads_def verified_def)
qed

theorem late_registration_witness:
  "\<exists>s. fine_reachable example_env s \<and> w_shuttingDown (t_world s) \<and> \<not> t_snapshot s \<and> 0 \<notin># t_mark s \<and>
       w_clients (t_world s) \<noteq> []"
proof -
  let ?w = "verified 0 example_two"
  let ?s = "(no_threads ?w)\<lparr>t_login := [0 \<mapsto> (example_login2, Create)]\<rparr>"
  note ok = threads_ok_D(1,3) [OF fine_reachable_ok [OF example_one_verified]]
  have w: "world_ok ?w" "stage_ok ?w 0 example_login2 Create"
    using ok(1) ok(2) [of 0 example_login2 Create] by (simp_all add: no_threads_def)
  have "0 < w_nsession ?w" "s_client (w_session ?w 0) = None" "s_user (w_session ?w 0) = Some example_user"
    by (simp_all add: verified_def)
  from create_new [OF w(1) this(1) w(2) this(2,3) example_not_refused] obtain c w1 where
    c: "login_step example_env 0 example_login2 Create ?w = Inr (w1, Inl (Admit (w_nclient ?w)))"
      "w_clients w1 = w_clients ?w" "w_shuttingDown w1 = w_shuttingDown ?w" by blast
  then have w1: "login_step example_env 0 example_login2 Create ?w = Inr (w1, Inl (Admit 0))" "w_clients w1 = []"
    "\<not> w_shuttingDown w1" by (simp_all add: verified_def)
  let ?s1 = "(no_threads w1)\<lparr>t_login := [0 \<mapsto> (example_login2, Admit 0)]\<rparr>"
  have "fine example_env ?s ?s1"
    using login_goes_on [of ?s 0 example_login2 Create example_env w1 "Admit 0"] w1(1) by (simp add: no_threads_def)
  with example_one_verified have r: "fine_reachable example_env ?s1" by (rule fine_next)
  have "t_login ?s1 0 = Some (example_login2, Admit 0)" "\<not> w_shuttingDown (t_world ?s1)"
    "map_of (w_clients (t_world ?s1)) (c_callsign (w_client (t_world ?s1) 0)) = None"
    "0 \<notin># t_mark ?s1 + t_check ?s1 + t_delete ?s1" "0 \<notin> snd ` set (w_clients (t_world ?s1))"
    using w1 by (simp_all add: no_threads_def)
  from late_registration [OF r this] obtain s' where
    s': "fine_runs example_env ?s1 s'" "w_shuttingDown (t_world s')" "\<not> t_snapshot s'"
      "0 \<notin># t_mark s' + t_check s' + t_delete s'"
      "map_of (w_clients (t_world s')) (c_callsign (w_client (t_world s') 0)) = Some 0" by blast
  have "w_clients (t_world s') \<noteq> []" using s'(5) by auto
  with s'(2-4) fine_runs_reachable [OF s'(1) r] show ?thesis by (intro exI [of _ s']) simp
qed

end
