(* ===== verification/Limiter.thy ===== *)
theory Limiter
  imports Prelude
begin

text \<open>
  The rate limiter in front of the HTTP API
  (\<open>internal/http_server/middleware/limiter.go\<close>). Times and durations are in nanoseconds; the
  mutex makes \<open>Allow\<close> and \<open>cleanup\<close> atomic, so a run of the limiter is a list of events.
\<close>

section \<open>The limiter\<close>

record SlidingWindowLimiter =
  windowSize :: int
  maxRequests :: int
  requestRecords :: "string \<rightharpoonup> int list"

definition NewSlidingWindowLimiter :: "int \<Rightarrow> int \<Rightarrow> SlidingWindowLimiter" where
  "NewSlidingWindowLimiter window n =
     \<lparr>windowSize = window, maxRequests = n, requestRecords = Map.empty\<rparr>"

text \<open>
  The first request of a key allocates a slice of capacity \<open>2 * maxRequests\<close>, which panics when
  that is negative.
\<close>

definition Allow :: "string \<Rightarrow> int \<Rightarrow> SlidingWindowLimiter \<Rightarrow> (bool \<times> SlidingWindowLimiter) go" where
  "Allow key now l =
     (if requestRecords l key = None \<and> maxRequests l * 2 < 0 then Inl MakeSliceCap
      else
        let stored = (case requestRecords l key of None \<Rightarrow> [] | Some records \<Rightarrow> records);
            windowStart = now - windowSize l;
            records = dropWhile (\<lambda>t. t < windowStart) stored
        in if int (length records) \<ge> maxRequests l
           then Inr (False, l\<lparr>requestRecords := (requestRecords l)(key \<mapsto> records)\<rparr>)
           else Inr (True, l\<lparr>requestRecords := (requestRecords l)(key \<mapsto> records @ [now])\<rparr>))"

definition cleanup :: "int \<Rightarrow> SlidingWindowLimiter \<Rightarrow> SlidingWindowLimiter" where
  "cleanup now l =
     (let threshold = now - 2 * windowSize l
      in l\<lparr>requestRecords := (\<lambda>key.
             case requestRecords l key of
               None \<Rightarrow> None
             | Some records \<Rightarrow>
                 if records \<noteq> [] \<and> last records < threshold then None else Some records)\<rparr>)"

text \<open>
  The middleware calls \<open>Allow\<close> for each request and the ticker calls \<open>cleanup\<close>. A run gives the
  answers to the requests, the last one first.
\<close>

datatype limiter_event = Request string int | Tick int

primrec event_time :: "limiter_event \<Rightarrow> int" where
  "event_time (Request key t) = t"
| "event_time (Tick t) = t"

type_synonym answer = "string \<times> int \<times> bool"

fun limiter_step ::
    "limiter_event \<Rightarrow> SlidingWindowLimiter \<times> answer list \<Rightarrow> (SlidingWindowLimiter \<times> answer list) go" where
  "limiter_step (Request key t) (l, answers) =
     go_bind (Allow key t l) (\<lambda>(ok, l'). Inr (l', (key, t, ok) # answers))"
| "limiter_step (Tick t) (l, answers) = Inr (cleanup t l, answers)"

section \<open>The specification: counting the requests let through\<close>

definition granted :: "string \<Rightarrow> answer list \<Rightarrow> int list" where
  "granted key answers = map (\<lambda>(k, t, ok). t) (filter (\<lambda>(k, t, ok). ok \<and> k = key) answers)"

definition granted_in :: "string \<Rightarrow> int \<Rightarrow> int \<Rightarrow> answer list \<Rightarrow> nat" where
  "granted_in key lo hi answers = length (filter (\<lambda>t. lo \<le> t \<and> t \<le> hi) (granted key answers))"

text \<open>The reference: a request passes when fewer than the maximum passed in the window that ends now.\<close>

fun reference_answers :: "int \<Rightarrow> int \<Rightarrow> limiter_event list \<Rightarrow> answer list \<Rightarrow> answer list" where
  "reference_answers window n [] answers = answers"
| "reference_answers window n (Tick t # evs) answers = reference_answers window n evs answers"
| "reference_answers window n (Request key t # evs) answers =
     reference_answers window n evs
       ((key, t, int (granted_in key (t - window) t answers) < n) # answers)"

section \<open>The records follow the answers\<close>

definition records_of :: "SlidingWindowLimiter \<Rightarrow> string \<Rightarrow> int list" where
  "records_of l key = (case requestRecords l key of None \<Rightarrow> [] | Some records \<Rightarrow> records)"

definition in_step :: "int \<Rightarrow> int \<Rightarrow> int \<Rightarrow> SlidingWindowLimiter \<times> answer list \<Rightarrow> bool" where
  "in_step window n now s \<longleftrightarrow>
     windowSize (fst s) = window \<and> maxRequests (fst s) = n \<and>
     (\<forall>key. sorted (records_of (fst s) key) \<and>
        (\<forall>t \<in> set (granted key (snd s)). t \<le> now) \<and>
        (\<forall>lo \<ge> now - window. filter (\<lambda>t. lo \<le> t) (records_of (fst s) key) =
                             rev (filter (\<lambda>t. lo \<le> t) (granted key (snd s)))))"

lemma granted_simps [simp]:
  "granted key [] = []"
  "granted key ((k, t, ok) # answers) = (if ok \<and> k = key then t # granted key answers else granted key answers)"
  by (simp_all add: granted_def)

lemma dropWhile_sorted: "sorted xs \<Longrightarrow> dropWhile (\<lambda>t. t < lo) xs = filter (\<lambda>t. lo \<le> t) (xs :: int list)"
proof (induction xs)
  case (Cons x xs)
  have "filter (\<lambda>t. lo \<le> t) (x # xs) = x # xs" if "lo \<le> x"
    using Cons.prems that by (intro filter_True) auto
  with Cons show ?case by (cases "x < lo") auto
qed simp

lemma in_step_later: "in_step window n now s \<Longrightarrow> now \<le> t \<Longrightarrow> in_step window n t s"
  by (force simp: in_step_def)

lemma in_step_window:
  assumes "in_step window n t (l, answers)"
  shows "dropWhile (\<lambda>u. u < t - window) (records_of l key) =
         rev (filter (\<lambda>u. t - window \<le> u \<and> u \<le> t) (granted key answers))"
proof -
  have "dropWhile (\<lambda>u. u < t - window) (records_of l key) = filter (\<lambda>u. t - window \<le> u) (records_of l key)"
    using assms by (simp add: in_step_def dropWhile_sorted)
  also have "\<dots> = rev (filter (\<lambda>u. t - window \<le> u) (granted key answers))"
    using assms by (simp add: in_step_def)
  also have "filter (\<lambda>u. t - window \<le> u) (granted key answers) =
             filter (\<lambda>u. t - window \<le> u \<and> u \<le> t) (granted key answers)"
    using assms by (intro filter_cong) (auto simp: in_step_def)
  finally show ?thesis .
qed

lemma Allow_answer:
  assumes "in_step window n t (l, answers)" and "0 \<le> n"
  shows "\<exists>l'. Allow key t l = Inr (int (granted_in key (t - window) t answers) < n, l') \<and>
              windowSize l' = window \<and> maxRequests l' = n \<and>
              records_of l' = (records_of l)
                (key := rev (filter (\<lambda>u. t - window \<le> u \<and> u \<le> t) (granted key answers)) @
                   (if int (granted_in key (t - window) t answers) < n then [t] else []))"
proof -
  have "windowSize l = window" "maxRequests l = n" using assms(1) by (simp_all add: in_step_def)
  moreover note in_step_window [OF assms(1), of key]
  ultimately show ?thesis
    using assms(2)
    by (auto simp: Allow_def Let_def granted_in_def records_of_def fun_eq_iff split: option.splits)
qed

lemma in_step_answer:
  assumes "in_step window n t (l, answers)" and "windowSize l' = window" "maxRequests l' = n"
    and "records_of l' = (records_of l)
           (key := rev (filter (\<lambda>u. t - window \<le> u \<and> u \<le> t) (granted key answers)) @ (if ok then [t] else []))"
  shows "in_step window n t (l', (key, t, ok) # answers)"
proof -
  let ?near = "filter (\<lambda>u. t - window \<le> u \<and> u \<le> t) (granted key answers)"
  have le: "\<forall>u \<in> set (granted key answers). u \<le> t" using assms(1) by (simp add: in_step_def)
  have "sorted (rev ?near)"
    using assms(1) in_step_window [OF assms(1), of key]
    by (metis (no_types, lifting) fst_conv in_step_def sorted_dropWhile)
  then have "sorted (rev ?near @ (if ok then [t] else []))" by (auto simp: sorted_append)
  moreover have "filter (\<lambda>u. lo \<le> u) ?near = filter (\<lambda>u. lo \<le> u) (granted key answers)" if "t - window \<le> lo" for lo
    using le that by (auto simp: filter_filter intro!: filter_cong)
  ultimately show ?thesis
    using assms by (auto simp: in_step_def rev_filter [symmetric])
qed

lemma in_step_cleanup:
  assumes "in_step window n t (l, answers)" and "0 \<le> window"
  shows "in_step window n t (cleanup t l, answers)"
proof -
  have "records_of (cleanup t l) key = records_of l key \<or>
        records_of (cleanup t l) key = [] \<and> (\<forall>u \<in> set (records_of l key). u < t - window)" for key
  proof (cases "requestRecords l key")
    case (Some r)
    have "windowSize l = window" "sorted r"
      using assms(1) Some by (auto simp: in_step_def records_of_def dest: spec [of _ key])
    moreover have "u \<le> last r" if "u \<in> set r" for u
      using \<open>sorted r\<close> that by (induction r) (auto dest: last_in_set)
    ultimately have "u < t - window" if "u \<in> set r" "last r < t - 2 * window" for u
      using that assms(2) by fastforce
    with Some \<open>windowSize l = window\<close> show ?thesis by (simp add: records_of_def cleanup_def Let_def)
  qed (simp add: records_of_def cleanup_def Let_def)
  then have "filter (\<lambda>u. lo \<le> u) (records_of (cleanup t l) key) = filter (\<lambda>u. lo \<le> u) (records_of l key)"
    "sorted (records_of l key) \<Longrightarrow> sorted (records_of (cleanup t l) key)"
    if "t - window \<le> lo" for lo key
    using that by (smt (verit) empty_filter_conv filter.simps(1) sorted_simps(1))+
  with assms(1) show ?thesis by (fastforce simp: in_step_def cleanup_def Let_def)
qed

lemma limiter_run_reference:
  assumes "in_step window n now (l, answers)" and "0 \<le> window" "0 \<le> n"
    and "sorted (now # map event_time evs)"
  shows "\<exists>l'. run limiter_step evs (l, answers) = Inr (l', reference_answers window n evs answers)"
  using assms
proof (induction evs arbitrary: l answers now)
  case (Cons ev evs)
  note now = in_step_later [OF Cons.prems(1), of "event_time ev"]
  show ?case
  proof (cases ev)
    case (Request key t)
    with Cons.prems now have t: "in_step window n t (l, answers)" by simp
    from Allow_answer [OF t Cons.prems(3), of key] obtain l' where
      l': "Allow key t l = Inr (int (granted_in key (t - window) t answers) < n, l')"
        "windowSize l' = window" "maxRequests l' = n"
        "records_of l' = (records_of l)
           (key := rev (filter (\<lambda>u. t - window \<le> u \<and> u \<le> t) (granted key answers)) @
              (if int (granted_in key (t - window) t answers) < n then [t] else []))"
      by blast
    from Cons.IH [OF in_step_answer [OF t l'(2-4)]] Cons.prems Request l'(1) show ?thesis by simp
  next
    case (Tick t)
    with Cons.prems now have "in_step window n t (l, answers)" by simp
    from Cons.IH [OF in_step_cleanup [OF this]] Cons.prems Tick show ?thesis by simp
  qed
qed simp

lemma in_step_new: "in_step window n now (NewSlidingWindowLimiter window n, [])"
  by (simp add: in_step_def NewSlidingWindowLimiter_def records_of_def)

lemma granted_in_new:
  "granted_in key lo hi ((k, t, ok) # answers) =
     (if ok \<and> k = key \<and> lo \<le> t \<and> t \<le> hi then 1 else 0) + granted_in key lo hi answers"
  by (simp add: granted_in_def)

text \<open>A window of the reference that ends before the newest answer is one of the older answers.\<close>

definition within_limit :: "int \<Rightarrow> int \<Rightarrow> answer list \<Rightarrow> bool" where
  "within_limit window n answers \<longleftrightarrow>
     (\<forall>key lo. int (granted_in key lo (lo + window) answers) \<le> n)"

lemma reference_within_limit:
  assumes "within_limit window n answers" and "\<forall>(k, t, ok) \<in> set answers. t \<le> now"
    and "sorted (now # map event_time evs)"
  shows "within_limit window n (reference_answers window n evs answers)"
  using assms
proof (induction evs arbitrary: answers now)
  case (Cons ev evs)
  show ?case
  proof (cases ev)
    case (Request key t)
    let ?ok = "int (granted_in key (t - window) t answers) < n"
    have "int (granted_in k lo (lo + window) ((key, t, ?ok) # answers)) \<le> n" for k lo
    proof (cases "?ok \<and> k = key \<and> lo \<le> t \<and> t \<le> lo + window")
      case True
      have "granted_in key lo (lo + window) answers \<le> granted_in key (t - window) t answers"
      proof -
        have "u \<le> t" if "u \<in> set (granted key answers)" for u
          using Cons.prems(2,3) that Request by (fastforce simp: granted_def)
        then have "filter (\<lambda>u. lo \<le> u \<and> u \<le> lo + window) (granted key answers) =
            filter (\<lambda>u. lo \<le> u \<and> u \<le> lo + window) (filter (\<lambda>u. t - window \<le> u \<and> u \<le> t) (granted key answers))"
          using True by (auto simp: filter_filter intro!: filter_cong)
        then show ?thesis by (simp only: granted_in_def length_filter_le)
      qed
      with True show ?thesis by (simp add: granted_in_new)
    next
      case False
      with Cons.prems(1) show ?thesis unfolding granted_in_new within_limit_def by auto
    qed
    then have "within_limit window n ((key, t, ?ok) # answers)" by (simp add: within_limit_def)
    from Cons.IH [OF this, of t] Cons.prems Request show ?thesis by fastforce
  next
    case (Tick t)
    from Cons.IH [OF Cons.prems(1), of t] Cons.prems Tick show ?thesis by fastforce
  qed
qed simp




end
