(* ===== verification/Duration.thy ===== *)
theory Duration
  imports Strconv
begin

text \<open>
  \<open>time.ParseDuration\<close>, which reads every duration of the configuration. The result is in
  nanoseconds. The value of a fraction is a float in the library; here it is the exact quotient
  rounded down.
\<close>

definition duration_units :: "string \<rightharpoonup> nat" where
  "duration_units = map_of
     [(''ns'', 1), (''us'', 1000), ([CHR 0xC2, CHR 0xB5, CHR ''s''], 1000),
      ([CHR 0xCE, CHR 0xBC, CHR ''s''], 1000), (''ms'', 1000000), (''s'', 1000000000),
      (''m'', 60000000000), (''h'', 3600000000000)]"

fun leading_int :: "nat \<Rightarrow> string \<Rightarrow> (nat \<times> string) option" where
  "leading_int x [] = Some (x, [])"
| "leading_int x (c # s) =
     (if \<not> is_digit c then Some (x, c # s)
      else if 10 * x + digit_val c > 2 ^ 63 then None
      else leading_int (10 * x + digit_val c) s)"

fun leading_fraction :: "bool \<Rightarrow> nat \<Rightarrow> nat \<Rightarrow> string \<Rightarrow> nat \<times> nat \<times> string" where
  "leading_fraction overflow x scale [] = (x, scale, [])"
| "leading_fraction overflow x scale (c # s) =
     (if \<not> is_digit c then (x, scale, c # s)
      else if overflow \<or> x > (2 ^ 63 - 1) div 10 \<or> 10 * x + digit_val c > 2 ^ 63
      then leading_fraction True x scale s
      else leading_fraction False (10 * x + digit_val c) (10 * scale) s)"

definition unit_char :: "char \<Rightarrow> bool" where
  "unit_char c \<longleftrightarrow> c \<noteq> CHR ''.'' \<and> \<not> is_digit c"

text \<open>One number with its unit; \<open>pre\<close> and \<open>post\<close> say whether digits stood before and after the point.\<close>

definition duration_component :: "string \<Rightarrow> (nat \<times> string) option" where
  "duration_component s =
     (if s = [] \<or> \<not> (hd s = CHR ''.'' \<or> is_digit (hd s)) then None
      else case leading_int 0 s of
        None \<Rightarrow> None
      | Some (v, s1) \<Rightarrow>
          let pre = length s \<noteq> length s1;
              s2 = (if has_prefix s1 ''.'' then tl s1 else s1);
              (f, scale, s3) = (if has_prefix s1 ''.'' then leading_fraction False 0 1 s2 else (0, 1, s1));
              post = has_prefix s1 ''.'' \<and> length s2 \<noteq> length s3;
              u = takeWhile unit_char s3
          in if \<not> pre \<and> \<not> post then None
             else if u = [] then None
             else case duration_units u of
                    None \<Rightarrow> None
                  | Some unit \<Rightarrow>
                      if v > 2 ^ 63 div unit then None
                      else let v' = v * unit + (f * unit) div scale
                           in if v' > 2 ^ 63 then None else Some (v', dropWhile unit_char s3))"

lemma leading_int_length: "leading_int x s = Some (v, r) \<Longrightarrow> length r \<le> length s"
  by (induction x s rule: leading_int.induct) (auto split: if_splits)

lemma leading_fraction_length: "leading_fraction b x k s = (f, k', r) \<Longrightarrow> length r \<le> length s"
  by (induction b x k s rule: leading_fraction.induct) (auto split: if_splits)

lemma takeWhile_drop_less: "takeWhile P s \<noteq> [] \<Longrightarrow> length (dropWhile P s) < length s"
  by (metis length_append length_greater_0_conv less_add_same_cancel2 takeWhile_dropWhile_id)

lemma duration_component_length:
  assumes "duration_component s = Some (v, r)"
  shows "length r < length s"
proof -
  obtain w s1 where 1: "leading_int 0 s = Some (w, s1)"
    using assms by (auto simp: duration_component_def split: if_splits option.splits)
  obtain f k s3 where 3: "(if has_prefix s1 ''.'' then leading_fraction False 0 1 (tl s1) else (0, 1, s1)) = (f, k, s3)"
    by (metis prod_cases3)
  have "length s3 \<le> length s"
  proof (cases "has_prefix s1 ''.''")
    case True
    with 3 leading_fraction_length [of False 0 1 "tl s1" f k s3] leading_int_length [OF 1] show ?thesis by simp
  next
    case False
    with 3 leading_int_length [OF 1] show ?thesis by simp
  qed
  moreover have "takeWhile unit_char s3 \<noteq> []" "r = dropWhile unit_char s3"
    using assms 1 3 by (auto simp: duration_component_def Let_def split: if_splits option.splits)
  ultimately show ?thesis using takeWhile_drop_less [of unit_char s3] by simp
qed

function duration_sum :: "nat \<Rightarrow> string \<Rightarrow> nat option" where
  "duration_sum d s =
     (if s = [] then Some d
      else case duration_component s of
        None \<Rightarrow> None
      | Some (v, r) \<Rightarrow>
          let d' = (d + v) mod 2 ^ 64
          in if d' > 2 ^ 63 then None else duration_sum d' r)"
  by pat_completeness auto
termination by (relation "measure (length \<circ> snd)") (auto simp: duration_component_length)

declare duration_sum.simps [simp del]

definition ParseDuration :: "string \<Rightarrow> int option" where
  "ParseDuration orig =
     (let neg = has_prefix orig ''-'';
          s = (if has_prefix orig ''-'' \<or> has_prefix orig ''+'' then tl orig else orig)
      in if s = ''0'' then Some 0
         else if s = [] then None
         else case duration_sum 0 s of
                None \<Rightarrow> None
              | Some d \<Rightarrow>
                  if neg then Some (- int d)
                  else if d > 2 ^ 63 - 1 then None else Some (int d))"

lemma duration_sum_bound: "duration_sum d s = Some n \<Longrightarrow> d \<le> 2 ^ 63 \<Longrightarrow> n \<le> 2 ^ 63"
proof (induction d s rule: duration_sum.induct)
  case (1 d s)
  have IH: "s \<noteq> [] \<Longrightarrow> duration_component s = Some (v, r) \<Longrightarrow> (d + v) mod 2 ^ 64 \<le> 2 ^ 63 \<Longrightarrow>
    duration_sum ((d + v) mod 2 ^ 64) r = Some n \<Longrightarrow> n \<le> 2 ^ 63" for v r
    using "1.IH" [of "(v, r)" v r] by simp
  show ?case using "1.prems" IH
    by (fastforce simp: duration_sum.simps [of d s] Let_def split: if_splits option.splits)
qed

lemma ParseDuration_int64: "ParseDuration s = Some d \<Longrightarrow> int64 d"
  by (auto simp: ParseDuration_def int64_def Let_def dest!: duration_sum_bound split: if_splits option.splits)

text \<open>The durations of the default configuration.\<close>

lemmas duration_eval = ParseDuration_def duration_sum.simps duration_component_def duration_units_def
  unit_char_def is_digit_def digit_val_def has_prefix_def Let_def

lemma ParseDuration_defaults:
  "ParseDuration ''1m'' = Some 60000000000"
  "ParseDuration ''15s'' = Some 15000000000"
  "ParseDuration ''1h30m0.5s'' = Some 5400500000000"
  "ParseDuration ''-1.5h'' = Some (-5400000000000)"
  "ParseDuration ''15'' = None"
  by (simp_all add: duration_eval)

end
