(* ===== verification/Config.thy ===== *)
theory Config
  imports Duration Float64
begin

text \<open>
  The configuration and its validation (\<open>internal/interfaces/config\<close>). A section is a record
  with the fields of the Go struct; the check of a section returns the section as it leaves it,
  the files on disk where it reads or writes them, and the result.

  The sections are pointers in the code, which a \<open>null\<close> in the file can make nil; the model has
  the sections themselves. What lies outside the program (the file system, HTTP, the templates
  and the JSON of the airports, random text, the mail server) is the record \<open>cfg_env\<close>.
\<close>

section \<open>Results\<close>

datatype go_error =
    GoError string
  | Wrapped string go_error
  | DurationError string
  | Outside string

datatype validType = PASS | FAIL

record ValidResult =
  vr_validType :: validType
  vr_err :: "go_error option"
  vr_originErr :: "go_error option"

definition ValidPass :: ValidResult where
  "ValidPass = \<lparr>vr_validType = PASS, vr_err = None, vr_originErr = None\<rparr>"

definition ValidFail :: "go_error \<Rightarrow> ValidResult" where
  "ValidFail err = \<lparr>vr_validType = FAIL, vr_err = Some err, vr_originErr = None\<rparr>"

definition ValidFailWith :: "go_error \<Rightarrow> go_error \<Rightarrow> ValidResult" where
  "ValidFailWith err originErr =
     \<lparr>vr_validType = FAIL, vr_err = Some err, vr_originErr = Some originErr\<rparr>"

definition IsFail :: "ValidResult \<Rightarrow> bool" where
  "IsFail r \<longleftrightarrow> vr_validType r = FAIL"

lemma IsFail_simps [simp]:
  "\<not> IsFail ValidPass" "IsFail (ValidFail e)" "IsFail (ValidFailWith e o')"
  by (simp_all add: IsFail_def ValidPass_def ValidFail_def ValidFailWith_def)

section \<open>The world outside\<close>

datatype http_response = HttpFailure string | HttpStatus nat string "string option"

record AirportData =
  ad_Lat :: float64
  ad_Lon :: float64
  ad_Alt :: float64
  ad_AirportRange :: int

type_synonym template = "string \<times> string"

type_synonym files = "string \<rightharpoonup> string"

text \<open>
  A read fails with an error of its own, or because there is no such file. The body of a
  response is missing when reading it fails.
\<close>

record cfg_env =
  ce_NumCPU :: int
  ce_SkipEmailVerification :: bool
  ce_read_error :: "string \<Rightarrow> string option"
  ce_http_get :: "string \<Rightarrow> http_response"
  ce_mkdir_of_file :: "string \<Rightarrow> string option"
  ce_mkdir :: "string list \<Rightarrow> string option"
  ce_write_error :: "string \<Rightarrow> string option"
  ce_template_error :: "template \<Rightarrow> string option"
  ce_airports :: "string \<Rightarrow> string + (string \<rightharpoonup> AirportData)"
  ce_randstr :: "nat \<Rightarrow> string"
  ce_dial_error :: "string \<Rightarrow> int \<Rightarrow> string \<Rightarrow> string \<Rightarrow> string option"

definition createFileWithContent :: "cfg_env \<Rightarrow> string \<Rightarrow> string \<Rightarrow> files \<Rightarrow> files \<times> go_error option" where
  "createFileWithContent E filePath content fs =
     (case ce_mkdir_of_file E filePath of
        Some err \<Rightarrow> (fs, Some (Outside err))
      | None \<Rightarrow>
          (case ce_write_error E filePath of
             Some err \<Rightarrow> (fs, Some (Outside err))
           | None \<Rightarrow> (fs(filePath \<mapsto> content), None)))"

definition cachedContent :: "cfg_env \<Rightarrow> string \<Rightarrow> string \<Rightarrow> files \<Rightarrow> files \<times> (go_error + string)" where
  "cachedContent E filePath url fs =
     (case ce_read_error E filePath of
        Some err \<Rightarrow> (fs, Inl (Wrapped ''file read error: '' (Outside err)))
      | None \<Rightarrow>
          (case fs filePath of
             Some content \<Rightarrow> (fs, Inr content)
           | None \<Rightarrow>
               (case ce_http_get E url of
                  HttpFailure err \<Rightarrow> (fs, Inl (Wrapped ''HTTP request failed: '' (Outside err)))
                | HttpStatus code status body \<Rightarrow>
                    if code \<noteq> 200 then (fs, Inl (GoError (''HTTP error: '' @ status)))
                    else case body of
                           None \<Rightarrow> (fs, Inl (Wrapped ''read response error: '' (Outside '''')))
                         | Some content \<Rightarrow>
                             (let (fs', err) = createFileWithContent E filePath content fs
                              in case err of
                                   Some e \<Rightarrow> (fs', Inl (Wrapped ''file write error: '' e))
                                 | None \<Rightarrow> (fs', Inr content)))))"

definition checkPort :: "nat \<Rightarrow> ValidResult" where
  "checkPort port =
     (if port \<le> 0 then ValidFail (GoError ''port must be greater than zero'')
      else if port > 65535 then ValidFail (GoError ''port must be less than 65535'')
      else ValidPass)"

section \<open>Versions\<close>

datatype checkVersionResult = AllMatch | MajorUnmatch | MinorUnmatch | PatchUnmatch

record Version =
  v_major :: int
  v_minor :: int
  v_patch :: int
  v_version :: string

definition newVersion :: "string \<Rightarrow> go_error + Version" where
  "newVersion version =
     (let versions = split_on CHR ''.'' version
      in if length versions < 3 then Inl (GoError ''invalid version String'')
         else Inr \<lparr>v_major = StrToInt (versions ! 0) 0, v_minor = StrToInt (versions ! 1) 0,
                   v_patch = StrToInt (versions ! 2) 0, v_version = version\<rparr>)"

definition checkVersion :: "Version \<Rightarrow> Version \<Rightarrow> checkVersionResult" where
  "checkVersion v version =
     (if v_major v \<noteq> v_major version then MajorUnmatch
      else if v_minor v \<noteq> v_minor version then MinorUnmatch
      else if v_patch v \<noteq> v_patch version then PatchUnmatch
      else AllMatch)"

text \<open>\<open>ConfVersion\<close> and \<open>AppVersion\<close>: both constants are 0.6.0.\<close>

definition ConfVersion :: Version where
  "ConfVersion = \<lparr>v_major = 0, v_minor = 6, v_patch = 0, v_version = ''0.6.0''\<rparr>"

abbreviation (input) AppVersion :: Version where
  "AppVersion \<equiv> ConfVersion"

lemma newVersion_ConfVersion: "newVersion ''0.6.0'' = Inr ConfVersion"
  by (simp add: newVersion_def ConfVersion_def StrToInt_def atoi_def has_prefix_def is_digit_def
      digit_val_def Let_def)

section \<open>The limits of the HTTP API\<close>

record HttpServerLimit =
  RateLimit :: int
  RateLimitWindow :: string
  RateLimitDuration :: int
  UsernameLengthMin :: int
  UsernameLengthMax :: int
  EmailLengthMin :: int
  EmailLengthMax :: int
  PasswordLengthMin :: int
  PasswordLengthMax :: int
  CidMin :: int
  CidMax :: int

definition defaultHttpServerLimit :: HttpServerLimit where
  "defaultHttpServerLimit =
     \<lparr>RateLimit = 15, RateLimitWindow = ''1m'', RateLimitDuration = 0, UsernameLengthMin = 4,
      UsernameLengthMax = 16, EmailLengthMin = 4, EmailLengthMax = 64, PasswordLengthMin = 6,
      PasswordLengthMax = 64, CidMin = 1, CidMax = 9999\<rparr>"

definition limit_error :: "string \<Rightarrow> string \<Rightarrow> go_error" where
  "limit_error field what = GoError (''invalid json field http_server.limits.'' @ field @ '', value must '' @ what)"

text \<open>The checks of the four pairs of bounds, in the order of the code.\<close>

definition limit_checks :: "HttpServerLimit \<Rightarrow> (bool \<times> go_error) list" where
  "limit_checks c =
     [(UsernameLengthMin c \<le> 0, limit_error ''username_length_min'' ''larger than 0''),
      (UsernameLengthMin c > 64, limit_error ''username_length_min'' ''less than 64''),
      (UsernameLengthMax c \<le> 0, limit_error ''username_length_max'' ''larger than 0''),
      (UsernameLengthMax c > 64, limit_error ''username_length_max'' ''less than 64''),
      (UsernameLengthMin c \<ge> UsernameLengthMax c,
         limit_error ''username_length_min'' ''less than http_server.limits.username_length_max''),
      (EmailLengthMin c \<le> 0, limit_error ''email_length_min'' ''larger than 0''),
      (EmailLengthMin c > 128, limit_error ''email_length_min'' ''less than 128''),
      (EmailLengthMax c \<le> 0, limit_error ''email_length_max'' ''larger than 0''),
      (EmailLengthMax c > 128, limit_error ''email_length_max'' ''less than 128''),
      (EmailLengthMin c \<ge> EmailLengthMax c,
         limit_error ''email_length_min'' ''less than http_server.limits.email_length_max''),
      (PasswordLengthMin c \<le> 0, limit_error ''password_length_min'' ''larger than 0''),
      (PasswordLengthMin c > 128, limit_error ''password_length_min'' ''less than 128''),
      (PasswordLengthMax c \<le> 0, limit_error ''password_length_max'' ''larger than 0''),
      (PasswordLengthMax c > 128, limit_error ''password_length_max'' ''less than 128''),
      (PasswordLengthMin c \<ge> PasswordLengthMax c,
         limit_error ''password_length_min'' ''less than http_server.limits.password_length_max''),
      (CidMin c \<le> 0, limit_error ''cid_min'' ''larger than 0''),
      (CidMax c \<le> 0, limit_error ''cid_max'' ''larger than 0''),
      (CidMin c \<ge> CidMax c, limit_error ''cid_min'' ''less than http_server.limits.cid_max'')]"

fun first_failure :: "(bool \<times> go_error) list \<Rightarrow> ValidResult" where
  "first_failure [] = ValidPass"
| "first_failure ((bad, err) # checks) = (if bad then ValidFail err else first_failure checks)"

definition Limit_checkValid :: "HttpServerLimit \<Rightarrow> HttpServerLimit \<times> ValidResult" where
  "Limit_checkValid config =
     (case ParseDuration (RateLimitWindow config) of
        None \<Rightarrow> (config, ValidFailWith (GoError ''invalid json field http_server.rate_limit_window, %v'')
                                    (DurationError (RateLimitWindow config)))
      | Some duration \<Rightarrow>
          let config = config\<lparr>RateLimitDuration := duration\<rparr>
          in (config, first_failure (limit_checks config)))"

section \<open>General options and TLS\<close>

record GeneralConfig =
  gc_SimulatorServer :: bool
  gc_BcryptCost :: int

definition defaultOtherConfig :: GeneralConfig where
  "defaultOtherConfig = \<lparr>gc_SimulatorServer = False, gc_BcryptCost = 12\<rparr>"

text \<open>\<open>bcrypt.MinCost\<close> is 4 and \<open>bcrypt.MaxCost\<close> is 31.\<close>

definition General_checkValid :: "GeneralConfig \<Rightarrow> ValidResult" where
  "General_checkValid config =
     (if gc_BcryptCost config < 4 \<or> gc_BcryptCost config > 31
      then ValidFail (GoError ''bcrypt_cost out of range, must between 4 and 31'') else ValidPass)"

record SSLConfig =
  ssl_Enable :: bool
  ssl_EnableHSTS :: bool
  ssl_ForceSSL :: bool
  ssl_HstsExpiredTime :: int
  ssl_IncludeDomain :: bool
  ssl_CertFile :: string
  ssl_KeyFile :: string

definition defaultSSLConfig :: SSLConfig where
  "defaultSSLConfig =
     \<lparr>ssl_Enable = False, ssl_EnableHSTS = False, ssl_ForceSSL = False, ssl_HstsExpiredTime = 5184000,
      ssl_IncludeDomain = False, ssl_CertFile = '''', ssl_KeyFile = ''''\<rparr>"

definition SSL_checkValid :: "SSLConfig \<Rightarrow> SSLConfig \<times> ValidResult" where
  "SSL_checkValid config =
     (let c1 = (if ssl_Enable config \<and> (ssl_CertFile config = '''' \<or> ssl_KeyFile config = '''')
                then config\<lparr>ssl_Enable := False\<rparr> else config);
          c2 = (if \<not> ssl_Enable c1 \<and> ssl_EnableHSTS c1
                then c1\<lparr>ssl_EnableHSTS := False, ssl_HstsExpiredTime := 0, ssl_IncludeDomain := False\<rparr> else c1);
          c3 = (if \<not> ssl_Enable c2 \<and> ssl_ForceSSL c2
                then c2\<lparr>ssl_EnableHSTS := False, ssl_ForceSSL := False\<rparr> else c2)
      in (c3, ValidPass))"

section \<open>Durations in a section\<close>

text \<open>
  The checks that read a duration: on an error the field keeps its value and the check fails.
\<close>

definition parse_field :: "go_error \<Rightarrow> string \<Rightarrow> int \<Rightarrow> int \<times> ValidResult" where
  "parse_field err text old =
     (case ParseDuration text of
        None \<Rightarrow> (old, ValidFailWith err (DurationError text))
      | Some duration \<Rightarrow> (duration, ValidPass))"

lemma parse_field_pass:
  "\<not> IsFail (snd (parse_field err text old)) \<Longrightarrow> ParseDuration text = Some (fst (parse_field err text old))"
  by (auto simp: parse_field_def split: option.splits)

record JWTConfig =
  jwt_Secret :: string
  jwt_ExpiresTime :: string
  jwt_ExpiresDuration :: int
  jwt_RefreshTime :: string
  jwt_RefreshDuration :: int

definition defaultJWTConfig :: "cfg_env \<Rightarrow> JWTConfig" where
  "defaultJWTConfig E =
     \<lparr>jwt_Secret = ce_randstr E 64, jwt_ExpiresTime = ''15m'', jwt_ExpiresDuration = 0,
      jwt_RefreshTime = ''24h'', jwt_RefreshDuration = 0\<rparr>"

definition JWT_checkValid :: "cfg_env \<Rightarrow> JWTConfig \<Rightarrow> JWTConfig \<times> ValidResult" where
  "JWT_checkValid E config =
     (let (d1, r1) = parse_field (GoError ''invalid json field http_server.email.jwt_expires_time'')
                       (jwt_ExpiresTime config) (jwt_ExpiresDuration config);
          c1 = config\<lparr>jwt_ExpiresDuration := d1\<rparr>
      in if IsFail r1 then (c1, r1)
         else let (d2, r2) = parse_field (GoError ''invalid json field http_server.email.jwt_refresh_time'')
                               (jwt_RefreshTime c1) (jwt_RefreshDuration c1);
                  c2 = c1\<lparr>jwt_RefreshDuration := d2\<rparr>
              in if IsFail r2 then (c2, r2)
                 else (if jwt_Secret c2 = '''' then c2\<lparr>jwt_Secret := ce_randstr E 64\<rparr> else c2, ValidPass))"

record GRPCServerConfig =
  grpc_Enabled :: bool
  grpc_Host :: string
  grpc_Port :: nat
  grpc_Address :: string
  grpc_CacheTime :: string
  grpc_CacheDuration :: int

definition defaultGRPCServerConfig :: GRPCServerConfig where
  "defaultGRPCServerConfig =
     \<lparr>grpc_Enabled = False, grpc_Host = ''0.0.0.0'', grpc_Port = 6811, grpc_Address = '''',
      grpc_CacheTime = ''15s'', grpc_CacheDuration = 0\<rparr>"

definition host_port :: "string \<Rightarrow> nat \<Rightarrow> string" where
  "host_port host port = host @ '':'' @ itoa (int port)"

definition GRPC_checkValid :: "GRPCServerConfig \<Rightarrow> GRPCServerConfig \<times> ValidResult" where
  "GRPC_checkValid config =
     (if \<not> grpc_Enabled config then (config, ValidPass)
      else
        let result = checkPort (grpc_Port config)
        in if IsFail result then (config, result)
           else
             let c1 = config\<lparr>grpc_Address := host_port (grpc_Host config) (grpc_Port config)\<rparr>;
                 (d, r) = parse_field (GoError ''invalid json field grpc_server.cache_time'')
                            (grpc_CacheTime c1) (grpc_CacheDuration c1)
             in (c1\<lparr>grpc_CacheDuration := d\<rparr>, r))"

section \<open>Mail\<close>

record EmailTemplateConfig =
  et_EmailVerifyTemplateFile :: string
  et_EmailVerifyTemplate :: "template option"
  et_ATCRatingChangeTemplateFile :: string
  et_ATCRatingChangeTemplate :: "template option"
  et_EnableRatingChangeEmail :: bool
  et_PermissionChangeTemplateFile :: string
  et_PermissionChangeTemplate :: "template option"
  et_EnablePermissionChangeEmail :: bool
  et_KickedFromServerTemplateFile :: string
  et_KickedFromServerTemplate :: "template option"
  et_EnableKickedFromServerEmail :: bool

definition template_url :: "string \<Rightarrow> string" where
  "template_url name =
     ''https://raw.githubusercontent.com/Flyleague-Collection/SimpleFSD/refs/heads/main/'' @ name"

definition defaultEmailTemplateConfig :: EmailTemplateConfig where
  "defaultEmailTemplateConfig =
     \<lparr>et_EmailVerifyTemplateFile = ''template/email_verify.template'', et_EmailVerifyTemplate = None,
      et_ATCRatingChangeTemplateFile = ''template/atc_rating_change.template'',
      et_ATCRatingChangeTemplate = None, et_EnableRatingChangeEmail = True,
      et_PermissionChangeTemplateFile = ''template/permission_change.template'',
      et_PermissionChangeTemplate = None, et_EnablePermissionChangeEmail = True,
      et_KickedFromServerTemplateFile = ''template/kicked_from_server.template'',
      et_KickedFromServerTemplate = None, et_EnableKickedFromServerEmail = True\<rparr>"

definition load_template ::
    "cfg_env \<Rightarrow> string \<Rightarrow> string \<Rightarrow> string \<Rightarrow> string \<Rightarrow> string \<Rightarrow> files \<Rightarrow> files \<times> (ValidResult + template)" where
  "load_template E name file url load_err parse_err fs =
     (let (fs', content) = cachedContent E file url fs
      in case content of
           Inl err \<Rightarrow> (fs', Inl (ValidFailWith (GoError load_err) err))
         | Inr text \<Rightarrow>
             (case ce_template_error E (name, text) of
                Some err \<Rightarrow> (fs', Inl (ValidFailWith (GoError parse_err) (Outside err)))
              | None \<Rightarrow> (fs', Inr (name, text))))"

definition load_optional ::
    "bool \<Rightarrow> template option \<Rightarrow> cfg_env \<Rightarrow> string \<Rightarrow> string \<Rightarrow> string \<Rightarrow> string \<Rightarrow> string \<Rightarrow> files \<Rightarrow>
     files \<times> (ValidResult + template option)" where
  "load_optional enabled old E name file url load_err parse_err fs =
     (if enabled then (let (fs', t) = load_template E name file url load_err parse_err fs in (fs', map_sum id Some t))
      else (fs, Inr old))"

text \<open>The errors of the fourth template name the third one, as in the code.\<close>

definition EmailTemplate_checkValid ::
    "cfg_env \<Rightarrow> EmailTemplateConfig \<Rightarrow> files \<Rightarrow> EmailTemplateConfig \<times> files \<times> ValidResult" where
  "EmailTemplate_checkValid E c0 fs0 =
     (let (fs1, t1) = load_template E ''email_verify'' (et_EmailVerifyTemplateFile c0)
            (template_url ''template/email_verify.template'')
            ''fail to load email_verify_template_file'' ''fail to parse email_verify_template'' fs0
      in case t1 of Inl r \<Rightarrow> (c0, fs1, r) | Inr t1 \<Rightarrow>
      let c1 = c0\<lparr>et_EmailVerifyTemplate := Some t1\<rparr>;
          (fs2, t2) = load_optional (et_EnableRatingChangeEmail c1) (et_ATCRatingChangeTemplate c1)
            E ''atc_rating_change'' (et_ATCRatingChangeTemplateFile c1)
            (template_url ''template/atc_rating_change.template'')
            ''fail to load atc_rating_change_template_file'' ''fail to parse atc_rating_change_template'' fs1
      in case t2 of Inl r \<Rightarrow> (c1, fs2, r) | Inr t2 \<Rightarrow>
      let c2 = c1\<lparr>et_ATCRatingChangeTemplate := t2\<rparr>;
          (fs3, t3) = load_optional (et_EnablePermissionChangeEmail c2) (et_PermissionChangeTemplate c2)
            E ''permission_change'' (et_PermissionChangeTemplateFile c2)
            (template_url ''template/permission_change.template'')
            ''fail to load permission_change_template_file'' ''fail to parse permission_change_template'' fs2
      in case t3 of Inl r \<Rightarrow> (c2, fs3, r) | Inr t3 \<Rightarrow>
      let c3 = c2\<lparr>et_PermissionChangeTemplate := t3\<rparr>;
          (fs4, t4) = load_optional (et_EnableKickedFromServerEmail c3) (et_KickedFromServerTemplate c3)
            E ''kicked_from_server'' (et_KickedFromServerTemplateFile c3)
            (template_url ''template/kicked_from_server.template'')
            ''fail to load permission_change_template_file'' ''fail to parse permission_change_template'' fs3
      in case t4 of Inl r \<Rightarrow> (c3, fs4, r) | Inr t4 \<Rightarrow>
      (c3\<lparr>et_KickedFromServerTemplate := t4\<rparr>, fs4, ValidPass))"

record dialer =
  d_Host :: string
  d_Port :: int
  d_Username :: string
  d_Password :: string

record EmailConfig =
  em_Host :: string
  em_Port :: int
  em_EmailServer :: "dialer option"
  em_Username :: string
  em_Password :: string
  em_VerifyExpiredTime :: string
  em_VerifyExpiredDuration :: int
  em_SendInterval :: string
  em_SendDuration :: int
  em_Template :: EmailTemplateConfig

definition defaultEmailConfig :: EmailConfig where
  "defaultEmailConfig =
     \<lparr>em_Host = ''smtp.qq.com'', em_Port = 465, em_EmailServer = None, em_Username = ''example@qq.com'',
      em_Password = ''123456'', em_VerifyExpiredTime = ''5m'', em_VerifyExpiredDuration = 0,
      em_SendInterval = ''1m'', em_SendDuration = 0, em_Template = defaultEmailTemplateConfig\<rparr>"

definition Email_checkValid ::
    "cfg_env \<Rightarrow> EmailConfig \<Rightarrow> files \<Rightarrow> EmailConfig \<times> files \<times> ValidResult" where
  "Email_checkValid E config fs =
     (let (d1, r1) = parse_field (GoError ''invalid json field http_server.email.verify_expired_time'')
                       (em_VerifyExpiredTime config) (em_VerifyExpiredDuration config);
          c1 = config\<lparr>em_VerifyExpiredDuration := d1\<rparr>
      in if IsFail r1 then (c1, fs, r1) else
      let (d2, r2) = parse_field (GoError ''invalid json field http_server.email.send_interval'')
                       (em_SendInterval c1) (em_SendDuration c1);
          c2 = c1\<lparr>em_SendDuration := d2\<rparr>
      in if IsFail r2 then (c2, fs, r2) else
      let (t, fs', r3) = EmailTemplate_checkValid E (em_Template c2) fs;
          c3 = c2\<lparr>em_Template := t\<rparr>
      in if IsFail r3 then (c3, fs', r3) else
      if ce_SkipEmailVerification E then (c3\<lparr>em_EmailServer := None\<rparr>, fs', ValidPass) else
      let c4 = c3\<lparr>em_EmailServer := Some \<lparr>d_Host = em_Host c3, d_Port = em_Port c3,
                    d_Username = em_Username c3, d_Password = em_Password c3\<rparr>\<rparr>
      in case ce_dial_error E (em_Host c4) (em_Port c4) (em_Username c4) (em_Password c4) of
           Some err \<Rightarrow> (c4, fs', ValidFailWith (GoError ''connecting to smtp server fail'') (Outside err))
         | None \<Rightarrow> (c4, fs', ValidPass))"

section \<open>The file store\<close>

record HttpServerStoreFileLimit =
  sl_MaxFileSize :: int
  sl_AllowedFileExt :: "string list"
  sl_StorePrefix :: string
  sl_StoreInServer :: bool
  sl_RootPath :: string

definition FileLimit_checkValid :: "HttpServerStoreFileLimit \<Rightarrow> ValidResult" where
  "FileLimit_checkValid config =
     (if sl_MaxFileSize config < 0
      then ValidFail (GoError ''invalid json field http_server.store.max_file_size, cannot be negative'')
      else ValidPass)"

record HttpServerStoreFileLimits =
  fl_ImageLimit :: HttpServerStoreFileLimit

definition defaultHttpServerStoreFileLimits :: HttpServerStoreFileLimits where
  "defaultHttpServerStoreFileLimits =
     \<lparr>fl_ImageLimit = \<lparr>sl_MaxFileSize = 5 * 1024 * 1024,
        sl_AllowedFileExt = [''.jpg'', ''.png'', ''.bmp'', ''.jpeg''], sl_StorePrefix = ''images'',
        sl_StoreInServer = True, sl_RootPath = ''''\<rparr>\<rparr>"

definition FileLimits_checkValid :: "HttpServerStoreFileLimits \<Rightarrow> ValidResult" where
  "FileLimits_checkValid config = FileLimit_checkValid (fl_ImageLimit config)"

definition CheckLocalStore :: "HttpServerStoreFileLimits \<Rightarrow> bool \<Rightarrow> ValidResult" where
  "CheckLocalStore config localStore =
     (if \<not> localStore then ValidPass
      else if \<not> sl_StoreInServer (fl_ImageLimit config)
      then ValidFail (GoError ''when you use local store, store_in_server must be true'')
      else ValidPass)"

definition CreateDir ::
    "cfg_env \<Rightarrow> HttpServerStoreFileLimits \<Rightarrow> string \<Rightarrow> HttpServerStoreFileLimits \<times> ValidResult" where
  "CreateDir E config path =
     (let limit = (fl_ImageLimit config)\<lparr>sl_RootPath := path\<rparr>;
          c = config\<lparr>fl_ImageLimit := limit\<rparr>
      in if sl_StoreInServer limit then
           (case ce_mkdir E [path, sl_StorePrefix limit] of
              Some err \<Rightarrow> (c, ValidFailWith (GoError ''error creating the image directory'') (Outside err))
            | None \<Rightarrow> (c, ValidPass))
         else (c, ValidPass))"

record HttpServerStore =
  st_StoreType :: int
  st_Region :: string
  st_Bucket :: string
  st_AccessId :: string
  st_AccessKey :: string
  st_CdnDomain :: string
  st_UseInternalUrl :: bool
  st_LocalStorePath :: string
  st_RemoteStorePath :: string
  st_FileLimit :: HttpServerStoreFileLimits

definition defaultHttpServerStore :: HttpServerStore where
  "defaultHttpServerStore =
     \<lparr>st_StoreType = 0, st_Region = '''', st_Bucket = '''', st_AccessId = '''', st_AccessKey = '''',
      st_CdnDomain = '''', st_UseInternalUrl = False, st_LocalStorePath = ''uploads'',
      st_RemoteStorePath = '''', st_FileLimit = defaultHttpServerStoreFileLimits\<rparr>"

definition store_error :: "string \<Rightarrow> go_error" where
  "store_error what = GoError (''invalid json field http_server.store.'' @ what @ '' cannot be empty'')"

definition Store_checkValid :: "cfg_env \<Rightarrow> HttpServerStore \<Rightarrow> HttpServerStore \<times> ValidResult" where
  "Store_checkValid E config =
     (let r1 = FileLimits_checkValid (st_FileLimit config)
      in if IsFail r1 then (config, r1)
         else if st_LocalStorePath config = '''' then (config, ValidFail (store_error ''local_store_path, path''))
         else case ce_mkdir E [st_LocalStorePath config] of
           Some err \<Rightarrow> (config, ValidFailWith
               (GoError (''error while creating local store path('' @ st_LocalStorePath config @ '')''))
               (Outside err))
         | None \<Rightarrow>
             let (limits, r2) = CreateDir E (st_FileLimit config) (st_LocalStorePath config);
                 c = config\<lparr>st_FileLimit := limits\<rparr>
             in if IsFail r2 then (c, r2)
                else if st_StoreType c = 0 then (c, CheckLocalStore limits True)
                else if st_StoreType c = 1 \<or> st_StoreType c = 2 then
                  (let r3 = CheckLocalStore limits False
                   in if IsFail r3 then (c, r3)
                      else if st_Region c = '''' then (c, ValidFail (store_error ''region, region''))
                      else if st_Bucket c = '''' then (c, ValidFail (store_error ''bucket, bucket''))
                      else if st_AccessId c = '''' then (c, ValidFail (store_error ''access_id, access_id''))
                      else if st_AccessKey c = '''' then (c, ValidFail (store_error ''access_key, access_key''))
                      else (c, ValidPass))
                else (c, ValidFail (GoError (''invalid json field http_server.store_type '' @
                            itoa (st_StoreType c) @ '', only support 0, 1, 2''))))"

section \<open>The HTTP server\<close>

record HttpServerConfig =
  hs_Enabled :: bool
  hs_ServerAddress :: string
  hs_Host :: string
  hs_Port :: nat
  hs_Address :: string
  hs_MaxWorkers :: int
  hs_CacheTime :: string
  hs_CacheDuration :: int
  hs_ProxyType :: int
  hs_BodyLimit :: string
  hs_Store :: HttpServerStore
  hs_Limits :: HttpServerLimit
  hs_Email :: EmailConfig
  hs_JWT :: JWTConfig
  hs_SSL :: SSLConfig

definition defaultHttpServerConfig :: "cfg_env \<Rightarrow> HttpServerConfig" where
  "defaultHttpServerConfig E =
     \<lparr>hs_Enabled = False, hs_ServerAddress = ''http://127.0.0.1:6810'', hs_Host = ''0.0.0.0'', hs_Port = 6810,
      hs_Address = '''', hs_MaxWorkers = 128, hs_CacheTime = ''15s'', hs_CacheDuration = 0, hs_ProxyType = 0,
      hs_BodyLimit = ''10MB'', hs_Store = defaultHttpServerStore, hs_Limits = defaultHttpServerLimit,
      hs_Email = defaultEmailConfig, hs_JWT = defaultJWTConfig E, hs_SSL = defaultSSLConfig\<rparr>"

text \<open>A disabled server is not checked at all. TLS is checked twice.\<close>

definition HttpServer_checkValid ::
    "cfg_env \<Rightarrow> HttpServerConfig \<Rightarrow> files \<Rightarrow> HttpServerConfig \<times> files \<times> ValidResult" where
  "HttpServer_checkValid E config fs =
     (if \<not> hs_Enabled config then (config, fs, ValidPass) else
      let r0 = checkPort (hs_Port config)
      in if IsFail r0 then (config, fs, r0) else
      let c1 = config\<lparr>hs_Address := host_port (hs_Host config) (hs_Port config)\<rparr>;
          (d, r1) = parse_field (GoError ''invalid json field http_server.email.cache_time'')
                      (hs_CacheTime c1) (hs_CacheDuration c1);
          c2 = c1\<lparr>hs_CacheDuration := d\<rparr>
      in if IsFail r1 then (c2, fs, r1) else
      let (ssl, r2) = SSL_checkValid (hs_SSL c2); c3 = c2\<lparr>hs_SSL := ssl\<rparr>
      in if IsFail r2 then (c3, fs, r2) else
      let (limits, r3) = Limit_checkValid (hs_Limits c3); c4 = c3\<lparr>hs_Limits := limits\<rparr>
      in if IsFail r3 then (c4, fs, r3) else
      let (email, fs', r4) = Email_checkValid E (hs_Email c4) fs; c5 = c4\<lparr>hs_Email := email\<rparr>
      in if IsFail r4 then (c5, fs', r4) else
      let (jwt, r5) = JWT_checkValid E (hs_JWT c5); c6 = c5\<lparr>hs_JWT := jwt\<rparr>
      in if IsFail r5 then (c6, fs', r5) else
      let (ssl, r6) = SSL_checkValid (hs_SSL c6); c7 = c6\<lparr>hs_SSL := ssl\<rparr>
      in if IsFail r6 then (c7, fs', r6) else
      let (store, r7) = Store_checkValid E (hs_Store c7); c8 = c7\<lparr>hs_Store := store\<rparr>
      in (c8, fs', r7))"

section \<open>The FSD server\<close>

record FSDServerConfig =
  fs_FSDName :: string
  fs_Host :: string
  fs_Port :: nat
  fs_Address :: string
  fs_AirportDataFile :: string
  fs_AirportData :: "(string \<rightharpoonup> AirportData) option"
  fs_PosUpdatePoints :: int
  fs_HeartbeatInterval :: string
  fs_HeartbeatDuration :: int
  fs_SessionCleanTime :: string
  fs_SessionCleanDuration :: int
  fs_MaxWorkers :: int
  fs_MaxBroadcastWorkers :: int
  fs_FirstMotdLine :: string
  fs_Motd :: "string list"

definition defaultFSDServerConfig :: FSDServerConfig where
  "defaultFSDServerConfig =
     \<lparr>fs_FSDName = ''Simple-Fsd'', fs_Host = ''0.0.0.0'', fs_Port = 6809, fs_Address = '''',
      fs_AirportDataFile = ''data/airport.json'', fs_AirportData = None, fs_PosUpdatePoints = 1,
      fs_HeartbeatInterval = ''60s'', fs_HeartbeatDuration = 0, fs_SessionCleanTime = ''40s'',
      fs_SessionCleanDuration = 0, fs_MaxWorkers = 128, fs_MaxBroadcastWorkers = 128,
      fs_FirstMotdLine = ''Welcome to use %[1]s v%[2]s'', fs_Motd = []\<rparr>"

definition welcome_line :: "string \<Rightarrow> string" where
  "welcome_line name = ''Welcome to use '' @ name @ '' v'' @ v_version AppVersion"

text \<open>The two durations at the end, whose errors are formatted into one.\<close>

definition parse_duration_field :: "string \<Rightarrow> string \<Rightarrow> int \<Rightarrow> int \<times> ValidResult" where
  "parse_duration_field what text old =
     (case ParseDuration text of
        None \<Rightarrow> (old, ValidFail (Wrapped what (DurationError text)))
      | Some duration \<Rightarrow> (duration, ValidPass))"

definition FSDServer_checkValid ::
    "cfg_env \<Rightarrow> FSDServerConfig \<Rightarrow> files \<Rightarrow> FSDServerConfig \<times> files \<times> ValidResult" where
  "FSDServer_checkValid E config fs =
     (let c1 = (if fs_MaxBroadcastWorkers config > ce_NumCPU E * 50
                then config\<lparr>fs_MaxBroadcastWorkers := ce_NumCPU E * 50\<rparr> else config);
          r1 = checkPort (fs_Port c1)
      in if IsFail r1 then (c1, fs, r1) else
      let c2 = c1\<lparr>fs_FirstMotdLine := welcome_line (fs_FSDName c1)\<rparr>;
          c3 = c2\<lparr>fs_Motd := fs_FirstMotdLine c2 # fs_Motd c2,
                  fs_Address := host_port (fs_Host c2) (fs_Port c2)\<rparr>
      in if fs_PosUpdatePoints c3 < 0
         then (c3, fs, ValidFail (GoError ''invalid json field pos_update_points, pos_update_points must larger than 0''))
         else
      let (fs', data) = cachedContent E (fs_AirportDataFile c3) (template_url ''data/airport.json'') fs;
          (c4, r4) = (case data of
             Inl err \<Rightarrow> (c3\<lparr>fs_AirportData := None\<rparr>, ValidPass)
           | Inr bytes \<Rightarrow>
               (case ce_airports E bytes of
                  Inl err \<Rightarrow> (c3, ValidFail (Wrapped (''invalid json file '' @ fs_AirportDataFile c3 @ '', '')
                                                   (Outside err)))
                | Inr airports \<Rightarrow> (c3\<lparr>fs_AirportData := Some airports\<rparr>, ValidPass)))
      in if IsFail r4 then (c4, fs', r4) else
      let (d1, r5) = parse_duration_field ''invalid json field session_clean_time, duration parse error, ''
                       (fs_SessionCleanTime c4) (fs_SessionCleanDuration c4);
          c5 = c4\<lparr>fs_SessionCleanDuration := d1\<rparr>
      in if IsFail r5 then (c5, fs', r5) else
      let (d2, r6) = parse_duration_field ''invalid json field heartbead_interval, duration parse error, ''
                       (fs_HeartbeatInterval c5) (fs_HeartbeatDuration c5)
      in (c5\<lparr>fs_HeartbeatDuration := d2\<rparr>, fs', r6))"

text \<open>No caller checks the range of an airport.\<close>

definition Airport_checkValid :: "AirportData \<Rightarrow> ValidResult" where
  "Airport_checkValid config =
     (if ad_AirportRange config \<le> 0 then ValidFail (GoError ''airport_range must be greater than zero'')
      else ValidPass)"

section \<open>The database\<close>

record DatabaseConfig =
  db_Type :: string
  db_DBType :: string
  db_Database :: string
  db_Host :: string
  db_Port :: int
  db_Username :: string
  db_Password :: string
  db_EnableSSL :: bool
  db_ConnectIdleTimeout :: string
  db_ConnectIdleDuration :: int
  db_QueryTimeout :: string
  db_QueryDuration :: int
  db_ServerMaxConnections :: int

definition allowedDatabaseType :: "string list" where
  "allowedDatabaseType = [''mysql'', ''postgres'', ''sqlite3'']"

definition defaultDatabaseConfig :: DatabaseConfig where
  "defaultDatabaseConfig =
     \<lparr>db_Type = ''sqlite3'', db_DBType = '''', db_Database = ''database.db'', db_Host = '''', db_Port = 0,
      db_Username = '''', db_Password = '''', db_EnableSSL = False, db_ConnectIdleTimeout = ''1h'',
      db_ConnectIdleDuration = 0, db_QueryTimeout = ''5s'', db_QueryDuration = 0,
      db_ServerMaxConnections = 32\<rparr>"

definition Database_checkValid :: "DatabaseConfig \<Rightarrow> DatabaseConfig \<times> ValidResult" where
  "Database_checkValid config =
     (let c0 = config\<lparr>db_DBType := db_Type config\<rparr>
      in if db_DBType c0 \<notin> set allowedDatabaseType
         then (c0, ValidFail (GoError (''database type '' @ db_DBType c0 @
                 '' is not allowed, support database is [mysql postgres sqlite3], please check the configuration file'')))
         else
      let (d1, r1) = parse_field (GoError ''invalid json field connect_idel_timeout'')
                       (db_ConnectIdleTimeout c0) (db_ConnectIdleDuration c0);
          c1 = c0\<lparr>db_ConnectIdleDuration := d1\<rparr>
      in if IsFail r1 then (c1, r1) else
      let (d2, r2) = parse_field (GoError ''invalid json field query_timeout'')
                       (db_QueryTimeout c1) (db_QueryDuration c1)
      in (c1\<lparr>db_QueryDuration := d2\<rparr>, r2))"

text \<open>
  The connection to the database: the driver and the text it opens. An unknown type gives none.
\<close>

datatype dialector = MySQL string | PostgreSQL string | SQLite string

definition mySQLConnection :: "DatabaseConfig \<Rightarrow> dialector" where
  "mySQLConnection db =
     MySQL (db_Username db @ '':'' @ db_Password db @ ''@tcp('' @ db_Host db @ '':'' @ itoa (db_Port db) @ '')/'' @
            db_Database db @ ''?charset=utf8mb4&parseTime=True&tls='' @
            (if db_EnableSSL db then ''true'' else ''false''))"

definition postgreSQLConnection :: "DatabaseConfig \<Rightarrow> dialector" where
  "postgreSQLConnection db =
     PostgreSQL (''host='' @ db_Host db @ '' user='' @ db_Username db @ '' password='' @ db_Password db @
                 '' dbname='' @ db_Database db @ '' port='' @ itoa (db_Port db) @ '' sslmode='' @
                 (if db_EnableSSL db then ''enable'' else ''disable'') @ '' TimeZone=Asia/Shanghai'')"

definition sqliteConnection :: "DatabaseConfig \<Rightarrow> dialector" where
  "sqliteConnection db = SQLite (db_Database db)"

definition GetConnection :: "DatabaseConfig \<Rightarrow> dialector option" where
  "GetConnection config =
     (if db_DBType config = ''mysql'' then Some (mySQLConnection config)
      else if db_DBType config = ''postgres'' then Some (postgreSQLConnection config)
      else if db_DBType config = ''sqlite3'' then Some (sqliteConnection config)
      else None)"

section \<open>The whole configuration\<close>

record ServerConfig =
  sc_General :: GeneralConfig
  sc_FSDServer :: FSDServerConfig
  sc_HttpServer :: HttpServerConfig
  sc_GRPCServer :: GRPCServerConfig

definition defaultServerConfig :: "cfg_env \<Rightarrow> ServerConfig" where
  "defaultServerConfig E =
     \<lparr>sc_General = defaultOtherConfig, sc_FSDServer = defaultFSDServerConfig,
      sc_HttpServer = defaultHttpServerConfig E, sc_GRPCServer = defaultGRPCServerConfig\<rparr>"

definition Server_checkValid ::
    "cfg_env \<Rightarrow> ServerConfig \<Rightarrow> files \<Rightarrow> ServerConfig \<times> files \<times> ValidResult" where
  "Server_checkValid E config fs =
     (let r1 = General_checkValid (sc_General config)
      in if IsFail r1 then (config, fs, r1) else
      let (fsd, fs1, r2) = FSDServer_checkValid E (sc_FSDServer config) fs;
          c2 = config\<lparr>sc_FSDServer := fsd\<rparr>
      in if IsFail r2 then (c2, fs1, r2) else
      let (http, fs2, r3) = HttpServer_checkValid E (sc_HttpServer c2) fs1;
          c3 = c2\<lparr>sc_HttpServer := http\<rparr>
      in if IsFail r3 then (c3, fs2, r3) else
      let (grpc, r4) = GRPC_checkValid (sc_GRPCServer c3)
      in (c3\<lparr>sc_GRPCServer := grpc\<rparr>, fs2, r4))"

record Config =
  cf_ConfigVersion :: string
  cf_Server :: ServerConfig
  cf_Database :: DatabaseConfig
  cf_Rating :: "string \<rightharpoonup> int"

definition DefaultConfig :: "cfg_env \<Rightarrow> Config" where
  "DefaultConfig E =
     \<lparr>cf_ConfigVersion = v_version ConfVersion, cf_Server = defaultServerConfig E,
      cf_Database = defaultDatabaseConfig, cf_Rating = Map.empty\<rparr>"

definition CheckValid :: "cfg_env \<Rightarrow> Config \<Rightarrow> files \<Rightarrow> Config \<times> files \<times> ValidResult" where
  "CheckValid E c fs =
     (case newVersion (cf_ConfigVersion c) of
        Inl err \<Rightarrow> (c, fs, ValidFailWith (GoError ''version string parse fail'') err)
      | Inr version \<Rightarrow>
          if checkVersion ConfVersion version \<noteq> AllMatch
          then (c, fs, ValidFail (GoError (''config version mismatch, expected '' @ v_version ConfVersion @
                  '', got '' @ v_version version)))
          else
            let (db, r1) = Database_checkValid (cf_Database c); c1 = c\<lparr>cf_Database := db\<rparr>
            in if IsFail r1 then (c1, fs, r1) else
            let (server, fs1, r2) = Server_checkValid E (cf_Server c1) fs
            in (c1\<lparr>cf_Server := server\<rparr>, fs1, r2))"

section \<open>What an accepted section satisfies\<close>

definition limits_sound :: "HttpServerLimit \<Rightarrow> bool" where
  "limits_sound l \<longleftrightarrow>
     0 < UsernameLengthMin l \<and> UsernameLengthMin l < UsernameLengthMax l \<and> UsernameLengthMax l \<le> 64 \<and>
     0 < EmailLengthMin l \<and> EmailLengthMin l < EmailLengthMax l \<and> EmailLengthMax l \<le> 128 \<and>
     0 < PasswordLengthMin l \<and> PasswordLengthMin l < PasswordLengthMax l \<and> PasswordLengthMax l \<le> 128 \<and>
     0 < CidMin l \<and> CidMin l < CidMax l \<and> ParseDuration (RateLimitWindow l) = Some (RateLimitDuration l)"

definition ssl_sound :: "SSLConfig \<Rightarrow> bool" where
  "ssl_sound c \<longleftrightarrow>
     (ssl_Enable c \<longrightarrow> ssl_CertFile c \<noteq> '''' \<and> ssl_KeyFile c \<noteq> '''') \<and>
     (ssl_EnableHSTS c \<longrightarrow> ssl_Enable c) \<and> (ssl_ForceSSL c \<longrightarrow> ssl_Enable c)"

definition templates_sound :: "EmailTemplateConfig \<Rightarrow> bool" where
  "templates_sound t \<longleftrightarrow>
     et_EmailVerifyTemplate t \<noteq> None \<and>
     (et_EnableRatingChangeEmail t \<longrightarrow> et_ATCRatingChangeTemplate t \<noteq> None) \<and>
     (et_EnablePermissionChangeEmail t \<longrightarrow> et_PermissionChangeTemplate t \<noteq> None) \<and>
     (et_EnableKickedFromServerEmail t \<longrightarrow> et_KickedFromServerTemplate t \<noteq> None)"

definition store_sound :: "HttpServerStore \<Rightarrow> bool" where
  "store_sound c \<longleftrightarrow>
     (st_StoreType c = 0 \<and> sl_StoreInServer (fl_ImageLimit (st_FileLimit c)) \<or>
      st_StoreType c \<in> {1, 2} \<and> st_Region c \<noteq> '''' \<and> st_Bucket c \<noteq> '''' \<and> st_AccessId c \<noteq> '''' \<and>
      st_AccessKey c \<noteq> '''') \<and>
     0 \<le> sl_MaxFileSize (fl_ImageLimit (st_FileLimit c)) \<and> st_LocalStorePath c \<noteq> '''' \<and>
     sl_RootPath (fl_ImageLimit (st_FileLimit c)) = st_LocalStorePath c"

definition port_sound :: "nat \<Rightarrow> bool" where
  "port_sound p \<longleftrightarrow> 1 \<le> p \<and> p \<le> 65535"

definition http_sound :: "cfg_env \<Rightarrow> HttpServerConfig \<Rightarrow> bool" where
  "http_sound E c \<longleftrightarrow>
     port_sound (hs_Port c) \<and> limits_sound (hs_Limits c) \<and> ssl_sound (hs_SSL c) \<and>
     templates_sound (em_Template (hs_Email c)) \<and>
     (em_EmailServer (hs_Email c) = None \<longleftrightarrow> ce_SkipEmailVerification E) \<and>
     (jwt_Secret (hs_JWT c) = '''' \<longrightarrow> ce_randstr E 64 = '''') \<and> store_sound (hs_Store c)"

lemma checkPort_pass: "\<not> IsFail (checkPort p) \<longleftrightarrow> port_sound p"
  by (auto simp: checkPort_def port_sound_def)

lemma first_failure_pass: "\<not> IsFail (first_failure checks) \<longleftrightarrow> (\<forall>(bad, err) \<in> set checks. \<not> bad)"
  by (induction checks rule: first_failure.induct) auto

lemma limit_checks_pass:
  "\<not> IsFail (first_failure (limit_checks c)) \<Longrightarrow> ParseDuration (RateLimitWindow c) = Some (RateLimitDuration c) \<Longrightarrow>
   limits_sound c"
  unfolding first_failure_pass limit_checks_def limits_sound_def
  by (simp only: list.set ball_simps prod.case not_le not_less)

lemma Limit_pass:
  assumes "Limit_checkValid c = (c', r)" and "\<not> IsFail r"
  shows "limits_sound c'"
proof -
  obtain d where d: "ParseDuration (RateLimitWindow c) = Some d"
    using assms by (fastforce simp: Limit_checkValid_def split: option.splits)
  with assms(1) have "c' = c\<lparr>RateLimitDuration := d\<rparr>" "r = first_failure (limit_checks c')"
    by (simp_all add: Limit_checkValid_def Let_def split: prod.splits) (metis fst_conv snd_conv)+
  with assms(2) d show ?thesis by (simp add: limit_checks_pass)
qed

lemma SSL_pass:
  assumes "SSL_checkValid c = (c', r)"
  shows "ssl_sound c'" "r = ValidPass"
  using assms by (auto simp: SSL_checkValid_def ssl_sound_def Let_def split: if_splits)

lemma SSL_sound_fixed: "ssl_sound c \<Longrightarrow> SSL_checkValid c = (c, ValidPass)"
  by (auto simp: SSL_checkValid_def ssl_sound_def Let_def)

lemma JWT_pass:
  "JWT_checkValid E c = (c', r) \<Longrightarrow> \<not> IsFail r \<Longrightarrow> jwt_Secret c' = '''' \<Longrightarrow> ce_randstr E 64 = ''''"
  by (auto simp: JWT_checkValid_def Let_def split: if_splits prod.splits)

lemma load_optional_Inr:
  "load_optional b old E n f u e1 e2 fs = (fs', Inr t) \<Longrightarrow> b \<Longrightarrow> t \<noteq> None"
  by (cases "load_template E n f u e1 e2 fs") (auto simp: load_optional_def map_sum_def split: sum.splits)

lemma load_template_Inl: "load_template E n f u e1 e2 fs = (fs', Inl r) \<Longrightarrow> IsFail r"
  by (auto simp: load_template_def split: prod.splits sum.splits option.splits)

lemma load_optional_Inl:
  assumes "load_optional b old E n f u e1 e2 fs = (fs', Inl r)"
  shows "IsFail r"
proof -
  obtain t where "load_template E n f u e1 e2 fs = (fs', t)" "map_sum id Some t = Inl r"
    using assms by (cases "load_template E n f u e1 e2 fs") (auto simp: load_optional_def split: if_splits)
  then show ?thesis using load_template_Inl by (cases t) auto
qed

lemma EmailTemplate_pass:
  "EmailTemplate_checkValid E c fs = (c', fs', r) \<Longrightarrow> \<not> IsFail r \<Longrightarrow> templates_sound c'"
  by (auto simp: EmailTemplate_checkValid_def templates_sound_def Let_def split: prod.splits sum.splits
      dest: load_optional_Inr load_optional_Inl load_template_Inl)

lemma Email_pass:
  "Email_checkValid E c fs = (c', fs', r) \<Longrightarrow> \<not> IsFail r \<Longrightarrow>
   templates_sound (em_Template c') \<and> (em_EmailServer c' = None \<longleftrightarrow> ce_SkipEmailVerification E)"
  by (auto simp: Email_checkValid_def Let_def split: prod.splits if_splits option.splits
      dest: EmailTemplate_pass)

lemma Store_pass: "Store_checkValid E c = (c', r) \<Longrightarrow> \<not> IsFail r \<Longrightarrow> store_sound c'"
  by (auto simp: Store_checkValid_def store_sound_def FileLimits_checkValid_def FileLimit_checkValid_def
      CreateDir_def CheckLocalStore_def Let_def split: if_splits option.splits)

lemma HttpServer_pass:
  "HttpServer_checkValid E c fs = (c', fs', r) \<Longrightarrow> \<not> IsFail r \<Longrightarrow>
   hs_Enabled c' = hs_Enabled c \<and> (hs_Enabled c \<longrightarrow> http_sound E c')"
  by (auto simp: HttpServer_checkValid_def http_sound_def Let_def checkPort_pass
      split: prod.splits if_splits dest: Limit_pass SSL_pass Email_pass JWT_pass Store_pass)

lemma FSDServer_pass:
  "FSDServer_checkValid E c fs = (c', fs', r) \<Longrightarrow> \<not> IsFail r \<Longrightarrow>
   port_sound (fs_Port c') \<and> 0 \<le> fs_PosUpdatePoints c' \<and> fs_MaxBroadcastWorkers c' \<le> ce_NumCPU E * 50 \<and>
   fs_Motd c' = welcome_line (fs_FSDName c) # fs_Motd c"
  by (auto simp: FSDServer_checkValid_def Let_def checkPort_pass [symmetric] split: prod.splits if_splits sum.splits)

lemma GRPC_pass: "GRPC_checkValid c = (c', r) \<Longrightarrow> \<not> IsFail r \<Longrightarrow> grpc_Enabled c' \<Longrightarrow> port_sound (grpc_Port c')"
  by (auto simp: GRPC_checkValid_def Let_def checkPort_pass split: prod.splits if_splits)

lemma Database_pass:
  "Database_checkValid c = (c', r) \<Longrightarrow> \<not> IsFail r \<Longrightarrow> db_DBType c' \<in> set allowedDatabaseType"
  by (auto simp: Database_checkValid_def Let_def split: prod.splits if_splits)

lemma GetConnection_allowed: "db_DBType c \<in> set allowedDatabaseType \<Longrightarrow> GetConnection c \<noteq> None"
  by (auto simp: allowedDatabaseType_def GetConnection_def)

definition server_sound :: "cfg_env \<Rightarrow> ServerConfig \<Rightarrow> bool" where
  "server_sound E c \<longleftrightarrow>
     4 \<le> gc_BcryptCost (sc_General c) \<and> gc_BcryptCost (sc_General c) \<le> 31 \<and>
     port_sound (fs_Port (sc_FSDServer c)) \<and> 0 \<le> fs_PosUpdatePoints (sc_FSDServer c) \<and>
     fs_MaxBroadcastWorkers (sc_FSDServer c) \<le> ce_NumCPU E * 50 \<and>
     (hs_Enabled (sc_HttpServer c) \<longrightarrow> http_sound E (sc_HttpServer c)) \<and>
     (grpc_Enabled (sc_GRPCServer c) \<longrightarrow> port_sound (grpc_Port (sc_GRPCServer c)))"

lemma Server_pass:
  "Server_checkValid E c fs = (c', fs', r) \<Longrightarrow> \<not> IsFail r \<Longrightarrow> server_sound E c'"
  by (auto simp: Server_checkValid_def server_sound_def General_checkValid_def Let_def
      split: prod.splits if_splits dest: FSDServer_pass HttpServer_pass GRPC_pass)

lemma CheckValid_pass:
  assumes "CheckValid E c fs = (c', fs', r)" and "\<not> IsFail r"
  obtains v db r1 server where
    "newVersion (cf_ConfigVersion c) = Inr v" "checkVersion ConfVersion v = AllMatch"
    "Database_checkValid (cf_Database c) = (db, r1)" "\<not> IsFail r1"
    "Server_checkValid E (cf_Server c) fs = (server, fs', r)"
    "c' = c\<lparr>cf_Database := db, cf_Server := server\<rparr>"
proof -
  obtain v where v: "newVersion (cf_ConfigVersion c) = Inr v"
    using assms by (cases "newVersion (cf_ConfigVersion c)") (auto simp: CheckValid_def)
  have m: "checkVersion ConfVersion v = AllMatch"
    using assms v by (cases "checkVersion ConfVersion v = AllMatch") (auto simp: CheckValid_def)
  obtain db r1 where db: "Database_checkValid (cf_Database c) = (db, r1)" by force
  have r1: "\<not> IsFail r1"
    using assms v m db by (cases "IsFail r1") (auto simp: CheckValid_def)
  obtain server fs2 r2 where server: "Server_checkValid E (cf_Server c) fs = (server, fs2, r2)"
    by (metis prod_cases3)
  have "c' = c\<lparr>cf_Database := db, cf_Server := server\<rparr>" "fs2 = fs'" "r2 = r"
    using assms(1) v m db r1 server by (simp_all add: CheckValid_def)
  with v m db r1 server show thesis by (auto intro: that)
qed

lemma checkVersion_AllMatch:
  "checkVersion v w = AllMatch \<longleftrightarrow> v_major v = v_major w \<and> v_minor v = v_minor w \<and> v_patch v = v_patch w"
  by (simp add: checkVersion_def)

text \<open>
  A configuration that the server accepts is sound: its version is 0.6.0, whatever further
  parts it has; the database has a driver; the cost of the hash, the ports of the enabled servers
  and the bounds of the HTTP API are in range, each minimum below its maximum; TLS, HSTS and
  forced TLS are on only with a certificate and a key; every template of an enabled mail is
  loaded; and the store is a local one that stores locally or a cloud with all its credentials.
\<close>

theorem config_accepted:
  assumes "CheckValid E c fs = (c', fs', r)" and "\<not> IsFail r"
  shows "(\<exists>v. newVersion (cf_ConfigVersion c') = Inr v \<and> (v_major v, v_minor v, v_patch v) = (0, 6, 0)) \<and>
         GetConnection (cf_Database c') \<noteq> None \<and> server_sound E (cf_Server c')"
proof -
  from assms obtain v db r1 server where *:
    "newVersion (cf_ConfigVersion c) = Inr v" "checkVersion ConfVersion v = AllMatch"
    "Database_checkValid (cf_Database c) = (db, r1)" "\<not> IsFail r1"
    "Server_checkValid E (cf_Server c) fs = (server, fs', r)"
    "c' = c\<lparr>cf_Database := db, cf_Server := server\<rparr>"
    by (rule CheckValid_pass)
  moreover have "GetConnection db \<noteq> None" using Database_pass [OF *(3,4)] by (rule GetConnection_allowed)
  moreover have "server_sound E server" using Server_pass [OF *(5) assms(2)] .
  ultimately show ?thesis by (simp add: checkVersion_AllMatch ConfVersion_def)
qed

text \<open>A world in which every file can be downloaded.\<close>

definition example_cfg_env :: cfg_env where
  "example_cfg_env =
     \<lparr>ce_NumCPU = 2, ce_SkipEmailVerification = True, ce_read_error = (\<lambda>_. None),
      ce_http_get = (\<lambda>_. HttpStatus 200 ''200 OK'' (Some ''x'')), ce_mkdir_of_file = (\<lambda>_. None),
      ce_mkdir = (\<lambda>_. None), ce_write_error = (\<lambda>_. None), ce_template_error = (\<lambda>_. None),
      ce_airports = (\<lambda>_. Inr Map.empty), ce_randstr = (\<lambda>n. replicate n CHR ''x''),
      ce_dial_error = (\<lambda>_ _ _ _. None)\<rparr>"

definition example_config :: Config where
  "example_config =
     (let c = DefaultConfig example_cfg_env
      in c\<lparr>cf_Server := (cf_Server c)\<lparr>sc_HttpServer := (sc_HttpServer (cf_Server c))\<lparr>hs_Enabled := True\<rparr>\<rparr>\<rparr>)"

lemma parse_defaults:
  "ParseDuration ''1m'' = Some 60000000000" "ParseDuration ''15s'' = Some 15000000000"
  "ParseDuration ''15m'' = Some 900000000000" "ParseDuration ''24h'' = Some 86400000000000"
  "ParseDuration ''5m'' = Some 300000000000" "ParseDuration ''1h'' = Some 3600000000000"
  "ParseDuration ''5s'' = Some 5000000000" "ParseDuration ''60s'' = Some 60000000000"
  "ParseDuration ''40s'' = Some 40000000000"
  by (simp_all add: duration_eval)

lemma default_database_passes:
  "\<exists>db. Database_checkValid defaultDatabaseConfig = (db, ValidPass)"
  by (simp add: Database_checkValid_def defaultDatabaseConfig_def allowedDatabaseType_def parse_field_def
      parse_defaults Let_def)

lemma default_accepted:
  "IsFail (snd (snd (CheckValid E (DefaultConfig E') fs))) \<longleftrightarrow>
     (\<exists>text err. snd (cachedContent E ''data/airport.json'' (template_url ''data/airport.json'') fs) = Inr text \<and>
        ce_airports E text = Inl err)"
proof -
  obtain db where "Database_checkValid defaultDatabaseConfig = (db, ValidPass)"
    using default_database_passes by blast
  moreover obtain fs' content where
    "cachedContent E ''data/airport.json'' (template_url ''data/airport.json'') fs = (fs', content)"
    by force
  moreover have "newVersion (v_version ConfVersion) = Inr ConfVersion"
    using newVersion_ConfVersion by (simp add: ConfVersion_def)
  ultimately show ?thesis
    by (simp add: CheckValid_def DefaultConfig_def checkVersion_AllMatch Server_checkValid_def
        defaultServerConfig_def General_checkValid_def defaultOtherConfig_def FSDServer_checkValid_def
        defaultFSDServerConfig_def checkPort_def parse_duration_field_def parse_defaults
        HttpServer_checkValid_def defaultHttpServerConfig_def GRPC_checkValid_def
        defaultGRPCServerConfig_def Let_def split: sum.split)
qed

lemma disabled_http:
  assumes "\<not> hs_Enabled (sc_HttpServer s)" and "Server_checkValid E s fs = (s', fs', r)"
  shows "sc_HttpServer s' = sc_HttpServer s"
  using assms by (auto simp: Server_checkValid_def HttpServer_checkValid_def Let_def split: if_splits prod.splits)

text \<open>
  The configuration that the program writes when it finds none is accepted at the next start
  whatever the files, the network and the mail server do, unless the airport data is there and
  is not valid JSON: the HTTP and gRPC servers, whose sections need more, are off in it.
\<close>

theorem default_config_accepted:
  "IsFail (snd (snd (CheckValid E (DefaultConfig E) fs))) \<longleftrightarrow>
     (\<exists>text err. snd (cachedContent E ''data/airport.json'' (template_url ''data/airport.json'') fs) = Inr text \<and>
        ce_airports E text = Inl err)"
  by (rule default_accepted)

lemma example_config_passes:
  "\<not> IsFail (snd (snd (CheckValid example_cfg_env example_config Map.empty)))"
proof -
  have "\<exists>l. Limit_checkValid defaultHttpServerLimit = (l, ValidPass)"
    by (simp add: Limit_checkValid_def defaultHttpServerLimit_def parse_defaults limit_checks_def Let_def)
  then obtain l where "Limit_checkValid defaultHttpServerLimit = (l, ValidPass)" by blast
  moreover have "SSL_checkValid defaultSSLConfig = (defaultSSLConfig, ValidPass)"
    by (rule SSL_sound_fixed) (simp add: ssl_sound_def defaultSSLConfig_def)
  moreover have load: "\<exists>fs'. load_template example_cfg_env n f u a b fs = (fs', Inr (n, t))"
    if "t = (case fs f of None \<Rightarrow> ''x'' | Some t \<Rightarrow> t)" for n f u a b fs t
    using that by (auto simp: load_template_def cachedContent_def createFileWithContent_def example_cfg_env_def
        split: option.splits)
  have email: "\<exists>e fs'. Email_checkValid example_cfg_env defaultEmailConfig fs = (e, fs', ValidPass)" for fs
  proof -
    obtain fs1 t1 where 1: "load_template example_cfg_env ''email_verify'' (et_EmailVerifyTemplateFile
        defaultEmailTemplateConfig) (template_url ''template/email_verify.template'')
        ''fail to load email_verify_template_file'' ''fail to parse email_verify_template'' fs = (fs1, Inr t1)"
      using load by blast
    have opt: "\<exists>fs' t. load_optional True old example_cfg_env n f u a b fs = (fs', Inr t)" for old n f u a b fs
      using load [OF refl, of n f u a b fs] by (auto simp: load_optional_def)
    have "\<exists>t fs'. EmailTemplate_checkValid example_cfg_env defaultEmailTemplateConfig fs = (t, fs', ValidPass)"
      using 1 opt
      by (auto simp: EmailTemplate_checkValid_def defaultEmailTemplateConfig_def split: prod.splits sum.splits)
        (metis (no_types, lifting) Pair_inject sum.distinct(1))+
    then show ?thesis
      by (auto simp: Email_checkValid_def defaultEmailConfig_def parse_field_def parse_defaults example_cfg_env_def)
  qed
  have "\<exists>s. Store_checkValid example_cfg_env defaultHttpServerStore = (s, ValidPass)"
    by (simp add: Store_checkValid_def defaultHttpServerStore_def defaultHttpServerStoreFileLimits_def
        FileLimits_checkValid_def FileLimit_checkValid_def CreateDir_def CheckLocalStore_def
        example_cfg_env_def Let_def)
  then obtain st where "Store_checkValid example_cfg_env defaultHttpServerStore = (st, ValidPass)" by blast
  moreover have "\<exists>j. JWT_checkValid example_cfg_env (defaultJWTConfig example_cfg_env) = (j, ValidPass)"
    by (simp add: JWT_checkValid_def defaultJWTConfig_def parse_field_def parse_defaults Let_def)
  then obtain j where "JWT_checkValid example_cfg_env (defaultJWTConfig example_cfg_env) = (j, ValidPass)" by blast
  ultimately have http: "\<exists>h fs'. HttpServer_checkValid example_cfg_env
      ((defaultHttpServerConfig example_cfg_env)\<lparr>hs_Enabled := True\<rparr>) fs = (h, fs', ValidPass)" for fs
    using email [of fs]
    by (auto simp: HttpServer_checkValid_def defaultHttpServerConfig_def checkPort_def parse_field_def
        parse_defaults Let_def)
  have "\<exists>f fs'. FSDServer_checkValid example_cfg_env defaultFSDServerConfig Map.empty = (f, fs', ValidPass)"
    by (simp add: FSDServer_checkValid_def defaultFSDServerConfig_def checkPort_def parse_duration_field_def
        parse_defaults cachedContent_def createFileWithContent_def example_cfg_env_def Let_def)
  then obtain f fs1 where
    "FSDServer_checkValid example_cfg_env defaultFSDServerConfig Map.empty = (f, fs1, ValidPass)" by blast
  moreover obtain h fs2 where "HttpServer_checkValid example_cfg_env
      ((defaultHttpServerConfig example_cfg_env)\<lparr>hs_Enabled := True\<rparr>) fs1 = (h, fs2, ValidPass)"
    using http by blast
  ultimately have "\<exists>c fs'. Server_checkValid example_cfg_env (cf_Server example_config) Map.empty = (c, fs', ValidPass)"
    by (simp add: Server_checkValid_def example_config_def DefaultConfig_def defaultServerConfig_def
        General_checkValid_def defaultOtherConfig_def GRPC_checkValid_def defaultGRPCServerConfig_def Let_def)
  moreover obtain db where "Database_checkValid defaultDatabaseConfig = (db, ValidPass)"
    using default_database_passes by blast
  moreover have "newVersion (v_version ConfVersion) = Inr ConfVersion"
    using newVersion_ConfVersion by (simp add: ConfVersion_def)
  ultimately show ?thesis
    by (auto simp: CheckValid_def example_config_def DefaultConfig_def checkVersion_AllMatch Let_def)
qed

theorem config_accepted_witness:
  "server_sound example_cfg_env (cf_Server (fst (CheckValid example_cfg_env example_config Map.empty)))"
  using config_accepted [of example_cfg_env example_config Map.empty] example_config_passes
  by (cases "CheckValid example_cfg_env example_config Map.empty") simp

text \<open>
  A file that the program can fetch is downloaded once: after a load that succeeded, a later
  load gives the same content, leaves the files as they are and does not depend on the network,
  as long as the file can be read. No load changes a file that was there, and a load that fails
  leaves every file as it was.
\<close>

theorem cachedContent_once:
  assumes "cachedContent E f url fs = (fs', res)"
  shows "fs \<subseteq>\<^sub>m fs' \<and> dom fs' \<subseteq> insert f (dom fs) \<and>
         (\<forall>err. res = Inl err \<longrightarrow> fs' = fs) \<and>
         (\<forall>content E' url'. res = Inr content \<and> ce_read_error E' f = None \<longrightarrow>
            cachedContent E' f url' fs' = (fs', Inr content))"
  using assms
  by (auto simp: cachedContent_def createFileWithContent_def map_le_def split: option.splits http_response.splits
      if_splits prod.splits)

theorem cachedContent_once_witness:
  "snd (cachedContent (example_cfg_env\<lparr>ce_http_get := \<lambda>_. HttpFailure ''offline''\<rparr>) ''f'' ''v''
     (fst (cachedContent example_cfg_env ''f'' ''u'' Map.empty))) = Inr ''x''"
  using cachedContent_once [of example_cfg_env "''f''" "''u''" Map.empty "[''f'' \<mapsto> ''x'']" "Inr ''x''"]
  by (simp add: cachedContent_def createFileWithContent_def example_cfg_env_def)

end
