(* ===== verification/Api.thy ===== *)
theory Api
  imports Config Database FsdTypes
begin

text \<open>
  The base of the HTTP services (\<open>internal/interfaces/service/struct.go\<close>,
  \<open>internal/http_server/service/field.go\<close>): responses, claims, the length checks, and the
  operations of the database that only the services use (paged queries, the update of a profile,
  the audit log).

  A response is modelled without its \<open>Message\<close>, a text for humans that no code reads.
\<close>

section \<open>Responses\<close>

datatype HttpCode =
    Unsatisfied | Ok | BadRequest | Unauthorized | PermissionDenied | NotFound | Conflict
  | ServerInternalError

fun HttpCode_Code :: "HttpCode \<Rightarrow> nat" where
  "HttpCode_Code Unsatisfied = 0"
| "HttpCode_Code Ok = 200"
| "HttpCode_Code BadRequest = 400"
| "HttpCode_Code Unauthorized = 401"
| "HttpCode_Code PermissionDenied = 403"
| "HttpCode_Code NotFound = 404"
| "HttpCode_Code Conflict = 409"
| "HttpCode_Code ServerInternalError = 500"

datatype ApiStatus = ApiStatus (StatusName: string) (StatusCode: HttpCode)

record 'a ApiResponse =
  r_HttpCode :: nat
  r_Code :: string
  r_Data :: "'a option"

definition NewApiResponse :: "ApiStatus \<Rightarrow> HttpCode \<Rightarrow> 'a option \<Rightarrow> 'a ApiResponse" where
  "NewApiResponse codeStatus httpCode data =
     (let code1 = (if httpCode = Unsatisfied then StatusCode codeStatus else httpCode);
          code2 = (if code1 = Unsatisfied then Ok else code1)
      in \<lparr>r_HttpCode = HttpCode_Code code2, r_Code = StatusName codeStatus, r_Data = data\<rparr>)"

definition ErrIllegalParam :: ApiStatus where "ErrIllegalParam = ApiStatus ''PARAM_ERROR'' BadRequest"
definition ErrLackParam :: ApiStatus where "ErrLackParam = ApiStatus ''PARAM_LACK_ERROR'' BadRequest"
definition ErrNoPermission :: ApiStatus where "ErrNoPermission = ApiStatus ''NO_PERMISSION'' PermissionDenied"
definition ErrDatabaseFail :: ApiStatus where "ErrDatabaseFail = ApiStatus ''DATABASE_ERROR'' ServerInternalError"
definition StUserNotFound :: ApiStatus where "StUserNotFound = ApiStatus ''USER_NOT_FOUND'' NotFound"
definition ErrRegisterFail :: ApiStatus where "ErrRegisterFail = ApiStatus ''REGISTER_FAIL'' ServerInternalError"
definition StIdentifierTaken :: ApiStatus where "StIdentifierTaken = ApiStatus ''USER_EXISTS'' BadRequest"

text \<open>An error response, and a response with data.\<close>

abbreviation (input) fails :: "ApiStatus \<Rightarrow> 'a ApiResponse" where
  "fails st \<equiv> NewApiResponse st Unsatisfied None"

abbreviation (input) succeeds :: "ApiStatus \<Rightarrow> 'a \<Rightarrow> 'a ApiResponse" where
  "succeeds st data \<equiv> NewApiResponse st Unsatisfied (Some data)"

definition is_success :: "'a ApiResponse \<Rightarrow> bool" where
  "is_success r \<longleftrightarrow> r_HttpCode r = 200"

lemma NewApiResponse_simps [simp]:
  "r_HttpCode (NewApiResponse (ApiStatus n c) Unsatisfied d) = (if c = Unsatisfied then 200 else HttpCode_Code c)"
  "r_Code (NewApiResponse st h d) = StatusName st"
  "r_Data (NewApiResponse st h d) = d"
  by (simp_all add: NewApiResponse_def Let_def)

text \<open>
  The errors of the operations on activities, which are not part of this development, have cases
  of their own in the code; no operation called here returns them.
\<close>

fun db_status :: "op_error \<Rightarrow> ApiStatus" where
  "db_status ErrIdentifierCheck = ErrRegisterFail"
| "db_status ErrIdentifierTaken = StIdentifierTaken"
| "db_status ErrUserNotFound = StUserNotFound"
| "db_status _ = ErrDatabaseFail"

definition CallDBFuncAndCheckError :: "'r \<times> op_error option \<Rightarrow> ApiStatus + 'r" where
  "CallDBFuncAndCheckError result =
     (case result of (r, Some err) \<Rightarrow> Inl (db_status err) | (r, None) \<Rightarrow> Inr r)"

definition GetUsersAndCheckPermission ::
    "'db api \<Rightarrow> nat \<Rightarrow> nat \<Rightarrow> permission \<Rightarrow> 'db \<Rightarrow> ApiStatus + User \<times> User" where
  "GetUsersAndCheckPermission A uid targetUid perm db =
     (case CallDBFuncAndCheckError (GetUserByUid A uid db) of
        Inl res \<Rightarrow> Inl res
      | Inr user \<Rightarrow>
          if \<not> HasPermission (u_Permission user) perm then Inl ErrNoPermission
          else case CallDBFuncAndCheckError (GetUserByUid A targetUid db) of
                 Inl res \<Rightarrow> Inl res
               | Inr targetUser \<Rightarrow> Inr (user, targetUser))"

section \<open>Length checks\<close>

record FieldValidator =
  fv_Min :: int
  fv_Max :: int
  fv_ErrShort :: ApiStatus
  fv_ErrLong :: ApiStatus

definition CheckInt :: "FieldValidator \<Rightarrow> int \<Rightarrow> ApiStatus option" where
  "CheckInt v value =
     (if value > fv_Max v then Some (fv_ErrLong v)
      else if value < fv_Min v then Some (fv_ErrShort v)
      else None)"

definition CheckString :: "FieldValidator \<Rightarrow> string \<Rightarrow> ApiStatus option" where
  "CheckString v value =
     (let len = int (length value)
      in if len > fv_Max v then Some (fv_ErrLong v)
         else if len < fv_Min v then Some (fv_ErrShort v)
         else None)"

text \<open>\<open>InitValidator\<close> sets the four validators from the limits.\<close>

definition usernameValidator :: "HttpServerLimit \<Rightarrow> FieldValidator" where
  "usernameValidator config =
     \<lparr>fv_Min = UsernameLengthMin config, fv_Max = UsernameLengthMax config,
      fv_ErrShort = ApiStatus ''USERNAME_TOO_SHORT'' BadRequest,
      fv_ErrLong = ApiStatus ''USERNAME_TOO_LONG'' BadRequest\<rparr>"

definition passwordValidator :: "HttpServerLimit \<Rightarrow> FieldValidator" where
  "passwordValidator config =
     \<lparr>fv_Min = PasswordLengthMin config, fv_Max = PasswordLengthMax config,
      fv_ErrShort = ApiStatus ''PASSWORD_TOO_SHORT'' BadRequest,
      fv_ErrLong = ApiStatus ''PASSWORD_TOO_LONG'' BadRequest\<rparr>"

definition emailValidator :: "HttpServerLimit \<Rightarrow> FieldValidator" where
  "emailValidator config =
     \<lparr>fv_Min = EmailLengthMin config, fv_Max = EmailLengthMax config,
      fv_ErrShort = ApiStatus ''EMAIL_TOO_SHORT'' BadRequest,
      fv_ErrLong = ApiStatus ''EMAIL_TOO_LONG'' BadRequest\<rparr>"

definition cidValidator :: "HttpServerLimit \<Rightarrow> FieldValidator" where
  "cidValidator config =
     \<lparr>fv_Min = CidMin config, fv_Max = CidMax config,
      fv_ErrShort = ApiStatus ''CID_TOO_SHORT'' BadRequest,
      fv_ErrLong = ApiStatus ''CID_TOO_LONG'' BadRequest\<rparr>"

lemma CheckInt_None: "CheckInt v i = None \<longleftrightarrow> fv_Min v \<le> i \<and> i \<le> fv_Max v"
  by (auto simp: CheckInt_def)

lemma CheckString_None: "CheckString v s = None \<longleftrightarrow> fv_Min v \<le> int (length s) \<and> int (length s) \<le> fv_Max v"
  by (auto simp: CheckString_def Let_def)

section \<open>The audit log\<close>

datatype EventType =
    UserInformationEdit | UserPermissionGrant | UserPermissionRevoke | UserRatingChange
  | ActivityCreated | ActivityDeleted | ActivityUpdated | TicketCreated | TicketReply
  | ClientKicked | ClientMessage

record ChangeDetail =
  cd_OldValue :: string
  cd_NewValue :: string

text \<open>The key and the time stamp are filled by the database.\<close>

record AuditLog =
  al_EventType :: EventType
  al_Subject :: int
  al_Object :: string
  al_Ip :: string
  al_UserAgent :: string
  al_ChangeDetails :: "ChangeDetail option"

definition NewAuditLog ::
    "EventType \<Rightarrow> int \<Rightarrow> string \<Rightarrow> string \<Rightarrow> string \<Rightarrow> ChangeDetail option \<Rightarrow> AuditLog" where
  "NewAuditLog eventType subject object ip userAgent changeDetails =
     \<lparr>al_EventType = eventType, al_Subject = subject, al_Object = object, al_Ip = ip,
      al_UserAgent = userAgent, al_ChangeDetails = changeDetails\<rparr>"

section \<open>Claims\<close>

record Claims =
  cl_Uid :: nat
  cl_Cid :: int
  cl_Username :: string
  cl_Permission :: permission
  cl_Rating :: int
  cl_FlushToken :: bool
  cl_Issuer :: string
  cl_Subject :: string
  cl_IssuedAt :: int
  cl_NotBefore :: int
  cl_ExpiresAt :: int

text \<open>Times are kept in nanoseconds; the library rounds the dates of a token to its precision.\<close>

definition NewClaims :: "JWTConfig \<Rightarrow> int \<Rightarrow> User \<Rightarrow> bool \<Rightarrow> Claims" where
  "NewClaims config now user flushToken =
     (let expiredDuration = jwt_ExpiresDuration config +
            (if flushToken then jwt_RefreshDuration config else 0)
      in \<lparr>cl_Uid = u_ID user, cl_Cid = u_Cid user, cl_Username = u_Username user,
          cl_Permission = u_Permission user, cl_Rating = u_Rating user, cl_FlushToken = flushToken,
          cl_Issuer = ''FsdHttpServer'', cl_Subject = u_Username user, cl_IssuedAt = now,
          cl_NotBefore = now, cl_ExpiresAt = now + expiredDuration\<rparr>)"

section \<open>The state and the world of the services\<close>

text \<open>
  A mail is its receiver and the text of the rendered template. \<open>sv_deleted\<close> are the images whose
  deletion was asked of the store.
\<close>

record mail =
  ml_To :: string
  ml_Body :: string

record EmailCode =
  ec_code :: int
  ec_cid :: int
  ec_sendTime :: int

record svc =
  sv_now :: int
  sv_emailCodes :: "string \<rightharpoonup> EmailCode"
  sv_lastSendTime :: "string \<rightharpoonup> int"
  sv_mails :: "mail list"
  sv_audit :: "AuditLog list"
  sv_deleted :: "string list"

datatype profile_field =
    FUsername string | FEmail string | FQQ int | FAvatarUrl string | FPassword string

record UserHistory =
  uh_Pilots :: "History list"
  uh_Controllers :: "History list"

text \<open>
  What the services call besides \<open>api\<close>: the queries of gorm (a page of the users, or of those
  above the rating Normal, at an offset with a limit; the last ten histories; the update of some
  columns of a user; the creation of audit logs), the signing of a token, the JSON of a user, the
  lower case of a text, the execution of a template, the sending of a mail, the text of a date,
  and the key that the creation of a user has filled into it.
\<close>

record 'db svc_env =
  se_api :: "'db api"
  se_config :: HttpServerConfig
  se_find_users :: "bool \<Rightarrow> int \<Rightarrow> int \<Rightarrow> 'db \<Rightarrow> User list \<times> gorm_error option"
  se_count_users :: "bool \<Rightarrow> 'db \<Rightarrow> int"
  se_last_histories :: "int \<Rightarrow> bool \<Rightarrow> 'db \<Rightarrow> History list \<times> gorm_error option"
  se_update_columns :: "User \<Rightarrow> profile_field list \<Rightarrow> 'db \<Rightarrow> 'db \<times> gorm_error option"
  se_audit_fails :: "AuditLog list \<Rightarrow> bool"
  se_sign :: "string \<Rightarrow> Claims \<Rightarrow> string"
  se_json_user :: "User \<Rightarrow> string"
  se_ToLower :: "string \<Rightarrow> string"
  se_execute :: "template \<Rightarrow> string list \<Rightarrow> string option"
  se_send :: "dialer \<Rightarrow> mail \<Rightarrow> bool"
  se_date_time :: "int \<Rightarrow> string"
  se_created_id :: "User \<Rightarrow> 'db \<Rightarrow> nat"

definition GenerateKey :: "'db svc_env \<Rightarrow> Claims \<Rightarrow> string" where
  "GenerateKey E claim = se_sign E (jwt_Secret (hs_JWT (se_config E))) claim"

text \<open>
  The audit log is written by goroutines that touch nothing else, so the model writes it at once;
  an error is only logged.
\<close>

definition SaveAuditLogs :: "'db svc_env \<Rightarrow> AuditLog list \<Rightarrow> svc \<Rightarrow> svc" where
  "SaveAuditLogs E logs s = (if se_audit_fails E logs then s else s\<lparr>sv_audit := sv_audit s @ logs\<rparr>)"

definition SaveAuditLog :: "'db svc_env \<Rightarrow> AuditLog \<Rightarrow> svc \<Rightarrow> svc" where
  "SaveAuditLog E entry s = SaveAuditLogs E [entry] s"

definition GetUsers :: "'db svc_env \<Rightarrow> int \<Rightarrow> int \<Rightarrow> 'db \<Rightarrow> User list \<times> int \<times> op_error option" where
  "GetUsers E page pageSize db =
     (let total = se_count_users E False db;
          (users, err) = se_find_users E False ((page - 1) * pageSize) pageSize db
      in (users, total, db_error err))"

definition GetControllers :: "'db svc_env \<Rightarrow> int \<Rightarrow> int \<Rightarrow> 'db \<Rightarrow> User list \<times> int \<times> op_error option" where
  "GetControllers E page pageSize db =
     (let total = se_count_users E True db;
          (users, err) = se_find_users E True ((page - 1) * pageSize) pageSize db
      in (users, total, db_error err))"

definition UpdateUserInfo ::
    "'db svc_env \<Rightarrow> User \<Rightarrow> profile_field list \<Rightarrow> 'db \<Rightarrow> 'db \<times> op_error option" where
  "UpdateUserInfo E user info db = (let (db', err) = se_update_columns E user info db in (db', db_error err))"

definition op_GetUserHistory :: "'db svc_env \<Rightarrow> int \<Rightarrow> 'db \<Rightarrow> UserHistory \<times> op_error option" where
  "op_GetUserHistory E cid db =
     (case se_last_histories E cid False db of
        (pilots, Some err) \<Rightarrow> (\<lparr>uh_Pilots = pilots, uh_Controllers = []\<rparr>, Some (DbError err))
      | (pilots, None) \<Rightarrow>
          (let (controllers, err) = se_last_histories E cid True db
           in (\<lparr>uh_Pilots = pilots, uh_Controllers = controllers\<rparr>, db_error err)))"

text \<open>The first error of a list of checks that have no effect.\<close>

fun first_error :: "ApiStatus option list \<Rightarrow> ApiStatus option" where
  "first_error [] = None"
| "first_error (None # rest) = first_error rest"
| "first_error (Some err # rest) = Some err"

lemma first_error_None: "first_error checks = None \<longleftrightarrow> (\<forall>c \<in> set checks. c = None)"
  by (induction checks rule: first_error.induct) auto

lemma first_error_Some: "first_error checks = Some err \<Longrightarrow> Some err \<in> set checks"
  by (induction checks rule: first_error.induct) auto

definition is_error :: "ApiStatus \<Rightarrow> bool" where
  "is_error st \<longleftrightarrow> StatusCode st \<noteq> Unsatisfied \<and> StatusCode st \<noteq> Ok"

lemma error_response: "is_error st \<Longrightarrow> r_HttpCode (NewApiResponse st Unsatisfied d) \<noteq> 200"
  by (cases st; cases "StatusCode st") (auto simp: is_error_def NewApiResponse_def)

lemma validator_errors:
  "CheckString (usernameValidator l) x = Some st \<Longrightarrow> is_error st"
  "CheckString (passwordValidator l) x = Some st \<Longrightarrow> is_error st"
  "CheckString (emailValidator l) x = Some st \<Longrightarrow> is_error st"
  "CheckInt (cidValidator l) i = Some st \<Longrightarrow> is_error st"
  by (auto simp: CheckString_def CheckInt_def is_error_def usernameValidator_def passwordValidator_def
      emailValidator_def cidValidator_def Let_def split: if_splits)

end
