(* ===== verification/Mail.thy ===== *)
theory Mail
  imports Api
begin

text \<open>
  The mail service (\<open>internal/http_server/service/email.go\<close>): the codes that prove the ownership
  of an address, and the notices to users.
\<close>

datatype mail_error =
    ErrEmailSendInterval | ErrRenderingTemplate | ErrTemplateNotInitialized | ErrExecute
  | ErrEmailCodeNotFound | ErrEmailCodeExpired | ErrInvalidEmailCode | ErrCidMismatch | ErrDialAndSend

abbreviation (input) email_config :: "'db svc_env \<Rightarrow> EmailConfig" where
  "email_config E \<equiv> hs_Email (se_config E)"

definition RenderTemplate :: "'db svc_env \<Rightarrow> template option \<Rightarrow> string list \<Rightarrow> mail_error + string" where
  "RenderTemplate E template data =
     (case template of
        None \<Rightarrow> Inl ErrTemplateNotInitialized
      | Some t \<Rightarrow> (case se_execute E t data of None \<Rightarrow> Inl ErrExecute | Some text \<Rightarrow> Inr text))"

section \<open>Verification codes\<close>

definition VerifyCode :: "'db svc_env \<Rightarrow> string \<Rightarrow> int \<Rightarrow> int \<Rightarrow> svc \<Rightarrow> svc \<times> mail_error option" where
  "VerifyCode E email code cid s =
     (if em_EmailServer (email_config E) = None then (s, None)
      else
        let email = se_ToLower E email
        in case sv_emailCodes s email of
             None \<Rightarrow> (s, Some ErrEmailCodeNotFound)
           | Some emailCode \<Rightarrow>
               if sv_now s - ec_sendTime emailCode > em_VerifyExpiredDuration (email_config E)
               then (s, Some ErrEmailCodeExpired)
               else if ec_code emailCode \<noteq> code then (s, Some ErrInvalidEmailCode)
               else if ec_cid emailCode \<noteq> cid then (s, Some ErrCidMismatch)
               else (s\<lparr>sv_emailCodes := (sv_emailCodes s)(email := None)\<rparr>, None))"

definition deliver :: "'db svc_env \<Rightarrow> string \<Rightarrow> string \<Rightarrow> svc \<Rightarrow> svc \<times> mail_error option" where
  "deliver E email body s =
     (case em_EmailServer (email_config E) of
        None \<Rightarrow> (s, None)
      | Some server \<Rightarrow>
          let m = \<lparr>ml_To = email, ml_Body = body\<rparr>
          in if se_send E server m then (s\<lparr>sv_mails := sv_mails s @ [m]\<rparr>, None)
             else (s, Some ErrDialAndSend))"

text \<open>
  \<open>rnd\<close> is the random number below 900000. \<open>Minutes\<close> is a float that \<open>int\<close> truncates. The code and
  the time are stored before the mail is sent, and stay when it cannot be sent.
\<close>

definition SendEmailCode :: "'db svc_env \<Rightarrow> nat \<Rightarrow> string \<Rightarrow> int \<Rightarrow> svc \<Rightarrow> svc \<times> mail_error option" where
  "SendEmailCode E rnd email cid s =
     (if em_EmailServer (email_config E) = None then (s, None)
      else
        let email = se_ToLower E email
        in if (case sv_lastSendTime s email of None \<Rightarrow> False
               | Some lastSendTime \<Rightarrow> sv_now s - lastSendTime < em_SendDuration (email_config E))
           then (s, Some ErrEmailSendInterval)
           else
             let code = int rnd + 100000;
                 emailCode = \<lparr>ec_code = code, ec_cid = cid, ec_sendTime = sv_now s\<rparr>;
                 data = [fmt_0d 4 cid, itoa code,
                         itoa (go_div (em_VerifyExpiredDuration (email_config E)) 60000000000)]
             in case RenderTemplate E (et_EmailVerifyTemplate (em_Template (email_config E))) data of
                  Inl err \<Rightarrow> (s, Some ErrRenderingTemplate)
                | Inr message \<Rightarrow>
                    deliver E email message
                      (s\<lparr>sv_emailCodes := (sv_emailCodes s)(email \<mapsto> emailCode),
                         sv_lastSendTime := (sv_lastSendTime s)(email \<mapsto> sv_now s)\<rparr>))"

definition SendEmailSuccess :: ApiStatus where "SendEmailSuccess = ApiStatus ''SEND_EMAIL_SUCCESS'' Ok"
definition ErrRenderTemplate :: ApiStatus where "ErrRenderTemplate = ApiStatus ''RENDER_TEMPLATE_ERROR'' ServerInternalError"
definition ErrSendEmail :: ApiStatus where "ErrSendEmail = ApiStatus ''EMAIL_SEND_ERROR'' ServerInternalError"

definition SendEmailVerifyCode ::
    "'db svc_env \<Rightarrow> nat \<Rightarrow> string \<Rightarrow> int \<Rightarrow> svc \<Rightarrow> svc \<times> string ApiResponse" where
  "SendEmailVerifyCode E rnd email cid s =
     (if em_EmailServer (email_config E) = None then (s, succeeds SendEmailSuccess email)
      else if email = '''' \<or> cid \<le> 0 then (s, fails ErrIllegalParam)
      else
        let (s', err) = SendEmailCode E rnd email cid s
        in (s', case err of
             None \<Rightarrow> succeeds SendEmailSuccess email
           | Some ErrEmailSendInterval \<Rightarrow> fails (ApiStatus ''EMAIL_SEND_INTERVAL'' BadRequest)
           | Some ErrRenderingTemplate \<Rightarrow> fails ErrRenderTemplate
           | Some _ \<Rightarrow> fails ErrSendEmail))"

section \<open>Notices\<close>

definition send_notice ::
    "'db svc_env \<Rightarrow> template option \<Rightarrow> string list \<Rightarrow> string \<Rightarrow> svc \<Rightarrow> svc \<times> mail_error option" where
  "send_notice E template data email s =
     (case RenderTemplate E template data of
        Inl err \<Rightarrow> (s, Some ErrRenderingTemplate)
      | Inr message \<Rightarrow> deliver E email message s)"

definition SendPermissionChangeEmail ::
    "'db svc_env \<Rightarrow> User \<Rightarrow> User \<Rightarrow> svc \<Rightarrow> svc \<times> mail_error option" where
  "SendPermissionChangeEmail E user operator s =
     (if em_EmailServer (email_config E) = None then (s, None)
      else send_notice E (et_PermissionChangeTemplate (em_Template (email_config E)))
             [fmt_0d 4 (u_Cid user), fmt_0d 4 (u_Cid operator), u_Email operator]
             (se_ToLower E (u_Email user)) s)"

definition SendRatingChangeEmail ::
    "'db svc_env \<Rightarrow> User \<Rightarrow> User \<Rightarrow> Rating \<Rightarrow> Rating \<Rightarrow> svc \<Rightarrow> (svc \<times> mail_error option) go" where
  "SendRatingChangeEmail E user operator oldRating newRating s =
     (if em_EmailServer (email_config E) = None then Inr (s, None)
      else
        go_bind (Rating_String oldRating) (\<lambda>old.
        go_bind (Rating_String newRating) (\<lambda>new.
          Inr (send_notice E (et_ATCRatingChangeTemplate (em_Template (email_config E)))
                 [itoa (u_Cid user), new, old, fmt_0d 4 (u_Cid operator), u_Email operator]
                 (se_ToLower E (u_Email user)) s))))"

definition SendKickedFromServerEmail ::
    "'db svc_env \<Rightarrow> User \<Rightarrow> User \<Rightarrow> string \<Rightarrow> svc \<Rightarrow> svc \<times> mail_error option" where
  "SendKickedFromServerEmail E user operator reason s =
     (if em_EmailServer (email_config E) = None then (s, None)
      else send_notice E (et_KickedFromServerTemplate (em_Template (email_config E)))
             [itoa (u_Cid user), se_date_time E (sv_now s), reason, fmt_0d 4 (u_Cid operator), u_Email operator]
             (se_ToLower E (u_Email user)) s)"

section \<open>The life of a code\<close>

text \<open>The events at the mail service, with the time at which they happen.\<close>

datatype mail_event = AskCode nat string int | UseCode string int int

fun mail_step :: "'db svc_env \<Rightarrow> int \<times> mail_event \<Rightarrow> svc \<Rightarrow> svc \<times> mail_error option" where
  "mail_step E (t, AskCode rnd email cid) s = SendEmailCode E rnd email cid (s\<lparr>sv_now := t\<rparr>)"
| "mail_step E (t, UseCode email code cid) s = VerifyCode E email code cid (s\<lparr>sv_now := t\<rparr>)"

fun mail_run :: "'db svc_env \<Rightarrow> (int \<times> mail_event) list \<Rightarrow> svc \<Rightarrow> svc" where
  "mail_run E [] s = s"
| "mail_run E (ev # evs) s = mail_run E evs (fst (mail_step E ev s))"

text \<open>The requests in a history that stored a code, for an address.\<close>

definition asks :: "'db svc_env \<Rightarrow> string \<Rightarrow> (int \<times> mail_event) \<Rightarrow> bool" where
  "asks E email ev \<longleftrightarrow> (case snd ev of AskCode rnd e cid \<Rightarrow> se_ToLower E e = se_ToLower E email | _ \<Rightarrow> False)"

lemma deliver_keeps [simp]:
  "sv_emailCodes (fst (deliver E e b s)) = sv_emailCodes s"
  "sv_lastSendTime (fst (deliver E e b s)) = sv_lastSendTime s"
  "sv_now (fst (deliver E e b s)) = sv_now s"
  by (simp_all add: deliver_def Let_def split: option.splits)

lemma VerifyCode_codes:
  "sv_emailCodes (fst (VerifyCode E email code cid s)) =
     (if em_EmailServer (email_config E) \<noteq> None \<and> snd (VerifyCode E email code cid s) = None
      then (sv_emailCodes s)(se_ToLower E email := None) else sv_emailCodes s)"
  by (simp add: VerifyCode_def Let_def split: option.splits)

lemma SendEmailCode_other:
  "e \<noteq> se_ToLower E email \<Longrightarrow> sv_emailCodes (fst (SendEmailCode E rnd email cid s)) e = sv_emailCodes s e"
  by (simp add: SendEmailCode_def Let_def split: option.split sum.split)

lemma no_code_without_ask:
  assumes "sv_emailCodes s (se_ToLower E email) = None" and "\<not> list_ex (asks E email) evs"
  shows "sv_emailCodes (mail_run E evs s) (se_ToLower E email) = None"
  using assms
proof (induction evs arbitrary: s)
  case (Cons ev evs)
  have "sv_emailCodes (fst (mail_step E ev s)) (se_ToLower E email) = None"
  proof (cases ev)
    case (Pair t e)
    show ?thesis
    proof (cases e)
      case (AskCode rnd em cid)
      with Cons.prems Pair have "se_ToLower E email \<noteq> se_ToLower E em" by (auto simp: asks_def)
      from SendEmailCode_other [OF this] Cons.prems(1) AskCode Pair show ?thesis by simp
    next
      case (UseCode em code cid)
      with Cons.prems Pair show ?thesis by (simp add: VerifyCode_codes)
    qed
  qed
  with Cons show ?case by simp
qed simp


lemma SendEmailCode_time:
  assumes "em_EmailServer (email_config E) \<noteq> None"
    and "sv_lastSendTime s e = Some t0" and "sv_now s - t0 < em_SendDuration (email_config E)"
  shows "sv_lastSendTime (fst (SendEmailCode E rnd email cid s)) e = Some t0"
proof (cases "se_ToLower E email = e")
  case True
  with assms show ?thesis by (simp add: SendEmailCode_def)
next
  case False
  with assms(2) show ?thesis by (simp add: SendEmailCode_def Let_def split: option.split sum.split)
qed

lemma SendEmailCode_stored:
  assumes "em_EmailServer (email_config E) \<noteq> None"
    and "snd (SendEmailCode E rnd email cid s) \<noteq> Some ErrEmailSendInterval"
    and "snd (SendEmailCode E rnd email cid s) \<noteq> Some ErrRenderingTemplate"
  shows "sv_lastSendTime (fst (SendEmailCode E rnd email cid s)) (se_ToLower E email) = Some (sv_now s)"
proof (cases "case sv_lastSendTime s (se_ToLower E email) of None \<Rightarrow> False
              | Some t \<Rightarrow> sv_now s - t < em_SendDuration (email_config E)")
  case True
  obtain server where "em_EmailServer (email_config E) = Some server" using assms(1) by blast
  with True have "snd (SendEmailCode E rnd email cid s) = Some ErrEmailSendInterval"
    by (simp add: SendEmailCode_def Let_def)
  with assms(2) show ?thesis by simp
next
  case False
  obtain server where "em_EmailServer (email_config E) = Some server" using assms(1) by blast
  with False assms(3) show ?thesis
    by (cases "RenderTemplate E (et_EmailVerifyTemplate (em_Template (email_config E)))
          [fmt_0d 4 cid, itoa (int rnd + 100000),
           itoa (go_div (em_VerifyExpiredDuration (email_config E)) 60000000000)]")
      (simp_all add: SendEmailCode_def Let_def)
qed

lemma SendEmailCode_refused:
  "em_EmailServer (email_config E) \<noteq> None \<Longrightarrow> sv_lastSendTime s (se_ToLower E email) = Some t0 \<Longrightarrow>
   sv_now s - t0 < em_SendDuration (email_config E) \<Longrightarrow>
   SendEmailCode E rnd email cid s = (s, Some ErrEmailSendInterval)"
  by (simp add: SendEmailCode_def)

lemma lastSendTime_kept:
  assumes "\<forall>(t, ev) \<in> set evs. t - t0 < em_SendDuration (email_config E)"
    and "sv_lastSendTime s (se_ToLower E email) = Some t0" and "em_EmailServer (email_config E) \<noteq> None"
  shows "sv_lastSendTime (mail_run E evs s) (se_ToLower E email) = Some t0"
  using assms
proof (induction evs arbitrary: s)
  case (Cons ev evs)
  have "sv_lastSendTime (fst (mail_step E ev s)) (se_ToLower E email) = Some t0"
  proof (cases ev)
    case (Pair t e)
    show ?thesis
    proof (cases e)
      case (AskCode rnd em cid)
      with Cons.prems Pair show ?thesis by (simp add: SendEmailCode_time)
    next
      case (UseCode em code cid)
      with Cons.prems Pair show ?thesis by (simp add: VerifyCode_def Let_def split: option.splits)
    qed
  qed
  with Cons show ?case by simp
qed simp

text \<open>
  No second code for an address within the send interval: after a request that stored a code,
  a further request for the address, in any spelling with the same lower case, is refused with
  EMAIL_SEND_INTERVAL and changes nothing, whatever is asked and verified in between, as long as
  the interval is not over.
\<close>

theorem send_interval_enforced:
  assumes "em_EmailServer (email_config E) \<noteq> None"
    and "SendEmailCode E rnd email cid s = (s1, err)"
    and "err \<noteq> Some ErrEmailSendInterval" and "err \<noteq> Some ErrRenderingTemplate"
    and "\<forall>(u, ev) \<in> set evs. u - sv_now s < em_SendDuration (email_config E)"
    and "t - sv_now s < em_SendDuration (email_config E)"
    and "se_ToLower E email' = se_ToLower E email" and "email' \<noteq> ''''" and "0 < cid'"
  shows "SendEmailVerifyCode E rnd' email' cid' ((mail_run E evs s1)\<lparr>sv_now := t\<rparr>) =
         ((mail_run E evs s1)\<lparr>sv_now := t\<rparr>, fails (ApiStatus ''EMAIL_SEND_INTERVAL'' BadRequest))"
proof -
  have "sv_lastSendTime s1 (se_ToLower E email) = Some (sv_now s)"
    using SendEmailCode_stored [OF assms(1), of rnd email cid s] assms(2-4) by simp
  from lastSendTime_kept [OF assms(5) this assms(1)]
  have "sv_lastSendTime ((mail_run E evs s1)\<lparr>sv_now := t\<rparr>) (se_ToLower E email') = Some (sv_now s)"
    using assms(7) by simp
  moreover obtain server where "em_EmailServer (email_config E) = Some server" using assms(1) by blast
  moreover note SendEmailCode_refused [OF assms(1) calculation(1)] assms(6,8,9)
  ultimately show ?thesis by (simp add: SendEmailVerifyCode_def)
qed

section \<open>An example\<close>

definition example_http :: HttpServerConfig where
  "example_http = (defaultHttpServerConfig example_cfg_env)
     \<lparr>hs_Email := defaultEmailConfig
        \<lparr>em_EmailServer := Some \<lparr>d_Host = ''h'', d_Port = 25, d_Username = ''u'', d_Password = ''p''\<rparr>,
         em_VerifyExpiredDuration := 300000000000, em_SendDuration := 60000000000,
         em_Template := defaultEmailTemplateConfig
           \<lparr>et_EmailVerifyTemplate := Some (''email_verify'', ''x''),
            et_ATCRatingChangeTemplate := Some (''atc_rating_change'', ''x''),
            et_PermissionChangeTemplate := Some (''permission_change'', ''x''),
            et_KickedFromServerTemplate := Some (''kicked_from_server'', ''x'')\<rparr>\<rparr>,
      hs_JWT := (defaultJWTConfig example_cfg_env)
        \<lparr>jwt_ExpiresDuration := 900000000000, jwt_RefreshDuration := 86400000000000\<rparr>\<rparr>"

definition memory_update_columns :: "User \<Rightarrow> profile_field list \<Rightarrow> memory \<Rightarrow> memory" where
  "memory_update_columns u columns m =
     (let upd = (\<lambda>f v. case f of FUsername n \<Rightarrow> v\<lparr>u_Username := n\<rparr> | FEmail e \<Rightarrow> v\<lparr>u_Email := e\<rparr>
                   | FQQ q \<Rightarrow> v\<lparr>u_QQ := q\<rparr> | FAvatarUrl a \<Rightarrow> v\<lparr>u_AvatarUrl := a\<rparr>
                   | FPassword p \<Rightarrow> v\<lparr>u_Password := p\<rparr>)
      in m\<lparr>m_users := replace_by (\<lambda>v. u_ID v = u_ID u) (fold upd columns) (m_users m)\<rparr>)"

definition ascii_lower :: "string \<Rightarrow> string" where
  "ascii_lower = map to_lower_char"

definition example_svc_env :: "memory svc_env" where
  "example_svc_env =
     \<lparr>se_api = memory_api, se_config = example_http,
      se_find_users = (\<lambda>c off lim m. (take (nat lim) (drop (nat off)
        (filter (\<lambda>u. c \<longrightarrow> 0 < u_Rating u) (m_users m))), None)),
      se_count_users = (\<lambda>c m. int (length (filter (\<lambda>u. c \<longrightarrow> 0 < u_Rating u) (m_users m)))),
      se_last_histories = (\<lambda>cid atc m. (take 10 (rev (filter (\<lambda>h. h_Cid h = cid \<and> h_IsAtc h = atc)
        (m_histories m))), None)),
      se_update_columns = (\<lambda>u f m. (memory_update_columns u f m, None)),
      se_audit_fails = (\<lambda>_. False), se_sign = (\<lambda>k c. CHR ''t'' # k @ itoa (cl_Cid c)),
      se_json_user = (\<lambda>u. u_Username u), se_ToLower = ascii_lower,
      se_execute = (\<lambda>t data. Some (concat data)), se_send = (\<lambda>_ _. True), se_date_time = itoa,
      se_created_id = (\<lambda>u m. length (m_users m))\<rparr>"

definition example_svc :: svc where
  "example_svc = \<lparr>sv_now = 0, sv_emailCodes = Map.empty, sv_lastSendTime = Map.empty, sv_mails = [],
     sv_audit = [], sv_deleted = []\<rparr>"


lemma example_svc_env_simps [simp]:
  "em_EmailServer (email_config example_svc_env) =
     Some \<lparr>d_Host = ''h'', d_Port = 25, d_Username = ''u'', d_Password = ''p''\<rparr>"
  "em_VerifyExpiredDuration (email_config example_svc_env) = 300000000000"
  "em_SendDuration (email_config example_svc_env) = 60000000000"
  "et_EmailVerifyTemplate (em_Template (email_config example_svc_env)) = Some (''email_verify'', ''x'')"
  "se_ToLower example_svc_env = ascii_lower" "se_api example_svc_env = memory_api"
  "se_execute example_svc_env t data = Some (concat data)" "se_send example_svc_env d m"
  "hs_Limits (se_config example_svc_env) = defaultHttpServerLimit"
  "se_audit_fails example_svc_env l \<longleftrightarrow> False"
  "se_update_columns example_svc_env u f db = (memory_update_columns u f db, None)"
  "se_sign example_svc_env k c \<noteq> ''''"
  "jwt_ExpiresDuration (hs_JWT (se_config example_svc_env)) = 900000000000"
  "jwt_RefreshDuration (hs_JWT (se_config example_svc_env)) = 86400000000000"
  by (simp_all add: example_svc_env_def example_http_def defaultHttpServerConfig_def)

lemma example_svc_simps [simp]:
  "sv_now example_svc = 0" "sv_emailCodes example_svc = Map.empty" "sv_lastSendTime example_svc = Map.empty"
  by (simp_all add: example_svc_def)

lemma lower_example [simp]: "ascii_lower ''A@B'' = ''a@b''" "ascii_lower ''a@b'' = ''a@b''" "ascii_lower ''A@b'' = ''a@b''"
  by code_simp+


theorem send_interval_enforced_witness:
  "r_Code (snd (SendEmailVerifyCode example_svc_env 1 ''a@b'' 8
     ((fst (SendEmailCode example_svc_env 23456 ''A@B'' 7 example_svc))\<lparr>sv_now := 59999999999\<rparr>))) =
   ''EMAIL_SEND_INTERVAL''"
proof -
  let ?r = "SendEmailCode example_svc_env 23456 ''A@B'' 7 example_svc"
  have "snd ?r = None"
    by (simp add: SendEmailCode_def RenderTemplate_def deliver_def Let_def)
  then have "SendEmailCode example_svc_env 23456 ''A@B'' 7 example_svc = (fst ?r, None)"
    by (simp add: prod_eq_iff)
  from send_interval_enforced [OF _ this, of "[]" 59999999999 "''a@b''" 8 1] show ?thesis by simp
qed

end
