(* ===== verification/Accounts.thy ===== *)
theory Accounts
  imports Mail
begin

text \<open>
  The user service (\<open>internal/http_server/service/user.go\<close>): registration, login, profiles, the
  lists of users, permissions, ratings and the refresh of tokens. Every operation takes the state
  of the services with the database and returns it with the response.
\<close>

section \<open>Requests\<close>

type_synonym 'db st = "svc \<times> 'db"

record RequestUserRegister =
  rr_Username :: string
  rr_Email :: string
  rr_Password :: string
  rr_Cid :: int
  rr_EmailCode :: int

record ResponseToken =
  rt_User :: User
  rt_Token :: string
  rt_FlushToken :: string

record RequestUserEditCurrentProfile =
  re_ID :: nat
  re_Cid :: int
  re_Username :: string
  re_Email :: string
  re_EmailCode :: int
  re_AvatarUrl :: string
  re_QQ :: int
  re_OriginPassword :: string
  re_NewPassword :: string

text \<open>\<open>JwtHeader\<close> and \<open>EchoContentHeader\<close>, with the cid of the token that the requests add.\<close>

record header =
  hd_Uid :: nat
  hd_Permission :: permission
  hd_Cid :: int
  hd_Ip :: string
  hd_UserAgent :: string

record RequestUserEditProfile =
  rp_header :: header
  rp_TargetUid :: nat
  rp_edit :: RequestUserEditCurrentProfile

text \<open>The values of a JSON object, as far as the permissions of a request look at them.\<close>

datatype json_value = JBool bool | JOther

record RequestUserEditPermission =
  rq_header :: header
  rq_TargetUid :: nat
  rq_Permissions :: "(string \<times> json_value) list"

record page_of_users =
  pg_Items :: "User list"
  pg_Page :: int
  pg_PageSize :: int
  pg_Total :: int

record ResponseGetUserHistory =
  gh_History :: UserHistory
  gh_TotalAtcTime :: int
  gh_TotalPilotTime :: int

section \<open>Registration and login\<close>

definition ErrEmailNotFound :: ApiStatus where "ErrEmailNotFound = ApiStatus ''EMAIL_CODE_NOT_FOUND'' BadRequest"
definition ErrCidNotMatch :: ApiStatus where "ErrCidNotMatch = ApiStatus ''CID_NOT_MATCH'' BadRequest"
definition ErrEmailExpired :: ApiStatus where "ErrEmailExpired = ApiStatus ''EMAIL_CODE_EXPIRED'' BadRequest"
definition ErrEmailCodeInvalid :: ApiStatus where "ErrEmailCodeInvalid = ApiStatus ''EMAIL_CODE_INVALID'' BadRequest"
definition SuccessRegister :: ApiStatus where "SuccessRegister = ApiStatus ''REGISTER_SUCCESS'' Ok"

definition verifyEmailCode :: "'db svc_env \<Rightarrow> string \<Rightarrow> int \<Rightarrow> int \<Rightarrow> svc \<Rightarrow> svc \<times> ApiStatus option" where
  "verifyEmailCode E email emailCode cid s =
     (let (s', err) = VerifyCode E email emailCode cid s
      in (s', case err of
           Some ErrEmailCodeNotFound \<Rightarrow> Some ErrEmailNotFound
         | Some ErrEmailCodeExpired \<Rightarrow> Some ErrEmailExpired
         | Some ErrInvalidEmailCode \<Rightarrow> Some ErrEmailCodeInvalid
         | Some ErrCidMismatch \<Rightarrow> Some ErrCidNotMatch
         | _ \<Rightarrow> None))"

definition tokens :: "'db svc_env \<Rightarrow> User \<Rightarrow> svc \<Rightarrow> ResponseToken" where
  "tokens E user s =
     (let jwt = hs_JWT (se_config E)
      in \<lparr>rt_User = user, rt_Token = GenerateKey E (NewClaims jwt (sv_now s) user False),
          rt_FlushToken = GenerateKey E (NewClaims jwt (sv_now s) user True)\<rparr>)"

definition UserRegister :: "'db svc_env \<Rightarrow> RequestUserRegister \<Rightarrow> 'db st \<Rightarrow> 'db st \<times> ResponseToken ApiResponse" where
  "UserRegister E req = (\<lambda>(s, db).
     if rr_Username req = '''' \<or> rr_Email req = '''' \<or> rr_Password req = '''' \<or> rr_Cid req \<le> 0 \<or>
        rr_EmailCode req < 100000
     then ((s, db), fails ErrIllegalParam)
     else
       let (s1, res) = verifyEmailCode E (rr_Email req) (rr_EmailCode req) (rr_Cid req) s;
           limits = hs_Limits (se_config E)
       in (case first_error
                  [res,
                   CheckString (usernameValidator limits) (rr_Username req),
                   CheckString (emailValidator limits) (rr_Email req),
                   CheckString (passwordValidator limits) (rr_Password req),
                   CheckInt (cidValidator limits) (rr_Cid req)] of
             Some err \<Rightarrow> ((s1, db), fails err)
           | None \<Rightarrow>
               (case NewUser (se_api E) (rr_Username req) (rr_Email req) (rr_Cid req) (rr_Password req) of
                  Inl err \<Rightarrow> ((s1, db), fails ErrRegisterFail)
                | Inr user \<Rightarrow>
                    let (db', err) = AddUser (se_api E) user db
                    in (case CallDBFuncAndCheckError ((), err) of
                          Inl res \<Rightarrow> ((s1, db'), fails res)
                        | Inr _ \<Rightarrow> ((s1, db'), succeeds SuccessRegister
                            (tokens E (user\<lparr>u_ID := se_created_id E user db'\<rparr>) s1))))))"

definition ErrUsernameOrPassword :: ApiStatus where "ErrUsernameOrPassword = ApiStatus ''WRONG_USERNAME_OR_PASSWORD'' BadRequest"
definition SuccessLogin :: ApiStatus where "SuccessLogin = ApiStatus ''LOGIN_SUCCESS'' Ok"

definition UserLogin :: "'db svc_env \<Rightarrow> string \<Rightarrow> string \<Rightarrow> 'db st \<Rightarrow> ResponseToken ApiResponse" where
  "UserLogin E username password = (\<lambda>(s, db).
     if username = '''' \<or> password = '''' then fails ErrIllegalParam
     else case CallDBFuncAndCheckError (GetUser (se_api E) (GetUserId username) db) of
            Inl res \<Rightarrow> fails res
          | Inr user \<Rightarrow>
              if VerifyUserPassword (se_api E) user password
              then succeeds SuccessLogin (tokens E user s)
              else fails ErrUsernameOrPassword)"

definition NameNotAvailability :: ApiStatus where "NameNotAvailability = ApiStatus ''INFO_NOT_AVAILABILITY'' Ok"
definition NameAvailability :: ApiStatus where "NameAvailability = ApiStatus ''INFO_AVAILABILITY'' Ok"

definition CheckAvailability :: "'db svc_env \<Rightarrow> string \<Rightarrow> string \<Rightarrow> string \<Rightarrow> 'db st \<Rightarrow> bool ApiResponse" where
  "CheckAvailability E username email cid = (\<lambda>(s, db).
     if username = '''' \<and> email = '''' \<and> cid = '''' then fails ErrIllegalParam
     else let (exist, err) = IsUserIdentifierTaken (se_api E) (StrToInt cid 0) username email db
          in if exist then succeeds NameNotAvailability (\<not> exist)
             else succeeds NameAvailability (\<not> exist))"

definition SuccessGetCurrentProfile :: ApiStatus where "SuccessGetCurrentProfile = ApiStatus ''GET_CURRENT_PROFILE_SUCCESS'' Ok"

definition GetCurrentProfile :: "'db svc_env \<Rightarrow> nat \<Rightarrow> 'db st \<Rightarrow> User ApiResponse" where
  "GetCurrentProfile E uid = (\<lambda>(s, db).
     case GetUserByUid (se_api E) uid db of
       (user, Some ErrUserNotFound) \<Rightarrow> fails StUserNotFound
     | (user, Some err) \<Rightarrow> fails ErrDatabaseFail
     | (user, None) \<Rightarrow> succeeds SuccessGetCurrentProfile user)"

section \<open>Editing a profile\<close>

definition ErrOriginPasswordRequired :: ApiStatus where "ErrOriginPasswordRequired = ApiStatus ''ORIGIN_PASSWORD_REQUIRED'' BadRequest"
definition ErrNewPasswordRequired :: ApiStatus where "ErrNewPasswordRequired = ApiStatus ''NEW_PASSWORD_REQUIRED'' BadRequest"
definition ErrOriginPassword :: ApiStatus where "ErrOriginPassword = ApiStatus ''ORIGIN_PASSWORD_ERROR'' BadRequest"
definition ErrQQInvalid :: ApiStatus where "ErrQQInvalid = ApiStatus ''QQ_INVALID'' BadRequest"
definition SuccessEditCurrentProfile :: ApiStatus where "SuccessEditCurrentProfile = ApiStatus ''SUCCESS_EDIT_CURRENT_PROFILE'' Ok"

definition checkQQ :: "int \<Rightarrow> ApiStatus option" where
  "checkQQ qq = (if 10000 \<le> qq \<and> qq < 100000000000 then None else Some ErrQQInvalid)"

definition qq_avatar_prefix :: string where
  "qq_avatar_prefix = ''https://q2.qlogo.cn/''"

text \<open>The checks that need no database, up to the code of the address; they may use up the code.\<close>

text \<open>A check that is made only under a condition.\<close>

definition check_if :: "bool \<Rightarrow> ApiStatus option \<Rightarrow> ApiStatus option" where
  "check_if b check = (if b then check else None)"

lemma check_if_Some: "check_if b check = Some st \<Longrightarrow> check = Some st"
  by (simp add: check_if_def split: if_splits)

definition password_check :: "'db svc_env \<Rightarrow> RequestUserEditCurrentProfile \<Rightarrow> bool \<Rightarrow> ApiStatus option" where
  "password_check E req skipPasswordVerify =
     (if re_OriginPassword req \<noteq> '''' \<and> re_NewPassword req \<noteq> ''''
      then CheckString (passwordValidator (hs_Limits (se_config E))) (re_NewPassword req)
      else if re_OriginPassword req \<noteq> '''' \<and> re_NewPassword req = '''' then Some ErrNewPasswordRequired
      else if re_OriginPassword req = '''' \<and> re_NewPassword req \<noteq> '''' \<and> \<not> skipPasswordVerify
      then Some ErrOriginPasswordRequired else None)"

definition code_check ::
    "'db svc_env \<Rightarrow> RequestUserEditCurrentProfile \<Rightarrow> bool \<Rightarrow> svc \<Rightarrow> svc \<times> ApiStatus option" where
  "code_check E req skipEmailVerify s =
     (if re_Email req \<noteq> '''' \<and> \<not> skipEmailVerify then
        (if re_EmailCode req \<le> 0 then (s, Some ErrIllegalParam)
         else verifyEmailCode E (re_Email req) (re_EmailCode req) (re_Cid req) s)
      else (s, None))"

definition edit_checks ::
    "'db svc_env \<Rightarrow> RequestUserEditCurrentProfile \<Rightarrow> bool \<Rightarrow> bool \<Rightarrow> svc \<Rightarrow> svc \<times> ApiStatus option" where
  "edit_checks E req skipEmailVerify skipPasswordVerify s =
     (let limits = hs_Limits (se_config E) in
      if re_Username req = '''' \<and> re_Email req = '''' \<and> re_QQ req \<le> 0 \<and> re_OriginPassword req = '''' \<and>
         re_NewPassword req = '''' \<and> re_AvatarUrl req = ''''
      then (s, Some ErrIllegalParam)
      else
        (case first_error
           [password_check E req skipPasswordVerify,
            check_if (re_Username req \<noteq> '''') (CheckString (usernameValidator limits) (re_Username req)),
            check_if (re_Email req \<noteq> '''') (CheckString (emailValidator limits) (re_Email req))] of
           Some err \<Rightarrow> (s, Some err)
         | None \<Rightarrow>
             let (s', code) = code_check E req skipEmailVerify s
             in (s', first_error [code, check_if (re_QQ req > 0) (checkQQ (re_QQ req))])))"

text \<open>
  The changes other than the password, in the order of the code: the user as changed so far and
  the columns to update.
\<close>

type_synonym profile_edit = "User \<times> profile_field list"

definition edit_username :: "RequestUserEditCurrentProfile \<Rightarrow> profile_edit \<Rightarrow> profile_edit" where
  "edit_username req = (\<lambda>(u, cols).
     if re_Username req \<noteq> '''' \<and> re_Username req \<noteq> u_Username u
     then (u\<lparr>u_Username := re_Username req\<rparr>, cols @ [FUsername (re_Username req)]) else (u, cols))"

definition edit_email :: "RequestUserEditCurrentProfile \<Rightarrow> profile_edit \<Rightarrow> profile_edit" where
  "edit_email req = (\<lambda>(u, cols).
     if re_Email req \<noteq> '''' \<and> re_Email req \<noteq> u_Email u
     then (u\<lparr>u_Email := re_Email req\<rparr>, cols @ [FEmail (re_Email req)]) else (u, cols))"

definition qq_avatar :: "int \<Rightarrow> string" where
  "qq_avatar qq = ''https://q2.qlogo.cn/headimg_dl?dst_uin='' @ itoa qq @ ''&spec=100''"

definition edit_qq :: "RequestUserEditCurrentProfile \<Rightarrow> profile_edit \<Rightarrow> profile_edit" where
  "edit_qq req = (\<lambda>(u, cols).
     if re_QQ req > 0 \<and> re_QQ req \<noteq> u_QQ u then
       (if re_AvatarUrl req = '''' \<and> (u_AvatarUrl u = '''' \<or> has_prefix (u_AvatarUrl u) qq_avatar_prefix)
        then (u\<lparr>u_QQ := re_QQ req, u_AvatarUrl := qq_avatar (re_QQ req)\<rparr>,
              cols @ [FQQ (re_QQ req), FAvatarUrl (qq_avatar (re_QQ req))])
        else (u\<lparr>u_QQ := re_QQ req\<rparr>, cols @ [FQQ (re_QQ req)]))
     else (u, cols))"

definition edit_avatar :: "RequestUserEditCurrentProfile \<Rightarrow> profile_edit \<Rightarrow> profile_edit" where
  "edit_avatar req = (\<lambda>(u, cols).
     if re_AvatarUrl req \<noteq> ''''
     then (u\<lparr>u_AvatarUrl := re_AvatarUrl req\<rparr>, cols @ [FAvatarUrl (re_AvatarUrl req)]) else (u, cols))"

text \<open>The old avatar whose file is deleted; an error of the store is only logged.\<close>

definition replaced_avatar :: "RequestUserEditCurrentProfile \<Rightarrow> User \<Rightarrow> string list" where
  "replaced_avatar req u =
     (if re_AvatarUrl req \<noteq> '''' \<and> u_AvatarUrl u \<noteq> '''' \<and> \<not> has_prefix (u_AvatarUrl u) qq_avatar_prefix
      then [u_AvatarUrl u] else [])"

definition edit_fields ::
    "RequestUserEditCurrentProfile \<Rightarrow> User \<Rightarrow> User \<times> profile_field list \<times> string list" where
  "edit_fields req user =
     (let (u, cols) = edit_qq req (edit_email req (edit_username req (user, [])));
          (u', cols') = edit_avatar req (u, cols)
      in (u', cols', replaced_avatar req u))"

text \<open>The password, when one is to be set, and the update of the columns, with their errors.\<close>

definition edit_password ::
    "'db svc_env \<Rightarrow> RequestUserEditCurrentProfile \<Rightarrow> bool \<Rightarrow> User \<Rightarrow> User \<times> (ApiStatus + profile_field list)" where
  "edit_password E req skipPasswordVerify user =
     (if re_OriginPassword req \<noteq> '''' \<or> skipPasswordVerify then
        (case UpdateUserPassword (se_api E) user (re_OriginPassword req) (re_NewPassword req) skipPasswordVerify of
           (u, Inr password) \<Rightarrow> (u, Inr [FPassword password])
         | (u, Inl err) \<Rightarrow>
             (u, Inl (if err = ErrUserNotFound then StUserNotFound
                      else if err = ErrOldPassword then ErrOriginPassword else ErrDatabaseFail)))
      else (user, Inr []))"

definition edit_save :: "'db svc_env \<Rightarrow> User \<Rightarrow> profile_field list \<Rightarrow> 'db \<Rightarrow> 'db \<times> ApiStatus option" where
  "edit_save E user updateInfo db =
     (let (db', err) = UpdateUserInfo E user updateInfo db
      in (db', map_option (\<lambda>err. if err = ErrUserNotFound then StUserNotFound else ErrDatabaseFail) err))"

definition editUserProfile ::
    "'db svc_env \<Rightarrow> RequestUserEditCurrentProfile \<Rightarrow> bool \<Rightarrow> bool \<Rightarrow> 'db st \<Rightarrow>
     'db st \<times> (ApiStatus + User \<times> string)" where
  "editUserProfile E req skipEmailVerify skipPasswordVerify = (\<lambda>(s0, db).
     case edit_checks E req skipEmailVerify skipPasswordVerify s0 of
       (s, Some err) \<Rightarrow> ((s, db), Inl err)
     | (s, None) \<Rightarrow>
         (case GetUserByUid (se_api E) (re_ID req) db of
            (_, Some err) \<Rightarrow> ((s, db), Inl (if err = ErrUserNotFound then StUserNotFound else ErrDatabaseFail))
          | (user, None) \<Rightarrow>
              let oldValue = se_json_user E user
              in if (re_Username req \<noteq> '''' \<or> re_Email req \<noteq> '''') \<and>
                    fst (IsUserIdentifierTaken (se_api E) 0 (re_Username req) (re_Email req) db)
                 then ((s, db), Inl StIdentifierTaken)
                 else
                   let (user1, updateInfo, old) = edit_fields req user;
                       s1 = s\<lparr>sv_deleted := sv_deleted s @ old\<rparr>
                   in (case edit_password E req skipPasswordVerify user1 of
                         (user2, Inl err) \<Rightarrow> ((s1, db), Inl err)
                       | (user2, Inr password) \<Rightarrow>
                           (case edit_save E user2 (updateInfo @ password) db of
                              (db', Some err) \<Rightarrow> ((s1, db'), Inl err)
                            | (db', None) \<Rightarrow> ((s1, db'), Inr (user2, oldValue))))))"

definition EditCurrentProfile ::
    "'db svc_env \<Rightarrow> RequestUserEditCurrentProfile \<Rightarrow> 'db st \<Rightarrow> 'db st \<times> User ApiResponse" where
  "EditCurrentProfile E req st =
     (case editUserProfile E req False False st of
        (st', Inl err) \<Rightarrow> (st', fails err)
      | (st', Inr (user, _)) \<Rightarrow> (st', succeeds SuccessEditCurrentProfile user))"

definition SuccessEditUserProfile :: ApiStatus where "SuccessEditUserProfile = ApiStatus ''EDIT_USER_PROFILE'' Ok"

text \<open>The audit log names the new password in clear.\<close>

definition EditUserProfile ::
    "'db svc_env \<Rightarrow> RequestUserEditProfile \<Rightarrow> 'db st \<Rightarrow> 'db st \<times> User ApiResponse" where
  "EditUserProfile E req st =
     (let permission = hd_Permission (rp_header req); h = rp_header req
      in if permission \<le>s 0 then (st, fails ErrNoPermission)
         else if \<not> HasPermission permission UserEditBaseInfo then (st, fails ErrNoPermission)
         else
           let edit = (rp_edit req)\<lparr>re_ID := rp_TargetUid req\<rparr>
           in case editUserProfile E edit True (HasPermission permission UserSetPassword) st of
                (st', Inl err) \<Rightarrow> (st', fails err)
              | ((s, db), Inr (user, oldValue)) \<Rightarrow>
                  let object = (if re_NewPassword edit = '''' then fmt_0d 4 (u_Cid user)
                                else fmt_0d 4 (u_Cid user) @ ''('' @ re_NewPassword edit @ '')'');
                      entry = NewAuditLog UserInformationEdit (hd_Cid h) object (hd_Ip h) (hd_UserAgent h)
                                (Some \<lparr>cd_OldValue = oldValue, cd_NewValue = se_json_user E user\<rparr>)
                  in ((SaveAuditLog E entry s, db), succeeds SuccessEditUserProfile user))"

section \<open>Reading accounts\<close>

definition SuccessGetProfile :: ApiStatus where "SuccessGetProfile = ApiStatus ''GET_PROFILE_SUCCESS'' Ok"
definition SuccessGetUsers :: ApiStatus where "SuccessGetUsers = ApiStatus ''GET_USER_PAGE'' Ok"
definition SuccessGetControllers :: ApiStatus where "SuccessGetControllers = ApiStatus ''GET_CONTROLLER_PAGE'' Ok"
definition SuccessGetUserHistory :: ApiStatus where "SuccessGetUserHistory = ApiStatus ''GET_USER_HISTORY'' Ok"

definition GetUserProfile :: "'db svc_env \<Rightarrow> header \<Rightarrow> nat \<Rightarrow> 'db st \<Rightarrow> User ApiResponse" where
  "GetUserProfile E h targetUid = (\<lambda>(s, db).
     if targetUid = 0 then fails ErrIllegalParam
     else if hd_Permission h \<le>s 0 then fails ErrNoPermission
     else if \<not> HasPermission (hd_Permission h) UserGetProfile then fails ErrNoPermission
     else (case CallDBFuncAndCheckError (GetUserByUid (se_api E) targetUid db) of
             Inl res \<Rightarrow> fails res
           | Inr user \<Rightarrow> succeeds SuccessGetProfile user))"

definition GetUserList :: "'db svc_env \<Rightarrow> header \<Rightarrow> int \<Rightarrow> int \<Rightarrow> 'db st \<Rightarrow> page_of_users ApiResponse" where
  "GetUserList E h page pageSize = (\<lambda>(s, db).
     if page \<le> 0 \<or> pageSize \<le> 0 then fails ErrIllegalParam
     else if hd_Permission h \<le>s 0 then fails ErrNoPermission
     else if \<not> HasPermission (hd_Permission h) UserShowList then fails ErrNoPermission
     else (case GetUsers E page pageSize db of
             (users, count, Some err) \<Rightarrow> fails ErrDatabaseFail
           | (users, count, None) \<Rightarrow> succeeds SuccessGetUsers
               \<lparr>pg_Items = users, pg_Page = page, pg_PageSize = pageSize, pg_Total = count\<rparr>))"

definition GetControllerList :: "'db svc_env \<Rightarrow> header \<Rightarrow> int \<Rightarrow> int \<Rightarrow> 'db st \<Rightarrow> page_of_users ApiResponse" where
  "GetControllerList E h page pageSize = (\<lambda>(s, db).
     if page \<le> 0 \<or> pageSize \<le> 0 then fails ErrIllegalParam
     else if hd_Permission h \<le>s 0 then fails ErrNoPermission
     else if \<not> HasPermission (hd_Permission h) UserShowList then fails ErrNoPermission
     else (case GetControllers E page pageSize db of
             (users, count, Some err) \<Rightarrow> fails ErrDatabaseFail
           | (users, count, None) \<Rightarrow> succeeds SuccessGetControllers
               \<lparr>pg_Items = users, pg_Page = page, pg_PageSize = pageSize, pg_Total = count\<rparr>))"

definition GetUserHistory :: "'db svc_env \<Rightarrow> int \<Rightarrow> 'db st \<Rightarrow> ResponseGetUserHistory ApiResponse" where
  "GetUserHistory E cid = (\<lambda>(s, db).
     if cid \<le> 0 then fails ErrIllegalParam
     else (case CallDBFuncAndCheckError (GetUserByCid (se_api E) cid db) of
             Inl res \<Rightarrow> fails res
           | Inr user \<Rightarrow>
               (case CallDBFuncAndCheckError (op_GetUserHistory E cid db) of
                  Inl res \<Rightarrow> fails res
                | Inr userHistory \<Rightarrow> succeeds SuccessGetUserHistory
                    \<lparr>gh_History = userHistory, gh_TotalAtcTime = u_TotalAtcTime user,
                     gh_TotalPilotTime = u_TotalPilotTime user\<rparr>)))"

section \<open>Permissions and ratings\<close>

definition ErrPermissionNodeNotExists :: ApiStatus where "ErrPermissionNodeNotExists = ApiStatus ''PERMISSION_NODE_NOT_EXISTS'' BadRequest"
definition SuccessEditUserPermission :: ApiStatus where "SuccessEditUserPermission = ApiStatus ''EDIT_USER_PERMISSION'' Ok"

text \<open>
  The loop over the permissions of the request, in the order in which the map is visited: the
  permission of the target and the audit logs so far, or the error that ends it.
\<close>

fun edit_permissions ::
    "User \<Rightarrow> User \<Rightarrow> header \<Rightarrow> (string \<times> json_value) list \<Rightarrow> permission \<Rightarrow> AuditLog list \<Rightarrow>
     ApiStatus + permission \<times> AuditLog list" where
  "edit_permissions user targetUser h [] p logs = Inr (p, logs)"
| "edit_permissions user targetUser h ((key, val) # rest) p logs =
     (case PermissionMap key of
        None \<Rightarrow> Inl ErrPermissionNodeNotExists
      | Some per \<Rightarrow>
          if \<not> HasPermission (u_Permission user) per then Inl ErrNoPermission
          else
            (let entry = (\<lambda>event. NewAuditLog event (hd_Cid h) (fmt_0d 4 (u_Cid targetUser) @ ''('' @ key @ '')'')
                                    (hd_Ip h) (hd_UserAgent h) None)
             in case val of
                  JBool True \<Rightarrow> edit_permissions user targetUser h rest (Grant p per)
                                  (logs @ [entry UserPermissionGrant])
                | JBool False \<Rightarrow> edit_permissions user targetUser h rest (Revoke p per)
                                  (logs @ [entry UserPermissionRevoke])
                | JOther \<Rightarrow> Inl ErrIllegalParam))"

definition EditUserPermission ::
    "'db svc_env \<Rightarrow> RequestUserEditPermission \<Rightarrow> 'db st \<Rightarrow> 'db st \<times> User ApiResponse" where
  "EditUserPermission E req = (\<lambda>(s, db).
     if hd_Uid (rq_header req) = 0 then ((s, db), fails ErrIllegalParam)
     else (case GetUsersAndCheckPermission (se_api E) (hd_Uid (rq_header req)) (rq_TargetUid req)
                  UserEditPermission db of
             Inl res \<Rightarrow> ((s, db), fails res)
           | Inr (user, targetUser) \<Rightarrow>
               (case edit_permissions user targetUser (rq_header req) (rq_Permissions req)
                       (u_Permission targetUser) [] of
                  Inl err \<Rightarrow> ((s, db), fails err)
                | Inr (targetPermission, auditLogs) \<Rightarrow>
                    (let (targetUser', db', err) = UpdateUserPermission (se_api E) targetUser targetPermission db
                     in case CallDBFuncAndCheckError ((), err) of
                          Inl res \<Rightarrow> ((s, db'), fails res)
                        | Inr _ \<Rightarrow>
                            let s1 = (if et_EnablePermissionChangeEmail (em_Template (email_config E))
                                      then fst (SendPermissionChangeEmail E targetUser' user s) else s)
                            in ((SaveAuditLogs E auditLogs s1, db'),
                                succeeds SuccessEditUserPermission targetUser')))))"

definition ErrSameRating :: ApiStatus where "ErrSameRating = ApiStatus ''SAME_RATING'' BadRequest"
definition SuccessEditUserRating :: ApiStatus where "SuccessEditUserRating = ApiStatus ''EDIT_USER_RATING'' Ok"

text \<open>
  The goroutine that writes the audit log reads the names of the two ratings: an old rating
  outside the table panics there, where nothing recovers it, after the rating was written.
\<close>

definition EditUserRating ::
    "'db svc_env \<Rightarrow> header \<Rightarrow> nat \<Rightarrow> int \<Rightarrow> 'db st \<Rightarrow> ('db st \<times> User ApiResponse) go" where
  "EditUserRating E h targetUid rating = (\<lambda>(s, db).
     if hd_Uid h = 0 \<or> rating < Ban \<or> rating > Administrator then Inr ((s, db), fails ErrIllegalParam)
     else (case GetUsersAndCheckPermission (se_api E) (hd_Uid h) targetUid UserEditRating db of
             Inl res \<Rightarrow> Inr ((s, db), fails res)
           | Inr (user, targetUser) \<Rightarrow>
               let oldRating = u_Rating targetUser; newRating = rating
               in if oldRating = newRating then Inr ((s, db), fails ErrSameRating)
                  else
                    (let (targetUser', db', err) = UpdateUserRating (se_api E) targetUser newRating db
                     in case CallDBFuncAndCheckError ((), err) of
                          Inl res \<Rightarrow> Inr ((s, db'), fails res)
                        | Inr _ \<Rightarrow>
                            go_bind (Rating_String oldRating) (\<lambda>oldName.
                            go_bind (Rating_String newRating) (\<lambda>newName.
                              let entry = NewAuditLog UserRatingChange (hd_Cid h) (itoa (u_Cid targetUser'))
                                    (hd_Ip h) (hd_UserAgent h)
                                    (Some \<lparr>cd_OldValue = oldName, cd_NewValue = newName\<rparr>);
                                  s1 = SaveAuditLog E entry s
                              in go_bind (if et_EnableRatingChangeEmail (em_Template (email_config E))
                                          then SendRatingChangeEmail E targetUser' user oldRating newRating s1
                                          else Inr (s1, None))
                                   (\<lambda>(s2, _). Inr ((s2, db'), succeeds SuccessEditUserRating targetUser')))))))"

section \<open>Refreshing tokens\<close>

definition SuccessGetToken :: ApiStatus where "SuccessGetToken = ApiStatus ''GET_TOKEN'' Ok"

definition GetTokenWithFlushToken :: "'db svc_env \<Rightarrow> Claims \<Rightarrow> 'db st \<Rightarrow> ResponseToken ApiResponse" where
  "GetTokenWithFlushToken E req = (\<lambda>(s, db).
     if \<not> cl_FlushToken req then fails ErrIllegalParam
     else (case CallDBFuncAndCheckError (GetUserByUid (se_api E) (cl_Uid req) db) of
             Inl res \<Rightarrow> fails res
           | Inr user \<Rightarrow>
               let jwt = hs_JWT (se_config E);
                   flushToken = (if cl_ExpiresAt req - 2 * jwt_ExpiresDuration jwt > sv_now s then ''''
                                 else GenerateKey E (NewClaims jwt (sv_now s) user True));
                   token = NewClaims jwt (sv_now s) user False
               in succeeds SuccessGetToken
                    \<lparr>rt_User = user, rt_Token = GenerateKey E token, rt_FlushToken = flushToken\<rparr>))"

section \<open>Lemmas on the operations of an account\<close>

lemma is_success_status: "r_HttpCode (NewApiResponse st Unsatisfied d) = 200 \<longleftrightarrow> StatusCode st \<in> {Unsatisfied, Ok}"
  by (cases st; cases "StatusCode st") (auto simp: NewApiResponse_def)

lemmas account_status =
  ErrIllegalParam_def ErrNoPermission_def ErrDatabaseFail_def StUserNotFound_def ErrRegisterFail_def
  StIdentifierTaken_def ErrEmailNotFound_def ErrCidNotMatch_def ErrEmailExpired_def
  ErrEmailCodeInvalid_def SuccessRegister_def ErrOriginPasswordRequired_def ErrNewPasswordRequired_def
  ErrOriginPassword_def ErrQQInvalid_def SuccessEditCurrentProfile_def SuccessEditUserProfile_def
  ErrPermissionNodeNotExists_def SuccessEditUserPermission_def SuccessGetToken_def

lemma db_status_error: "StatusCode (db_status err) \<noteq> Ok" "StatusCode (db_status err) \<noteq> Unsatisfied"
  by (cases err; simp add: account_status)+

lemma CallDB_Inr: "CallDBFuncAndCheckError x = Inr r \<longleftrightarrow> x = (r, None)"
  by (auto simp: CallDBFuncAndCheckError_def split: prod.splits option.splits)

lemma CallDB_Inl: "CallDBFuncAndCheckError x = Inl st \<longleftrightarrow> (\<exists>r err. x = (r, Some err) \<and> st = db_status err)"
  by (auto simp: CallDBFuncAndCheckError_def split: prod.splits option.splits)

lemma CallDB_unit:
  "CallDBFuncAndCheckError ((), err) = (case err of None \<Rightarrow> Inr () | Some e \<Rightarrow> Inl (db_status e))"
  by (auto simp: CallDBFuncAndCheckError_def split: option.splits)

lemma GetUsers_Inl:
  "GetUsersAndCheckPermission A uid tid perm db = Inl res \<Longrightarrow> StatusCode res \<notin> {Unsatisfied, Ok}"
  by (auto simp: GetUsersAndCheckPermission_def CallDB_Inl db_status_error account_status
      split: sum.splits if_splits)

lemma GetUsers_Inr:
  "GetUsersAndCheckPermission A uid tid perm db = Inr (user, target) \<longleftrightarrow>
   GetUserByUid A uid db = (user, None) \<and> HasPermission (u_Permission user) perm \<and>
   GetUserByUid A tid db = (target, None)"
  by (auto simp: GetUsersAndCheckPermission_def CallDB_Inr CallDB_Inl split: sum.splits if_splits)

section \<open>Editing permissions\<close>

lemma permission_bit_inj: "i < 64 \<Longrightarrow> j < 64 \<Longrightarrow> permission_bit i = permission_bit j \<longleftrightarrow> i = j"
  by (metis bit_permission_bit)

lemma PermissionMap_bit: "PermissionMap key = Some per \<Longrightarrow> \<exists>i < 64. per = permission_bit i"
proof -
  assume "PermissionMap key = Some per"
  then have "(key, per) \<in> UNIV \<times> (permission_bit ` {..<64})"
    unfolding PermissionMap_def by (rule subsetD [rotated, OF map_of_SomeD]) (auto intro!: imageI)
  then show ?thesis by auto
qed

lemma PermissionMap_inj:
  assumes "PermissionMap k = Some per" and "PermissionMap k' = Some per"
  shows "k = k'"
proof -
  let ?table = "[(''AdminEntry'', permission_bit 0), (''UserShowList'', permission_bit 1),
      (''UserGetProfile'', permission_bit 2), (''UserEditBaseInfo'', permission_bit 4),
      (''UserEditPermission'', permission_bit 5), (''UserEditRating'', permission_bit 6),
      (''ActivityPublish'', permission_bit 7), (''ActivityShowList'', permission_bit 8),
      (''ActivityEdit'', permission_bit 9), (''ActivityEditState'', permission_bit 10),
      (''ActivityEditPilotState'', permission_bit 11), (''ActivityDelete'', permission_bit 12),
      (''ClientSendMessage'', permission_bit 14), (''ClientKill'', permission_bit 15)]"
  have "distinct (map snd ?table)" by (simp add: permission_bit_inj)
  moreover have "(k, per) \<in> set ?table" "(k', per) \<in> set ?table"
    using assms by (metis PermissionMap_def map_of_SomeD)+
  ultimately show ?thesis by (metis distinct_map inj_onD prod.inject snd_conv)
qed

lemma bit_Grant: "i < 64 \<Longrightarrow> HasPermission (Grant p q) (permission_bit i) \<longleftrightarrow>
    HasPermission p (permission_bit i) \<or> HasPermission q (permission_bit i)"
  by (simp add: HasPermission_Grant)

lemma bit_Revoke: "i < 64 \<Longrightarrow> HasPermission (Revoke p q) (permission_bit i) \<longleftrightarrow>
    HasPermission p (permission_bit i) \<and> \<not> HasPermission q (permission_bit i)"
  by (auto simp: HasPermission_bit Revoke_def bit_simps)

lemma HasPermission_bits: "i < 64 \<Longrightarrow> j < 64 \<Longrightarrow> HasPermission (permission_bit i) (permission_bit j) \<longleftrightarrow> i = j"
  by (auto simp: HasPermission_bit)

lemma edit_permissions_Inl:
  "edit_permissions user target h perms p logs = Inl err \<Longrightarrow> StatusCode err \<notin> {Unsatisfied, Ok}"
  by (induction user target h perms p logs rule: edit_permissions.induct)
    (auto simp: account_status Let_def split: option.splits if_splits json_value.splits bool.splits)

text \<open>The bits that the loop may change, and the bits it leaves as it found them.\<close>

lemma edit_permissions_keeps:
  assumes "edit_permissions user target h perms p logs = Inr (p', logs')" and "i < 64"
    and "\<not> HasPermission (u_Permission user) (permission_bit i) \<or> (\<forall>key \<in> fst ` set perms. PermissionMap key \<noteq> Some (permission_bit i))"
  shows "HasPermission p' (permission_bit i) \<longleftrightarrow> HasPermission p (permission_bit i)"
  using assms
proof (induction user target h perms p logs rule: edit_permissions.induct)
  case (2 user target h key val rest p logs)
  from "2.prems"(1) obtain per where per: "PermissionMap key = Some per" "HasPermission (u_Permission user) per"
    by (auto split: option.splits if_splits)
  then obtain j where j: "j < 64" "per = permission_bit j" using PermissionMap_bit by blast
  have "i \<noteq> j" using "2.prems"(3) per j by auto
  have rest: "\<not> HasPermission (u_Permission user) (permission_bit i) \<or>
      (\<forall>key \<in> fst ` set rest. PermissionMap key \<noteq> Some (permission_bit i))"
    using "2.prems"(3) by auto
  show ?case
  proof (cases val)
    case (JBool b)
    with "2.prems"(1) per \<open>i \<noteq> j\<close> j "2.IH"(1)[OF per(1) _ refl JBool] "2.IH"(2)[OF per(1) _ refl JBool]
      "2.prems"(2) rest
    show ?thesis by (cases b) (auto simp: bit_Grant bit_Revoke HasPermission_bits)
  next
    case JOther
    with "2.prems"(1) per show ?thesis by simp
  qed
qed simp

text \<open>Each node of a request without repetitions ends with the value that the request asks for.\<close>

lemma edit_permissions_sets:
  assumes "edit_permissions user target h perms p logs = Inr (p', logs')" and "distinct (map fst perms)"
    and "(key, JBool b) \<in> set perms" and "PermissionMap key = Some node"
  shows "HasPermission p' node \<longleftrightarrow> b"
  using assms
proof (induction user target h perms p logs rule: edit_permissions.induct)
  case (2 user target h k val rest p logs)
  from "2.prems"(1) obtain per where per: "PermissionMap k = Some per" "HasPermission (u_Permission user) per"
    by (auto split: option.splits if_splits)
  then obtain j where j: "j < 64" "per = permission_bit j" using PermissionMap_bit by blast
  obtain b' where b': "val = JBool b'" using "2.prems"(1) per by (cases val) auto
  let ?q = "if b' then Grant p per else Revoke p per"
  obtain logs1 where run: "edit_permissions user target h rest ?q logs1 = Inr (p', logs')"
    using "2.prems"(1) per b' by (cases b') auto
  show ?case
  proof (cases "k = key")
    case True
    with "2.prems" per b' have eq: "b = b'" "node = permission_bit j" "\<forall>x \<in> fst ` set rest. x \<noteq> key"
      using j by (force simp: image_iff)+
    then have "\<forall>x \<in> fst ` set rest. PermissionMap x \<noteq> Some (permission_bit j)"
      using PermissionMap_inj "2.prems"(4) by metis
    with edit_permissions_keeps [OF run j(1)] eq j show ?thesis
      by (cases b') (auto simp: bit_Grant bit_Revoke HasPermission_bits)
  next
    case False
    with "2.prems" have "(key, JBool b) \<in> set rest" "distinct (map fst rest)" by auto
    with "2.IH"(1)[OF per(1) _ refl b'] "2.IH"(2)[OF per(1) _ refl b'] "2.prems" per b'
    show ?thesis by (cases b') auto
  qed
qed simp

lemma UpdateUserPermission_fails:
  "UpdateUserPermission A user p db = (u, db', Some err) \<Longrightarrow> db' = db"
  by (auto simp: UpdateUserPermission_def transaction_def db_error_def Let_def split: prod.splits option.splits)

text \<open>
  C16. An administrator cannot pass on what he lacks: the permissions of an account change only on
  the request of an account that holds UserEditPermission in the database at that moment,
  whatever its token says; a node that the requester lacks stays as it was, as does every node
  the request does not name; every node that it names, once each, ends as it asks; and a request
  that is refused changes neither the database nor the mail and audit state.
\<close>

theorem permissions_not_escalated:
  assumes "EditUserPermission E req (s, db) = ((s', db'), r)" and "distinct (map fst (rq_Permissions req))"
  shows "if r_HttpCode r = 200
         then \<exists>user target target' p.
           GetUserByUid (se_api E) (hd_Uid (rq_header req)) db = (user, None) \<and>
           HasPermission (u_Permission user) UserEditPermission \<and>
           GetUserByUid (se_api E) (rq_TargetUid req) db = (target, None) \<and>
           UpdateUserPermission (se_api E) target p db = (target', db', None) \<and> r_Data r = Some target' \<and>
           (\<forall>i < 64. \<not> HasPermission (u_Permission user) (permission_bit i) \<or>
              (\<forall>key \<in> fst ` set (rq_Permissions req). PermissionMap key \<noteq> Some (permission_bit i)) \<longrightarrow>
              (HasPermission p (permission_bit i) \<longleftrightarrow> HasPermission (u_Permission target) (permission_bit i))) \<and>
           (\<forall>key b node. (key, JBool b) \<in> set (rq_Permissions req) \<and> PermissionMap key = Some node \<longrightarrow>
              (HasPermission p node \<longleftrightarrow> b))
         else s' = s \<and> db' = db"
proof (cases "hd_Uid (rq_header req) = 0")
  case True
  with assms(1) show ?thesis by (auto simp: EditUserPermission_def is_success_status account_status)
next
  case uid: False
  show ?thesis
  proof (cases "GetUsersAndCheckPermission (se_api E) (hd_Uid (rq_header req)) (rq_TargetUid req) UserEditPermission db")
    case (Inl res)
    with assms(1) uid GetUsers_Inl [OF Inl] show ?thesis
      by (auto simp: EditUserPermission_def is_success_status)
  next
    case (Inr ut)
    then obtain user target where ut: "GetUsersAndCheckPermission (se_api E) (hd_Uid (rq_header req))
        (rq_TargetUid req) UserEditPermission db = Inr (user, target)" by (cases ut) auto
    show ?thesis
    proof (cases "edit_permissions user target (rq_header req) (rq_Permissions req) (u_Permission target) []")
      case (Inl err)
      with assms(1) uid ut edit_permissions_Inl [OF Inl] show ?thesis
        by (auto simp: EditUserPermission_def is_success_status)
    next
      case (Inr pl)
      obtain p logs where pl: "pl = (p, logs)" by force
      obtain t' db1 err where upd: "UpdateUserPermission (se_api E) target p db = (t', db1, err)"
        by (metis prod_cases3)
      note run = assms(1) uid ut Inr pl upd
      show ?thesis
      proof (cases err)
        case None
        have "r_HttpCode r = 200" "db' = db1" "r_Data r = Some t'"
          using run None by (auto simp: EditUserPermission_def CallDB_unit Let_def is_success_status account_status)
        with upd None ut [unfolded GetUsers_Inr] edit_permissions_keeps [OF Inr [unfolded pl]]
          edit_permissions_sets [OF Inr [unfolded pl] assms(2)]
        show ?thesis by simp blast
      next
        case (Some e)
        have "s' = s \<and> db' = db1 \<and> r_HttpCode r \<noteq> 200"
          using run Some db_status_error [of e]
          by (auto simp: EditUserPermission_def CallDB_unit Let_def is_success_status)
        with UpdateUserPermission_fails [OF upd [unfolded Some]] show ?thesis by simp
      qed
    qed
  qed
qed

section \<open>Editing a profile\<close>

definition profile_only :: "RequestUserEditCurrentProfile \<Rightarrow> User \<Rightarrow> profile_edit \<Rightarrow> bool" where
  "profile_only req u0 e \<longleftrightarrow>
     u_ID (fst e) = u_ID u0 \<and> u_Cid (fst e) = u_Cid u0 \<and> u_Rating (fst e) = u_Rating u0 \<and>
     u_Permission (fst e) = u_Permission u0 \<and> u_Password (fst e) = u_Password u0 \<and>
     (\<forall>f \<in> set (snd e). (case f of FPassword h \<Rightarrow> False
        | FEmail m \<Rightarrow> m = re_Email req \<and> m \<noteq> '''' | _ \<Rightarrow> True))"

lemma profile_only_steps:
  "profile_only req u0 e \<Longrightarrow> profile_only req u0 (edit_username req e)"
  "profile_only req u0 e \<Longrightarrow> profile_only req u0 (edit_email req e)"
  "profile_only req u0 e \<Longrightarrow> profile_only req u0 (edit_qq req e)"
  "profile_only req u0 e \<Longrightarrow> profile_only req u0 (edit_avatar req e)"
  by (simp_all add: profile_only_def edit_username_def edit_email_def edit_qq_def edit_avatar_def case_prod_beta)

lemma edit_fields_profile:
  assumes "edit_fields req u = (v, cols, old)"
  shows "profile_only req u (v, cols)"
proof -
  have "profile_only req u (edit_avatar req (edit_qq req (edit_email req (edit_username req (u, [])))))"
    by (intro profile_only_steps) (simp add: profile_only_def)
  moreover have "edit_avatar req (edit_qq req (edit_email req (edit_username req (u, [])))) = (v, cols)"
    using assms by (simp add: edit_fields_def Let_def case_prod_beta prod_eq_iff)
  ultimately show ?thesis by simp
qed

lemma edit_checks_None:
  assumes "edit_checks E req skipEmail skipPassword s = (s', None)"
  shows "password_check E req skipPassword = None" "code_check E req skipEmail s = (s', None)"
proof -
  obtain s1 code where code: "code_check E req skipEmail s = (s1, code)" by force
  from assms have "(\<exists>u e. first_error [password_check E req skipPassword, u, e] = None) \<and>
      (\<exists>q. (s1, first_error [code, q]) = (s', None))"
    unfolding edit_checks_def Let_def code prod.case
    by (simp only: split: if_split_asm option.split_asm) blast+
  then show "password_check E req skipPassword = None" "code_check E req skipEmail s = (s', None)"
    using code by (auto simp: first_error_None simp del: first_error.simps)
qed

text \<open>A successful edit, taken apart.\<close>

lemma editUserProfile_Inr:
  assumes "editUserProfile E req skipEmail skipPassword (s0, db) = ((s', db'), Inr (user2, oldValue))"
  obtains s user user1 cols old cols2 where
    "edit_checks E req skipEmail skipPassword s0 = (s, None)"
    "GetUserByUid (se_api E) (re_ID req) db = (user, None)"
    "edit_fields req user = (user1, cols, old)"
    "UpdateUserInfo E user2 (cols @ cols2) db = (db', None)"
    "if re_OriginPassword req \<noteq> '''' \<or> skipPassword
     then \<exists>h. cols2 = [FPassword h] \<and>
       UpdateUserPassword (se_api E) user1 (re_OriginPassword req) (re_NewPassword req) skipPassword = (user2, Inr h)
     else cols2 = [] \<and> user2 = user1"
proof -
  obtain s where 1: "edit_checks E req skipEmail skipPassword s0 = (s, None)"
    using assms by (auto simp: editUserProfile_def split: prod.splits option.splits)
  obtain user where 2: "GetUserByUid (se_api E) (re_ID req) db = (user, None)"
    using assms 1 by (auto simp: editUserProfile_def split: prod.splits option.splits)
  obtain user1 cols old where 3: "edit_fields req user = (user1, cols, old)" by (metis prod_cases3)
  obtain u res where 4: "edit_password E req skipPassword user1 = (u, res)" by force
  obtain cols2 where 5: "res = Inr cols2"
    using assms 1 2 3 4 by (cases res) (auto simp: editUserProfile_def Let_def split: if_splits)
  obtain db1 err where 6: "edit_save E u (cols @ cols2) db = (db1, err)" by force
  have "err = None" "db1 = db'" "u = user2"
    using assms 1 2 3 4 5 6
    by (cases err; auto simp: editUserProfile_def Let_def split: if_splits)+
  with 1 2 3 4 5 6 show thesis
    by (intro that [OF 1 2 3, of cols2])
      (auto simp: edit_save_def edit_password_def Let_def split: if_splits prod.splits sum.splits)
qed

lemma verifyEmailCode_error: "verifyEmailCode E e c i s = (s', Some st) \<Longrightarrow> is_error st"
  by (auto simp: verifyEmailCode_def Let_def account_status is_error_def
      split: prod.splits option.splits mail_error.splits)

lemma edit_stage_errors:
  "password_check E req skip = Some st \<Longrightarrow> is_error st"
  "code_check E req skip s = (s', Some st) \<Longrightarrow> is_error st"
  "checkQQ qq = Some st \<Longrightarrow> is_error st"
  "edit_password E req skip u = (u', Inl st) \<Longrightarrow> is_error st"
  "edit_save E u cols db = (db', Some st) \<Longrightarrow> is_error st"
proof -
  show "password_check E req skip = Some st \<Longrightarrow> is_error st"
    by (auto simp: password_check_def validator_errors split: if_splits) (auto simp: is_error_def account_status)
  show "code_check E req skip s = (s', Some st) \<Longrightarrow> is_error st"
    by (auto simp: code_check_def verifyEmailCode_error split: if_splits) (auto simp: is_error_def account_status)
  show "checkQQ qq = Some st \<Longrightarrow> is_error st"
    by (auto simp: checkQQ_def is_error_def account_status split: if_splits)
  show "edit_password E req skip u = (u', Inl st) \<Longrightarrow> is_error st"
    by (auto simp: edit_password_def is_error_def account_status split: if_splits prod.splits sum.splits)
  show "edit_save E u cols db = (db', Some st) \<Longrightarrow> is_error st"
    by (auto simp: edit_save_def Let_def is_error_def account_status split: if_splits prod.splits)
qed

lemma edit_checks_error:
  assumes "edit_checks E req skipEmail skipPassword s = (s', Some st)"
  shows "is_error st"
proof -
  obtain s1 code where code: "code_check E req skipEmail s = (s1, code)" by force
  let ?limits = "hs_Limits (se_config E)"
  let ?u = "check_if (re_Username req \<noteq> '''') (CheckString (usernameValidator ?limits) (re_Username req))"
  let ?e = "check_if (re_Email req \<noteq> '''') (CheckString (emailValidator ?limits) (re_Email req))"
  let ?q = "check_if (re_QQ req > 0) (checkQQ (re_QQ req))"
  have "Some ErrIllegalParam = Some st \<or> first_error [password_check E req skipPassword, ?u, ?e] = Some st \<or>
        first_error [code, ?q] = Some st"
    using assms unfolding edit_checks_def Let_def code prod.case
    by (simp only: split: if_split_asm option.split_asm) simp_all
  then have "Some st \<in> {Some ErrIllegalParam, password_check E req skipPassword, ?u, ?e, code, ?q}"
    by (auto dest: first_error_Some simp del: first_error.simps)
  moreover have "Some ErrIllegalParam = Some st \<Longrightarrow> is_error st" by (auto simp: is_error_def account_status)
  moreover have "?u = Some st \<Longrightarrow> is_error st" by (rule validator_errors(1) [OF check_if_Some])
  moreover have "?e = Some st \<Longrightarrow> is_error st" by (rule validator_errors(3) [OF check_if_Some])
  moreover have "?q = Some st \<Longrightarrow> is_error st" by (rule edit_stage_errors(3) [OF check_if_Some])
  moreover have "code = Some st \<Longrightarrow> is_error st" using code edit_stage_errors(2) by simp
  moreover note edit_stage_errors(1) [of E req skipPassword st]
  ultimately show ?thesis by (elim insertE) (simp_all only: refl empty_iff)
qed

lemma editUserProfile_Inl:
  assumes "editUserProfile E req skipEmail skipPassword (s0, db) = (st', Inl err)"
  shows "is_error err"
proof (rule ccontr)
  assume ok: "\<not> is_error err"
  have st: "is_error StUserNotFound" "is_error ErrDatabaseFail" "is_error StIdentifierTaken"
    by (simp_all add: is_error_def account_status)
  obtain s where 1: "edit_checks E req skipEmail skipPassword s0 = (s, None)"
    using assms ok edit_checks_error [of E req skipEmail skipPassword s0]
    by (cases "edit_checks E req skipEmail skipPassword s0"; cases "snd (edit_checks E req skipEmail skipPassword s0)")
      (auto simp: editUserProfile_def)
  obtain user where 2: "GetUserByUid (se_api E) (re_ID req) db = (user, None)"
    using assms ok st 1 by (auto simp: editUserProfile_def split: prod.splits option.splits if_splits)
  obtain user1 cols old where 3: "edit_fields req user = (user1, cols, old)" by (metis prod_cases3)
  obtain u res where 4: "edit_password E req skipPassword user1 = (u, res)" by force
  obtain cols2 where 5: "res = Inr cols2"
    using assms ok st 1 2 3 4 by (cases res) (auto simp: editUserProfile_def Let_def dest: edit_stage_errors(4) split: if_splits)
  obtain db1 e where 6: "edit_save E u (cols @ cols2) db = (db1, e)" by force
  show False
    using assms ok st 1 2 3 4 5 6
    by (cases e; auto simp: editUserProfile_def Let_def dest: edit_stage_errors(5) split: if_splits)
qed

lemma verifyEmailCode_None:
  assumes "verifyEmailCode E email code cid s = (s', None)"
  shows "VerifyCode E email code cid s = (s', None)"
proof -
  obtain err where v: "VerifyCode E email code cid s = (s', err)" "(case err of
      Some ErrEmailCodeNotFound \<Rightarrow> Some ErrEmailNotFound | Some ErrEmailCodeExpired \<Rightarrow> Some ErrEmailExpired
    | Some ErrInvalidEmailCode \<Rightarrow> Some ErrEmailCodeInvalid | Some ErrCidMismatch \<Rightarrow> Some ErrCidNotMatch
    | _ \<Rightarrow> None) = None"
    using assms by (auto simp: verifyEmailCode_def Let_def case_prod_beta prod_eq_iff)
  have "err \<in> {None, Some ErrEmailCodeNotFound, Some ErrEmailCodeExpired, Some ErrInvalidEmailCode, Some ErrCidMismatch}"
    using v(1) by (auto simp: VerifyCode_def Let_def split: if_splits option.splits)
  with v show ?thesis by auto
qed

lemma EditCurrentProfile_success:
  assumes "EditCurrentProfile E req (s0, db) = ((s', db'), r)" and "r_HttpCode r = 200"
  shows "\<exists>user2 oldValue. editUserProfile E req False False (s0, db) = ((s', db'), Inr (user2, oldValue)) \<and>
           r_Data r = Some user2"
proof (cases "editUserProfile E req False False (s0, db)")
  case (Pair st' res)
  with assms show ?thesis
    by (cases res) (auto simp: EditCurrentProfile_def split: prod.splits dest!: editUserProfile_Inl error_response)
qed

text \<open>
  C26. What an account can do to itself: a successful edit of the own profile changes the row of
  the account and keeps its cid, rating and permissions; a new password is stored only when the
  old one was given and verified against the row, as a hash of the new one, whose length is
  within the limits; and a new address only when the code sent to it was accepted.
\<close>

theorem own_profile_edit:
  assumes "EditCurrentProfile E req (s0, db) = ((s', db'), r)" and "r_HttpCode r = 200"
  shows "\<exists>user new cols. GetUserByUid (se_api E) (re_ID req) db = (user, None) \<and> r_Data r = Some new \<and>
           UpdateUserInfo E new cols db = (db', None) \<and>
           (u_ID new, u_Cid new, u_Rating new, u_Permission new) =
             (u_ID user, u_Cid user, u_Rating user, u_Permission user) \<and>
           (\<forall>h. FPassword h \<in> set cols \<longrightarrow>
              VerifyUserPassword (se_api E) user (re_OriginPassword req) \<and>
              generate_hash (se_api E) (re_NewPassword req) = Some h \<and>
              CheckString (passwordValidator (hs_Limits (se_config E))) (re_NewPassword req) = None) \<and>
           (\<forall>e. FEmail e \<in> set cols \<longrightarrow>
              e = re_Email req \<and> snd (VerifyCode E e (re_EmailCode req) (re_Cid req) s0) = None)"
proof -
  obtain user2 oldValue where r: "r_Data r = Some user2"
    and "editUserProfile E req False False (s0, db) = ((s', db'), Inr (user2, oldValue))"
    using EditCurrentProfile_success [OF assms] by blast
  from this(2) obtain s user user1 cols old cols2 where e: "edit_checks E req False False s0 = (s, None)"
    "GetUserByUid (se_api E) (re_ID req) db = (user, None)" "edit_fields req user = (user1, cols, old)"
    "UpdateUserInfo E user2 (cols @ cols2) db = (db', None)"
    and pw: "if re_OriginPassword req \<noteq> '''' \<or> False
     then \<exists>h. cols2 = [FPassword h] \<and>
       UpdateUserPassword (se_api E) user1 (re_OriginPassword req) (re_NewPassword req) False = (user2, Inr h)
     else cols2 = [] \<and> user2 = user1"
    by (rule editUserProfile_Inr)
  note prof = edit_fields_profile [OF e(3), unfolded profile_only_def fst_conv snd_conv]
  note checks = edit_checks_None [OF e(1)]
  have pass: "FPassword h \<in> set cols2 \<Longrightarrow> VerifyUserPassword (se_api E) user (re_OriginPassword req) \<and>
      generate_hash (se_api E) (re_NewPassword req) = Some h \<and>
      CheckString (passwordValidator (hs_Limits (se_config E))) (re_NewPassword req) = None" for h
    using pw checks(1) prof
    by (auto simp: UpdateUserPassword_def VerifyUserPassword_def password_check_def split: if_splits option.splits)
  have fields: "(u_ID user2, u_Cid user2, u_Rating user2, u_Permission user2) =
      (u_ID user, u_Cid user, u_Rating user, u_Permission user)"
    using pw prof by (auto simp: UpdateUserPassword_def split: if_splits option.splits)
  have mail: "m = re_Email req \<and> snd (VerifyCode E m (re_EmailCode req) (re_Cid req) s0) = None"
    if "FEmail m \<in> set (cols @ cols2)" for m
  proof -
    have "FEmail m \<in> set cols" using that pw by (auto split: if_splits)
    then have "m = re_Email req" "m \<noteq> ''''" using prof by auto
    then show ?thesis
      using checks(2) by (auto simp: code_check_def dest: verifyEmailCode_None split: if_splits)
  qed
  have "FPassword h \<in> set (cols @ cols2) \<Longrightarrow> FPassword h \<in> set cols2" for h using prof by auto
  with e(2,4) r fields pass mail show ?thesis by blast
qed

text \<open>
  An administrator's edit clears the password: when the editor's token has UserSetPassword and
  the request names no new password, a successful edit of any other field stores the hash of the
  empty password, which then verifies, so that the account can be used without a password.
\<close>

theorem admin_edit_clears_password:
  assumes "EditUserProfile E req (s0, db) = ((s', db'), r)" and "r_HttpCode r = 200"
    and "HasPermission (hd_Permission (rp_header req)) UserSetPassword"
    and "re_NewPassword (rp_edit req) = ''''"
    and "\<forall>p h. generate_hash (se_api E) p = Some h \<longrightarrow> compare_hash (se_api E) h p"
  shows "\<exists>user cols. r_Data r = Some user \<and> VerifyUserPassword (se_api E) user '''' \<and>
           FPassword (u_Password user) \<in> set cols \<and> UpdateUserInfo E user cols db = (db', None)"
proof -
  let ?edit = "(rp_edit req)\<lparr>re_ID := rp_TargetUid req\<rparr>"
  have ok: "\<not> hd_Permission (rp_header req) \<le>s 0" "HasPermission (hd_Permission (rp_header req)) UserEditBaseInfo"
  proof -
    have "r_HttpCode (fails ErrNoPermission :: User ApiResponse) \<noteq> 200"
      by (simp add: is_success_status account_status)
    with assms(1,2) show "\<not> hd_Permission (rp_header req) \<le>s 0"
      "HasPermission (hd_Permission (rp_header req)) UserEditBaseInfo"
      by (auto simp: EditUserProfile_def Let_def split del: prod.splits) (metis snd_conv)+
  qed
  obtain s1 db1 res where run: "editUserProfile E ?edit True True (s0, db) = ((s1, db1), res)"
    by (metis prod.collapse)
  have eq: "EditUserProfile E req (s0, db) = (case res of
      Inl err \<Rightarrow> ((s1, db1), fails err)
    | Inr (user, oldValue) \<Rightarrow> (fst (EditUserProfile E req (s0, db)), succeeds SuccessEditUserProfile user))"
    "res = Inr (user, oldValue) \<Longrightarrow> snd (fst (EditUserProfile E req (s0, db))) = db1" for user oldValue
    using ok assms(3) run by (auto simp: EditUserProfile_def Let_def split: sum.split)
  obtain user oldValue where res: "res = Inr (user, oldValue)"
    using assms(1,2) eq(1) run by (cases res) (auto dest!: error_response editUserProfile_Inl)
  have db: "db1 = db'" "r_Data r = Some user"
    using assms(1) eq res by auto
  from run [unfolded res] obtain user1 cols cols2 where
    up: "UpdateUserInfo E user (cols @ cols2) db = (db1, None)" and
    pw: "\<exists>h. cols2 = [FPassword h] \<and>
      UpdateUserPassword (se_api E) user1 (re_OriginPassword ?edit) (re_NewPassword ?edit) True = (user, Inr h)"
    by (rule editUserProfile_Inr) simp
  from pw obtain h where "cols2 = [FPassword h]" "generate_hash (se_api E) '''' = Some h" "u_Password user = h"
    using assms(4) by (auto simp: UpdateUserPassword_def split: option.splits)
  with up db assms(5) show ?thesis
    by (intro exI [of _ user] exI [of _ "cols @ cols2"]) (simp add: VerifyUserPassword_def)
qed

section \<open>Registration\<close>

lemma AddUser_result:
  assumes "AddUser A user db = (db', err)"
  shows "err \<noteq> None \<Longrightarrow> db' = db"
    "err = None \<Longrightarrow> IsUserIdentifierTaken A (u_Cid user) (u_Username user) (u_Email user) db = (False, None)"
proof -
  show "err \<noteq> None \<Longrightarrow> db' = db"
    using assms by (auto simp: AddUser_def transaction_def split: prod.splits option.splits)
  show "err = None \<Longrightarrow> IsUserIdentifierTaken A (u_Cid user) (u_Username user) (u_Email user) db = (False, None)"
    using assms by (auto simp: AddUser_def transaction_def split: prod.splits option.splits if_splits)
qed

lemma UserRegister_result:
  assumes "UserRegister E req (s, db) = ((s', db'), r)"
  shows "if r_HttpCode r = 200
         then VerifyCode E (rr_Email req) (rr_EmailCode req) (rr_Cid req) s = (s', None) \<and>
           (let l = hs_Limits (se_config E) in
              CheckString (usernameValidator l) (rr_Username req) = None \<and>
              CheckString (emailValidator l) (rr_Email req) = None \<and>
              CheckString (passwordValidator l) (rr_Password req) = None \<and>
              CheckInt (cidValidator l) (rr_Cid req) = None) \<and>
           IsUserIdentifierTaken (se_api E) (rr_Cid req) (rr_Username req) (rr_Email req) db = (False, None) \<and>
           (\<exists>user. AddUser (se_api E) user db = (db', None) \<and>
              generate_hash (se_api E) (rr_Password req) = Some (u_Password user) \<and>
              (u_Cid user, u_Username user, u_Email user, u_Rating user, u_Permission user) =
                (rr_Cid req, rr_Username req, rr_Email req, Normal, 0) \<and>
              r_Data r = Some (tokens E (user\<lparr>u_ID := se_created_id E user db'\<rparr>) s'))
         else db' = db"
proof -
  let ?l = "hs_Limits (se_config E)"
  let ?bad = "rr_Username req = '''' \<or> rr_Email req = '''' \<or> rr_Password req = '''' \<or> rr_Cid req \<le> 0 \<or>
        rr_EmailCode req < 100000"
  obtain s1 res where v: "verifyEmailCode E (rr_Email req) (rr_EmailCode req) (rr_Cid req) s = (s1, res)" by force
  let ?L = "[res, CheckString (usernameValidator ?l) (rr_Username req), CheckString (emailValidator ?l) (rr_Email req),
      CheckString (passwordValidator ?l) (rr_Password req), CheckInt (cidValidator ?l) (rr_Cid req)]"
  consider (bad) "?bad" | (check) st where "\<not> ?bad" "first_error ?L = Some st"
    | (hash) "\<not> ?bad" "first_error ?L = None" "generate_hash (se_api E) (rr_Password req) = None"
    | (add) h where "\<not> ?bad" "first_error ?L = None" "generate_hash (se_api E) (rr_Password req) = Some h"
    by (metis not_Some_eq)
  then show ?thesis
  proof cases
    case bad
    with assms show ?thesis by (auto simp: UserRegister_def is_success_status account_status)
  next
    case (check st)
    have "is_error st"
      using first_error_Some [OF check(2)] v validator_errors verifyEmailCode_error by auto
    with assms check v show ?thesis
      by (simp add: UserRegister_def del: first_error.simps) (metis Pair_inject error_response)
  next
    case hash
    with assms v show ?thesis
      by (auto simp: UserRegister_def NewUser_def is_success_status account_status simp del: first_error.simps)
  next
    case (add h)
    then obtain user where user: "NewUser (se_api E) (rr_Username req) (rr_Email req) (rr_Cid req) (rr_Password req) = Inr user"
      "(u_Cid user, u_Username user, u_Email user, u_Rating user, u_Permission user, u_Password user) =
       (rr_Cid req, rr_Username req, rr_Email req, Normal, 0, h)"
      by (auto simp: NewUser_def)
    obtain db1 err where a: "AddUser (se_api E) user db = (db1, err)" by force
    have checks: "res = None" "CheckString (usernameValidator ?l) (rr_Username req) = None \<and>
        CheckString (emailValidator ?l) (rr_Email req) = None \<and>
        CheckString (passwordValidator ?l) (rr_Password req) = None \<and> CheckInt (cidValidator ?l) (rr_Cid req) = None"
      using add(2) by (simp_all only: first_error_None list.set ball_simps)
    show ?thesis
    proof (cases err)
      case None
      have "s' = s1" "db' = db1" "r = succeeds SuccessRegister (tokens E (user\<lparr>u_ID := se_created_id E user db1\<rparr>) s1)"
        using assms add v user(1) a None
        by (auto simp: UserRegister_def CallDB_unit simp del: first_error.simps)
      moreover have "VerifyCode E (rr_Email req) (rr_EmailCode req) (rr_Cid req) s = (s1, None)"
        using v checks(1) verifyEmailCode_None by simp
      ultimately show ?thesis
        using a None user checks(2) AddUser_result(2) [OF a] add(3)
        by (auto simp: is_success_status account_status Let_def)
    next
      case (Some e)
      have "r_HttpCode r \<noteq> 200" "db' = db1"
        using assms add v user(1) a Some db_status_error [of e]
        by (auto simp: UserRegister_def CallDB_unit is_success_status simp del: first_error.simps)
      with AddUser_result(1) [OF a] Some show ?thesis by simp
    qed
  qed
qed

text \<open>
  C24. Registration: an account is created only with an unused code for its address and cid, with a
  user name, an address, a password and a cid within the limits, and when no account has one of
  its identifiers; it starts with rating Normal and without permissions, its password is stored
  as a hash, and the response carries its tokens. Every other response is an error and leaves the
  database as it was.
\<close>

theorem registration:
  assumes "UserRegister E req (s, db) = ((s', db'), r)"
  shows "if r_HttpCode r = 200
         then VerifyCode E (rr_Email req) (rr_EmailCode req) (rr_Cid req) s = (s', None) \<and>
           (let l = hs_Limits (se_config E) in
              CheckString (usernameValidator l) (rr_Username req) = None \<and>
              CheckString (emailValidator l) (rr_Email req) = None \<and>
              CheckString (passwordValidator l) (rr_Password req) = None \<and>
              CheckInt (cidValidator l) (rr_Cid req) = None) \<and>
           IsUserIdentifierTaken (se_api E) (rr_Cid req) (rr_Username req) (rr_Email req) db = (False, None) \<and>
           (\<exists>user. AddUser (se_api E) user db = (db', None) \<and>
              generate_hash (se_api E) (rr_Password req) = Some (u_Password user) \<and>
              (u_Cid user, u_Username user, u_Email user, u_Rating user, u_Permission user) =
                (rr_Cid req, rr_Username req, rr_Email req, Normal, 0) \<and>
              r_Data r = Some (tokens E (user\<lparr>u_ID := se_created_id E user db'\<rparr>) s'))
         else db' = db"
  using assms by (rule UserRegister_result)

section \<open>Keeping a session alive\<close>

text \<open>
  The claims of the refresh token that a client has after a response: the new one, or the old one
  when the response carries none.
\<close>

definition token_in_hand :: "'db svc_env \<Rightarrow> Claims \<Rightarrow> int \<Rightarrow> ResponseToken \<Rightarrow> Claims" where
  "token_in_hand E claim now resp =
     (if rt_FlushToken resp = '''' then claim else NewClaims (hs_JWT (se_config E)) now (rt_User resp) True)"

text \<open>
  A client refreshes at the given times with the token it has; it is refused when the token has
  expired, which the JWT middleware checks, or when the response is an error.
\<close>

fun refresh_all :: "'db svc_env \<Rightarrow> svc \<Rightarrow> 'db \<Rightarrow> Claims \<Rightarrow> int list \<Rightarrow> bool" where
  "refresh_all E s db claim [] = True"
| "refresh_all E s db claim (t # ts) =
     (t \<le> cl_ExpiresAt claim \<and>
      (case r_Data (GetTokenWithFlushToken E claim (s\<lparr>sv_now := t\<rparr>, db)) of
         None \<Rightarrow> False
       | Some resp \<Rightarrow> refresh_all E s db (token_in_hand E claim t resp) ts))"

lemma refresh_step:
  assumes "GetUserByUid (se_api E) (cl_Uid claim) db = (user, None)" and "cl_FlushToken claim"
    and "\<forall>k c. se_sign E k c \<noteq> ''''" and "0 \<le> jwt_ExpiresDuration (hs_JWT (se_config E))"
    and "0 \<le> jwt_RefreshDuration (hs_JWT (se_config E))" and "u_ID user = cl_Uid claim"
  shows "\<exists>resp. r_Data (GetTokenWithFlushToken E claim (s\<lparr>sv_now := t\<rparr>, db)) = Some resp \<and>
           (let c = token_in_hand E claim t resp
            in cl_FlushToken c \<and> cl_Uid c = cl_Uid claim \<and>
               t + jwt_ExpiresDuration (hs_JWT (se_config E)) \<le> cl_ExpiresAt c)"
  using assms
  by (simp add: GetTokenWithFlushToken_def CallDBFuncAndCheckError_def token_in_hand_def GenerateKey_def
      NewClaims_def Let_def)

text \<open>
  A session lives as long as its client refreshes: as long as the account exists, a client
  that starts with a refresh token that has not expired, and asks for a new access token no later
  than the last one it got expires, is never refused, however often it does so.
\<close>

theorem refresh_keeps_session:
  assumes "GetUserByUid (se_api E) (cl_Uid claim) db = (user, None)" and "u_ID user = cl_Uid claim"
    and "cl_FlushToken claim" and "\<forall>k c. se_sign E k c \<noteq> ''''"
    and "0 \<le> jwt_ExpiresDuration (hs_JWT (se_config E))" and "0 \<le> jwt_RefreshDuration (hs_JWT (se_config E))"
    and "t0 \<le> cl_ExpiresAt claim"
    and "successively (\<lambda>t t'. t' \<le> t + jwt_ExpiresDuration (hs_JWT (se_config E))) (t0 # ts)"
  shows "refresh_all E s db claim (t0 # ts)"
  using assms
proof (induction ts arbitrary: claim t0)
  case Nil
  from refresh_step [OF Nil(1,3,4,5,6,2), where s = s and t = t0] Nil(7) show ?case by auto
next
  case (Cons t ts)
  from refresh_step [OF Cons.prems(1,3,4,5,6,2), where s = s and t = t0] obtain resp where
    resp: "r_Data (GetTokenWithFlushToken E claim (s\<lparr>sv_now := t0\<rparr>, db)) = Some resp"
    and c: "cl_FlushToken (token_in_hand E claim t0 resp)" "cl_Uid (token_in_hand E claim t0 resp) = cl_Uid claim"
      "t0 + jwt_ExpiresDuration (hs_JWT (se_config E)) \<le> cl_ExpiresAt (token_in_hand E claim t0 resp)"
    by (auto simp: Let_def)
  have "refresh_all E s db (token_in_hand E claim t0 resp) (t # ts)"
    by (rule Cons.IH) (use Cons.prems c in auto)
  with resp Cons.prems(7) show ?case by simp
qed

section \<open>Examples\<close>

definition example_admin :: User where
  "example_admin = zero_User
     \<lparr>u_ID := 1, u_Username := ''admin'', u_Email := ''admin@x'', u_Cid := 1000, u_Password := ''$secret'',
      u_Permission := Grant UserEditPermission (Grant ClientKill (Grant UserEditBaseInfo UserSetPassword))\<rparr>"

definition example_pilot :: User where
  "example_pilot = zero_User
     \<lparr>u_ID := 2, u_Username := ''pilot'', u_Email := ''pilot@x'', u_Cid := 1001, u_Password := ''$wings''\<rparr>"

definition example_users :: memory where
  "example_users = empty_memory\<lparr>m_users := [example_admin, example_pilot]\<rparr>"

definition example_header :: header where
  "example_header = \<lparr>hd_Uid = 1, hd_Permission = Grant UserEditBaseInfo UserSetPassword, hd_Cid = 1000,
     hd_Ip = ''ip'', hd_UserAgent = ''ua''\<rparr>"

definition empty_edit :: RequestUserEditCurrentProfile where
  "empty_edit = \<lparr>re_ID = 0, re_Cid = 0, re_Username = '''', re_Email = '''', re_EmailCode = 0, re_AvatarUrl = '''',
     re_QQ = 0, re_OriginPassword = '''', re_NewPassword = ''''\<rparr>"

lemma example_lookup [simp]:
  "GetUserByUid memory_api 1 example_users = (example_admin, None)"
  "GetUserByUid memory_api (Suc 0) example_users = (example_admin, None)"
  "GetUserByUid memory_api 2 example_users = (example_pilot, None)"
  by (simp_all add: GetUserByUid_def memory_api_def first_such_def found_user_def example_users_def
      example_admin_def example_pilot_def empty_memory_def zero_User_def)

lemma example_fields [simp]:
  "u_ID example_pilot = 2" "u_Cid example_pilot = 1001" "u_Password example_pilot = ''$wings''"
  "u_ID example_admin = 1" "u_QQ example_pilot = 0" "u_AvatarUrl example_pilot = ''''"
  by (simp_all add: example_pilot_def example_admin_def zero_User_def)

lemma memory_UpdateUserPermission:
  "UpdateUserPermission memory_api u p m = (u\<lparr>u_Permission := p\<rparr>,
     m\<lparr>m_users := replace_by (\<lambda>v. u_ID v = u_ID u) (\<lambda>v. v\<lparr>u_Permission := p\<rparr>) (m_users m)\<rparr>, None)"
  by (simp add: UpdateUserPermission_def transaction_def memory_api_def db_error_def)

lemma memory_hash [simp]:
  "generate_hash memory_api p = Some (CHR ''$'' # p)" "compare_hash memory_api h p \<longleftrightarrow> h = CHR ''$'' # p"
  by (simp_all add: memory_api_def)

lemma example_permissions:
  "HasPermission (u_Permission example_admin) UserEditPermission"
  "HasPermission (u_Permission example_admin) ClientKill"
  "PermissionMap ''ClientKill'' = Some ClientKill"
  by (simp_all add: example_admin_def HasPermission_Grant HasPermission_bits PermissionMap_def)

theorem permissions_not_escalated_witness:
  "HasPermission (u_Permission (the (r_Data (snd (EditUserPermission example_svc_env
      \<lparr>rq_header = example_header, rq_TargetUid = 2, rq_Permissions = [(''ClientKill'', JBool True)]\<rparr>
      (example_svc, example_users)))))) ClientKill"
proof -
  let ?req = "\<lparr>rq_header = example_header, rq_TargetUid = 2, rq_Permissions = [(''ClientKill'', JBool True)]\<rparr>"
  obtain s' db' r where run: "EditUserPermission example_svc_env ?req (example_svc, example_users) = ((s', db'), r)"
    by (metis prod.collapse)
  have "r_HttpCode r = 200"
    using run
    by (auto simp: EditUserPermission_def GetUsersAndCheckPermission_def CallDBFuncAndCheckError_def
        example_header_def example_permissions memory_UpdateUserPermission is_success_status account_status Let_def)
  with permissions_not_escalated [OF run] obtain target target' p where
    "UpdateUserPermission memory_api target p example_users = (target', db', None)" "r_Data r = Some target'"
    "HasPermission p ClientKill"
    using example_permissions(3) by auto
  with run show ?thesis by (auto simp: UpdateUserPermission_def Let_def split: prod.splits)
qed

theorem own_profile_edit_witness:
  "u_Cid (the (r_Data (snd (EditCurrentProfile example_svc_env
     (empty_edit\<lparr>re_ID := 2, re_OriginPassword := ''wings'', re_NewPassword := ''wings2''\<rparr>)
     (example_svc, example_users))))) = 1001"
proof -
  let ?req = "empty_edit\<lparr>re_ID := 2, re_OriginPassword := ''wings'', re_NewPassword := ''wings2''\<rparr>"
  obtain s' db' r where run: "EditCurrentProfile example_svc_env ?req (example_svc, example_users) = ((s', db'), r)"
    by (metis prod.collapse)
  have "r_HttpCode r = 200"
    using run
    by (auto simp: EditCurrentProfile_def editUserProfile_def edit_checks_def password_check_def code_check_def
        check_if_def CheckString_def passwordValidator_def defaultHttpServerLimit_def empty_edit_def
        edit_fields_def edit_qq_def edit_email_def edit_username_def edit_avatar_def replaced_avatar_def
        edit_password_def UpdateUserPassword_def VerifyUserPassword_def edit_save_def UpdateUserInfo_def
        db_error_def is_success_status account_status Let_def)
  with own_profile_edit [OF run] run show ?thesis
    by (auto simp: empty_edit_def)
qed

theorem admin_edit_clears_password_witness:
  "VerifyUserPassword memory_api (the (r_Data (snd (EditUserProfile example_svc_env
     \<lparr>rp_header = example_header, rp_TargetUid = 2, rp_edit = empty_edit\<lparr>re_QQ := 12345\<rparr>\<rparr>
     (example_svc, example_users))))) ''''"
proof -
  let ?req = "\<lparr>rp_header = example_header, rp_TargetUid = 2, rp_edit = empty_edit\<lparr>re_QQ := 12345\<rparr>\<rparr>"
  obtain s' db' r where run: "EditUserProfile example_svc_env ?req (example_svc, example_users) = ((s', db'), r)"
    by (metis prod.collapse)
  have p: "\<not> hd_Permission example_header \<le>s 0" "HasPermission (hd_Permission example_header) UserEditBaseInfo"
    "HasPermission (hd_Permission example_header) UserSetPassword"
    by (simp_all add: example_header_def HasPermission_Grant HasPermission_bits)
       (simp add: Grant_def permission_bit_def word_sle_eq)
  have "r_HttpCode r = 200"
    using run p
    by (auto simp: EditUserProfile_def editUserProfile_def edit_checks_def password_check_def code_check_def
        check_if_def checkQQ_def empty_edit_def
        edit_fields_def edit_qq_def edit_email_def edit_username_def edit_avatar_def replaced_avatar_def
        edit_password_def UpdateUserPassword_def edit_save_def UpdateUserInfo_def
        db_error_def is_success_status account_status Let_def)
  from admin_edit_clears_password [OF run this] p run show ?thesis
    by (auto simp: empty_edit_def)
qed

theorem registration_witness:
  "u_Permission (rt_User (the (r_Data (snd (UserRegister example_svc_env
     \<lparr>rr_Username = ''newcomer'', rr_Email = ''new@x'', rr_Password = ''secret1'', rr_Cid = 7, rr_EmailCode = 123456\<rparr>
     (fst (SendEmailCode example_svc_env 23456 ''new@x'' 7 example_svc), example_users)))))) = 0"
proof -
  let ?req = "\<lparr>rr_Username = ''newcomer'', rr_Email = ''new@x'', rr_Password = ''secret1'', rr_Cid = 7,
      rr_EmailCode = 123456\<rparr>"
  let ?s = "fst (SendEmailCode example_svc_env 23456 ''new@x'' 7 example_svc)"
  obtain s' db' r where run: "UserRegister example_svc_env ?req (?s, example_users) = ((s', db'), r)"
    by (metis prod.collapse)
  have "ascii_lower ''new@x'' = ''new@x''" by code_simp
  then have "snd (verifyEmailCode example_svc_env ''new@x'' 123456 7 ?s) = None"
    by (simp add: verifyEmailCode_def VerifyCode_def SendEmailCode_def RenderTemplate_def deliver_def Let_def)
  then obtain s1 where "verifyEmailCode example_svc_env ''new@x'' 123456 7 ?s = (s1, None)"
    by (metis prod.collapse)
  moreover have "\<exists>db'. AddUser memory_api \<lparr>u_ID = 0, u_Username = ''newcomer'', u_Email = ''new@x'', u_Cid = 7,
      u_Password = ''$secret1'', u_AvatarUrl = '''', u_QQ = 0, u_Rating = 0, u_Permission = 0, u_TotalPilotTime = 0,
      u_TotalAtcTime = 0\<rparr> example_users = (db', None)"
    by (simp add: AddUser_def transaction_def IsUserIdentifierTaken_def memory_api_def same_identifier_def
        example_users_def example_admin_def example_pilot_def db_error_def empty_memory_def)
  ultimately have "r_HttpCode r = 200"
    using run
    by (auto simp: UserRegister_def CheckString_def CheckInt_def usernameValidator_def emailValidator_def
        passwordValidator_def cidValidator_def defaultHttpServerLimit_def NewUser_def CallDB_unit
        is_success_status account_status)
  with registration [OF run] run show ?thesis by (auto simp: tokens_def Let_def)
qed

theorem refresh_keeps_session_witness:
  "refresh_all example_svc_env example_svc example_users
     (NewClaims (hs_JWT (se_config example_svc_env)) 0 example_admin True) [5, 900000000005, 1800000000005]"
  by (rule refresh_keeps_session [where user = example_admin])
    (simp_all add: NewClaims_def)

end
