(* ===== verification/ActivityStore.thy ===== *)
theory ActivityStore
  imports Database "HOL-Library.AList"
begin

text \<open>
  Group flights in the database (\<open>internal/interfaces/operation/model.go\<close>, \<open>activity.go\<close>,
  \<open>internal/database/activity_operation.go\<close>): the records of an activity, its facilities, the
  controllers and pilots that signed up, the comparison of two versions of an activity and the
  operations on them.

  The calls of gorm are the fields of the record \<open>act_api\<close>, an argument of every operation.
\<close>

section \<open>Records\<close>

text \<open>A date is an instant with the location it is written in; \<open>!=\<close> compares both.\<close>

type_synonym go_time = "int \<times> nat"

record ActivityATC =
  ac_ID :: nat
  ac_ActivityId :: nat
  ac_FacilityId :: nat
  ac_Cid :: int

record ActivityFacility =
  af_ID :: nat
  af_ActivityId :: nat
  af_MinRating :: int
  af_Callsign :: string
  af_Frequency :: string
  af_Controller :: "ActivityATC option"

record ActivityPilot =
  ap_ID :: nat
  ap_ActivityId :: nat
  ap_Cid :: int
  ap_Callsign :: string
  ap_AircraftType :: string
  ap_Status :: int

record Activity =
  a_ID :: nat
  a_Publisher :: int
  a_Title :: string
  a_ImageUrl :: string
  a_ActiveTime :: go_time
  a_DepartureAirport :: string
  a_ArrivalAirport :: string
  a_Route :: string
  a_Distance :: int
  a_Status :: int
  a_NOTAMS :: string
  a_Facilities :: "ActivityFacility list"
  a_Controllers :: "ActivityATC list"
  a_Pilots :: "ActivityPilot list"

abbreviation (input) Open :: int where "Open \<equiv> 0"
abbreviation (input) InActive :: int where "InActive \<equiv> 1"
abbreviation (input) Closed :: int where "Closed \<equiv> 2"

abbreviation (input) Signed :: int where "Signed \<equiv> 0"
abbreviation (input) Clearance :: int where "Clearance \<equiv> 1"
abbreviation (input) Takeoff :: int where "Takeoff \<equiv> 2"
abbreviation (input) Landing :: int where "Landing \<equiv> 3"

section \<open>Comparing versions\<close>

definition Activity_Equal :: "Activity \<Rightarrow> Activity \<Rightarrow> bool" where
  "Activity_Equal a b \<longleftrightarrow> a_ID a = a_ID b \<and> a_Publisher a = a_Publisher b \<and> a_Title a = a_Title b \<and>
     a_ImageUrl a = a_ImageUrl b \<and> a_ActiveTime a = a_ActiveTime b \<and>
     a_DepartureAirport a = a_DepartureAirport b \<and> a_ArrivalAirport a = a_ArrivalAirport b \<and>
     a_Route a = a_Route b \<and> a_Distance a = a_Distance b \<and> a_Status a = a_Status b \<and>
     a_NOTAMS a = a_NOTAMS b"

text \<open>The columns of an update; \<open>Updates\<close> takes a map, whose order says nothing.\<close>

datatype activity_column =
    CPublisher int | CTitle string | CImageUrl string | CActiveTime go_time
  | CDepartureAirport string | CArrivalAirport string | CRoute string | CDistance int
  | CStatus int | CNOTAMS string

fun set_column :: "activity_column \<Rightarrow> Activity \<Rightarrow> Activity" where
  "set_column (CPublisher x) a = a\<lparr>a_Publisher := x\<rparr>"
| "set_column (CTitle x) a = a\<lparr>a_Title := x\<rparr>"
| "set_column (CImageUrl x) a = a\<lparr>a_ImageUrl := x\<rparr>"
| "set_column (CActiveTime x) a = a\<lparr>a_ActiveTime := x\<rparr>"
| "set_column (CDepartureAirport x) a = a\<lparr>a_DepartureAirport := x\<rparr>"
| "set_column (CArrivalAirport x) a = a\<lparr>a_ArrivalAirport := x\<rparr>"
| "set_column (CRoute x) a = a\<lparr>a_Route := x\<rparr>"
| "set_column (CDistance x) a = a\<lparr>a_Distance := x\<rparr>"
| "set_column (CStatus x) a = a\<lparr>a_Status := x\<rparr>"
| "set_column (CNOTAMS x) a = a\<lparr>a_NOTAMS := x\<rparr>"

type_synonym activity_diff = "Activity \<times> activity_column list"

definition diff_column :: "(Activity \<Rightarrow> bool) \<Rightarrow> activity_column \<Rightarrow> activity_diff \<Rightarrow> activity_diff" where
  "diff_column changed col = (\<lambda>(other, cols).
     if changed other then (set_column col other, cols @ [col]) else (other, cols))"

text \<open>
  \<open>Diff\<close> writes the changes into the other version too. An empty text or a zero leaves most
  columns alone; the time, the status and the notices are taken over whatever they are.
\<close>

definition Activity_Diff :: "Activity \<Rightarrow> Activity \<Rightarrow> activity_diff" where
  "Activity_Diff a other =
     (diff_column (\<lambda>v. a_NOTAMS a \<noteq> a_NOTAMS v) (CNOTAMS (a_NOTAMS a)) \<circ>
      diff_column (\<lambda>v. a_Status a \<noteq> a_Status v) (CStatus (a_Status a)) \<circ>
      diff_column (\<lambda>v. a_Distance a \<noteq> 0 \<and> a_Distance a \<noteq> a_Distance v) (CDistance (a_Distance a)) \<circ>
      diff_column (\<lambda>v. a_Route a \<noteq> '''' \<and> a_Route a \<noteq> a_Route v) (CRoute (a_Route a)) \<circ>
      diff_column (\<lambda>v. a_ArrivalAirport a \<noteq> '''' \<and> a_ArrivalAirport a \<noteq> a_ArrivalAirport v)
        (CArrivalAirport (a_ArrivalAirport a)) \<circ>
      diff_column (\<lambda>v. a_DepartureAirport a \<noteq> '''' \<and> a_DepartureAirport a \<noteq> a_DepartureAirport v)
        (CDepartureAirport (a_DepartureAirport a)) \<circ>
      diff_column (\<lambda>v. a_ActiveTime a \<noteq> a_ActiveTime v) (CActiveTime (a_ActiveTime a)) \<circ>
      diff_column (\<lambda>v. a_ImageUrl a \<noteq> '''' \<and> a_ImageUrl a \<noteq> a_ImageUrl v) (CImageUrl (a_ImageUrl a)) \<circ>
      diff_column (\<lambda>v. a_Title a \<noteq> '''' \<and> a_Title a \<noteq> a_Title v) (CTitle (a_Title a)) \<circ>
      diff_column (\<lambda>v. a_Publisher a \<noteq> 0 \<and> a_Publisher a \<noteq> a_Publisher v) (CPublisher (a_Publisher a)))
     (other, [])"

definition Facility_Equal :: "ActivityFacility \<Rightarrow> ActivityFacility \<Rightarrow> bool" where
  "Facility_Equal f g \<longleftrightarrow> af_ID f = af_ID g \<and> af_ActivityId f = af_ActivityId g \<and>
     af_MinRating f = af_MinRating g \<and> af_Callsign f = af_Callsign g \<and> af_Frequency f = af_Frequency g"

datatype facility_column = CMinRating int | CCallsign string | CFrequency string

fun set_facility_column :: "facility_column \<Rightarrow> ActivityFacility \<Rightarrow> ActivityFacility" where
  "set_facility_column (CMinRating x) f = f\<lparr>af_MinRating := x\<rparr>"
| "set_facility_column (CCallsign x) f = f\<lparr>af_Callsign := x\<rparr>"
| "set_facility_column (CFrequency x) f = f\<lparr>af_Frequency := x\<rparr>"

definition Facility_Diff :: "ActivityFacility \<Rightarrow> ActivityFacility \<Rightarrow> facility_column list" where
  "Facility_Diff f g =
     (if af_MinRating f \<noteq> af_MinRating g then [CMinRating (af_MinRating f)] else []) @
     (if af_Callsign f \<noteq> af_Callsign g then [CCallsign (af_Callsign f)] else []) @
     (if af_Frequency f \<noteq> af_Frequency g then [CFrequency (af_Frequency f)] else [])"

section \<open>The database\<close>

datatype act_error =
    ErrActivityNotFound | ErrFacilityNotFound | ErrRatingNotAllowed | ErrFacilitySigned
  | ErrFacilityNotSigned | ErrFacilityNotYourSign | ErrFacilityAlreadyExists
  | ErrActivityAlreadySigned | ErrCallsignAlreadyUsed | ErrActivityUnsigned | ErrInconsistentData
  | ActDbError gorm_error

text \<open>
  \<open>First\<close> gives the first row that matches or an error; a row deleted by a record is deleted by
  the key of that record. \<open>Save\<close> and \<open>Create\<close> give back the record with its generated keys.
\<close>

record 'db act_api =
  find_activities :: "go_time \<Rightarrow> go_time \<Rightarrow> 'db \<Rightarrow> Activity list \<times> gorm_error option"
  page_activities :: "int \<Rightarrow> int \<Rightarrow> 'db \<Rightarrow> Activity list \<times> gorm_error option"
  count_activities :: "'db \<Rightarrow> int \<times> gorm_error option"
  first_activity :: "nat \<Rightarrow> 'db \<Rightarrow> gorm_error + Activity"
  save_activity :: "Activity \<Rightarrow> 'db \<Rightarrow> 'db \<times> Activity \<times> gorm_error option"
  delete_activity :: "nat \<Rightarrow> 'db \<Rightarrow> 'db \<times> gorm_error option"
  update_activity :: "nat \<Rightarrow> activity_column list \<Rightarrow> 'db \<Rightarrow> 'db \<times> gorm_error option"
  first_facility :: "nat \<Rightarrow> 'db \<Rightarrow> gorm_error + ActivityFacility"
  delete_facilities :: "nat list \<Rightarrow> 'db \<Rightarrow> 'db \<times> gorm_error option"
  create_facilities :: "ActivityFacility list \<Rightarrow> 'db \<Rightarrow> 'db \<times> ActivityFacility list \<times> gorm_error option"
  update_facility :: "nat \<Rightarrow> facility_column list \<Rightarrow> 'db \<Rightarrow> 'db \<times> gorm_error option"
  first_controller :: "nat \<Rightarrow> int \<Rightarrow> 'db \<Rightarrow> gorm_error + ActivityATC"
  first_facility_controller :: "nat \<Rightarrow> nat \<Rightarrow> int \<Rightarrow> 'db \<Rightarrow> gorm_error + ActivityATC"
  create_controller :: "ActivityATC \<Rightarrow> 'db \<Rightarrow> 'db \<times> gorm_error option"
  delete_controller :: "nat \<Rightarrow> 'db \<Rightarrow> 'db \<times> gorm_error option"
  first_pilot :: "nat \<Rightarrow> int \<Rightarrow> 'db \<Rightarrow> gorm_error + ActivityPilot"
  first_pilot_or_callsign :: "nat \<Rightarrow> int \<Rightarrow> string \<Rightarrow> 'db \<Rightarrow> gorm_error + ActivityPilot"
  create_pilot :: "ActivityPilot \<Rightarrow> 'db \<Rightarrow> 'db \<times> gorm_error option"
  delete_pilot :: "nat \<Rightarrow> 'db \<Rightarrow> 'db \<times> gorm_error option"
  set_pilot_status :: "nat \<Rightarrow> int \<Rightarrow> 'db \<Rightarrow> 'db \<times> gorm_error option"

definition act_error :: "gorm_error option \<Rightarrow> act_error option" where
  "act_error = map_option ActDbError"

text \<open>A query whose error the code drops: the record stays as it was, with the key zero.\<close>

definition found_or :: "'a \<Rightarrow> gorm_error + 'a \<Rightarrow> 'a" where
  "found_or z r = (case r of Inr x \<Rightarrow> x | Inl _ \<Rightarrow> z)"

definition zero_ATC :: ActivityATC where
  "zero_ATC = \<lparr>ac_ID = 0, ac_ActivityId = 0, ac_FacilityId = 0, ac_Cid = 0\<rparr>"

definition zero_Pilot :: ActivityPilot where
  "zero_Pilot = \<lparr>ap_ID = 0, ap_ActivityId = 0, ap_Cid = 0, ap_Callsign = '''', ap_AircraftType = '''', ap_Status = 0\<rparr>"

section \<open>Operations\<close>

definition NewActivity ::
    "User \<Rightarrow> string \<Rightarrow> string \<Rightarrow> go_time \<Rightarrow> string \<Rightarrow> string \<Rightarrow> string \<Rightarrow> int \<Rightarrow> string \<Rightarrow> Activity" where
  "NewActivity user title imageUrl activeTime dep arr route distance notams =
     \<lparr>a_ID = 0, a_Publisher = u_Cid user, a_Title = title, a_ImageUrl = imageUrl,
      a_ActiveTime = activeTime, a_DepartureAirport = dep, a_ArrivalAirport = arr, a_Route = route,
      a_Distance = distance, a_Status = Open, a_NOTAMS = notams, a_Facilities = [],
      a_Controllers = [], a_Pilots = []\<rparr>"

text \<open>\<open>fmt_3f\<close> formats a float with three decimals; the program does not call this constructor.\<close>

definition NewActivityFacility :: "('f \<Rightarrow> string) \<Rightarrow> Activity \<Rightarrow> int \<Rightarrow> string \<Rightarrow> 'f \<Rightarrow> ActivityFacility" where
  "NewActivityFacility fmt_3f activity rating callsign frequency =
     \<lparr>af_ID = 0, af_ActivityId = a_ID activity, af_MinRating = rating, af_Callsign = callsign,
      af_Frequency = fmt_3f frequency, af_Controller = None\<rparr>"

definition NewActivityAtc :: "ActivityFacility \<Rightarrow> User \<Rightarrow> ActivityATC" where
  "NewActivityAtc facility user =
     \<lparr>ac_ID = 0, ac_ActivityId = af_ActivityId facility, ac_FacilityId = af_ID facility, ac_Cid = u_Cid user\<rparr>"

definition NewActivityPilot :: "nat \<Rightarrow> int \<Rightarrow> string \<Rightarrow> string \<Rightarrow> ActivityPilot" where
  "NewActivityPilot activityId cid callsign aircraftType =
     \<lparr>ap_ID = 0, ap_ActivityId = activityId, ap_Cid = cid, ap_Callsign = callsign,
      ap_AircraftType = aircraftType, ap_Status = Signed\<rparr>"

definition op_GetActivities :: "'db act_api \<Rightarrow> go_time \<Rightarrow> go_time \<Rightarrow> 'db \<Rightarrow> Activity list \<times> act_error option" where
  "op_GetActivities B startDay endDay db =
     (let (activities, err) = find_activities B startDay endDay db in (activities, act_error err))"

definition op_GetActivitiesPage :: "'db act_api \<Rightarrow> int \<Rightarrow> int \<Rightarrow> 'db \<Rightarrow> Activity list \<times> int \<times> act_error option" where
  "op_GetActivitiesPage B page pageSize db =
     (let total = fst (count_activities B db);
          (activities, err) = page_activities B ((page - 1) * pageSize) pageSize db
      in (activities, total, act_error err))"

definition GetActivityById :: "'db act_api \<Rightarrow> nat \<Rightarrow> 'db \<Rightarrow> act_error + Activity" where
  "GetActivityById B i db =
     (case first_activity B i db of
        Inr a \<Rightarrow> Inr a
      | Inl ErrRecordNotFound \<Rightarrow> Inl ErrActivityNotFound
      | Inl err \<Rightarrow> Inl (ActDbError err))"

definition SaveActivity :: "'db act_api \<Rightarrow> Activity \<Rightarrow> 'db \<Rightarrow> Activity \<times> 'db \<times> act_error option" where
  "SaveActivity B a db =
     (case save_activity B a db of
        (db', a', None) \<Rightarrow> (a', db', None)
      | (db', a', Some err) \<Rightarrow> (a', db, Some (ActDbError err)))"

definition op_DeleteActivity :: "'db act_api \<Rightarrow> Activity \<Rightarrow> 'db \<Rightarrow> 'db \<times> act_error option" where
  "op_DeleteActivity B a = transaction (\<lambda>tx.
     let (tx', err) = delete_activity B (a_ID a) tx in (tx', act_error err))"

definition SetActivityStatus :: "'db act_api \<Rightarrow> nat \<Rightarrow> int \<Rightarrow> 'db \<Rightarrow> 'db \<times> act_error option" where
  "SetActivityStatus B activityId status db =
     (let (db', err) = update_activity B activityId [CStatus status] db in (db', act_error err))"

definition SetActivityPilotStatus :: "'db act_api \<Rightarrow> ActivityPilot \<Rightarrow> int \<Rightarrow> 'db \<Rightarrow> 'db \<times> act_error option" where
  "SetActivityPilotStatus B p status db =
     (let (db', err) = set_pilot_status B (ap_ID p) status db in (db', act_error err))"

definition GetFacilityById :: "'db act_api \<Rightarrow> nat \<Rightarrow> 'db \<Rightarrow> act_error + ActivityFacility" where
  "GetFacilityById B i db =
     (case first_facility B i db of
        Inr f \<Rightarrow> Inr f
      | Inl ErrRecordNotFound \<Rightarrow> Inl ErrFacilityNotFound
      | Inl err \<Rightarrow> Inl (ActDbError err))"

definition GetActivityPilotById :: "'db act_api \<Rightarrow> nat \<Rightarrow> int \<Rightarrow> 'db \<Rightarrow> act_error + ActivityPilot" where
  "GetActivityPilotById B activityId cid db =
     (case first_pilot B activityId cid db of
        Inr p \<Rightarrow> Inr p
      | Inl ErrRecordNotFound \<Rightarrow> Inl ErrActivityUnsigned
      | Inl err \<Rightarrow> Inl (ActDbError err))"

definition SignFacilityController ::
    "'db act_api \<Rightarrow> ActivityFacility \<Rightarrow> User \<Rightarrow> 'db \<Rightarrow> 'db \<times> act_error option" where
  "SignFacilityController B facility user db =
     (if u_Rating user \<le> af_MinRating facility then (db, Some ErrRatingNotAllowed)
      else transaction (\<lambda>tx.
        let controller = found_or zero_ATC (first_controller B (af_ActivityId facility) (u_Cid user) tx)
        in if ac_ID controller \<noteq> 0 then (tx, Some ErrFacilityAlreadyExists)
           else (case create_controller B (NewActivityAtc facility user) tx of
                   (tx', Some ErrDuplicatedKey) \<Rightarrow> (tx', Some ErrFacilitySigned)
                 | (tx', err) \<Rightarrow> (tx', act_error err))) db)"

definition UnsignFacilityController ::
    "'db act_api \<Rightarrow> ActivityFacility \<Rightarrow> int \<Rightarrow> 'db \<Rightarrow> 'db \<times> act_error option" where
  "UnsignFacilityController B facility cid db =
     (case af_Controller facility of
        None \<Rightarrow> (db, Some ErrFacilityNotSigned)
      | Some c \<Rightarrow>
          if ac_Cid c \<noteq> cid then (db, Some ErrFacilityNotYourSign)
          else transaction (\<lambda>tx.
            let controller = found_or zero_ATC
                  (first_facility_controller B (af_ActivityId facility) (af_ID facility) cid tx)
            in if ac_ID controller = 0 then (tx, Some ErrFacilityNotSigned)
               else (let (tx', err) = delete_controller B (ac_ID controller) tx in (tx', act_error err))) db)"

definition SignActivityPilot ::
    "'db act_api \<Rightarrow> nat \<Rightarrow> int \<Rightarrow> string \<Rightarrow> string \<Rightarrow> 'db \<Rightarrow> 'db \<times> act_error option" where
  "SignActivityPilot B activityId cid callsign aircraftType = transaction (\<lambda>tx.
     let pilot = found_or zero_Pilot (first_pilot_or_callsign B activityId cid callsign tx)
     in if ap_ID pilot \<noteq> 0 then
          (if ap_Cid pilot = cid then (tx, Some ErrActivityAlreadySigned) else (tx, Some ErrCallsignAlreadyUsed))
        else (case create_pilot B (NewActivityPilot activityId cid callsign aircraftType) tx of
                (tx', Some ErrDuplicatedKey) \<Rightarrow> (tx', Some ErrActivityAlreadySigned)
              | (tx', err) \<Rightarrow> (tx', act_error err)))"

definition UnsignActivityPilot :: "'db act_api \<Rightarrow> nat \<Rightarrow> int \<Rightarrow> 'db \<Rightarrow> 'db \<times> act_error option" where
  "UnsignActivityPilot B activityId cid = transaction (\<lambda>tx.
     let pilot = found_or zero_Pilot (first_pilot B activityId cid tx)
     in if ap_ID pilot = 0 then (tx, Some ErrActivityUnsigned)
        else (let (tx', err) = delete_pilot B (ap_ID pilot) tx in (tx', act_error err)))"

text \<open>
  The facilities of the new version against those of the old one. The map of the old facilities
  by key is an association list; the order in which Go ranges over a map says nothing.
\<close>

record facility_plan =
  pl_delete :: "ActivityFacility list"
  pl_insert :: "ActivityFacility list"
  pl_update :: "(nat \<times> facility_column list) list"

definition facility_map :: "ActivityFacility list \<Rightarrow> (nat \<times> ActivityFacility) list" where
  "facility_map fs = fold (\<lambda>f m. AList.update (af_ID f) f m) fs []"

fun place_facilities ::
    "nat \<Rightarrow> ActivityFacility list \<Rightarrow> (nat \<times> ActivityFacility) list \<Rightarrow> facility_plan
       \<Rightarrow> act_error + facility_plan" where
  "place_facilities activityId [] old plan = Inr (plan\<lparr>pl_delete := map snd old\<rparr>)"
| "place_facilities activityId (f # fs) old plan =
     (if af_ID f = 0 then
        place_facilities activityId fs old
          (plan\<lparr>pl_insert := pl_insert plan @ [f\<lparr>af_ActivityId := activityId\<rparr>]\<rparr>)
      else case map_of old (af_ID f) of
        Some oldFacility \<Rightarrow>
          place_facilities activityId fs (AList.delete (af_ID f) old)
            (if \<not> Facility_Equal f oldFacility
             then plan\<lparr>pl_update := AList.update (af_ID f) (Facility_Diff f oldFacility) (pl_update plan)\<rparr>
             else plan)
      | None \<Rightarrow> Inl ErrInconsistentData)"

definition plan_facilities :: "Activity \<Rightarrow> Activity \<Rightarrow> act_error + facility_plan" where
  "plan_facilities oldActivity newActivity =
     place_facilities (a_ID newActivity) (a_Facilities newActivity) (facility_map (a_Facilities oldActivity))
       \<lparr>pl_delete = [], pl_insert = [], pl_update = []\<rparr>"

text \<open>The calls of a transaction in order, up to the first error.\<close>

fun in_order :: "('db \<Rightarrow> 'db \<times> 'e option) list \<Rightarrow> 'db \<Rightarrow> 'db \<times> 'e option" where
  "in_order [] tx = (tx, None)"
| "in_order (f # fs) tx = (case f tx of (tx', None) \<Rightarrow> in_order fs tx' | (tx', Some err) \<Rightarrow> (tx', Some err))"

definition run_plan :: "'db act_api \<Rightarrow> nat \<Rightarrow> activity_column list \<Rightarrow> facility_plan \<Rightarrow> 'db \<Rightarrow> 'db \<times> gorm_error option" where
  "run_plan B activityId updateInfo plan =
     in_order
       ([update_activity B activityId updateInfo] @
        (if pl_delete plan \<noteq> [] then [delete_facilities B (map af_ID (pl_delete plan))] else []) @
        (if pl_insert plan \<noteq> []
         then [\<lambda>tx. (let (tx', _, err) = create_facilities B (pl_insert plan) tx in (tx', err))] else []) @
        map (\<lambda>(i, cols). update_facility B i cols) (pl_update plan))"

definition UpdateActivityInfo ::
    "'db act_api \<Rightarrow> Activity \<Rightarrow> Activity \<Rightarrow> activity_column list \<Rightarrow> 'db \<Rightarrow> 'db \<times> act_error option" where
  "UpdateActivityInfo B oldActivity newActivity updateInfo db =
     (case plan_facilities oldActivity newActivity of
        Inl err \<Rightarrow> (db, Some err)
      | Inr plan \<Rightarrow>
          (let (db', err) = transaction (run_plan B (a_ID oldActivity) updateInfo plan) db
           in (db', act_error err)))"

definition GetTotalActivities :: "'db act_api \<Rightarrow> 'db \<Rightarrow> int \<times> act_error option" where
  "GetTotalActivities B db = (let (total, err) = count_activities B db in (total, act_error err))"

section \<open>The comparison is an update\<close>

lemma diff_column_simps:
  "snd (diff_column changed col vc) = snd vc @ (if changed (fst vc) then [col] else [])"
  "fst (diff_column changed col vc) = (if changed (fst vc) then set_column col (fst vc) else fst vc)"
  by (simp_all add: diff_column_def split: prod.split)

lemma keep_column:
  "v\<lparr>a_Publisher := a_Publisher v\<rparr> = v" "v\<lparr>a_Title := a_Title v\<rparr> = v" "v\<lparr>a_ImageUrl := a_ImageUrl v\<rparr> = v"
  "v\<lparr>a_ActiveTime := a_ActiveTime v\<rparr> = v" "v\<lparr>a_DepartureAirport := a_DepartureAirport v\<rparr> = v"
  "v\<lparr>a_ArrivalAirport := a_ArrivalAirport v\<rparr> = v" "v\<lparr>a_Route := a_Route v\<rparr> = v"
  "v\<lparr>a_Distance := a_Distance v\<rparr> = v" "v\<lparr>a_Status := a_Status v\<rparr> = v" "v\<lparr>a_NOTAMS := a_NOTAMS v\<rparr> = v"
  for v :: Activity
  by simp_all

text \<open>One column of a comparison, as the update of that column.\<close>

lemma diff_column_value:
  "fst (diff_column (\<lambda>v. a_Publisher a \<noteq> 0 \<and> a_Publisher a \<noteq> a_Publisher v) (CPublisher (a_Publisher a)) vc) =
     (fst vc)\<lparr>a_Publisher := (if a_Publisher a = 0 then a_Publisher (fst vc) else a_Publisher a)\<rparr>"
  "fst (diff_column (\<lambda>v. a_Title a \<noteq> '''' \<and> a_Title a \<noteq> a_Title v) (CTitle (a_Title a)) vc) =
     (fst vc)\<lparr>a_Title := (if a_Title a = '''' then a_Title (fst vc) else a_Title a)\<rparr>"
  "fst (diff_column (\<lambda>v. a_ImageUrl a \<noteq> '''' \<and> a_ImageUrl a \<noteq> a_ImageUrl v) (CImageUrl (a_ImageUrl a)) vc) =
     (fst vc)\<lparr>a_ImageUrl := (if a_ImageUrl a = '''' then a_ImageUrl (fst vc) else a_ImageUrl a)\<rparr>"
  "fst (diff_column (\<lambda>v. a_ActiveTime a \<noteq> a_ActiveTime v) (CActiveTime (a_ActiveTime a)) vc) =
     (fst vc)\<lparr>a_ActiveTime := a_ActiveTime a\<rparr>"
  "fst (diff_column (\<lambda>v. a_DepartureAirport a \<noteq> '''' \<and> a_DepartureAirport a \<noteq> a_DepartureAirport v)
        (CDepartureAirport (a_DepartureAirport a)) vc) =
     (fst vc)\<lparr>a_DepartureAirport :=
        (if a_DepartureAirport a = '''' then a_DepartureAirport (fst vc) else a_DepartureAirport a)\<rparr>"
  "fst (diff_column (\<lambda>v. a_ArrivalAirport a \<noteq> '''' \<and> a_ArrivalAirport a \<noteq> a_ArrivalAirport v)
        (CArrivalAirport (a_ArrivalAirport a)) vc) =
     (fst vc)\<lparr>a_ArrivalAirport :=
        (if a_ArrivalAirport a = '''' then a_ArrivalAirport (fst vc) else a_ArrivalAirport a)\<rparr>"
  "fst (diff_column (\<lambda>v. a_Route a \<noteq> '''' \<and> a_Route a \<noteq> a_Route v) (CRoute (a_Route a)) vc) =
     (fst vc)\<lparr>a_Route := (if a_Route a = '''' then a_Route (fst vc) else a_Route a)\<rparr>"
  "fst (diff_column (\<lambda>v. a_Distance a \<noteq> 0 \<and> a_Distance a \<noteq> a_Distance v) (CDistance (a_Distance a)) vc) =
     (fst vc)\<lparr>a_Distance := (if a_Distance a = 0 then a_Distance (fst vc) else a_Distance a)\<rparr>"
  "fst (diff_column (\<lambda>v. a_Status a \<noteq> a_Status v) (CStatus (a_Status a)) vc) = (fst vc)\<lparr>a_Status := a_Status a\<rparr>"
  "fst (diff_column (\<lambda>v. a_NOTAMS a \<noteq> a_NOTAMS v) (CNOTAMS (a_NOTAMS a)) vc) = (fst vc)\<lparr>a_NOTAMS := a_NOTAMS a\<rparr>"
  by (simp_all add: diff_column_simps keep_column)

lemma diff_column_fold:
  "fold set_column (snd vc) other = fst vc \<Longrightarrow>
   fold set_column (snd (diff_column changed col vc)) other = fst (diff_column changed col vc)"
  by (simp add: diff_column_simps)

lemma Activity_Diff_fold: "fold set_column (snd (Activity_Diff a other)) other = fst (Activity_Diff a other)"
  unfolding Activity_Diff_def comp_def by (intro diff_column_fold) simp

lemma Activity_Diff_value:
  "fst (Activity_Diff a other) =
     other\<lparr>a_Publisher := (if a_Publisher a = 0 then a_Publisher other else a_Publisher a),
           a_Title := (if a_Title a = '''' then a_Title other else a_Title a),
           a_ImageUrl := (if a_ImageUrl a = '''' then a_ImageUrl other else a_ImageUrl a),
           a_ActiveTime := a_ActiveTime a,
           a_DepartureAirport := (if a_DepartureAirport a = '''' then a_DepartureAirport other
                                  else a_DepartureAirport a),
           a_ArrivalAirport := (if a_ArrivalAirport a = '''' then a_ArrivalAirport other
                                else a_ArrivalAirport a),
           a_Route := (if a_Route a = '''' then a_Route other else a_Route a),
           a_Distance := (if a_Distance a = 0 then a_Distance other else a_Distance a),
           a_Status := a_Status a, a_NOTAMS := a_NOTAMS a\<rparr>"
  unfolding Activity_Diff_def comp_def diff_column_value fst_conv by simp

lemma Activity_Diff_fields:
  "a_Publisher (fst (Activity_Diff a other)) = (if a_Publisher a = 0 then a_Publisher other else a_Publisher a)"
  "a_Title (fst (Activity_Diff a other)) = (if a_Title a = '''' then a_Title other else a_Title a)"
  "a_ImageUrl (fst (Activity_Diff a other)) = (if a_ImageUrl a = '''' then a_ImageUrl other else a_ImageUrl a)"
  "a_ActiveTime (fst (Activity_Diff a other)) = a_ActiveTime a"
  "a_DepartureAirport (fst (Activity_Diff a other)) =
     (if a_DepartureAirport a = '''' then a_DepartureAirport other else a_DepartureAirport a)"
  "a_ArrivalAirport (fst (Activity_Diff a other)) =
     (if a_ArrivalAirport a = '''' then a_ArrivalAirport other else a_ArrivalAirport a)"
  "a_Route (fst (Activity_Diff a other)) = (if a_Route a = '''' then a_Route other else a_Route a)"
  "a_Distance (fst (Activity_Diff a other)) = (if a_Distance a = 0 then a_Distance other else a_Distance a)"
  "a_Status (fst (Activity_Diff a other)) = a_Status a" "a_NOTAMS (fst (Activity_Diff a other)) = a_NOTAMS a"
  unfolding Activity_Diff_value by simp_all

lemma Activity_Diff_columns:
  "snd (Activity_Diff a other) = [] \<longleftrightarrow>
     (a_Publisher a = 0 \<or> a_Publisher a = a_Publisher other) \<and> (a_Title a = '''' \<or> a_Title a = a_Title other) \<and>
     (a_ImageUrl a = '''' \<or> a_ImageUrl a = a_ImageUrl other) \<and> a_ActiveTime a = a_ActiveTime other \<and>
     (a_DepartureAirport a = '''' \<or> a_DepartureAirport a = a_DepartureAirport other) \<and>
     (a_ArrivalAirport a = '''' \<or> a_ArrivalAirport a = a_ArrivalAirport other) \<and>
     (a_Route a = '''' \<or> a_Route a = a_Route other) \<and> (a_Distance a = 0 \<or> a_Distance a = a_Distance other) \<and>
     a_Status a = a_Status other \<and> a_NOTAMS a = a_NOTAMS other"
  unfolding Activity_Diff_def comp_def diff_column_simps(1) diff_column_value fst_conv snd_conv
  by (simp add: conj_ac)

text \<open>
  Comparing a new version of an activity with the stored one: the columns it lists, written
  to the stored version, give the version it leaves in memory; every column then has the new
  value, except that an empty title, image, airport or route and a zero publisher or distance keep
  the old one; and comparing again finds nothing. The columns of the time, the status and the
  notices have no such exception.
\<close>

theorem activity_diff:
  "let (v, cols) = Activity_Diff a other in
     fold set_column cols other = v \<and> Activity_Diff a v = (v, []) \<and> (cols = [] \<longleftrightarrow> v = other) \<and>
     v = other\<lparr>a_Publisher := (if a_Publisher a = 0 then a_Publisher other else a_Publisher a),
               a_Title := (if a_Title a = '''' then a_Title other else a_Title a),
               a_ImageUrl := (if a_ImageUrl a = '''' then a_ImageUrl other else a_ImageUrl a),
               a_ActiveTime := a_ActiveTime a,
               a_DepartureAirport := (if a_DepartureAirport a = '''' then a_DepartureAirport other
                                      else a_DepartureAirport a),
               a_ArrivalAirport := (if a_ArrivalAirport a = '''' then a_ArrivalAirport other
                                    else a_ArrivalAirport a),
               a_Route := (if a_Route a = '''' then a_Route other else a_Route a),
               a_Distance := (if a_Distance a = 0 then a_Distance other else a_Distance a),
               a_Status := a_Status a, a_NOTAMS := a_NOTAMS a\<rparr>"
proof -
  let ?v = "fst (Activity_Diff a other)"
  have cols: "snd (Activity_Diff a ?v) = []"
    unfolding Activity_Diff_columns Activity_Diff_fields by simp
  have "fst (Activity_Diff a ?v) = ?v"
    using Activity_Diff_fold [of a ?v] unfolding cols by simp
  with cols have again: "Activity_Diff a ?v = (?v, [])" by (simp add: prod_eq_iff)
  have same: "snd (Activity_Diff a other) = []" if "?v = other"
    using cols unfolding that .
  have none: "?v = other" if "snd (Activity_Diff a other) = []"
    using Activity_Diff_fold [of a other] unfolding that by simp
  show ?thesis
    unfolding Let_def case_prod_beta
  proof (intro conjI)
    show "fold set_column (snd (Activity_Diff a other)) other = ?v" by (rule Activity_Diff_fold)
    show "Activity_Diff a ?v = (?v, [])" by (rule again)
    show "snd (Activity_Diff a other) = [] \<longleftrightarrow> ?v = other" using same none by blast
  qed (rule Activity_Diff_value)
qed

section \<open>The plan for the facilities\<close>

text \<open>The facilities after a plan, and those that a request asks for.\<close>

definition apply_plan :: "facility_plan \<Rightarrow> ActivityFacility list \<Rightarrow> ActivityFacility list" where
  "apply_plan plan old =
     map (\<lambda>g. case map_of (pl_update plan) (af_ID g) of None \<Rightarrow> g | Some cols \<Rightarrow> fold set_facility_column cols g)
       (filter (\<lambda>g. af_ID g \<notin> af_ID ` set (pl_delete plan)) old) @ pl_insert plan"

definition requested :: "nat \<Rightarrow> ActivityFacility list \<Rightarrow> ActivityFacility list \<Rightarrow> ActivityFacility list" where
  "requested activityId new old =
     concat (map (\<lambda>g. case find (\<lambda>f. af_ID f = af_ID g) new of
                        None \<Rightarrow> []
                      | Some f \<Rightarrow> [g\<lparr>af_MinRating := af_MinRating f, af_Callsign := af_Callsign f,
                                    af_Frequency := af_Frequency f\<rparr>]) old) @
     map (\<lambda>f. f\<lparr>af_ActivityId := activityId\<rparr>) (filter (\<lambda>f. af_ID f = 0) new)"

definition named_facilities :: "ActivityFacility list \<Rightarrow> nat list" where
  "named_facilities fs = map af_ID (filter (\<lambda>f. af_ID f \<noteq> 0) fs)"

lemma named_facilities_simps [simp]:
  "named_facilities [] = []"
  "named_facilities (f # fs) = (if af_ID f = 0 then named_facilities fs else af_ID f # named_facilities fs)"
  by (simp_all add: named_facilities_def)

lemma update_fresh: "k \<notin> fst ` set al \<Longrightarrow> AList.update k v al = al @ [(k, v)]"
  by (induction al) auto

lemma facility_map_distinct:
  "distinct (map af_ID fs) \<Longrightarrow> facility_map fs = map (\<lambda>f. (af_ID f, f)) fs"
proof (induction fs rule: rev_induct)
  case (snoc f fs)
  then have "af_ID f \<notin> fst ` set (map (\<lambda>f. (af_ID f, f)) fs)" by auto
  with snoc show ?case by (simp add: facility_map_def update_fresh)
qed (simp add: facility_map_def)

definition changed_columns ::
    "(nat \<times> ActivityFacility) list \<Rightarrow> ActivityFacility \<Rightarrow> (nat \<times> facility_column list) list
       \<Rightarrow> (nat \<times> facility_column list) list" where
  "changed_columns old f upd =
     (case map_of old (af_ID f) of
        Some g \<Rightarrow> if \<not> Facility_Equal f g then AList.update (af_ID f) (Facility_Diff f g) upd else upd
      | None \<Rightarrow> upd)"

lemma changed_columns_cong:
  "\<forall>f \<in> set fs. map_of old (af_ID f) = map_of old' (af_ID f) \<Longrightarrow>
   fold (changed_columns old) fs upd = fold (changed_columns old') fs upd"
  by (induction fs arbitrary: upd) (auto simp: changed_columns_def)

lemma place_facilities_result:
  assumes "distinct (map fst old)"
  shows "place_facilities i fs old plan =
     (if distinct (named_facilities fs) \<and> set (named_facilities fs) \<subseteq> fst ` set old
      then Inr \<lparr>pl_delete = map snd (filter (\<lambda>(k, _). k \<notin> set (named_facilities fs)) old),
                pl_insert = pl_insert plan @ map (\<lambda>f. f\<lparr>af_ActivityId := i\<rparr>) (filter (\<lambda>f. af_ID f = 0) fs),
                pl_update = fold (changed_columns old) (filter (\<lambda>f. af_ID f \<noteq> 0) fs) (pl_update plan)\<rparr>
      else Inl ErrInconsistentData)"
  using assms
proof (induction fs arbitrary: old plan)
  case (Cons f fs)
  show ?case
  proof (cases "af_ID f = 0")
    case True
    with Cons show ?thesis by simp
  next
    case False
    show ?thesis
    proof (cases "map_of old (af_ID f)")
      case None
      then have "af_ID f \<notin> fst ` set old" by (simp add: map_of_eq_None_iff)
      with False None show ?thesis by simp
    next
      case (Some g)
      let ?old = "AList.delete (af_ID f) old"
      from Some have m: "af_ID f \<in> fst ` set old" by (metis map_of_eq_None_iff option.distinct(1))
      have d: "distinct (map fst ?old)" using Cons.prems by (rule AList.distinct_delete)
      have s: "fst ` set ?old = fst ` set old - {af_ID f}" by (auto simp: AList.delete_eq)
      have c: "fold (changed_columns ?old) xs u = fold (changed_columns old) xs u"
        if "\<forall>x \<in> set xs. af_ID x \<noteq> af_ID f" for xs u
        using that by (intro changed_columns_cong) (simp add: AList.delete_conv')
      have fl: "filter (\<lambda>(k, _). k \<notin> set (named_facilities fs)) ?old =
          filter (\<lambda>(k, _). k \<notin> insert (af_ID f) (set (named_facilities fs))) old"
        by (simp add: AList.delete_eq filter_filter) (rule filter_cong, auto)
      show ?thesis
      proof (cases "af_ID f \<in> set (named_facilities fs)")
        case True
        with False Some Cons.IH [OF d] s show ?thesis by auto
      next
        case nf: False
        have "\<forall>x \<in> set (filter (\<lambda>f. af_ID f \<noteq> 0) fs). af_ID x \<noteq> af_ID f"
        proof
          fix x
          assume "x \<in> set (filter (\<lambda>f. af_ID f \<noteq> 0) fs)"
          then have "af_ID x \<in> set (named_facilities fs)" by (simp add: named_facilities_def)
          with nf show "af_ID x \<noteq> af_ID f" by auto
        qed
        moreover have "changed_columns old f u =
            (if \<not> Facility_Equal f g then AList.update (af_ID f) (Facility_Diff f g) u else u)" for u
          using Some by (simp add: changed_columns_def)
        ultimately show ?thesis
          using False Some Cons.IH [OF d] s nf m c fl by auto
      qed
    qed
  qed
qed simp

lemma changed_columns_other:
  "i \<notin> af_ID ` set fs \<Longrightarrow> map_of (fold (changed_columns old) fs upd) i = map_of upd i"
  by (induction fs arbitrary: upd)
    (auto simp: changed_columns_def AList.update_conv' split: option.split)

lemma changed_columns_find:
  "distinct (map af_ID fs) \<Longrightarrow> map_of upd i = None \<Longrightarrow> map_of old i = Some g \<Longrightarrow>
   map_of (fold (changed_columns old) fs upd) i =
     (case find (\<lambda>f. af_ID f = i) fs of
        Some f \<Rightarrow> if Facility_Equal f g then None else Some (Facility_Diff f g)
      | None \<Rightarrow> None)"
proof (induction fs arbitrary: upd)
  case (Cons f fs)
  show ?case
  proof (cases "af_ID f = i")
    case True
    with Cons.prems have "i \<notin> af_ID ` set fs" by auto
    with True Cons.prems(2,3) show ?thesis
      by (simp add: changed_columns_other) (simp add: changed_columns_def AList.update_conv')
  next
    case False
    with Cons.prems(2) have "map_of (changed_columns old f upd) i = None"
      by (auto simp: changed_columns_def AList.update_conv' split: option.split)
    with False Cons.IH Cons.prems show ?thesis by simp
  qed
qed simp

lemma Facility_Diff_fold:
  "fold set_facility_column (Facility_Diff f g) g =
     g\<lparr>af_MinRating := af_MinRating f, af_Callsign := af_Callsign f, af_Frequency := af_Frequency f\<rparr>"
  by (simp add: Facility_Diff_def)

lemma find_named: "i \<noteq> 0 \<Longrightarrow> find (\<lambda>f. af_ID f = i) (filter (\<lambda>f. af_ID f \<noteq> 0) fs) = find (\<lambda>f. af_ID f = i) fs"
  by (induction fs) auto

lemma find_named_None: "i \<noteq> 0 \<Longrightarrow> find (\<lambda>f. af_ID f = i) fs = None \<longleftrightarrow> i \<notin> set (named_facilities fs)"
  by (induction fs) auto

lemma find_ID: "find (\<lambda>f. af_ID f = i) fs = Some f \<Longrightarrow> af_ID f = i"
  by (auto simp: find_Some_iff)

lemma map_filter_concat: "map F (filter P xs) = concat (map (\<lambda>x. if P x then [F x] else []) xs)"
  by (induction xs) simp_all

lemma planned_update:
  assumes "distinct (map af_ID (filter (\<lambda>f. af_ID f \<noteq> 0) fs))"
    and "distinct (map af_ID gs)" and "0 \<notin> af_ID ` set gs"
    and "g \<in> set gs" and "find (\<lambda>f. af_ID f = af_ID g) fs = Some f"
  shows "(case map_of (fold (changed_columns (map (\<lambda>f. (af_ID f, f)) gs)) (filter (\<lambda>f. af_ID f \<noteq> 0) fs) []) (af_ID g) of
            None \<Rightarrow> g | Some cols \<Rightarrow> fold set_facility_column cols g) =
          g\<lparr>af_MinRating := af_MinRating f, af_Callsign := af_Callsign f, af_Frequency := af_Frequency f\<rparr>"
    (is "(case map_of ?upd _ of None \<Rightarrow> _ | Some cols \<Rightarrow> _ cols) = _")
proof -
  have m: "map_of (map (\<lambda>f. (af_ID f, f)) gs) (af_ID g) = Some g"
    using assms(2,4) by (intro map_of_is_SomeI) (auto simp: comp_def)
  have nz: "af_ID g \<noteq> 0" using assms(3,4) by (metis imageI)
  have fn: "find (\<lambda>f. af_ID f = af_ID g) (filter (\<lambda>f. af_ID f \<noteq> 0) fs) = Some f"
    using assms(5) unfolding find_named [OF nz] .
  have "map_of ?upd (af_ID g) = (if Facility_Equal f g then None else Some (Facility_Diff f g))"
    using changed_columns_find [OF assms(1) _ m, of "[]"] unfolding fn by simp
  moreover have "Facility_Equal f g \<Longrightarrow> g =
      g\<lparr>af_MinRating := af_MinRating f, af_Callsign := af_Callsign f, af_Frequency := af_Frequency f\<rparr>"
    by (simp add: Facility_Equal_def)
  ultimately show ?thesis by (auto simp: Facility_Diff_fold)
qed

text \<open>
  The plan for the facilities of an edited activity: it is refused exactly when the request
  names a facility that is not one of the activity, or names one twice; otherwise applying it to
  the stored facilities gives the requested ones: the named ones with their new rating, callsign
  and frequency and the controller that signed up for them, the new ones added to the activity,
  and no others.
\<close>

theorem facility_plan_exact:
  assumes "distinct (map af_ID (a_Facilities old))" and "0 \<notin> af_ID ` set (a_Facilities old)"
  shows "case plan_facilities old new of
           Inl err \<Rightarrow> err = ErrInconsistentData \<and>
             \<not> (distinct (named_facilities (a_Facilities new)) \<and>
                set (named_facilities (a_Facilities new)) \<subseteq> af_ID ` set (a_Facilities old))
         | Inr plan \<Rightarrow>
             distinct (named_facilities (a_Facilities new)) \<and>
             set (named_facilities (a_Facilities new)) \<subseteq> af_ID ` set (a_Facilities old) \<and>
             apply_plan plan (a_Facilities old) = requested (a_ID new) (a_Facilities new) (a_Facilities old)"
proof -
  let ?fs = "a_Facilities new" and ?gs = "a_Facilities old"
  let ?old = "map (\<lambda>f. (af_ID f, f)) ?gs" and ?named = "set (named_facilities (a_Facilities new))"
  have fst_old: "map fst ?old = map af_ID ?gs" by simp
  have fst_set: "fst ` set ?old = af_ID ` set ?gs" by force
  show ?thesis
  proof (cases "distinct (named_facilities ?fs) \<and> ?named \<subseteq> af_ID ` set ?gs")
    case False
    then show ?thesis
      unfolding plan_facilities_def facility_map_distinct [OF assms(1)]
        place_facilities_result [OF assms(1) [folded fst_old]] fst_set by auto
  next
    case True
    let ?upd = "fold (changed_columns ?old) (filter (\<lambda>f. af_ID f \<noteq> 0) ?fs) []"
    let ?ins = "map (\<lambda>f. f\<lparr>af_ActivityId := a_ID new\<rparr>) (filter (\<lambda>f. af_ID f = 0) ?fs)"
    let ?del = "map snd (filter (\<lambda>(k, _). k \<notin> ?named) ?old)"
    have plan: "plan_facilities old new = Inr \<lparr>pl_delete = ?del, pl_insert = ?ins, pl_update = ?upd\<rparr>"
      unfolding plan_facilities_def facility_map_distinct [OF assms(1)]
        place_facilities_result [OF assms(1) [folded fst_old]] fst_set using True by simp
    have del: "af_ID g \<in> af_ID ` set ?del \<longleftrightarrow> af_ID g \<notin> ?named" if "g \<in> set ?gs" for g
      using that by force
    have named: "distinct (map af_ID (filter (\<lambda>f. af_ID f \<noteq> 0) ?fs))"
      using True by (simp only: named_facilities_def)
    have upd: "(case map_of ?upd (af_ID g) of None \<Rightarrow> g | Some cols \<Rightarrow> fold set_facility_column cols g) =
        g\<lparr>af_MinRating := af_MinRating f, af_Callsign := af_Callsign f, af_Frequency := af_Frequency f\<rparr>"
      if "g \<in> set ?gs" "find (\<lambda>f. af_ID f = af_ID g) ?fs = Some f" for g f
      using planned_update [OF named assms that] .
    have "concat (map (\<lambda>g. if af_ID g \<notin> af_ID ` set ?del
            then [case map_of ?upd (af_ID g) of None \<Rightarrow> g | Some cols \<Rightarrow> fold set_facility_column cols g]
            else []) ?gs) =
        concat (map (\<lambda>g. case find (\<lambda>f. af_ID f = af_ID g) ?fs of
            None \<Rightarrow> []
          | Some f \<Rightarrow> [g\<lparr>af_MinRating := af_MinRating f, af_Callsign := af_Callsign f,
                       af_Frequency := af_Frequency f\<rparr>]) ?gs)"
    proof (intro arg_cong [where f = concat] map_cong refl)
      fix g
      assume g: "g \<in> set ?gs"
      then have "af_ID g \<noteq> 0" using assms(2) by (metis imageI)
      with g del upd show "(if af_ID g \<notin> af_ID ` set ?del
            then [case map_of ?upd (af_ID g) of None \<Rightarrow> g | Some cols \<Rightarrow> fold set_facility_column cols g]
            else []) =
          (case find (\<lambda>f. af_ID f = af_ID g) ?fs of
            None \<Rightarrow> []
          | Some f \<Rightarrow> [g\<lparr>af_MinRating := af_MinRating f, af_Callsign := af_Callsign f,
                       af_Frequency := af_Frequency f\<rparr>])"
        using find_named_None [of "af_ID g" ?fs]
        by (cases "find (\<lambda>f. af_ID f = af_ID g) ?fs") (simp_all only: option.simps if_True if_False not_not, auto)
    qed
    then have "apply_plan \<lparr>pl_delete = ?del, pl_insert = ?ins, pl_update = ?upd\<rparr> ?gs = requested (a_ID new) ?fs ?gs"
      by (simp only: apply_plan_def requested_def facility_plan.simps map_filter_concat)
    with plan True show ?thesis by simp
  qed
qed

section \<open>Signing up\<close>

text \<open>
  What the operations rely on: a query gives a row that matches, or reports that there is none, or
  fails; keys are not zero; a created row is one more row with a new key, and the unique index refuses it exactly
  when a row with the same index is there; a deletion removes the rows with the key.
\<close>

definition query_spec :: "('r \<Rightarrow> bool) \<Rightarrow> ('r \<Rightarrow> 'r \<Rightarrow> bool) \<Rightarrow> 'r list \<Rightarrow> gorm_error + 'r \<Rightarrow> bool" where
  "query_spec P like rows result \<longleftrightarrow>
     (case result of
        Inr p \<Rightarrow> \<exists>q \<in> set rows. P q \<and> like q p
      | Inl ErrRecordNotFound \<Rightarrow> \<forall>q \<in> set rows. \<not> P q
      | Inl _ \<Rightarrow> True)"

definition create_spec ::
    "('r \<Rightarrow> 'k) \<Rightarrow> ('r \<Rightarrow> nat) \<Rightarrow> (nat \<Rightarrow> 'r \<Rightarrow> 'r) \<Rightarrow> ('db \<Rightarrow> 'r list) \<Rightarrow> 'r \<Rightarrow> 'db
       \<Rightarrow> 'db \<times> gorm_error option \<Rightarrow> bool" where
  "create_spec index key set_key rows p db result \<longleftrightarrow>
     (case result of
        (db', None) \<Rightarrow> (\<exists>i. rows db' = rows db @ [set_key i p] \<and> i \<notin> key ` set (rows db)) \<and>
          index p \<notin> index ` set (rows db)
      | (db', Some ErrDuplicatedKey) \<Rightarrow> index p \<in> index ` set (rows db)
      | _ \<Rightarrow> True)"

definition pilot_index :: "ActivityPilot \<Rightarrow> nat \<times> int" where
  "pilot_index p = (ap_ActivityId p, ap_Cid p)"

definition pilot_callsign :: "ActivityPilot \<Rightarrow> nat \<times> string" where
  "pilot_callsign p = (ap_ActivityId p, ap_Callsign p)"

definition pilot_table :: "'db act_api \<Rightarrow> ('db \<Rightarrow> ActivityPilot list) \<Rightarrow> bool" where
  "pilot_table B rows \<longleftrightarrow>
     (\<forall>aid cid cs db. query_spec (\<lambda>q. ap_ActivityId q = aid \<and> (ap_Cid q = cid \<or> ap_Callsign q = cs))
        (\<lambda>q p. ap_ID q = ap_ID p \<and> ap_Cid q = ap_Cid p) (rows db) (first_pilot_or_callsign B aid cid cs db)) \<and>
     (\<forall>aid cid db. query_spec (\<lambda>q. ap_ActivityId q = aid \<and> ap_Cid q = cid)
        (\<lambda>q p. ap_ID q = ap_ID p) (rows db) (first_pilot B aid cid db)) \<and>
     (\<forall>db. \<forall>p \<in> set (rows db). ap_ID p \<noteq> 0) \<and>
     (\<forall>p db. create_spec pilot_index ap_ID (\<lambda>i p. p\<lparr>ap_ID := i\<rparr>) rows p db (create_pilot B p db)) \<and>
     (\<forall>i db db'. delete_pilot B i db = (db', None) \<longrightarrow> rows db' = filter (\<lambda>p. ap_ID p \<noteq> i) (rows db))"

definition pilots_ok :: "ActivityPilot list \<Rightarrow> bool" where
  "pilots_ok rows \<longleftrightarrow> distinct (map pilot_index rows) \<and> distinct (map pilot_callsign rows)"

lemma pilots_ok_snoc:
  "pilots_ok (rows @ [p]) \<longleftrightarrow> pilots_ok rows \<and> pilot_index p \<notin> pilot_index ` set rows \<and>
     pilot_callsign p \<notin> pilot_callsign ` set rows"
  by (auto simp: pilots_ok_def)

lemma query_found: "query_spec P like rows (Inr p) \<longleftrightarrow> (\<exists>q \<in> set rows. P q \<and> like q p)"
  by (simp add: query_spec_def)

lemma query_none: "query_spec P like rows (Inl ErrRecordNotFound) \<longleftrightarrow> (\<forall>q \<in> set rows. \<not> P q)"
  by (simp add: query_spec_def)

text \<open>
  A registration without an error adds exactly one pilot, in the state \<open>Signed\<close>, and keeps the
  accounts and the callsigns of each activity distinct; one with an error changes nothing, and the
  errors \<open>ErrActivityAlreadySigned\<close> and \<open>ErrCallsignAlreadyUsed\<close> are true.
\<close>

lemma SignActivityPilot_taken:
  assumes "first_pilot_or_callsign B aid cid cs db = Inr p" and "ap_ID p \<noteq> 0"
  shows "SignActivityPilot B aid cid cs aircraft db =
           (db, Some (if ap_Cid p = cid then ErrActivityAlreadySigned else ErrCallsignAlreadyUsed))"
  using assms by (simp add: SignActivityPilot_def transaction_def found_or_def Let_def)

lemma SignActivityPilot_create:
  assumes "first_pilot_or_callsign B aid cid cs db = Inl ErrRecordNotFound"
    and "create_pilot B (NewActivityPilot aid cid cs aircraft) db = (db', e)"
  shows "SignActivityPilot B aid cid cs aircraft db =
           (case e of None \<Rightarrow> (db', None) | Some ErrDuplicatedKey \<Rightarrow> (db, Some ErrActivityAlreadySigned)
            | Some x \<Rightarrow> (db, Some (ActDbError x)))"
proof -
  have "ap_ID zero_Pilot = 0" by (simp add: zero_Pilot_def)
  with assms show ?thesis
    by (auto simp: SignActivityPilot_def transaction_def found_or_def Let_def act_error_def
        split: option.split gorm_error.split)
qed

lemma NewActivityPilot_keys [simp]:
  "pilot_index ((NewActivityPilot aid cid cs aircraft)\<lparr>ap_ID := i\<rparr>) = (aid, cid)"
  "pilot_callsign ((NewActivityPilot aid cid cs aircraft)\<lparr>ap_ID := i\<rparr>) = (aid, cs)"
  "pilot_index (NewActivityPilot aid cid cs aircraft) = (aid, cid)"
  by (simp_all add: pilot_index_def pilot_callsign_def NewActivityPilot_def)

lemma pilot_join:
  assumes "pilot_table B rows" and "pilots_ok (rows db)"
    and "\<forall>err. first_pilot_or_callsign B aid cid cs db = Inl err \<longrightarrow> err = ErrRecordNotFound"
  shows "case SignActivityPilot B aid cid cs aircraft db of
           (db', None) \<Rightarrow> pilots_ok (rows db') \<and>
             (\<exists>i. rows db' = rows db @ [\<lparr>ap_ID = i, ap_ActivityId = aid, ap_Cid = cid, ap_Callsign = cs,
                                        ap_AircraftType = aircraft, ap_Status = Signed\<rparr>] \<and>
                  i \<notin> ap_ID ` set (rows db)) \<and>
             (aid, cid) \<notin> pilot_index ` set (rows db) \<and> (aid, cs) \<notin> pilot_callsign ` set (rows db)
         | (db', Some e) \<Rightarrow> db' = db \<and>
             (e = ErrActivityAlreadySigned \<longrightarrow> (aid, cid) \<in> pilot_index ` set (rows db)) \<and>
             (e = ErrCallsignAlreadyUsed \<longrightarrow> (aid, cs) \<in> pilot_callsign ` set (rows db))"
proof -
  let ?new = "NewActivityPilot aid cid cs aircraft" and ?q = "first_pilot_or_callsign B aid cid cs db"
  have q: "query_spec (\<lambda>q. ap_ActivityId q = aid \<and> (ap_Cid q = cid \<or> ap_Callsign q = cs))
        (\<lambda>q p. ap_ID q = ap_ID p \<and> ap_Cid q = ap_Cid p) (rows db) ?q"
    and nz: "\<forall>p \<in> set (rows db). ap_ID p \<noteq> 0"
    and c: "create_spec pilot_index ap_ID (\<lambda>i p. p\<lparr>ap_ID := i\<rparr>) rows ?new db (create_pilot B ?new db)"
    using assms(1) unfolding pilot_table_def by blast+
  show ?thesis
  proof (cases ?q)
    case (Inr p)
    with q obtain r where r: "r \<in> set (rows db)" "ap_ActivityId r = aid" "ap_ID r = ap_ID p"
      "ap_Cid r = ap_Cid p" "ap_Cid r = cid \<or> ap_Callsign r = cs" by (auto simp: query_found)
    have pk: "ap_ID p \<noteq> 0" using nz r(1) unfolding r(3) [symmetric] by blast
    note taken = SignActivityPilot_taken [OF Inr pk, of aircraft]
    have "(aid, cid) \<in> pilot_index ` set (rows db)" if "ap_Cid p = cid"
      using r that by (intro image_eqI [of _ _ r]) (simp_all add: pilot_index_def)
    moreover have "(aid, cs) \<in> pilot_callsign ` set (rows db)" if "ap_Cid p \<noteq> cid"
      using r that by (intro image_eqI [of _ _ r]) (simp_all add: pilot_callsign_def)
    ultimately show ?thesis unfolding taken by simp
  next
    case (Inl err)
    with assms(3) q have nobody: "\<forall>r \<in> set (rows db). \<not> (ap_ActivityId r = aid \<and> (ap_Cid r = cid \<or> ap_Callsign r = cs))"
      and "err = ErrRecordNotFound" by (simp_all add: query_none)
    with Inl have missing: "?q = Inl ErrRecordNotFound" by simp
    obtain db' e where create: "create_pilot B ?new db = (db', e)" by fastforce
    note sign = SignActivityPilot_create [OF missing create]
    show ?thesis
    proof (cases e)
      case None
      with c create obtain i where "rows db' = rows db @ [?new\<lparr>ap_ID := i\<rparr>]" "i \<notin> ap_ID ` set (rows db)"
        by (auto simp: create_spec_def)
      moreover have "(aid, cid) \<notin> pilot_index ` set (rows db)" "(aid, cs) \<notin> pilot_callsign ` set (rows db)"
        using nobody by (auto simp: pilot_index_def pilot_callsign_def)
      moreover from this have "pilots_ok (rows db @ [?new\<lparr>ap_ID := i\<rparr>])"
        using assms(2) unfolding pilots_ok_snoc NewActivityPilot_keys by simp
      ultimately show ?thesis unfolding sign None by (auto simp: NewActivityPilot_def)
    next
      case (Some x)
      with c create show ?thesis unfolding sign Some
        by (cases x) (simp_all add: create_spec_def)
    qed
  qed
qed

text \<open>Leaving removes the registration of the account and no other.\<close>

lemma pilot_leave:
  assumes "pilot_table B rows" and "pilots_ok (rows db)" and "distinct (map ap_ID (rows db))"
    and "UnsignActivityPilot B aid cid db = (db', None)"
  shows "(aid, cid) \<in> pilot_index ` set (rows db) \<and> rows db' = filter (\<lambda>p. pilot_index p \<noteq> (aid, cid)) (rows db)"
proof -
  let ?p = "found_or zero_Pilot (first_pilot B aid cid db)"
  have nz: "ap_ID ?p \<noteq> 0"
    using assms(4) by (simp add: UnsignActivityPilot_def transaction_def Let_def split: if_split_asm)
  with assms(4) have del: "delete_pilot B (ap_ID ?p) db = (db', None)"
    by (cases "delete_pilot B (ap_ID ?p) db")
      (simp add: UnsignActivityPilot_def transaction_def Let_def act_error_def split: option.split_asm)
  from nz obtain p where p: "first_pilot B aid cid db = Inr p" and fp: "?p = p"
    by (cases "first_pilot B aid cid db") (auto simp: found_or_def zero_Pilot_def)
  have "query_spec (\<lambda>q. ap_ActivityId q = aid \<and> ap_Cid q = cid) (\<lambda>q p. ap_ID q = ap_ID p) (rows db) (Inr p)"
    using assms(1) unfolding pilot_table_def p [symmetric] by blast
  then obtain r where r: "r \<in> set (rows db)" "pilot_index r = (aid, cid)" "ap_ID r = ap_ID p"
    by (auto simp: query_found pilot_index_def)
  have rows: "rows db' = filter (\<lambda>q. ap_ID q \<noteq> ap_ID r) (rows db)"
    using assms(1) del unfolding pilot_table_def fp r(3) by blast
  have inj: "inj_on ap_ID (set (rows db))" "inj_on pilot_index (set (rows db))"
    using assms(2,3) by (simp_all add: pilots_ok_def distinct_map)
  have "ap_ID q = ap_ID r \<longleftrightarrow> pilot_index q = pilot_index r" if "q \<in> set (rows db)" for q
    using inj_on_eq_iff [OF inj(1) that r(1)] inj_on_eq_iff [OF inj(2) that r(1)] by simp
  with rows have "rows db' = filter (\<lambda>q. pilot_index q \<noteq> pilot_index r) (rows db)"
    by (simp cong: filter_cong)
  with r show ?thesis by (metis image_eqI)
qed

definition atc_cid :: "ActivityATC \<Rightarrow> nat \<times> int" where
  "atc_cid c = (ac_ActivityId c, ac_Cid c)"

definition atc_index :: "ActivityATC \<Rightarrow> nat \<times> nat" where
  "atc_index c = (ac_ActivityId c, ac_FacilityId c)"

definition controller_table :: "'db act_api \<Rightarrow> ('db \<Rightarrow> ActivityATC list) \<Rightarrow> bool" where
  "controller_table B rows \<longleftrightarrow>
     (\<forall>aid cid db. query_spec (\<lambda>q. ac_ActivityId q = aid \<and> ac_Cid q = cid)
        (\<lambda>q c. ac_ID q = ac_ID c) (rows db) (first_controller B aid cid db)) \<and>
     (\<forall>aid fid cid db. query_spec (\<lambda>q. ac_ActivityId q = aid \<and> ac_FacilityId q = fid \<and> ac_Cid q = cid)
        (\<lambda>q c. ac_ID q = ac_ID c) (rows db) (first_facility_controller B aid fid cid db)) \<and>
     (\<forall>db. \<forall>c \<in> set (rows db). ac_ID c \<noteq> 0) \<and>
     (\<forall>c db. create_spec atc_index ac_ID (\<lambda>i c. c\<lparr>ac_ID := i\<rparr>) rows c db (create_controller B c db)) \<and>
     (\<forall>i db db'. delete_controller B i db = (db', None) \<longrightarrow> rows db' = filter (\<lambda>c. ac_ID c \<noteq> i) (rows db))"

definition controllers_ok :: "ActivityATC list \<Rightarrow> bool" where
  "controllers_ok rows \<longleftrightarrow> distinct (map atc_index rows) \<and> distinct (map atc_cid rows)"

lemma controllers_ok_snoc:
  "controllers_ok (rows @ [c]) \<longleftrightarrow> controllers_ok rows \<and> atc_index c \<notin> atc_index ` set rows \<and>
     atc_cid c \<notin> atc_cid ` set rows"
  by (auto simp: controllers_ok_def)

lemma SignFacilityController_taken:
  assumes "first_controller B (af_ActivityId f) (u_Cid user) db = Inr p" and "ac_ID p \<noteq> 0"
    and "\<not> u_Rating user \<le> af_MinRating f"
  shows "SignFacilityController B f user db = (db, Some ErrFacilityAlreadyExists)"
  using assms by (simp add: SignFacilityController_def transaction_def found_or_def Let_def)

lemma SignFacilityController_create:
  assumes "first_controller B (af_ActivityId f) (u_Cid user) db = Inl ErrRecordNotFound"
    and "create_controller B (NewActivityAtc f user) db = (db', e)" and "\<not> u_Rating user \<le> af_MinRating f"
  shows "SignFacilityController B f user db =
           (case e of None \<Rightarrow> (db', None) | Some ErrDuplicatedKey \<Rightarrow> (db, Some ErrFacilitySigned)
            | Some x \<Rightarrow> (db, Some (ActDbError x)))"
proof -
  have "ac_ID zero_ATC = 0" by (simp add: zero_ATC_def)
  with assms show ?thesis
    by (auto simp: SignFacilityController_def transaction_def found_or_def Let_def act_error_def
        split: option.split gorm_error.split)
qed

lemma NewActivityAtc_keys [simp]:
  "atc_index ((NewActivityAtc f user)\<lparr>ac_ID := i\<rparr>) = (af_ActivityId f, af_ID f)"
  "atc_cid ((NewActivityAtc f user)\<lparr>ac_ID := i\<rparr>) = (af_ActivityId f, u_Cid user)"
  "atc_index (NewActivityAtc f user) = (af_ActivityId f, af_ID f)"
  by (simp_all add: atc_index_def atc_cid_def NewActivityAtc_def)

text \<open>
  C29. Controllers of a group flight: when the database behaves as documented and its query does
  not fail, each facility has at most one controller and each account at most one facility of an
  activity, before a registration and after it. A registration without an error adds exactly one
  controller, whose rating is above the least rating of the facility, not equal to it; one with an
  error changes nothing, and the errors are true.
\<close>

theorem facility_signup:
  assumes "controller_table B rows" and "controllers_ok (rows db)"
    and "\<forall>err. first_controller B (af_ActivityId f) (u_Cid user) db = Inl err \<longrightarrow> err = ErrRecordNotFound"
  shows "let aid = af_ActivityId f; fid = af_ID f; cid = u_Cid user in
         case SignFacilityController B f user db of
           (db', None) \<Rightarrow> controllers_ok (rows db') \<and> af_MinRating f < u_Rating user \<and>
             (\<exists>i. rows db' = rows db @ [\<lparr>ac_ID = i, ac_ActivityId = aid, ac_FacilityId = fid, ac_Cid = cid\<rparr>])
         | (db', Some e) \<Rightarrow> db' = db \<and>
             (e = ErrRatingNotAllowed \<longleftrightarrow> u_Rating user \<le> af_MinRating f) \<and>
             (e = ErrFacilityAlreadyExists \<longrightarrow> (aid, cid) \<in> atc_cid ` set (rows db)) \<and>
             (e = ErrFacilitySigned \<longrightarrow> (aid, fid) \<in> atc_index ` set (rows db))"
proof (cases "u_Rating user \<le> af_MinRating f")
  case True
  then show ?thesis by (simp add: SignFacilityController_def)
next
  case rating: False
  let ?new = "NewActivityAtc f user" and ?q = "first_controller B (af_ActivityId f) (u_Cid user) db"
  have q: "query_spec (\<lambda>q. ac_ActivityId q = af_ActivityId f \<and> ac_Cid q = u_Cid user)
        (\<lambda>q c. ac_ID q = ac_ID c) (rows db) ?q"
    and nz: "\<forall>c \<in> set (rows db). ac_ID c \<noteq> 0"
    and c: "create_spec atc_index ac_ID (\<lambda>i c. c\<lparr>ac_ID := i\<rparr>) rows ?new db (create_controller B ?new db)"
    using assms(1) unfolding controller_table_def by blast+
  show ?thesis
  proof (cases ?q)
    case (Inr p)
    with q obtain r where r: "r \<in> set (rows db)" "ac_ActivityId r = af_ActivityId f" "ac_ID r = ac_ID p"
      "ac_Cid r = u_Cid user" by (auto simp: query_found)
    then have "(af_ActivityId f, u_Cid user) \<in> atc_cid ` set (rows db)"
      by (intro image_eqI [of _ _ r]) (simp_all add: atc_cid_def)
    moreover have "ac_ID p \<noteq> 0" using nz r(1) unfolding r(3) [symmetric] by blast
    ultimately show ?thesis using rating SignFacilityController_taken [OF Inr _ rating] by simp
  next
    case (Inl err)
    with assms(3) q have nobody: "\<forall>r \<in> set (rows db). \<not> (ac_ActivityId r = af_ActivityId f \<and> ac_Cid r = u_Cid user)"
      and "err = ErrRecordNotFound" by (simp_all add: query_none)
    with Inl have missing: "?q = Inl ErrRecordNotFound" by simp
    obtain db' e where create: "create_controller B ?new db = (db', e)" by fastforce
    note sign = SignFacilityController_create [OF missing create rating]
    show ?thesis
    proof (cases e)
      case None
      with c create obtain i where i: "rows db' = rows db @ [?new\<lparr>ac_ID := i\<rparr>]"
          "atc_index ?new \<notin> atc_index ` set (rows db)"
        by (auto simp: create_spec_def)
      moreover have "controllers_ok (rows db @ [?new\<lparr>ac_ID := i\<rparr>])"
        using assms(2) nobody i(2) unfolding controllers_ok_snoc NewActivityAtc_keys by (auto simp: atc_cid_def)
      ultimately show ?thesis using rating unfolding sign None by (auto simp: NewActivityAtc_def Let_def)
    next
      case (Some x)
      with c create rating show ?thesis unfolding sign Some
        by (cases x) (simp_all add: create_spec_def)
    qed
  qed
qed

text \<open>
  A controller can only give up its own facility: a cancellation without an error is made for
  the account that the facility lists as its controller, and it removes registrations of that
  account for that facility and nothing else; one with an error changes nothing.
\<close>

theorem facility_leave:
  assumes "controller_table B rows" and "distinct (map ac_ID (rows db))"
  shows "case UnsignFacilityController B f cid db of
           (db', None) \<Rightarrow> map_option ac_Cid (af_Controller f) = Some cid \<and>
             (\<exists>r \<in> set (rows db). atc_index r = (af_ActivityId f, af_ID f) \<and> ac_Cid r = cid \<and>
                rows db' = filter (\<lambda>c. c \<noteq> r) (rows db))
         | (db', Some e) \<Rightarrow> db' = db"
proof (cases "UnsignFacilityController B f cid db")
  case (Pair db' e)
  show ?thesis
  proof (cases e)
    case (Some x)
    with Pair show ?thesis
      by (simp add: UnsignFacilityController_def transaction_cases split: option.split_asm if_split_asm)
  next
    case None
    let ?c = "found_or zero_ATC (first_facility_controller B (af_ActivityId f) (af_ID f) cid db)"
    from Pair None obtain own where own: "af_Controller f = Some own" "ac_Cid own = cid"
      by (simp add: UnsignFacilityController_def split: option.split_asm if_split_asm)
    with Pair None have nz: "ac_ID ?c \<noteq> 0"
      by (simp add: UnsignFacilityController_def transaction_def Let_def split: if_split_asm)
    with own Pair None have del: "delete_controller B (ac_ID ?c) db = (db', None)"
      by (cases "delete_controller B (ac_ID ?c) db")
        (simp add: UnsignFacilityController_def transaction_def Let_def act_error_def split: option.split_asm)
    from nz obtain c where c: "first_facility_controller B (af_ActivityId f) (af_ID f) cid db = Inr c" and fc: "?c = c"
      by (cases "first_facility_controller B (af_ActivityId f) (af_ID f) cid db")
        (auto simp: found_or_def zero_ATC_def)
    have "query_spec (\<lambda>q. ac_ActivityId q = af_ActivityId f \<and> ac_FacilityId q = af_ID f \<and> ac_Cid q = cid)
        (\<lambda>q c. ac_ID q = ac_ID c) (rows db) (Inr c)"
      using assms(1) unfolding controller_table_def c [symmetric] by blast
    then obtain r where r: "r \<in> set (rows db)" "atc_index r = (af_ActivityId f, af_ID f)" "ac_Cid r = cid"
        "ac_ID r = ac_ID c"
      by (auto simp: query_found atc_index_def)
    have rows: "rows db' = filter (\<lambda>q. ac_ID q \<noteq> ac_ID r) (rows db)"
      using assms(1) del unfolding controller_table_def fc r(4) by blast
    have inj: "inj_on ac_ID (set (rows db))" using assms(2) by (simp add: distinct_map)
    have "ac_ID q = ac_ID r \<longleftrightarrow> q = r" if "q \<in> set (rows db)" for q
      using inj_on_eq_iff [OF inj that r(1)] .
    with rows have "rows db' = filter (\<lambda>q. q \<noteq> r) (rows db)" by (simp cong: filter_cong)
    with Pair None own r show ?thesis by auto
  qed
qed

section \<open>An in-memory database of activities\<close>

text \<open>
  One implementation of the interface, at which the hypotheses about it are shown to be
  satisfiable. Rows without a key are not there.
\<close>

record act_memory =
  am_activities :: "Activity list"
  am_facilities :: "ActivityFacility list"
  am_controllers :: "ActivityATC list"
  am_pilots :: "ActivityPilot list"

definition fresh_key :: "nat list \<Rightarrow> nat" where
  "fresh_key keys = Suc (fold max keys 0)"

definition memory_pilots :: "act_memory \<Rightarrow> ActivityPilot list" where
  "memory_pilots m = filter (\<lambda>p. ap_ID p \<noteq> 0) (am_pilots m)"

definition memory_controllers :: "act_memory \<Rightarrow> ActivityATC list" where
  "memory_controllers m = filter (\<lambda>c. ac_ID c \<noteq> 0) (am_controllers m)"

definition memory_facility :: "act_memory \<Rightarrow> ActivityFacility \<Rightarrow> ActivityFacility" where
  "memory_facility m f =
     f\<lparr>af_Controller := find (\<lambda>c. ac_FacilityId c = af_ID f) (memory_controllers m)\<rparr>"

definition memory_activity :: "act_memory \<Rightarrow> Activity \<Rightarrow> Activity" where
  "memory_activity m a =
     a\<lparr>a_Facilities := filter (\<lambda>f. af_ActivityId f = a_ID a) (am_facilities m),
       a_Controllers := filter (\<lambda>c. ac_ActivityId c = a_ID a) (memory_controllers m),
       a_Pilots := filter (\<lambda>p. ap_ActivityId p = a_ID a) (memory_pilots m)\<rparr>"

definition memory_create_pilot :: "ActivityPilot \<Rightarrow> act_memory \<Rightarrow> act_memory \<times> gorm_error option" where
  "memory_create_pilot p m =
     (if pilot_index p \<in> pilot_index ` set (memory_pilots m) then (m, Some ErrDuplicatedKey)
      else (m\<lparr>am_pilots := am_pilots m @ [p\<lparr>ap_ID := fresh_key (map ap_ID (am_pilots m))\<rparr>]\<rparr>, None))"

definition memory_create_controller :: "ActivityATC \<Rightarrow> act_memory \<Rightarrow> act_memory \<times> gorm_error option" where
  "memory_create_controller c m =
     (if atc_index c \<in> atc_index ` set (memory_controllers m) then (m, Some ErrDuplicatedKey)
      else (m\<lparr>am_controllers := am_controllers m @ [c\<lparr>ac_ID := fresh_key (map ac_ID (am_controllers m))\<rparr>]\<rparr>, None))"

definition memory_save_activity :: "Activity \<Rightarrow> act_memory \<Rightarrow> act_memory \<times> Activity \<times> gorm_error option" where
  "memory_save_activity a m =
     (let a' = (if a_ID a = 0 then a\<lparr>a_ID := fresh_key (map a_ID (am_activities m))\<rparr> else a)
      in (m\<lparr>am_activities := filter (\<lambda>b. a_ID b \<noteq> a_ID a') (am_activities m) @ [a'],
            am_facilities := am_facilities m @ a_Facilities a'\<rparr>, a', None))"

definition memory_act_api :: "act_memory act_api" where
  "memory_act_api =
     \<lparr>find_activities = \<lambda>s t m. (filter (\<lambda>a. fst s \<le> fst (a_ActiveTime a) \<and> fst (a_ActiveTime a) \<le> fst t)
        (am_activities m), None),
      page_activities = \<lambda>off lim m. (take (nat lim) (drop (nat off) (am_activities m)), None),
      count_activities = \<lambda>m. (int (length (am_activities m)), None),
      first_activity = \<lambda>i m. (case first_such (\<lambda>a. a_ID a = i) (am_activities m) of
        Inl err \<Rightarrow> Inl err | Inr a \<Rightarrow> Inr (memory_activity m a)),
      save_activity = memory_save_activity,
      delete_activity = \<lambda>i m. (m\<lparr>am_activities := filter (\<lambda>a. a_ID a \<noteq> i) (am_activities m)\<rparr>, None),
      update_activity = \<lambda>i cols m. (m\<lparr>am_activities := replace_by (\<lambda>a. a_ID a = i) (fold set_column cols)
        (am_activities m)\<rparr>, None),
      first_facility = \<lambda>i m. (case first_such (\<lambda>f. af_ID f = i) (am_facilities m) of
        Inl err \<Rightarrow> Inl err | Inr f \<Rightarrow> Inr (memory_facility m f)),
      delete_facilities = \<lambda>is m. (m\<lparr>am_facilities := filter (\<lambda>f. af_ID f \<notin> set is) (am_facilities m)\<rparr>, None),
      create_facilities = \<lambda>fs m. (m\<lparr>am_facilities := am_facilities m @ fs\<rparr>, fs, None),
      update_facility = \<lambda>i cols m. (m\<lparr>am_facilities := replace_by (\<lambda>f. af_ID f = i)
        (fold set_facility_column cols) (am_facilities m)\<rparr>, None),
      first_controller = \<lambda>aid cid m. first_such (\<lambda>c. ac_ActivityId c = aid \<and> ac_Cid c = cid) (memory_controllers m),
      first_facility_controller = \<lambda>aid fid cid m.
        first_such (\<lambda>c. ac_ActivityId c = aid \<and> ac_FacilityId c = fid \<and> ac_Cid c = cid) (memory_controllers m),
      create_controller = memory_create_controller,
      delete_controller = \<lambda>i m. (m\<lparr>am_controllers := filter (\<lambda>c. ac_ID c \<noteq> i) (am_controllers m)\<rparr>, None),
      first_pilot = \<lambda>aid cid m. first_such (\<lambda>p. ap_ActivityId p = aid \<and> ap_Cid p = cid) (memory_pilots m),
      first_pilot_or_callsign = \<lambda>aid cid cs m.
        first_such (\<lambda>p. ap_ActivityId p = aid \<and> (ap_Cid p = cid \<or> ap_Callsign p = cs)) (memory_pilots m),
      create_pilot = memory_create_pilot,
      delete_pilot = \<lambda>i m. (m\<lparr>am_pilots := filter (\<lambda>p. ap_ID p \<noteq> i) (am_pilots m)\<rparr>, None),
      set_pilot_status = \<lambda>i s m. (m\<lparr>am_pilots := replace_by (\<lambda>p. ap_ID p = i) (\<lambda>p. p\<lparr>ap_Status := s\<rparr>)
        (am_pilots m)\<rparr>, None)\<rparr>"

lemma fresh_key: "k \<in> set keys \<Longrightarrow> k < fresh_key keys"
proof -
  have "fold max keys b \<ge> b \<and> (k \<in> set keys \<longrightarrow> k \<le> fold max keys b)" for b
    by (induction keys arbitrary: b) (auto, (meson le_trans max.cobounded1 max.cobounded2)+)
  then show "k \<in> set keys \<Longrightarrow> k < fresh_key keys" unfolding fresh_key_def by (meson le_imp_less_Suc)
qed

lemma fresh_key_rows: "rows \<subseteq> set xs \<Longrightarrow> fresh_key (map f xs) \<notin> f ` rows"
  using fresh_key [of _ "map f xs"] by fastforce

lemma first_such_spec: "(\<And>x. like x x) \<Longrightarrow> query_spec P like xs (first_such P xs)"
  by (auto simp: query_spec_def first_such_def filter_empty_conv split: list.split dest!: filter_eq_ConsD)

lemma pilot_table_memory: "pilot_table memory_act_api memory_pilots"
  unfolding pilot_table_def
proof (intro conjI allI ballI impI)
  fix aid cid cs m
  show "query_spec (\<lambda>q. ap_ActivityId q = aid \<and> (ap_Cid q = cid \<or> ap_Callsign q = cs))
      (\<lambda>q p. ap_ID q = ap_ID p \<and> ap_Cid q = ap_Cid p) (memory_pilots m)
      (first_pilot_or_callsign memory_act_api aid cid cs m)"
    by (simp add: memory_act_api_def first_such_spec)
  show "query_spec (\<lambda>q. ap_ActivityId q = aid \<and> ap_Cid q = cid) (\<lambda>q p. ap_ID q = ap_ID p) (memory_pilots m)
      (first_pilot memory_act_api aid cid m)"
    by (simp add: memory_act_api_def first_such_spec)
next
  fix p m
  show "create_spec pilot_index ap_ID (\<lambda>i p. p\<lparr>ap_ID := i\<rparr>) memory_pilots p m (create_pilot memory_act_api p m)"
    using fresh_key_rows [of "set (memory_pilots m)" "am_pilots m" ap_ID]
    by (auto simp: create_spec_def memory_act_api_def memory_create_pilot_def memory_pilots_def fresh_key_def)
next
  fix i m m'
  assume "delete_pilot memory_act_api i m = (m', None)"
  then have "m' = m\<lparr>am_pilots := filter (\<lambda>p. ap_ID p \<noteq> i) (am_pilots m)\<rparr>" by (simp add: memory_act_api_def)
  then show "memory_pilots m' = filter (\<lambda>p. ap_ID p \<noteq> i) (memory_pilots m)"
    by (simp add: memory_pilots_def conj_commute)
qed (simp add: memory_pilots_def)

lemma controller_table_memory: "controller_table memory_act_api memory_controllers"
  unfolding controller_table_def
proof (intro conjI allI ballI impI)
  fix aid fid cid m
  show "query_spec (\<lambda>q. ac_ActivityId q = aid \<and> ac_Cid q = cid) (\<lambda>q c. ac_ID q = ac_ID c) (memory_controllers m)
      (first_controller memory_act_api aid cid m)"
    by (simp add: memory_act_api_def first_such_spec)
  show "query_spec (\<lambda>q. ac_ActivityId q = aid \<and> ac_FacilityId q = fid \<and> ac_Cid q = cid)
      (\<lambda>q c. ac_ID q = ac_ID c) (memory_controllers m) (first_facility_controller memory_act_api aid fid cid m)"
    by (simp add: memory_act_api_def first_such_spec)
next
  fix c m
  show "create_spec atc_index ac_ID (\<lambda>i c. c\<lparr>ac_ID := i\<rparr>) memory_controllers c m (create_controller memory_act_api c m)"
    using fresh_key_rows [of "set (memory_controllers m)" "am_controllers m" ac_ID]
    by (auto simp: create_spec_def memory_act_api_def memory_create_controller_def memory_controllers_def fresh_key_def)
next
  fix i m m'
  assume "delete_controller memory_act_api i m = (m', None)"
  then have "m' = m\<lparr>am_controllers := filter (\<lambda>c. ac_ID c \<noteq> i) (am_controllers m)\<rparr>" by (simp add: memory_act_api_def)
  then show "memory_controllers m' = filter (\<lambda>c. ac_ID c \<noteq> i) (memory_controllers m)"
    by (simp add: memory_controllers_def conj_commute)
qed (simp add: memory_controllers_def)

definition tower :: ActivityFacility where
  "tower = \<lparr>af_ID = 5, af_ActivityId = 3, af_MinRating = 2, af_Callsign = ''ZBAA_TWR'', af_Frequency = ''118.500'',
     af_Controller = Some \<lparr>ac_ID = 8, ac_ActivityId = 3, ac_FacilityId = 5, ac_Cid = 7\<rparr>\<rparr>"

definition ground :: ActivityFacility where
  "ground = \<lparr>af_ID = 6, af_ActivityId = 3, af_MinRating = 2, af_Callsign = ''ZBAA_GND'', af_Frequency = ''121.700'',
     af_Controller = None\<rparr>"

definition approach :: ActivityFacility where
  "approach = \<lparr>af_ID = 0, af_ActivityId = 0, af_MinRating = 4, af_Callsign = ''ZBAA_APP'', af_Frequency = ''119.000'',
     af_Controller = None\<rparr>"

definition example_activity :: Activity where
  "example_activity = (NewActivity zero_User ''Night'' ''a.png'' (9, 0) ''ZBAA'' ''ZSSS'' ''W40'' 560 '''')
     \<lparr>a_ID := 3, a_Facilities := [tower, ground]\<rparr>"

definition example_activities :: act_memory where
  "example_activities = \<lparr>am_activities = [example_activity], am_facilities = [tower, ground],
     am_controllers = [\<lparr>ac_ID = 8, ac_ActivityId = 3, ac_FacilityId = 5, ac_Cid = 7\<rparr>],
     am_pilots = [\<lparr>ap_ID = 9, ap_ActivityId = 3, ap_Cid = 7, ap_Callsign = ''CES1'', ap_AircraftType = ''A320'', ap_Status = 0\<rparr>]\<rparr>"

lemma example_facilities [simp]:
  "a_Facilities example_activity = [tower, ground]" "a_ID example_activity = 3"
  by (simp_all add: example_activity_def NewActivity_def)

theorem facility_plan_exact_witness:
  "case plan_facilities example_activity (example_activity\<lparr>a_Facilities := [approach, tower\<lparr>af_MinRating := 3\<rparr>]\<rparr>) of
     Inl _ \<Rightarrow> False
   | Inr plan \<Rightarrow> apply_plan plan [tower, ground] = [tower\<lparr>af_MinRating := 3\<rparr>, approach\<lparr>af_ActivityId := 3\<rparr>]"
proof -
  have "distinct (map af_ID (a_Facilities example_activity))" "0 \<notin> af_ID ` set (a_Facilities example_activity)"
    by (simp_all add: tower_def ground_def)
  from facility_plan_exact [OF this, of "example_activity\<lparr>a_Facilities := [approach, tower\<lparr>af_MinRating := 3\<rparr>]\<rparr>"]
  show ?thesis
    by (auto simp: requested_def tower_def ground_def approach_def split: sum.splits)
qed

lemma example_rows [simp]:
  "memory_pilots example_activities = [\<lparr>ap_ID = 9, ap_ActivityId = 3, ap_Cid = 7, ap_Callsign = ''CES1'',
     ap_AircraftType = ''A320'', ap_Status = 0\<rparr>]"
  "memory_controllers example_activities = [\<lparr>ac_ID = 8, ac_ActivityId = 3, ac_FacilityId = 5, ac_Cid = 7\<rparr>]"
  by (simp_all add: example_activities_def memory_pilots_def memory_controllers_def)

theorem facility_signup_witness:
  "snd (SignFacilityController memory_act_api ground (zero_User\<lparr>u_Rating := 2\<rparr>) example_activities) =
     Some ErrRatingNotAllowed \<and>
   controllers_ok (memory_controllers (fst (SignFacilityController memory_act_api ground
     (zero_User\<lparr>u_Rating := 3, u_Cid := 11\<rparr>) example_activities)))"
proof -
  let ?u = "zero_User\<lparr>u_Rating := 3, u_Cid := 11\<rparr>"
  have "controllers_ok (memory_controllers example_activities)"
    by (simp add: controllers_ok_def)
  note sign = facility_signup [OF controller_table_memory this, where f = ground]
  have q: "first_controller memory_act_api 3 11 example_activities = Inl ErrRecordNotFound"
    by (simp add: memory_act_api_def first_such_def)
  then have "snd (SignFacilityController memory_act_api ground ?u example_activities) = None"
    by (simp add: SignFacilityController_def transaction_def found_or_def Let_def zero_ATC_def ground_def zero_User_def)
      (simp add: memory_act_api_def memory_create_controller_def act_error_def atc_index_def NewActivityAtc_def)
  with sign [where user = ?u] q have "controllers_ok (memory_controllers (fst (SignFacilityController memory_act_api ground ?u example_activities)))"
    by (auto simp: ground_def Let_def split: prod.splits option.splits)
  then show ?thesis by (simp add: SignFacilityController_def ground_def)
qed

theorem facility_leave_witness:
  "snd (UnsignFacilityController memory_act_api tower 7 example_activities) = None \<and>
   memory_controllers (fst (UnsignFacilityController memory_act_api tower 7 example_activities)) = [] \<and>
   fst (UnsignFacilityController memory_act_api tower 11 example_activities) = example_activities"
proof -
  have d: "distinct (map ac_ID (memory_controllers example_activities))" by simp
  have ok: "snd (UnsignFacilityController memory_act_api tower 7 example_activities) = None"
    by (simp add: UnsignFacilityController_def transaction_def found_or_def Let_def memory_act_api_def first_such_def
        tower_def act_error_def zero_ATC_def)
  moreover have "memory_controllers (fst (UnsignFacilityController memory_act_api tower 7 example_activities)) = []"
    using facility_leave [OF controller_table_memory d, of tower 7] ok
    by (auto split: prod.splits option.splits)
  moreover have "fst (UnsignFacilityController memory_act_api tower 11 example_activities) = example_activities"
    by (simp add: UnsignFacilityController_def tower_def)
  ultimately show ?thesis by simp
qed

end
