(* ===== verification/Activities.thy ===== *)
theory Activities
  imports Accounts ActivityStore
begin

text \<open>
  The activity service (\<open>internal/http_server/service/activity.go\<close>): the pages of group flights,
  their publication, change and removal, and the registration of controllers and pilots.

  The tables of the activities are a state of their own beside that of the services; the accounts
  are read where a controller registers. The permission is the one of the token. Goroutines that
  write the audit log run at once.
\<close>

section \<open>Months\<close>

text \<open>
  Dates are nanoseconds since the start of 1970, in the time zone UTC (location 0). A month is
  its number \<open>12 * year + month - 1\<close>; the calendar is the Gregorian one for all years.
\<close>

definition leap_year :: "int \<Rightarrow> bool" where
  "leap_year y \<longleftrightarrow> y mod 4 = 0 \<and> (y mod 100 \<noteq> 0 \<or> y mod 400 = 0)"

definition days_before_year :: "int \<Rightarrow> int" where
  "days_before_year y = 365 * (y - 1) + (y - 1) div 4 - (y - 1) div 100 + (y - 1) div 400"

definition days_before_month :: "int \<Rightarrow> int \<Rightarrow> int" where
  "days_before_month y m =
     [0, 31, 59, 90, 120, 151, 181, 212, 243, 273, 304, 334] ! nat m + (if leap_year y \<and> 2 \<le> m then 1 else 0)"

definition month_start :: "int \<Rightarrow> int" where
  "month_start k =
     (let y = k div 12; m = k mod 12
      in (days_before_year y + days_before_month y m - days_before_year 1970) * 86400000000000)"

text \<open>\<open>time.Parse("2006-01", s)\<close>; on an error the result is the zero time, the first of January of year 1.\<close>

definition parse_month :: "string \<Rightarrow> int option" where
  "parse_month s =
     (case s of
        [a, b, c, d, h, m, n] \<Rightarrow>
          if is_digit a \<and> is_digit b \<and> is_digit c \<and> is_digit d \<and> h = CHR ''-'' \<and> is_digit m \<and> is_digit n
          then (let year = int (digit_val a * 1000 + digit_val b * 100 + digit_val c * 10 + digit_val d);
                    month = int (digit_val m * 10 + digit_val n)
                in if 1 \<le> month \<and> month \<le> 12 then Some (12 * year + month - 1) else None)
          else None
      | _ \<Rightarrow> None)"

definition target_month :: "string \<Rightarrow> int" where
  "target_month s = (case parse_month s of None \<Rightarrow> 12 | Some k \<Rightarrow> k)"

section \<open>Requests\<close>

type_synonym 'a acts = "svc \<times> 'a"

text \<open>
  \<open>ae_json\<close> is the JSON of an activity after the operation on it, when its facilities have the
  keys that the database gave them; \<open>ae_json_old\<close> is the JSON of the stored one.
\<close>

record 'a act_env =
  ae_api :: "'a act_api"
  ae_json :: "Activity \<Rightarrow> 'a \<Rightarrow> string"
  ae_json_old :: "Activity \<Rightarrow> string"

record page_of_activities =
  pa_Items :: "Activity list"
  pa_Page :: int
  pa_PageSize :: int
  pa_Total :: int

definition StActivityNotFound :: ApiStatus where "StActivityNotFound = ApiStatus ''ACTIVITY_NOT_FOUND'' NotFound"
definition StFacilityNotFound :: ApiStatus where "StFacilityNotFound = ApiStatus ''FACILITY_NOT_FOUND'' NotFound"

text \<open>\<open>CallDBFuncAndCheckError\<close> on an operation on activities.\<close>

fun act_status :: "act_error \<Rightarrow> ApiStatus" where
  "act_status ErrActivityNotFound = StActivityNotFound"
| "act_status ErrFacilityNotFound = StFacilityNotFound"
| "act_status _ = ErrDatabaseFail"

definition CallActivityDB :: "act_error + 'r \<Rightarrow> ApiStatus + 'r" where
  "CallActivityDB r = (case r of Inl err \<Rightarrow> Inl (act_status err) | Inr x \<Rightarrow> Inr x)"

definition check_permission :: "header \<Rightarrow> permission \<Rightarrow> ApiStatus option" where
  "check_permission h perm =
     (if hd_Permission h \<le>s 0 then Some ErrNoPermission
      else if \<not> HasPermission (hd_Permission h) perm then Some ErrNoPermission
      else None)"

section \<open>Reading\<close>

definition SuccessGetActivities :: ApiStatus where "SuccessGetActivities = ApiStatus ''GET_ACTIVITIES'' Ok"

definition GetActivities :: "'a act_env \<Rightarrow> string \<Rightarrow> 'a acts \<Rightarrow> Activity list ApiResponse" where
  "GetActivities F time = (\<lambda>(s, db).
     let targetMonth = target_month time;
         firstDay = month_start (targetMonth - 1);
         lastDay = month_start (targetMonth + 2) - 1000000000
     in case op_GetActivities (ae_api F) (firstDay, 0) (lastDay, 0) db of
          (_, Some err) \<Rightarrow> fails ErrDatabaseFail
        | (activities, None) \<Rightarrow> succeeds SuccessGetActivities activities)"

definition SuccessGetActivitiesPage :: ApiStatus where "SuccessGetActivitiesPage = ApiStatus ''GET_ACTIVITIES_PAGE'' Ok"

definition GetActivitiesPage ::
    "'a act_env \<Rightarrow> header \<Rightarrow> int \<Rightarrow> int \<Rightarrow> 'a acts \<Rightarrow> page_of_activities ApiResponse" where
  "GetActivitiesPage F h page pageSize = (\<lambda>(s, db).
     if page \<le> 0 \<or> pageSize \<le> 0 then fails ErrIllegalParam
     else (case check_permission h ActivityShowList of
             Some err \<Rightarrow> fails err
           | None \<Rightarrow>
               (case op_GetActivitiesPage (ae_api F) page pageSize db of
                  (activities, count, Some err) \<Rightarrow> fails ErrDatabaseFail
                | (activities, count, None) \<Rightarrow> succeeds SuccessGetActivitiesPage
                    \<lparr>pa_Items = activities, pa_Page = page, pa_PageSize = pageSize, pa_Total = count\<rparr>)))"

definition SuccessGetActivityInfo :: ApiStatus where "SuccessGetActivityInfo = ApiStatus ''GET_ACTIVITY_INFO'' Ok"

definition GetActivityInfo :: "'a act_env \<Rightarrow> nat \<Rightarrow> 'a acts \<Rightarrow> Activity ApiResponse" where
  "GetActivityInfo F activityId = (\<lambda>(s, db).
     if activityId = 0 then fails ErrIllegalParam
     else (case CallActivityDB (GetActivityById (ae_api F) activityId db) of
             Inl res \<Rightarrow> fails res
           | Inr activity \<Rightarrow> succeeds SuccessGetActivityInfo activity))"

section \<open>Publishing and removing\<close>

definition SuccessAddActivity :: ApiStatus where "SuccessAddActivity = ApiStatus ''ADD_ACTIVITY'' Ok"

text \<open>
  The activity of the request is a pointer that a request without any of its columns leaves nil.
\<close>

definition AddActivity ::
    "'a act_env \<Rightarrow> 'db svc_env \<Rightarrow> header \<Rightarrow> Activity option \<Rightarrow> 'a acts \<Rightarrow> ('a acts \<times> Activity ApiResponse) go" where
  "AddActivity F E h activity = (\<lambda>(s, db).
     case check_permission h ActivityPublish of
       Some err \<Rightarrow> Inr ((s, db), fails err)
     | None \<Rightarrow>
         deref activity (\<lambda>a.
           case SaveActivity (ae_api F) (a\<lparr>a_Publisher := hd_Cid h\<rparr>) db of
             (_, db', Some err) \<Rightarrow> Inr ((s, db'), fails ErrDatabaseFail)
           | (a', db', None) \<Rightarrow>
               (let entry = NewAuditLog ActivityCreated (hd_Cid h) (itoa (int (a_ID a'))) (hd_Ip h) (hd_UserAgent h)
                              (Some \<lparr>cd_OldValue = '''', cd_NewValue = ae_json F a' db'\<rparr>)
                in Inr ((SaveAuditLog E entry s, db'), succeeds SuccessAddActivity a'))))"

definition SuccessDeleteActivity :: ApiStatus where "SuccessDeleteActivity = ApiStatus ''DELETE_ACTIVITY'' Ok"

definition DeleteActivity ::
    "'a act_env \<Rightarrow> 'db svc_env \<Rightarrow> header \<Rightarrow> nat \<Rightarrow> 'a acts \<Rightarrow> 'a acts \<times> bool ApiResponse" where
  "DeleteActivity F E h activityId = (\<lambda>(s, db).
     case check_permission h ActivityDelete of
       Some err \<Rightarrow> ((s, db), fails err)
     | None \<Rightarrow>
         (case GetActivityById (ae_api F) activityId db of
            Inl ErrActivityNotFound \<Rightarrow> ((s, db), fails StActivityNotFound)
          | Inl _ \<Rightarrow> ((s, db), fails ErrDatabaseFail)
          | Inr activity \<Rightarrow>
              (case op_DeleteActivity (ae_api F) activity db of
                 (db', Some err) \<Rightarrow> ((s, db'), fails ErrDatabaseFail)
               | (db', None) \<Rightarrow>
                   let entry = NewAuditLog ActivityDeleted (hd_Cid h) (itoa (int (a_ID activity)))
                                 (hd_Ip h) (hd_UserAgent h) None
                   in ((SaveAuditLog E entry s, db'), succeeds SuccessDeleteActivity True))))"

section \<open>Registration\<close>

definition ErrRatingTooLow :: ApiStatus where "ErrRatingTooLow = ApiStatus ''RATING_TOO_LOW'' PermissionDenied"
definition ErrFacilityAlreadyExist :: ApiStatus where "ErrFacilityAlreadyExist = ApiStatus ''FACILITY_ALREADY_EXIST'' Conflict"
definition ErrFacilityAlreadySigned :: ApiStatus where "ErrFacilityAlreadySigned = ApiStatus ''FACILITY_ALREADY_SIGNED'' Conflict"
definition SuccessSignFacility :: ApiStatus where "SuccessSignFacility = ApiStatus ''SIGNED_FACILITY'' Ok"

text \<open>The rating of the token admits; the rating of the account is the one compared with the facility.\<close>

definition ControllerJoin ::
    "'a act_env \<Rightarrow> 'db svc_env \<Rightarrow> nat \<Rightarrow> int \<Rightarrow> nat \<Rightarrow> 'db \<Rightarrow> 'a \<Rightarrow> 'a \<times> bool ApiResponse" where
  "ControllerJoin F E uid rating facilityId users db =
     (if rating \<le> Observer then (db, fails ErrRatingTooLow)
      else
        case CallDBFuncAndCheckError (GetUserByUid (se_api E) uid users) of
          Inl res \<Rightarrow> (db, fails res)
        | Inr user \<Rightarrow>
            (case CallActivityDB (GetFacilityById (ae_api F) facilityId db) of
               Inl res \<Rightarrow> (db, fails res)
             | Inr facility \<Rightarrow>
                 (case SignFacilityController (ae_api F) facility user db of
                    (db', Some ErrRatingNotAllowed) \<Rightarrow> (db', fails ErrRatingTooLow)
                  | (db', Some ErrFacilityAlreadyExists) \<Rightarrow> (db', fails ErrFacilityAlreadyExist)
                  | (db', Some ErrFacilitySigned) \<Rightarrow> (db', fails ErrFacilityAlreadySigned)
                  | (db', Some _) \<Rightarrow> (db', fails ErrDatabaseFail)
                  | (db', None) \<Rightarrow> (db', succeeds SuccessSignFacility True))))"

definition ErrFacilityUnSigned :: ApiStatus where "ErrFacilityUnSigned = ApiStatus ''FACILITY_UNSIGNED'' Conflict"
definition SuccessUnsignFacility :: ApiStatus where "SuccessUnsignFacility = ApiStatus ''UNSIGNED_FACILITY'' Ok"

definition ControllerLeave :: "'a act_env \<Rightarrow> int \<Rightarrow> nat \<Rightarrow> 'a \<Rightarrow> 'a \<times> bool ApiResponse" where
  "ControllerLeave F cid facilityId db =
     (case CallActivityDB (GetFacilityById (ae_api F) facilityId db) of
        Inl res \<Rightarrow> (db, fails res)
      | Inr facility \<Rightarrow>
          (case UnsignFacilityController (ae_api F) facility cid db of
             (db', Some ErrFacilityNotSigned) \<Rightarrow> (db', fails ErrFacilityUnSigned)
           | (db', Some _) \<Rightarrow> (db', fails ErrDatabaseFail)
           | (db', None) \<Rightarrow> (db', succeeds SuccessUnsignFacility True)))"

definition ErrAlreadySigned :: ApiStatus where "ErrAlreadySigned = ApiStatus ''ALREADY_SIGNED'' Conflict"
definition ErrCallsignUsed :: ApiStatus where "ErrCallsignUsed = ApiStatus ''CALLSIGN_USED'' Conflict"
definition SuccessSignedActivity :: ApiStatus where "SuccessSignedActivity = ApiStatus ''SIGNED_ACTIVITY'' Ok"

definition PilotJoin :: "'a act_env \<Rightarrow> nat \<Rightarrow> int \<Rightarrow> string \<Rightarrow> string \<Rightarrow> 'a \<Rightarrow> 'a \<times> bool ApiResponse" where
  "PilotJoin F activityId cid callsign aircraftType db =
     (case SignActivityPilot (ae_api F) activityId cid callsign aircraftType db of
        (db', Some ErrActivityAlreadySigned) \<Rightarrow> (db', fails ErrAlreadySigned)
      | (db', Some ErrCallsignAlreadyUsed) \<Rightarrow> (db', fails ErrCallsignUsed)
      | (db', Some _) \<Rightarrow> (db', fails ErrDatabaseFail)
      | (db', None) \<Rightarrow> (db', succeeds SuccessSignedActivity True))"

definition ErrNoSigned :: ApiStatus where "ErrNoSigned = ApiStatus ''NO_SIGNED'' Conflict"
definition SuccessUnsignedActivity :: ApiStatus where "SuccessUnsignedActivity = ApiStatus ''UNSIGNED_ACTIVITY'' Ok"

definition PilotLeave :: "'a act_env \<Rightarrow> nat \<Rightarrow> int \<Rightarrow> 'a \<Rightarrow> 'a \<times> bool ApiResponse" where
  "PilotLeave F activityId cid db =
     (case UnsignActivityPilot (ae_api F) activityId cid db of
        (db', Some ErrActivityUnsigned) \<Rightarrow> (db', fails ErrNoSigned)
      | (db', Some _) \<Rightarrow> (db', fails ErrDatabaseFail)
      | (db', None) \<Rightarrow> (db', succeeds SuccessUnsignedActivity True))"

section \<open>Editing\<close>

definition SuccessEditActivity :: ApiStatus where "SuccessEditActivity = ApiStatus ''EDIT_ACTIVITY'' Ok"

text \<open>The image of the stored activity that a new one replaces; its deletion is asked of the store.\<close>

definition replaced_image :: "Activity \<Rightarrow> Activity \<Rightarrow> string list" where
  "replaced_image a old =
     (if a_ImageUrl a \<noteq> '''' \<and> a_ImageUrl a \<noteq> a_ImageUrl old \<and> a_ImageUrl old \<noteq> '''' then [a_ImageUrl old] else [])"

definition EditActivity ::
    "'a act_env \<Rightarrow> 'db svc_env \<Rightarrow> header \<Rightarrow> Activity option \<Rightarrow> 'a acts \<Rightarrow> 'a acts \<times> bool ApiResponse" where
  "EditActivity F E h activity = (\<lambda>(s, db).
     case activity of
       None \<Rightarrow> ((s, db), fails ErrIllegalParam)
     | Some a \<Rightarrow>
         (case check_permission h ActivityEdit of
            Some err \<Rightarrow> ((s, db), fails err)
          | None \<Rightarrow>
              (case CallActivityDB (GetActivityById (ae_api F) (a_ID a) db) of
                 Inl res \<Rightarrow> ((s, db), fails res)
               | Inr old \<Rightarrow>
                   let s1 = s\<lparr>sv_deleted := sv_deleted s @ replaced_image a old\<rparr>;
                       (old', updateInfo) = Activity_Diff a old
                   in (case UpdateActivityInfo (ae_api F) old' a updateInfo db of
                         (db', Some err) \<Rightarrow> ((s1, db'), fails ErrDatabaseFail)
                       | (db', None) \<Rightarrow>
                           let entry = NewAuditLog ActivityUpdated (hd_Cid h) (itoa (int (a_ID a)))
                                 (hd_Ip h) (hd_UserAgent h)
                                 (Some \<lparr>cd_OldValue = ae_json_old F old, cd_NewValue = ae_json F a db'\<rparr>)
                           in ((SaveAuditLog E entry s1, db'), succeeds SuccessEditActivity True)))))"

definition SuccessEditActivityStatus :: ApiStatus where "SuccessEditActivityStatus = ApiStatus ''EDIT_ACTIVITY_STATUS'' Ok"

definition EditActivityStatus ::
    "'a act_env \<Rightarrow> header \<Rightarrow> nat \<Rightarrow> int \<Rightarrow> 'a \<Rightarrow> 'a \<times> bool ApiResponse" where
  "EditActivityStatus F h activityId status db =
     (if status < Open \<or> status > Closed then (db, fails ErrIllegalParam)
      else
        case check_permission h ActivityEditState of
          Some err \<Rightarrow> (db, fails err)
        | None \<Rightarrow>
            (case SetActivityStatus (ae_api F) activityId status db of
               (db', Some err) \<Rightarrow> (db', fails ErrDatabaseFail)
             | (db', None) \<Rightarrow> (db', succeeds SuccessEditActivityStatus True)))"

definition SuccessEditPilotsStatus :: ApiStatus where "SuccessEditPilotsStatus = ApiStatus ''EDIT_PILOTS_STATUS'' Ok"

definition EditPilotStatus ::
    "'a act_env \<Rightarrow> header \<Rightarrow> nat \<Rightarrow> int \<Rightarrow> 'a \<Rightarrow> 'a \<times> bool ApiResponse" where
  "EditPilotStatus F h activityId status db =
     (if status < Signed \<or> status > Landing then (db, fails ErrIllegalParam)
      else
        case check_permission h ActivityEditState of
          Some err \<Rightarrow> (db, fails err)
        | None \<Rightarrow>
            (case CallActivityDB (GetActivityPilotById (ae_api F) activityId (hd_Cid h) db) of
               Inl res \<Rightarrow> (db, fails res)
             | Inr pilot \<Rightarrow>
                 (case SetActivityPilotStatus (ae_api F) pilot status db of
                    (db', Some err) \<Rightarrow> (db', fails ErrDatabaseFail)
                  | (db', None) \<Rightarrow> (db', succeeds SuccessEditPilotsStatus True))))"

section \<open>Editing is all or nothing\<close>

lemmas activity_success =
  SuccessGetActivities_def SuccessAddActivity_def SuccessDeleteActivity_def SuccessSignFacility_def
  SuccessUnsignFacility_def SuccessSignedActivity_def SuccessUnsignedActivity_def SuccessEditActivity_def
  SuccessEditActivityStatus_def SuccessEditPilotsStatus_def

lemmas activity_failure =
  ErrIllegalParam_def ErrNoPermission_def ErrDatabaseFail_def StActivityNotFound_def StFacilityNotFound_def
  ErrRatingTooLow_def ErrFacilityAlreadyExist_def ErrFacilityAlreadySigned_def ErrFacilityUnSigned_def
  ErrAlreadySigned_def ErrCallsignUsed_def ErrNoSigned_def

lemma act_status_error: "\<not> is_success (fails (act_status err))"
  by (cases err) (simp_all add: is_success_def activity_failure)

lemma check_permission_error: "check_permission h p = Some err \<Longrightarrow> err = ErrNoPermission"
  by (auto simp: check_permission_def split: if_splits)

lemma check_permission_None:
  "check_permission h p = None \<longleftrightarrow> 0 <s hd_Permission h \<and> HasPermission (hd_Permission h) p"
  by (auto simp: check_permission_def word_sle_eq word_sless_alt)

lemma UpdateActivityInfo_result:
  "UpdateActivityInfo B (fst (Activity_Diff a old)) a cols db =
     (case plan_facilities old a of
        Inl err \<Rightarrow> (db, Some err)
      | Inr plan \<Rightarrow>
          (case run_plan B (a_ID old) cols plan db of
             (db', None) \<Rightarrow> (db', None) | (db', Some err) \<Rightarrow> (db, Some (ActDbError err))))"
proof -
  have f: "a_ID (fst (Activity_Diff a old)) = a_ID old" "a_Facilities (fst (Activity_Diff a old)) = a_Facilities old"
    by (simp_all add: Activity_Diff_value)
  then have "plan_facilities (fst (Activity_Diff a old)) a = plan_facilities old a"
    by (simp add: plan_facilities_def)
  with f show ?thesis
    by (auto simp: UpdateActivityInfo_def transaction_def act_error_def split: sum.split prod.split option.split)
qed

text \<open>
  C30. Editing an activity is one transaction: it succeeds only with the permission \<open>ActivityEdit\<close>
  in the token, for a stored activity and facilities that are those of the activity, and then the
  database has the columns that differ and the planned facilities; any other response leaves the
  database and the audit log as they were.
\<close>

theorem edit_activity_atomic:
  "case EditActivity F E h activity (s, db) of
     ((s', db'), r) \<Rightarrow>
       (if is_success r
        then \<exists>a old plan. activity = Some a \<and> 0 <s hd_Permission h \<and> HasPermission (hd_Permission h) ActivityEdit \<and>
               GetActivityById (ae_api F) (a_ID a) db = Inr old \<and> plan_facilities old a = Inr plan \<and>
               run_plan (ae_api F) (a_ID old) (snd (Activity_Diff a old)) plan db = (db', None) \<and>
               sv_deleted s' = sv_deleted s @ replaced_image a old
        else db' = db \<and> sv_audit s' = sv_audit s)"
proof (cases activity)
  case None
  then show ?thesis by (simp add: EditActivity_def is_success_def ErrIllegalParam_def)
next
  case (Some a)
  show ?thesis
  proof (cases "check_permission h ActivityEdit")
    case (Some err)
    with check_permission_error [OF this] \<open>activity = Some a\<close> show ?thesis
      by (simp add: EditActivity_def is_success_def ErrNoPermission_def)
  next
    case perm: None
    show ?thesis
    proof (cases "GetActivityById (ae_api F) (a_ID a) db")
      case (Inl err)
      with perm Some act_status_error [of err] show ?thesis by (simp add: EditActivity_def CallActivityDB_def)
    next
      case (Inr old)
      let ?s = "s\<lparr>sv_deleted := sv_deleted s @ replaced_image a old\<rparr>"
      obtain db' e where u: "UpdateActivityInfo (ae_api F) (fst (Activity_Diff a old)) a (snd (Activity_Diff a old)) db = (db', e)"
        by fastforce
      have edit: "EditActivity F E h activity (s, db) =
          (case e of Some err \<Rightarrow> ((?s, db'), fails ErrDatabaseFail)
           | None \<Rightarrow> ((SaveAuditLog E (NewAuditLog ActivityUpdated (hd_Cid h) (itoa (int (a_ID a)))
                 (hd_Ip h) (hd_UserAgent h)
                 (Some \<lparr>cd_OldValue = ae_json_old F old, cd_NewValue = ae_json F a db'\<rparr>)) ?s, db'),
               succeeds SuccessEditActivity True))"
        using Some perm Inr u
        by (simp add: EditActivity_def CallActivityDB_def case_prod_beta split: option.split)
      show ?thesis
      proof (cases e)
        case None
        with u obtain plan where "plan_facilities old a = Inr plan"
            "run_plan (ae_api F) (a_ID old) (snd (Activity_Diff a old)) plan db = (db', None)"
          unfolding UpdateActivityInfo_result by (auto split: sum.splits prod.splits option.splits)
        with None Some perm Inr show ?thesis
          unfolding edit by (simp add: is_success_def SuccessEditActivity_def check_permission_None
              SaveAuditLog_def SaveAuditLogs_def)
      next
        case err: (Some x)
        with u have "db' = db"
          unfolding UpdateActivityInfo_result by (auto split: sum.splits prod.splits option.splits)
        with err show ?thesis unfolding edit by (simp add: is_success_def ErrDatabaseFail_def)
      qed
    qed
  qed
qed

text \<open>
  An edit can fail after it deleted the image: when the request has a new image and names a
  facility that is not one of the activity, the response is an error and the database still has
  the old image, whose file the store was asked to delete.
\<close>

theorem edit_loses_image:
  assumes "check_permission h ActivityEdit = None" and "GetActivityById (ae_api F) (a_ID a) db = Inr old"
    and "plan_facilities old a = Inl err" and "a_ImageUrl a \<notin> {'''', a_ImageUrl old}" and "a_ImageUrl old \<noteq> ''''"
  shows "EditActivity F E h (Some a) (s, db) =
           ((s\<lparr>sv_deleted := sv_deleted s @ [a_ImageUrl old]\<rparr>, db), fails ErrDatabaseFail)"
proof -
  have "UpdateActivityInfo (ae_api F) (fst (Activity_Diff a old)) a (snd (Activity_Diff a old)) db = (db, Some err)"
    unfolding UpdateActivityInfo_result using assms(3) by simp
  with assms show ?thesis
    by (simp add: EditActivity_def CallActivityDB_def case_prod_beta replaced_image_def)
qed

section \<open>The roster of pilots\<close>

text \<open>
  The abstract contract: a map from activity and account to the callsign. A registration is legal
  when the account and the callsign are free, a cancellation when the account is registered.
\<close>

type_synonym roster = "nat \<times> int \<rightharpoonup> string"

datatype roster_request = Join nat int string string | Leave nat int

fun roster_step :: "roster_request \<Rightarrow> bool \<Rightarrow> roster \<Rightarrow> roster option" where
  "roster_step req False m = Some m"
| "roster_step (Join aid cid cs _) True m =
     (if m (aid, cid) = None \<and> (\<forall>c. m (aid, c) \<noteq> Some cs) then Some (m((aid, cid) \<mapsto> cs)) else None)"
| "roster_step (Leave aid cid) True m = (if m (aid, cid) \<noteq> None then Some (m((aid, cid) := None)) else None)"

fun roster_run :: "(roster_request \<times> bool) list \<Rightarrow> roster \<Rightarrow> roster option" where
  "roster_run [] m = Some m"
| "roster_run ((req, ok) # rest) m = Option.bind (roster_step req ok m) (roster_run rest)"

text \<open>The service under a list of requests, with the success of each.\<close>

fun serve_request :: "'a act_env \<Rightarrow> roster_request \<Rightarrow> 'a \<Rightarrow> 'a \<times> bool" where
  "serve_request F (Join aid cid cs aircraft) db = map_prod id is_success (PilotJoin F aid cid cs aircraft db)"
| "serve_request F (Leave aid cid) db = map_prod id is_success (PilotLeave F aid cid db)"

fun serve_requests :: "'a act_env \<Rightarrow> roster_request list \<Rightarrow> 'a \<Rightarrow> 'a \<times> (roster_request \<times> bool) list" where
  "serve_requests F [] db = (db, [])"
| "serve_requests F (req # reqs) db =
     (let (db1, ok) = serve_request F req db; (db2, rest) = serve_requests F reqs db1
      in (db2, (req, ok) # rest))"

definition roster_of :: "ActivityPilot list \<Rightarrow> roster" where
  "roster_of rows = map_of (map (\<lambda>p. (pilot_index p, ap_Callsign p)) rows)"

definition roster_ok :: "ActivityPilot list \<Rightarrow> bool" where
  "roster_ok rows \<longleftrightarrow> pilots_ok rows \<and> distinct (map ap_ID rows)"

lemma roster_of_eq:
  "distinct (map pilot_index rows) \<Longrightarrow>
   roster_of rows k = Some cs \<longleftrightarrow> (\<exists>p \<in> set rows. pilot_index p = k \<and> ap_Callsign p = cs)"
  by (auto simp: roster_of_def map_of_eq_Some_iff comp_def)

lemma roster_of_None: "roster_of rows k = None \<longleftrightarrow> k \<notin> pilot_index ` set rows"
  by (auto simp: roster_of_def map_of_eq_None_iff image_iff)

lemma roster_of_snoc:
  "pilot_index p \<notin> pilot_index ` set rows \<Longrightarrow> roster_of (rows @ [p]) = (roster_of rows)(pilot_index p \<mapsto> ap_Callsign p)"
  using roster_of_None [of rows "pilot_index p"] by (auto simp: roster_of_def map_add_def fun_eq_iff split: option.split)

lemma roster_of_filter: "roster_of (filter (\<lambda>p. pilot_index p \<noteq> k) rows) = (roster_of rows)(k := None)"
  by (induction rows) (auto simp: roster_of_def fun_eq_iff)

lemma PilotJoin_result:
  "fst (PilotJoin F aid cid cs aircraft db) = fst (SignActivityPilot (ae_api F) aid cid cs aircraft db)"
  "is_success (snd (PilotJoin F aid cid cs aircraft db)) \<longleftrightarrow>
     snd (SignActivityPilot (ae_api F) aid cid cs aircraft db) = None"
  by (auto simp: PilotJoin_def is_success_def activity_success activity_failure
      split: prod.split option.split act_error.split)

lemma PilotLeave_result:
  "fst (PilotLeave F aid cid db) = fst (UnsignActivityPilot (ae_api F) aid cid db)"
  "is_success (snd (PilotLeave F aid cid db)) \<longleftrightarrow> snd (UnsignActivityPilot (ae_api F) aid cid db) = None"
  by (auto simp: PilotLeave_def is_success_def activity_success activity_failure
      split: prod.split option.split act_error.split)

lemma UnsignActivityPilot_fails: "UnsignActivityPilot B aid cid db = (db', Some e) \<Longrightarrow> db' = db"
  by (simp add: UnsignActivityPilot_def transaction_cases)

lemma roster_ok_snoc:
  "roster_ok rows \<Longrightarrow> pilots_ok (rows @ [p]) \<Longrightarrow> ap_ID p \<notin> ap_ID ` set rows \<Longrightarrow> roster_ok (rows @ [p])"
  by (simp add: roster_ok_def)

lemma roster_ok_filter: "roster_ok rows \<Longrightarrow> roster_ok (filter P rows)"
  by (simp add: roster_ok_def pilots_ok_def distinct_map_filter)

lemma callsign_free:
  assumes "distinct (map pilot_index rows)"
  shows "(\<forall>c. roster_of rows (aid, c) \<noteq> Some cs) \<longleftrightarrow> (aid, cs) \<notin> pilot_callsign ` set rows"
  by (auto simp: roster_of_eq [OF assms] pilot_callsign_def pilot_index_def image_iff)

text \<open>The queries of the registration never fail.\<close>

definition query_answers :: "'a act_api \<Rightarrow> bool" where
  "query_answers B \<longleftrightarrow> (\<forall>aid cid cs db err. first_pilot_or_callsign B aid cid cs db = Inl err \<longrightarrow> err = ErrRecordNotFound)"

lemma serve_join:
  assumes "pilot_table (ae_api F) rows" and "query_answers (ae_api F)" and "roster_ok (rows db)"
    and "serve_request F (Join aid cid cs aircraft) db = (db', ok)"
  shows "roster_ok (rows db') \<and> roster_step (Join aid cid cs aircraft) ok (roster_of (rows db)) = Some (roster_of (rows db'))"
proof -
  have p: "pilots_ok (rows db)" and d: "distinct (map pilot_index (rows db))"
    using assms(3) by (simp_all add: roster_ok_def pilots_ok_def)
  have "\<forall>err. first_pilot_or_callsign (ae_api F) aid cid cs db = Inl err \<longrightarrow> err = ErrRecordNotFound"
    using assms(2) by (simp add: query_answers_def)
  note join = pilot_join [OF assms(1) p this, of aircraft]
  obtain e where sign: "SignActivityPilot (ae_api F) aid cid cs aircraft db = (db', e)" and ok: "ok \<longleftrightarrow> e = None"
    using assms(4) PilotJoin_result [of F aid cid cs aircraft db]
    by (auto simp: map_prod_def case_prod_beta prod_eq_iff)
  show ?thesis
  proof (cases e)
    case (Some x)
    with join sign ok assms(3) show ?thesis by simp
  next
    case None
    with join sign obtain i where r: "pilots_ok (rows db')" "i \<notin> ap_ID ` set (rows db)"
      "rows db' = rows db @ [\<lparr>ap_ID = i, ap_ActivityId = aid, ap_Cid = cid, ap_Callsign = cs,
                              ap_AircraftType = aircraft, ap_Status = Signed\<rparr>]"
      "(aid, cid) \<notin> pilot_index ` set (rows db)" "(aid, cs) \<notin> pilot_callsign ` set (rows db)"
      by auto
    let ?new = "\<lparr>ap_ID = i, ap_ActivityId = aid, ap_Cid = cid, ap_Callsign = cs, ap_AircraftType = aircraft, ap_Status = Signed\<rparr>"
    have n: "pilot_index ?new = (aid, cid)" by (simp add: pilot_index_def)
    have "roster_ok (rows db')" using roster_ok_snoc [OF assms(3)] r(1,2,3) by simp
    moreover have "roster_of (rows db') = (roster_of (rows db))((aid, cid) \<mapsto> cs)"
      using roster_of_snoc [of ?new "rows db"] r(4) unfolding r(3) n by simp
    moreover have "roster_of (rows db) (aid, cid) = None" using r(4) by (simp add: roster_of_None)
    moreover have "\<forall>c. roster_of (rows db) (aid, c) \<noteq> Some cs" using r(5) callsign_free [OF d] by blast
    ultimately show ?thesis using ok None by simp
  qed
qed

lemma serve_leave:
  assumes "pilot_table (ae_api F) rows" and "query_answers (ae_api F)" and "roster_ok (rows db)"
    and "serve_request F (Leave aid cid) db = (db', ok)"
  shows "roster_ok (rows db') \<and> roster_step (Leave aid cid) ok (roster_of (rows db)) = Some (roster_of (rows db'))"
proof -
  obtain e where sign: "UnsignActivityPilot (ae_api F) aid cid db = (db', e)" and ok: "ok \<longleftrightarrow> e = None"
    using assms(4) PilotLeave_result [of F aid cid db]
    by (auto simp: map_prod_def case_prod_beta prod_eq_iff)
  show ?thesis
  proof (cases e)
    case (Some x)
    from UnsignActivityPilot_fails [OF sign [unfolded this]] have "db' = db" .
    with Some ok assms(3) show ?thesis by simp
  next
    case None
    have "pilots_ok (rows db)" "distinct (map ap_ID (rows db))" using assms(3) by (simp_all add: roster_ok_def)
    from pilot_leave [OF assms(1) this sign [unfolded None]]
    have l: "(aid, cid) \<in> pilot_index ` set (rows db)"
      "rows db' = filter (\<lambda>p. pilot_index p \<noteq> (aid, cid)) (rows db)" by simp_all
    have "roster_of (rows db) (aid, cid) \<noteq> None" using l(1) by (simp add: roster_of_None)
    with l roster_ok_filter [OF assms(3)] ok None show ?thesis
      by (simp add: roster_of_filter)
  qed
qed

lemma serve_request_step:
  assumes "pilot_table (ae_api F) rows" and "query_answers (ae_api F)" and "roster_ok (rows db)"
    and "serve_request F req db = (db', ok)"
  shows "roster_ok (rows db') \<and> roster_step req ok (roster_of (rows db)) = Some (roster_of (rows db'))"
proof (cases req)
  case (Join aid cid cs aircraft)
  show ?thesis unfolding Join by (rule serve_join [OF assms(1-3) assms(4) [unfolded Join]])
next
  case (Leave aid cid)
  show ?thesis unfolding Leave by (rule serve_leave [OF assms(1-3) assms(4) [unfolded Leave]])
qed

lemma serve_requests_refines:
  assumes "pilot_table (ae_api F) rows" and "query_answers (ae_api F)" and "roster_ok (rows db)"
  shows "case serve_requests F reqs db of
           (db', replies) \<Rightarrow> roster_ok (rows db') \<and> roster_run replies (roster_of (rows db)) = Some (roster_of (rows db'))"
  using assms(3)
proof (induction reqs arbitrary: db)
  case (Cons req reqs)
  obtain db1 ok where s: "serve_request F req db = (db1, ok)" by fastforce
  from serve_request_step [OF assms(1,2) Cons.prems s]
  have "roster_ok (rows db1)" "roster_step req ok (roster_of (rows db)) = Some (roster_of (rows db1))" by simp_all
  with Cons.IH [of db1] s show ?case by (simp add: case_prod_beta)
qed simp

text \<open>
  C14. Registrations of pilots refine the roster: when the database behaves as documented and its
  queries do not fail, then over any list of requests to join and to leave group flights every
  response of success is a legal step of the roster, every other response leaves it alone, and the
  rows of the database are that roster. So no two pilots of an activity ever have the same account
  or the same callsign.
\<close>

theorem roster_refinement:
  assumes "pilot_table (ae_api F) rows" and "query_answers (ae_api F)" and "roster_ok (rows db)"
  shows "case serve_requests F reqs db of
           (db', replies) \<Rightarrow> map fst replies = reqs \<and> pilots_ok (rows db') \<and>
             roster_run replies (roster_of (rows db)) = Some (roster_of (rows db'))"
proof -
  have "map fst (snd (serve_requests F reqs db)) = reqs"
    by (induction reqs arbitrary: db) (simp_all add: case_prod_beta)
  with serve_requests_refines [OF assms, of reqs] show ?thesis
    by (auto simp: roster_ok_def)
qed

section \<open>Examples\<close>

definition example_act_env :: "act_memory act_env" where
  "example_act_env = \<lparr>ae_api = memory_act_api, ae_json = (\<lambda>a _. a_Title a), ae_json_old = a_Title\<rparr>"

definition organiser :: header where
  "organiser = \<lparr>hd_Uid = 1, hd_Permission = ActivityEdit, hd_Cid = 1000, hd_Ip = ''ip'', hd_UserAgent = ''ua''\<rparr>"

lemma example_act_api [simp]: "ae_api example_act_env = memory_act_api"
  by (simp add: example_act_env_def)

lemma memory_answers: "query_answers memory_act_api"
  by (auto simp: query_answers_def memory_act_api_def first_such_def split: list.splits)

theorem roster_refinement_witness:
  "case serve_requests example_act_env [Join 3 11 ''CES1'' ''B738'', Leave 3 7, Join 3 11 ''CES1'' ''B738'']
          example_activities of
     (db', replies) \<Rightarrow> pilots_ok (memory_pilots db') \<and>
       roster_run replies [(3, 7) \<mapsto> ''CES1''] = Some (roster_of (memory_pilots db'))"
proof -
  have "roster_ok (memory_pilots example_activities)" by (simp add: roster_ok_def pilots_ok_def)
  moreover have "roster_of (memory_pilots example_activities) = [(3, 7) \<mapsto> ''CES1'']"
    by (simp add: roster_of_def pilot_index_def)
  ultimately show ?thesis
    using roster_refinement [where F = example_act_env and rows = memory_pilots and db = example_activities and
        reqs = "[Join 3 11 ''CES1'' ''B738'', Leave 3 7, Join 3 11 ''CES1'' ''B738'']"]
      pilot_table_memory memory_answers by (simp add: case_prod_beta del: serve_requests.simps)
qed

lemma example_find: "GetActivityById memory_act_api 3 example_activities = Inr (memory_activity example_activities example_activity)"
  by (simp add: GetActivityById_def memory_act_api_def first_such_def)
    (simp add: example_activities_def)

theorem edit_loses_image_witness:
  "let a = example_activity\<lparr>a_ImageUrl := ''b.png'', a_Facilities := [tower\<lparr>af_ID := 77\<rparr>]\<rparr>;
       ((s', db'), r) = EditActivity example_act_env example_svc_env organiser (Some a) (example_svc, example_activities)
   in sv_deleted s' = [''a.png''] \<and> db' = example_activities \<and> r_HttpCode r = 500"
proof -
  let ?a = "example_activity\<lparr>a_ImageUrl := ''b.png'', a_Facilities := [tower\<lparr>af_ID := 77\<rparr>]\<rparr>"
  let ?old = "memory_activity example_activities example_activity"
  have "check_permission organiser ActivityEdit = None"
    by (simp add: check_permission_None organiser_def permission_bit_def HasPermission_def word_sless_alt)
  moreover have "GetActivityById (ae_api example_act_env) (a_ID ?a) example_activities = Inr ?old"
    using example_find by simp
  moreover have "plan_facilities ?old ?a = Inl ErrInconsistentData"
    by (simp add: plan_facilities_def facility_map_def memory_activity_def tower_def ground_def)
      (simp add: example_activities_def tower_def ground_def)
  moreover have "a_ImageUrl ?a \<notin> {'''', a_ImageUrl ?old}" "a_ImageUrl ?old = ''a.png''"
    by (simp_all add: memory_activity_def) (simp_all add: example_activity_def NewActivity_def)
  ultimately have "EditActivity example_act_env example_svc_env organiser (Some ?a) (example_svc, example_activities) =
      ((example_svc\<lparr>sv_deleted := sv_deleted example_svc @ [''a.png'']\<rparr>, example_activities), fails ErrDatabaseFail)"
    using edit_loses_image [where F = example_act_env and a = ?a and old = ?old and h = organiser and
        db = example_activities and E = example_svc_env and s = example_svc] by simp
  then show ?thesis by (simp add: Let_def ErrDatabaseFail_def) (simp add: example_svc_def)
qed

end
