(* ===== verification/Cache.thy ===== *)
theory Cache
  imports Utils
begin

text \<open>
  The services keep answers in a \<open>CachedValue\<close> (\<open>internal/utils/cached_value.go\<close>) whose getter
  reads the state of the server. Here the getter runs only when the cache has no value to give,
  and it may panic; the locale says how old an answer can be, for every getter that is total on
  the states of the server.
\<close>

definition cached_get ::
    "('w \<Rightarrow> 'a go) \<Rightarrow> ('w \<Rightarrow> int) \<Rightarrow> 'w \<Rightarrow> 'a cached_value \<Rightarrow> ('a cached_value \<times> 'a option) go" where
  "cached_get getter clock w cache =
     (if cv_cachedTime cache \<le> 0 \<or> cache_valid (clock w) cache then Inr (cache, cv_cachedData cache)
      else go_bind (getter w) (\<lambda>fresh.
             let (cache', data, _) = GetValue (clock w) fresh cache in Inr (cache', data)))"

text \<open>The answers to the requests that arrive in the states of a list, one after the other.\<close>

fun serve_cached ::
    "('w \<Rightarrow> 'a go) \<Rightarrow> ('w \<Rightarrow> int) \<Rightarrow> 'w list \<Rightarrow> 'a cached_value \<Rightarrow> 'a option list go" where
  "serve_cached getter clock [] cache = Inr []"
| "serve_cached getter clock (w # ws) cache =
     go_bind (cached_get getter clock w cache) (\<lambda>(cache', data).
       go_bind (serve_cached getter clock ws cache') (\<lambda>rest. Inr (data # rest)))"

text \<open>What the cache holds was the answer in a state seen before, at the time it carries.\<close>

definition cached_from :: "('w \<Rightarrow> 'a go) \<Rightarrow> ('w \<Rightarrow> int) \<Rightarrow> 'w set \<Rightarrow> 'a cached_value \<Rightarrow> bool" where
  "cached_from getter clock seen cache \<longleftrightarrow>
     (\<forall>data. cv_cachedData cache = Some data \<longrightarrow>
        (\<exists>w \<in> seen. getter w = Inr data \<and> clock w = cv_generateTime cache))"

locale cached_query =
  fixes getter :: "'w \<Rightarrow> 'a go" and clock :: "'w \<Rightarrow> int" and good :: "'w \<Rightarrow> bool"
  assumes getter_total: "good w \<Longrightarrow> \<exists>data. getter w = Inr data"
begin

lemma cached_get_step:
  assumes "good w" and "cached_from getter clock seen cache" and "0 < cv_cachedTime cache"
  shows "\<exists>cache' data. cached_get getter clock w cache = Inr (cache', Some data) \<and>
           cached_from getter clock (insert w seen) cache' \<and> cv_cachedTime cache' = cv_cachedTime cache \<and>
           (\<exists>w0 \<in> insert w seen. getter w0 = Inr data \<and> clock w - clock w0 \<le> cv_cachedTime cache)"
proof (cases "cache_valid (clock w) cache")
  case True
  then obtain data where d: "cv_cachedData cache = Some data"
      "clock w - cv_generateTime cache \<le> cv_cachedTime cache"
    by (auto simp: cache_valid_def)
  with assms(2) obtain w0 where "w0 \<in> seen" "getter w0 = Inr data" "clock w0 = cv_generateTime cache"
    by (auto simp: cached_from_def)
  with d True assms(2) show ?thesis
    by (intro exI [of _ cache] exI [of _ data]) (auto simp: cached_get_def cached_from_def)
next
  case False
  obtain data where "getter w = Inr data" using getter_total [OF assms(1)] by blast
  with False assms(3) show ?thesis
    by (intro exI [of _ "cache\<lparr>cv_cachedData := Some data, cv_generateTime := clock w\<rparr>"] exI [of _ data])
      (auto simp: cached_get_def GetValue_def cached_from_def)
qed

lemma serve_cached_bounded:
  assumes "\<forall>w \<in> set ws. good w" and "cached_from getter clock seen cache" and "0 < cv_cachedTime cache"
  shows "\<exists>answers. serve_cached getter clock ws cache = Inr answers \<and> length answers = length ws \<and>
           (\<forall>i < length ws. \<exists>data. answers ! i = Some data \<and>
              (\<exists>w \<in> seen \<union> set (take (Suc i) ws). getter w = Inr data \<and>
                 clock (ws ! i) - clock w \<le> cv_cachedTime cache))"
  using assms
proof (induction ws arbitrary: seen cache)
  case (Cons w ws)
  from Cons.prems(1) have "good w" by simp
  from cached_get_step [OF this Cons.prems(2,3)] obtain cache' data where
    s: "cached_get getter clock w cache = Inr (cache', Some data)" "cached_from getter clock (insert w seen) cache'"
       "cv_cachedTime cache' = cv_cachedTime cache"
       "\<exists>w0 \<in> insert w seen. getter w0 = Inr data \<and> clock w - clock w0 \<le> cv_cachedTime cache"
    by blast
  have "0 < cv_cachedTime cache'" "\<forall>w \<in> set ws. good w" using s(3) Cons.prems by simp_all
  from Cons.IH [OF this(2) s(2) this(1)] obtain answers where a:
    "serve_cached getter clock ws cache' = Inr answers" "length answers = length ws"
    "\<forall>i < length ws. \<exists>data. answers ! i = Some data \<and>
       (\<exists>v \<in> insert w seen \<union> set (take (Suc i) ws). getter v = Inr data \<and>
          clock (ws ! i) - clock v \<le> cv_cachedTime cache)"
    using s(3) by auto
  have "\<exists>d. (Some data # answers) ! i = Some d \<and>
      (\<exists>v \<in> seen \<union> set (take (Suc i) (w # ws)). getter v = Inr d \<and>
         clock ((w # ws) ! i) - clock v \<le> cv_cachedTime cache)" if "i < length (w # ws)" for i
  proof (cases i)
    case 0
    with s(4) show ?thesis by auto
  next
    case (Suc j)
    with a(3) that show ?thesis by simp
  qed
  with s(1) a(1,2) show ?case by simp
qed simp

text \<open>From an empty cache, each answer is that of a state of the list, at most \<open>d\<close> old.\<close>

lemma answers_fresh:
  assumes "\<forall>w \<in> set ws. good w" and "0 < d"
  shows "\<exists>answers. serve_cached getter clock ws (NewCachedValue now d x) = Inr answers \<and>
           length answers = length ws \<and>
           (\<forall>i < length ws. \<exists>data j. answers ! i = Some data \<and> j \<le> i \<and> getter (ws ! j) = Inr data \<and>
              clock (ws ! i) - clock (ws ! j) \<le> d)"
proof -
  let ?c = "NewCachedValue now d x"
  have c: "cached_from getter clock {} ?c" "cv_cachedTime ?c = d"
    using assms(2) by (simp_all add: cached_from_def NewCachedValue_def)
  with assms(2) serve_cached_bounded [OF assms(1) c(1)] obtain answers where a:
    "serve_cached getter clock ws ?c = Inr answers" "length answers = length ws"
    "\<forall>i < length ws. \<exists>data. answers ! i = Some data \<and>
       (\<exists>v \<in> set (take (Suc i) ws). getter v = Inr data \<and> clock (ws ! i) - clock v \<le> d)"
    by auto
  have "\<exists>data j. answers ! i = Some data \<and> j \<le> i \<and> getter (ws ! j) = Inr data \<and>
      clock (ws ! i) - clock (ws ! j) \<le> d" if "i < length ws" for i
  proof -
    from a(3) that obtain data v where "answers ! i = Some data" "v \<in> set (take (Suc i) ws)"
      "getter v = Inr data" "clock (ws ! i) - clock v \<le> d" by blast
    with that show ?thesis by (auto simp: in_set_conv_nth less_Suc_eq_le)
  qed
  with a(1,2) show ?thesis by blast
qed

end

end
