(* ===== verification/Presence.thy ===== *)
theory Presence
  imports Service Accounts Cache
begin

text \<open>
  The client service (\<open>internal/http_server/service/client.go\<close>), where the HTTP server reaches
  into the FSD server: the list of who is online, the flight path of a client, a message to a
  client and the removal of a client.

  The service shares the clients with the FSD server, so its operations take the world of that
  server beside the state of the services; both read one clock. The goroutines that write the
  audit log and send the notice run at once.
\<close>

section \<open>Who is online\<close>

record OnlineGeneral =
  og_Version :: int
  og_GenerateTime :: string
  og_ConnectedClients :: int
  og_OnlinePilot :: int
  og_OnlineController :: int

record OnlinePilot =
  op_Cid :: int
  op_Callsign :: string
  op_RealName :: string
  op_Latitude :: float64
  op_Longitude :: float64
  op_Transponder :: string
  op_Heading :: int
  op_Altitude :: int
  op_GroundSpeed :: int
  op_FlightPlan :: "FlightPlan option"
  op_LogonTime :: string

record OnlineController =
  oc_Cid :: int
  oc_Callsign :: string
  oc_RealName :: string
  oc_Latitude :: float64
  oc_Longitude :: float64
  oc_Rating :: int
  oc_Facility :: int
  oc_Frequency :: int
  oc_AtcInfo :: "string list"
  oc_LogonTime :: string

record OnlineClients =
  on_General :: OnlineGeneral
  on_Pilots :: "OnlinePilot list"
  on_Controllers :: "OnlineController list"

text \<open>\<open>int(heading)\<close> truncates; a heading is not negative.\<close>

definition Heading :: "client \<Rightarrow> int" where
  "Heading c = (case UnpackPBH (c_pbh c) of (_, _, heading, _) \<Rightarrow> \<lfloor>heading\<rfloor>)"

definition controller_entry :: "'db svc_env \<Rightarrow> client \<Rightarrow> Position \<Rightarrow> OnlineController" where
  "controller_entry E c p =
     \<lparr>oc_Cid = u_Cid (c_user c), oc_Callsign = c_callsign c, oc_RealName = c_realName c,
      oc_Latitude = Latitude p, oc_Longitude = Longitude p, oc_Rating = c_rating c,
      oc_Facility = Facility_Index (c_facility c), oc_Frequency = c_frequency c + 100000,
      oc_AtcInfo = c_atisInfo c, oc_LogonTime = se_date_time E (h_StartTime (c_history c))\<rparr>"

definition pilot_entry :: "'db svc_env \<Rightarrow> client \<Rightarrow> Position \<Rightarrow> OnlinePilot" where
  "pilot_entry E c p =
     \<lparr>op_Cid = u_Cid (c_user c), op_Callsign = c_callsign c, op_RealName = c_realName c,
      op_Latitude = Latitude p, op_Longitude = Longitude p, op_Transponder = c_transponder c,
      op_Heading = Heading c, op_Altitude = c_altitude c, op_GroundSpeed = c_groundSpeed c,
      op_FlightPlan = c_flightPlan c, op_LogonTime = se_date_time E (h_StartTime (c_history c))\<rparr>"

definition count_client :: "bool \<Rightarrow> OnlineGeneral \<Rightarrow> OnlineGeneral" where
  "count_client isAtc g =
     (let g1 = g\<lparr>og_ConnectedClients := og_ConnectedClients g + 1\<rparr>
      in if isAtc then g1\<lparr>og_OnlineController := og_OnlineController g1 + 1\<rparr>
         else g1\<lparr>og_OnlinePilot := og_OnlinePilot g1 + 1\<rparr>)"

definition list_client :: "'db svc_env \<Rightarrow> client \<Rightarrow> OnlineClients \<Rightarrow> OnlineClients go" where
  "list_client E c data =
     (if c_disconnect c then Inr data
      else
        index_at (c_position c) 0 (\<lambda>p.
          let data1 = data\<lparr>on_General := count_client (c_isAtc c) (on_General data)\<rparr>
          in Inr (if c_isAtc c
                  then data1\<lparr>on_Controllers := on_Controllers data1 @ [controller_entry E c p]\<rparr>
                  else data1\<lparr>on_Pilots := on_Pilots data1 @ [pilot_entry E c p]\<rparr>)))"

fun list_clients :: "'db svc_env \<Rightarrow> client list \<Rightarrow> OnlineClients \<Rightarrow> OnlineClients go" where
  "list_clients E [] data = Inr data"
| "list_clients E (c # cs) data = go_bind (list_client E c data) (list_clients E cs)"

definition no_clients :: OnlineClients where
  "no_clients =
     \<lparr>on_General = \<lparr>og_Version = 3, og_GenerateTime = '''', og_ConnectedClients = 0,
                    og_OnlinePilot = 0, og_OnlineController = 0\<rparr>,
      on_Pilots = [], on_Controllers = []\<rparr>"

definition getOnlineClient :: "'db svc_env \<Rightarrow> 'db world \<Rightarrow> OnlineClients go" where
  "getOnlineClient E w =
     go_bind (list_clients E (map (w_client w) (GetClientSnapshot w)) no_clients)
       (\<lambda>data. Inr (data\<lparr>on_General := (on_General data)\<lparr>og_GenerateTime := se_date_time E (w_now w)\<rparr>\<rparr>))"

text \<open>The list is kept for \<open>CacheDuration\<close>.\<close>

definition GetOnlineClient ::
    "'db svc_env \<Rightarrow> 'db world \<Rightarrow> OnlineClients cached_value
       \<Rightarrow> (OnlineClients cached_value \<times> OnlineClients option) go" where
  "GetOnlineClient E = cached_get (getOnlineClient E) w_now"

section \<open>Messages, removal, paths\<close>

definition ErrSendMessage :: ApiStatus where "ErrSendMessage = ApiStatus ''FAIL_SEND_MESSAGE'' ServerInternalError"
definition StCallsignNotFound :: ApiStatus where "StCallsignNotFound = ApiStatus ''CALLSIGN_NOT_FOUND'' NotFound"
definition SuccessSendMessage :: ApiStatus where "SuccessSendMessage = ApiStatus ''SEND_MESSAGE'' Ok"

record RequestSendMessageToClient =
  rs_header :: header
  rs_SendTo :: string
  rs_Message :: string

definition SendMessageToClient ::
    "'db svc_env \<Rightarrow> RequestSendMessageToClient \<Rightarrow> svc \<times> 'db world \<Rightarrow> (svc \<times> 'db world) \<times> bool ApiResponse" where
  "SendMessageToClient E req = (\<lambda>(s, w).
     let h = rs_header req in
     if hd_Uid h \<le> 0 \<or> rs_SendTo req = '''' \<or> rs_Message req = '''' then ((s, w), fails ErrIllegalParam)
     else if hd_Permission h \<le>s 0 then ((s, w), fails ErrNoPermission)
     else if \<not> HasPermission (hd_Permission h) ClientSendMessage then ((s, w), fails ErrNoPermission)
     else
       case SendRawMessageTo (hd_Cid h) (rs_SendTo req) (rs_Message req) w of
         (w', Some ErrCallsignNotFound) \<Rightarrow> ((s, w'), fails StCallsignNotFound)
       | (w', Some _) \<Rightarrow> ((s, w'), fails ErrSendMessage)
       | (w', None) \<Rightarrow>
           let entry = NewAuditLog ClientMessage (hd_Cid h) (rs_SendTo req @ ''('' @ rs_Message req @ '')'')
                         (hd_Ip h) (hd_UserAgent h) None
           in ((SaveAuditLog E entry s, w'), succeeds SuccessSendMessage True))"

definition SuccessKillClient :: ApiStatus where "SuccessKillClient = ApiStatus ''KILL_CLIENT'' Ok"

record RequestKillClient =
  rk_header :: header
  rk_TargetCallsign :: string
  rk_Reason :: string

text \<open>Here the permission is the one of the account in the database, not the one of the token.\<close>

definition KillClient ::
    "'db env \<Rightarrow> 'db svc_env \<Rightarrow> RequestKillClient \<Rightarrow> svc \<times> 'db world \<Rightarrow> (svc \<times> 'db world) \<times> bool ApiResponse" where
  "KillClient F E req = (\<lambda>(s, w).
     let h = rk_header req in
     if hd_Uid h \<le> 0 \<or> rk_TargetCallsign req = '''' then ((s, w), fails ErrIllegalParam)
     else
       case CallDBFuncAndCheckError (GetUserByUid (se_api E) (hd_Uid h) (w_db w)) of
         Inl res \<Rightarrow> ((s, w), fails res)
       | Inr user \<Rightarrow>
           (if \<not> HasPermission (u_Permission user) ClientKill then ((s, w), fails ErrNoPermission)
            else
              case GetClient (rk_TargetCallsign req) w of
                None \<Rightarrow> ((s, w), fails StCallsignNotFound)
              | Some cid \<Rightarrow>
                  let w' = MarkedDisconnect F cid False w;
                      s1 = (if et_EnableKickedFromServerEmail (em_Template (email_config E))
                            then fst (SendKickedFromServerEmail E (c_user (w_client w' cid)) user (rk_Reason req) s)
                            else s);
                      entry = NewAuditLog ClientKicked (hd_Cid h)
                                (rk_TargetCallsign req @ ''('' @ rk_Reason req @ '')'')
                                (hd_Ip h) (hd_UserAgent h) None
                  in ((SaveAuditLog E entry s1, w'), succeeds SuccessKillClient True)))"

definition ErrClientNotFound :: ApiStatus where "ErrClientNotFound = ApiStatus ''CLIENT_NOT_FOUND'' NotFound"
definition SuccessGetClientPath :: ApiStatus where "SuccessGetClientPath = ApiStatus ''GET_CLIENT_PATH'' Ok"

definition GetClientPath :: "string \<Rightarrow> 'db world \<Rightarrow> PilotPath list ApiResponse" where
  "GetClientPath callsign w =
     (if callsign = '''' then fails ErrIllegalParam
      else case GetClient callsign w of
             None \<Rightarrow> fails ErrClientNotFound
           | Some cid \<Rightarrow> succeeds SuccessGetClientPath (c_paths (w_client w cid)))"

section \<open>The list shows the registry\<close>

definition online :: "'db world \<Rightarrow> client list" where
  "online w = filter (\<lambda>c. \<not> c_disconnect c) (map (w_client w) (GetClientSnapshot w))"

lemma no_clients_simps [simp]:
  "on_Pilots no_clients = []" "on_Controllers no_clients = []" "og_ConnectedClients (on_General no_clients) = 0"
  "og_OnlinePilot (on_General no_clients) = 0" "og_OnlineController (on_General no_clients) = 0"
  by (simp_all add: no_clients_def)

lemma list_clients_result:
  assumes "\<forall>c \<in> set cs. length (c_position c) = 4"
  shows "list_clients E cs data = Inr
           (let up = filter (\<lambda>c. \<not> c_disconnect c) cs; g = on_General data;
                p = filter (\<lambda>c. \<not> c_isAtc c) up; a = filter c_isAtc up
            in data\<lparr>on_General := g\<lparr>og_ConnectedClients := og_ConnectedClients g + int (length up),
                        og_OnlinePilot := og_OnlinePilot g + int (length p),
                        og_OnlineController := og_OnlineController g + int (length a)\<rparr>,
                    on_Pilots := on_Pilots data @ map (\<lambda>c. pilot_entry E c (c_position c ! 0)) p,
                    on_Controllers := on_Controllers data @ map (\<lambda>c. controller_entry E c (c_position c ! 0)) a\<rparr>)"
  using assms
proof (induction cs arbitrary: data)
  case (Cons c cs)
  then have "length (c_position c) = 4" by simp
  with Cons show ?case
    by (cases "c_disconnect c"; cases "c_isAtc c") (simp_all add: list_client_def count_client_def Let_def)
qed (simp add: Let_def)

lemma snapshot_callsigns:
  assumes "reachable F w"
  shows "map (c_callsign \<circ> w_client w) (GetClientSnapshot w) = map fst (w_clients w)"
    and "set (map c_callsign (online w)) =
           {cs. \<exists>i. map_of (w_clients w) cs = Some i \<and> \<not> c_disconnect (w_client w i)}"
    and "distinct (map c_callsign (online w))"
proof -
  have r: "registry_ok w" using world_okD(1) [OF reachable_ok [OF assms]] .
  then have d: "distinct (map fst (w_clients w))" by (simp add: registry_ok_def)
  have n: "c_callsign (w_client w i) = cs" if "(cs, i) \<in> set (w_clients w)" for cs i
    using r map_of_is_SomeI [OF d that] unfolding registry_ok_def by blast
  then show s: "map (c_callsign \<circ> w_client w) (GetClientSnapshot w) = map fst (w_clients w)"
    by (auto simp: GetClientSnapshot_def)
  from d s have "distinct (map c_callsign (map (w_client w) (GetClientSnapshot w)))" by simp
  then show "distinct (map c_callsign (online w))"
    unfolding online_def by (rule distinct_map_filter)
  have m: "map_of (w_clients w) cs = Some i \<longleftrightarrow> (cs, i) \<in> set (w_clients w)" for cs i
    using d by (metis map_of_eq_Some_iff)
  show "set (map c_callsign (online w)) =
      {cs. \<exists>i. map_of (w_clients w) cs = Some i \<and> \<not> c_disconnect (w_client w i)}"
    unfolding m online_def GetClientSnapshot_def using n by force
qed

text \<open>
  C27. The list of who is online is the registry without the clients that wait for a reconnection:
  in every reachable state it is built without a panic, it has one entry for each connected
  registered client, pilots and controllers apart, each with the data of that client and its first
  position, no callsign twice, and the counts are those of the lists.
\<close>

theorem presence_exact:
  assumes "reachable F w"
  shows "\<exists>data. getOnlineClient E w = Inr data \<and>
           (let p = on_Pilots data; a = on_Controllers data; g = on_General data;
                names = map op_Callsign p @ map oc_Callsign a
            in p = map (\<lambda>c. pilot_entry E c (c_position c ! 0)) (filter (\<lambda>c. \<not> c_isAtc c) (online w)) \<and>
               a = map (\<lambda>c. controller_entry E c (c_position c ! 0)) (filter c_isAtc (online w)) \<and>
               set names = {cs. \<exists>i. map_of (w_clients w) cs = Some i \<and> \<not> c_disconnect (w_client w i)} \<and>
               distinct names \<and> og_OnlinePilot g = int (length p) \<and> og_OnlineController g = int (length a) \<and>
               og_ConnectedClients g = int (length names))"
proof -
  let ?cs = "map (w_client w) (GetClientSnapshot w)"
  have "\<forall>c \<in> set ?cs. length (c_position c) = 4"
    using snapshot_ok [OF reachable_ok [OF assms]] world_ok_client(1) [OF reachable_ok [OF assms]]
    by (auto simp: client_ok_def)
  note r = list_clients_result [OF this, of E no_clients]
  have up: "filter (\<lambda>c. \<not> c_disconnect c) ?cs = online w" by (simp add: online_def)
  have e: "op_Callsign (pilot_entry E c q) = c_callsign c" "oc_Callsign (controller_entry E c q) = c_callsign c" for c q
    by (simp_all add: pilot_entry_def controller_entry_def)
  have len: "length (filter (\<lambda>c. \<not> c_isAtc c) xs) + length (filter c_isAtc xs) = length xs" for xs
    using sum_length_filter_compl [of c_isAtc xs] by simp
  have dis: "distinct (map c_callsign (filter (\<lambda>c. \<not> c_isAtc c) xs) @ map c_callsign (filter c_isAtc xs))"
    if "distinct (map c_callsign xs)" for xs
    using that by (induction xs) auto
  have un: "f ` {c \<in> S. \<not> P c} \<union> f ` {c \<in> S. P c} = f ` S" for f :: "client \<Rightarrow> string" and S P by auto
  show ?thesis
    using snapshot_callsigns(2,3) [OF assms] dis [OF snapshot_callsigns(3) [OF assms]] len [of "online w"]
    by (simp add: getOnlineClient_def r up Let_def comp_def image_image e un del: distinct_append)
qed

lemma getOnlineClient_ok: "reachable F w \<Longrightarrow> \<exists>data. getOnlineClient E w = Inr data"
proof -
  assume "reachable F w"
  from snapshot_ok [OF reachable_ok [OF this]] world_ok_client(1) [OF reachable_ok [OF this]]
  have "\<forall>c \<in> set (map (w_client w) (GetClientSnapshot w)). length (c_position c) = 4"
    by (auto simp: client_ok_def)
  from list_clients_result [OF this, of E no_clients] show ?thesis by (simp add: getOnlineClient_def)
qed

interpretation who: cached_query "getOnlineClient E" w_now "reachable F" for E F
  by unfold_locales (rule getOnlineClient_ok)

text \<open>The calls of \<open>GetOnlineClient\<close> on the worlds of a run, one after the other.\<close>

fun serve_online :: "'db svc_env \<Rightarrow> 'db world list \<Rightarrow> OnlineClients cached_value \<Rightarrow> OnlineClients option list go" where
  "serve_online E [] cache = Inr []"
| "serve_online E (w # ws) cache =
     go_bind (GetOnlineClient E w cache) (\<lambda>(cache', data).
       go_bind (serve_online E ws cache') (\<lambda>rest. Inr (data # rest)))"

lemma serve_online: "serve_online E ws cache = serve_cached (getOnlineClient E) w_now ws cache"
  by (induction ws arbitrary: cache) (simp_all add: GetOnlineClient_def)

text \<open>
  A request for the list of who is online never panics and is never answered from too old a
  state: with a cache duration above zero, over any sequence of requests, each answer is the exact
  list of a state that the server was in at a request before it, at most that duration ago.
\<close>

theorem presence_age:
  assumes "\<forall>w \<in> set ws. reachable F w" and "0 < CacheDuration"
  shows "\<exists>answers. serve_online E ws (NewCachedValue now CacheDuration no_clients) = Inr answers \<and>
           length answers = length ws \<and>
           (\<forall>i < length ws. \<exists>data j. answers ! i = Some data \<and> j \<le> i \<and>
              getOnlineClient E (ws ! j) = Inr data \<and> w_now (ws ! i) - w_now (ws ! j) \<le> CacheDuration)"
  unfolding serve_online by (rule who.answers_fresh [OF assms])

section \<open>Reaching into the server\<close>

lemmas presence_status =
  ErrSendMessage_def StCallsignNotFound_def SuccessSendMessage_def SuccessKillClient_def
  ErrIllegalParam_def ErrNoPermission_def

lemma SaveAuditLog_keeps [simp]:
  "sv_mails (SaveAuditLog E entry s) = sv_mails s"
  by (simp add: SaveAuditLog_def SaveAuditLogs_def)

lemma MarkedDisconnect_window:
  "\<not> c_disconnect (w_client w cid) \<Longrightarrow> \<exists>i. (i, TDelete cid) \<in> set (w_tasks (MarkedDisconnect F cid False w))"
  by (auto simp: MarkedDisconnect_def mark_locked_def Let_def conn_close_def)

lemma online_callsigns:
  assumes "reachable F w"
  shows "cs \<in> c_callsign ` set (online w) \<longleftrightarrow>
           (\<exists>i. map_of (w_clients w) cs = Some i \<and> \<not> c_disconnect (w_client w i))"
  using snapshot_callsigns(2) [OF assms] by auto

lemma kill_leaves_list:
  assumes "reachable F w" and "GetClient cs w = Some cid"
  shows "c_callsign ` set (online (MarkedDisconnect F cid False w)) = c_callsign ` set (online w) - {cs}"
proof -
  let ?w = "MarkedDisconnect F cid False w"
  have "step F (HttpKill cs) w = Inr ?w" using assms(2) by simp
  with assms(1) have r: "reachable F ?w" by (rule next_step)
  have n: "map_of (w_clients w) cs = Some cid" using assms(2) by (auto simp: GetClient_def split: if_splits)
  have "i = cid \<longleftrightarrow> x = cs" if "map_of (w_clients w) x = Some i" for x i
    using that n world_okD(1) [OF reachable_ok [OF assms(1)]] unfolding registry_ok_def by (metis option.inject)
  with n show ?thesis
    by (auto simp: set_eq_iff online_callsigns [OF r] online_callsigns [OF assms(1)] MarkedDisconnect_client)
qed

text \<open>
  C28. Removing a client over HTTP: the request succeeds only when the account it names holds
  \<open>ClientKill\<close> in the database, whatever its token says, and the callsign is registered. Then the
  client is disconnected, its connection is closed and its callsign leaves the list of who is
  online, alone; it stays registered, with its deletion ahead when it was connected, and the
  removal is in the audit log unless the database refuses that. Any other response changes
  nothing; the FSD server stays in a reachable state.
\<close>

theorem http_kill:
  assumes "reachable F w"
  shows "let ((s', w'), r) = KillClient F E req (s, w); h = rk_header req; cs = rk_TargetCallsign req in
           reachable F w' \<and>
           (if is_success r then
              (\<exists>user cid. GetUserByUid (se_api E) (hd_Uid h) (w_db w) = (user, None) \<and>
                 HasPermission (u_Permission user) ClientKill \<and> GetClient cs w = Some cid \<and>
                 c_disconnect (w_client w' cid) \<and> w_clients w' = w_clients w \<and>
                 c_callsign ` set (online w') = c_callsign ` set (online w) - {cs} \<and>
                 (\<not> c_disconnect (w_client w cid) \<longrightarrow>
                    \<not> s_conn_open (w_session w' (c_socket (w_client w cid))) \<and>
                    (\<exists>i. (i, TDelete cid) \<in> set (w_tasks w')))) \<and>
              (let entry = NewAuditLog ClientKicked (hd_Cid h) (cs @ ''('' @ rk_Reason req @ '')'')
                             (hd_Ip h) (hd_UserAgent h) None
               in \<not> se_audit_fails E [entry] \<longrightarrow> entry \<in> set (sv_audit s'))
            else s' = s \<and> w' = w)"
proof -
  let ?h = "rk_header req" and ?cs = "rk_TargetCallsign req"
  let ?user = "CallDBFuncAndCheckError (GetUserByUid (se_api E) (hd_Uid ?h) (w_db w))"
  show ?thesis
  proof (cases "hd_Uid ?h \<le> 0 \<or> ?cs = ''''")
    case True
    with assms show ?thesis by (auto simp: KillClient_def is_success_def ErrIllegalParam_def Let_def)
  next
    case param: False
    show ?thesis
    proof (cases ?user)
      case (Inl res)
      then have "StatusCode res \<noteq> Ok \<and> StatusCode res \<noteq> Unsatisfied" by (auto simp: CallDB_Inl db_status_error)
      with Inl param assms show ?thesis
        by (auto simp: KillClient_def is_success_def is_success_status Let_def)
    next
      case (Inr user)
      show ?thesis
      proof (cases "HasPermission (u_Permission user) ClientKill \<and> (\<exists>cid. GetClient ?cs w = Some cid)")
        case False
        with Inr param assms show ?thesis
          by (cases "GetClient ?cs w") (auto simp: KillClient_def is_success_def presence_status Let_def)
      next
        case True
        then obtain cid where cid: "GetClient ?cs w = Some cid" by blast
        let ?w = "MarkedDisconnect F cid False w"
        have "step F (HttpKill ?cs) w = Inr ?w" using cid by simp
        with assms have r: "reachable F ?w" by (rule next_step)
        have a: "\<not> se_audit_fails E [entry] \<Longrightarrow> entry \<in> set (sv_audit (SaveAuditLog E entry s1))" for entry s1
          by (simp add: SaveAuditLog_def SaveAuditLogs_def)
        have u: "GetUserByUid (se_api E) (hd_Uid ?h) (w_db w) = (user, None)" using Inr by (simp add: CallDB_Inr)
        from u True cid param r kill_leaves_list [OF assms cid] MarkedDisconnect_window [of w cid F]
        show ?thesis
          by (simp add: KillClient_def is_success_def presence_status Let_def CallDBFuncAndCheckError_def
              MarkedDisconnect_client a)
      qed
    qed
  qed
qed

text \<open>
  A message to a client over HTTP succeeds exactly when the request is complete, the
  permission of the token includes \<open>ClientSendMessage\<close> and the receiver is registered; otherwise
  nothing changes. Success writes one line, a message from the sender's number, to the connection
  of the receiver and to no other, and none when the receiver waits for a reconnection.
\<close>

theorem http_message:
  assumes "reachable F w"
  shows "let ((s', w'), r) = SendMessageToClient E req (s, w); h = rs_header req in
           reachable F w' \<and> (\<not> is_success r \<longrightarrow> s' = s \<and> w' = w) \<and> r_Code r \<noteq> ''FAIL_SEND_MESSAGE'' \<and>
           (is_success r \<longleftrightarrow> 0 < hd_Uid h \<and> rs_SendTo req \<noteq> '''' \<and> rs_Message req \<noteq> '''' \<and>
              0 <s hd_Permission h \<and> HasPermission (hd_Permission h) ClientSendMessage \<and>
              GetClient (rs_SendTo req) w \<noteq> None) \<and>
           (is_success r \<longrightarrow>
              (\<exists>cid. GetClient (rs_SendTo req) w = Some cid \<and>
                 w' = SendLine cid (makePacket Message
                        [''('' @ fmt_0d 4 (hd_Cid h) @ '')'', rs_SendTo req, rs_Message req]) w \<and>
                 (\<forall>sid. sid \<noteq> c_socket (w_client w cid) \<longrightarrow> w_session w' sid = w_session w sid) \<and>
                 (c_disconnect (w_client w cid) \<longrightarrow> w' = w)))"
proof -
  let ?h = "rs_header req" and ?to = "rs_SendTo req"
  have pos: "hd_Permission ?h \<le>s 0 \<longleftrightarrow> \<not> 0 <s hd_Permission ?h"
    by (simp add: word_sle_eq word_sless_alt not_less)
  show ?thesis
  proof (cases "hd_Uid ?h \<le> 0 \<or> ?to = '''' \<or> rs_Message req = '''' \<or> hd_Permission ?h \<le>s 0 \<or>
      \<not> HasPermission (hd_Permission ?h) ClientSendMessage")
    case True
    with assms pos show ?thesis
      by (auto simp: SendMessageToClient_def is_success_def presence_status Let_def)
  next
    case ok: False
    show ?thesis
    proof (cases "GetClient ?to w")
      case None
      with ok assms show ?thesis
        by (simp add: SendMessageToClient_def SendRawMessageTo_def is_success_def presence_status Let_def)
    next
      case (Some cid)
      let ?w = "SendLine cid (makePacket Message [''('' @ fmt_0d 4 (hd_Cid ?h) @ '')'', ?to, rs_Message req]) w"
      have "step F (HttpMessage (hd_Cid ?h) ?to (rs_Message req)) w = Inr ?w"
        using Some by (simp add: SendRawMessageTo_def)
      with assms have "reachable F ?w" by (rule next_step)
      with Some ok pos show ?thesis
        by (simp add: SendMessageToClient_def SendRawMessageTo_def is_success_def presence_status Let_def
            SendLine_def conn_write_def upd_session_def)
    qed
  qed
qed

section \<open>Examples\<close>

lemma example_snapshot [simp]: "GetClientSnapshot example_online = [0]"
  by (simp add: GetClientSnapshot_def)

theorem presence_exact_witness:
  "\<exists>data. getOnlineClient example_svc_env example_online = Inr data \<and>
     map op_Callsign (on_Pilots data) = [''CPA421''] \<and> on_Controllers data = [] \<and>
     og_ConnectedClients (on_General data) = 1"
  using presence_exact [OF example_reachable, of example_svc_env]
  by (auto simp: Let_def online_def pilot_entry_def)

theorem presence_age_witness:
  "\<exists>data. serve_online example_svc_env [example_online] (NewCachedValue 0 1000 no_clients) = Inr [Some data] \<and>
     getOnlineClient example_svc_env example_online = Inr data"
proof -
  have "\<forall>w \<in> set [example_online]. reachable example_env w" using example_reachable by simp
  from presence_age [OF this, of 1000 example_svc_env 0] show ?thesis
    by (force simp: length_Suc_conv)
qed

definition example_staffed :: "memory world" where
  "example_staffed = example_online\<lparr>w_db := example_users\<rparr>"

lemma example_staffed_reachable: "reachable example_env example_staffed"
  unfolding example_staffed_def
  by (rule next_step [OF example_reachable, where ev = "DbChange example_users"]) simp

lemma example_staffed_simps [simp]:
  "w_db example_staffed = example_users" "GetClient ''CPA421'' example_staffed = Some 0"
  "c_disconnect (w_client example_staffed 0) \<longleftrightarrow> False"
  by (simp_all add: example_staffed_def GetClient_def)

theorem http_kill_witness:
  "let ((s', w'), r) = KillClient example_env example_svc_env
         \<lparr>rk_header = example_header, rk_TargetCallsign = ''CPA421'', rk_Reason = ''test''\<rparr>
         (example_svc, example_staffed)
   in is_success r \<and> c_disconnect (w_client w' 0)"
proof -
  let ?req = "\<lparr>rk_header = example_header, rk_TargetCallsign = ''CPA421'', rk_Reason = ''test''\<rparr>"
  have "is_success (snd (KillClient example_env example_svc_env ?req (example_svc, example_staffed)))"
    by (simp add: KillClient_def example_header_def CallDBFuncAndCheckError_def example_permissions
        is_success_def presence_status Let_def)
  with http_kill [OF example_staffed_reachable, where E = example_svc_env and s = example_svc and req = ?req]
  show ?thesis by (auto simp: Let_def case_prod_beta)
qed

theorem http_message_witness:
  "let ((s', w'), r) = SendMessageToClient example_svc_env
         \<lparr>rs_header = example_header\<lparr>hd_Permission := ClientSendMessage\<rparr>, rs_SendTo = ''CPA421'', rs_Message = ''hi''\<rparr>
         (example_svc, example_online)
   in is_success r \<and> reachable example_env w'"
proof -
  have "0 <s ClientSendMessage" "HasPermission ClientSendMessage ClientSendMessage"
    by (simp_all add: permission_bit_def HasPermission_def word_sless_alt)
  then show ?thesis
    using http_message [OF example_reachable, where E = example_svc_env and s = example_svc and
        req = "\<lparr>rs_header = example_header\<lparr>hd_Permission := ClientSendMessage\<rparr>, rs_SendTo = ''CPA421'',
          rs_Message = ''hi''\<rparr>"]
    by (auto simp: Let_def case_prod_beta example_header_def GetClient_def)
qed

end
