(* ===== verification/ServerInfo.thy ===== *)
theory ServerInfo
  imports Api ActivityStore Cache
begin

text \<open>
  The server service and the audit service (\<open>internal/http_server/service/server.go\<close>,
  \<open>audit.go\<close>): what the server tells about itself, the totals and the best times, each behind a
  cache, and the pages of the audit log.
\<close>

section \<open>The limits\<close>

record ServerLimits =
  sl_UsernameLengthMin :: int
  sl_UsernameLengthMax :: int
  sl_PasswordLengthMin :: int
  sl_PasswordLengthMax :: int
  sl_EmailLengthMin :: int
  sl_EmailLengthMax :: int
  sl_CidMin :: int
  sl_CidMax :: int
  sl_SimulatorServer :: bool

record ResponseGetServerConfig =
  sr_Limits :: ServerLimits
  sr_Facilities :: "FacilityModel list"
  sr_Ratings :: "RatingModel list"

definition getServerConfig :: "ServerConfig \<Rightarrow> ResponseGetServerConfig" where
  "getServerConfig config =
     (let l = hs_Limits (sc_HttpServer config)
      in \<lparr>sr_Limits =
            \<lparr>sl_UsernameLengthMin = UsernameLengthMin l, sl_UsernameLengthMax = UsernameLengthMax l,
             sl_PasswordLengthMin = PasswordLengthMin l, sl_PasswordLengthMax = PasswordLengthMax l,
             sl_EmailLengthMin = EmailLengthMin l, sl_EmailLengthMax = EmailLengthMax l,
             sl_CidMin = CidMin l, sl_CidMax = CidMax l,
             sl_SimulatorServer = gc_SimulatorServer (sc_General config)\<rparr>,
          sr_Facilities = Facilities, sr_Ratings = Ratings\<rparr>)"

section \<open>Totals and best times\<close>

text \<open>
  The queries of gorm: the number of users, or of those with a rating above Normal, and the ten
  users with the most time, as pilots or as controllers, and a page of the audit log.
\<close>

record 'db stats_env =
  st_count_users :: "bool \<Rightarrow> 'db \<Rightarrow> int \<times> gorm_error option"
  st_best_times :: "bool \<Rightarrow> 'db \<Rightarrow> User list \<times> gorm_error option"
  st_audit_page :: "int \<Rightarrow> int \<Rightarrow> svc \<Rightarrow> AuditLog list \<times> gorm_error option"
  st_audit_count :: "svc \<Rightarrow> int"

definition GetTotalUsers :: "'db stats_env \<Rightarrow> 'db \<Rightarrow> int \<times> op_error option" where
  "GetTotalUsers S db = (let (total, err) = st_count_users S False db in (total, db_error err))"

definition GetTotalControllers :: "'db stats_env \<Rightarrow> 'db \<Rightarrow> int \<times> op_error option" where
  "GetTotalControllers S db = (let (total, err) = st_count_users S True db in (total, db_error err))"

definition GetTimeRatings :: "'db stats_env \<Rightarrow> 'db \<Rightarrow> User list \<times> User list \<times> op_error option" where
  "GetTimeRatings S db =
     (case st_best_times S False db of
        (pilots, Some err) \<Rightarrow> (pilots, [], Some (DbError err))
      | (pilots, None) \<Rightarrow>
          (let (controllers, err) = st_best_times S True db in (pilots, controllers, db_error err)))"

definition GetAuditLogs :: "'db stats_env \<Rightarrow> int \<Rightarrow> int \<Rightarrow> svc \<Rightarrow> AuditLog list \<times> int \<times> op_error option" where
  "GetAuditLogs S page pageSize s =
     (let total = st_audit_count S s;
          (logs, err) = st_audit_page S ((page - 1) * pageSize) pageSize s
      in (logs, total, db_error err))"

record ResponseGetServerInfo =
  si_TotalUser :: int
  si_TotalController :: int
  si_TotalActivity :: int

text \<open>A query that fails counts as zero.\<close>

definition or_zero :: "int \<times> 'e option \<Rightarrow> int" where
  "or_zero r = (case r of (n, None) \<Rightarrow> n | (n, Some _) \<Rightarrow> 0)"

definition getServerInfo :: "'db stats_env \<Rightarrow> 'a act_api \<Rightarrow> 'db \<Rightarrow> 'a \<Rightarrow> ResponseGetServerInfo" where
  "getServerInfo S B db acts =
     (let totalUser = or_zero (GetTotalUsers S db);
          totalControllers = or_zero (GetTotalControllers S db);
          totalActivities = or_zero (GetTotalActivities B acts)
      in \<lparr>si_TotalUser = totalUser, si_TotalController = totalControllers, si_TotalActivity = totalActivities\<rparr>)"

record OnlineTime =
  ot_Cid :: int
  ot_Time :: int

record ResponseGetTimeRating =
  tr_Pilots :: "OnlineTime list"
  tr_Controllers :: "OnlineTime list"

definition getTimeRating :: "'db stats_env \<Rightarrow> 'db \<Rightarrow> ResponseGetTimeRating" where
  "getTimeRating S db =
     (case GetTimeRatings S db of
        (_, _, Some err) \<Rightarrow> \<lparr>tr_Pilots = [], tr_Controllers = []\<rparr>
      | (pilots, controllers, None) \<Rightarrow>
          \<lparr>tr_Pilots = map (\<lambda>p. \<lparr>ot_Cid = u_Cid p, ot_Time = u_TotalPilotTime p\<rparr>) pilots,
           tr_Controllers = map (\<lambda>c. \<lparr>ot_Cid = u_Cid c, ot_Time = u_TotalAtcTime c\<rparr>) controllers\<rparr>)"

definition SuccessGetServerConfig :: ApiStatus where "SuccessGetServerConfig = ApiStatus ''GET_SERVER_CONFIG'' Ok"
definition SuccessGetServerInfo :: ApiStatus where "SuccessGetServerInfo = ApiStatus ''GET_SERVER_INFO'' Ok"
definition SuccessGetTimeRating :: ApiStatus where "SuccessGetTimeRating = ApiStatus ''GET_TIME_RATING'' Ok"

text \<open>
  The caches of the service: the configuration is read once, when the service is made, the totals
  and the times after each \<open>CacheDuration\<close>. The clock is an argument.
\<close>

record server_service =
  ss_config :: "ResponseGetServerConfig cached_value"
  ss_info :: "ResponseGetServerInfo cached_value"
  ss_times :: "ResponseGetTimeRating cached_value"

definition NewServerService :: "ServerConfig \<Rightarrow> 'db stats_env \<Rightarrow> 'a act_api \<Rightarrow> int \<Rightarrow> 'db \<Rightarrow> 'a \<Rightarrow> server_service" where
  "NewServerService config S B now db acts =
     (let d = hs_CacheDuration (sc_HttpServer config)
      in \<lparr>ss_config = NewCachedValue now 0 (getServerConfig config),
          ss_info = NewCachedValue now d (getServerInfo S B db acts),
          ss_times = NewCachedValue now d (getTimeRating S db)\<rparr>)"

definition GetServerConfig :: "server_service \<Rightarrow> ResponseGetServerConfig ApiResponse" where
  "GetServerConfig ss = NewApiResponse SuccessGetServerConfig Unsatisfied (cv_cachedData (ss_config ss))"

definition GetServerInfo ::
    "'db stats_env \<Rightarrow> 'a act_api \<Rightarrow> int \<Rightarrow> 'db \<Rightarrow> 'a \<Rightarrow> server_service
       \<Rightarrow> server_service \<times> ResponseGetServerInfo ApiResponse" where
  "GetServerInfo S B now db acts ss =
     (let (cache, data, _) = GetValue now (getServerInfo S B db acts) (ss_info ss)
      in (ss\<lparr>ss_info := cache\<rparr>, NewApiResponse SuccessGetServerInfo Unsatisfied data))"

definition GetTimeRating ::
    "'db stats_env \<Rightarrow> int \<Rightarrow> 'db \<Rightarrow> server_service \<Rightarrow> server_service \<times> ResponseGetTimeRating ApiResponse" where
  "GetTimeRating S now db ss =
     (let (cache, data, _) = GetValue now (getTimeRating S db) (ss_times ss)
      in (ss\<lparr>ss_times := cache\<rparr>, NewApiResponse SuccessGetTimeRating Unsatisfied data))"

section \<open>Pages of the audit log\<close>

definition SuccessGetAuditLog :: ApiStatus where "SuccessGetAuditLog = ApiStatus ''GET_AUDIT_LOG'' Ok"

record page_of_logs =
  pl_Items :: "AuditLog list"
  pl_Page :: int
  pl_PageSize :: int
  pl_Total :: int

definition GetAuditLogPage ::
    "'db stats_env \<Rightarrow> permission \<Rightarrow> int \<Rightarrow> int \<Rightarrow> svc \<Rightarrow> page_of_logs ApiResponse" where
  "GetAuditLogPage S permission page pageSize s =
     (if page \<le> 0 \<or> pageSize \<le> 0 then fails ErrIllegalParam
      else if permission \<le>s 0 then fails ErrNoPermission
      else if \<not> HasPermission permission AuditLogShow then fails ErrNoPermission
      else (case GetAuditLogs S page pageSize s of
              (logs, count, Some err) \<Rightarrow> fails ErrDatabaseFail
            | (logs, count, None) \<Rightarrow> succeeds SuccessGetAuditLog
                \<lparr>pl_Items = logs, pl_Page = page, pl_PageSize = pageSize, pl_Total = count\<rparr>))"

section \<open>The limits are those of the checks\<close>

text \<open>
  A client that keeps to the limits it is told passes the length checks of the services, and one
  that does not fails them.
\<close>

lemma limits_told_are_enforced:
  assumes "GetServerConfig (NewServerService config S B now db acts) = r" and "r_Data r = Some told"
  shows "(CheckString (usernameValidator (hs_Limits (sc_HttpServer config))) x = None \<longleftrightarrow>
            sl_UsernameLengthMin (sr_Limits told) \<le> int (length x) \<and> int (length x) \<le> sl_UsernameLengthMax (sr_Limits told)) \<and>
         (CheckString (passwordValidator (hs_Limits (sc_HttpServer config))) x = None \<longleftrightarrow>
            sl_PasswordLengthMin (sr_Limits told) \<le> int (length x) \<and> int (length x) \<le> sl_PasswordLengthMax (sr_Limits told)) \<and>
         (CheckString (emailValidator (hs_Limits (sc_HttpServer config))) x = None \<longleftrightarrow>
            sl_EmailLengthMin (sr_Limits told) \<le> int (length x) \<and> int (length x) \<le> sl_EmailLengthMax (sr_Limits told)) \<and>
         (CheckInt (cidValidator (hs_Limits (sc_HttpServer config))) i = None \<longleftrightarrow>
            sl_CidMin (sr_Limits told) \<le> i \<and> i \<le> sl_CidMax (sr_Limits told))"
  using assms
  by (auto simp: GetServerConfig_def NewServerService_def NewCachedValue_def getServerConfig_def Let_def
      CheckString_None CheckInt_None usernameValidator_def passwordValidator_def emailValidator_def cidValidator_def)

section \<open>The age of the answers\<close>

text \<open>The state that the queries read, with the time.\<close>

record ('db, 'a) stats_state =
  sx_now :: int
  sx_db :: 'db
  sx_acts :: 'a

interpretation info: cached_query
  "\<lambda>x. Inr (getServerInfo S B (sx_db x) (sx_acts x))" sx_now "\<lambda>_. True" for S B
  by unfold_locales simp

interpretation times: cached_query "\<lambda>x. Inr (getTimeRating S (sx_db x))" sx_now "\<lambda>_. True" for S
  by unfold_locales simp

lemma GetServerInfo_cached:
  "0 < cv_cachedTime (ss_info ss) \<Longrightarrow>
   cached_get (\<lambda>x. Inr (getServerInfo S B (sx_db x) (sx_acts x))) sx_now x (ss_info ss) =
     (let (ss', r) = GetServerInfo S B (sx_now x) (sx_db x) (sx_acts x) ss in Inr (ss_info ss', r_Data r))"
  by (auto simp: cached_get_def GetServerInfo_def GetValue_def Let_def)

lemma GetTimeRating_cached:
  "0 < cv_cachedTime (ss_times ss) \<Longrightarrow>
   cached_get (\<lambda>x. Inr (getTimeRating S (sx_db x))) sx_now x (ss_times ss) =
     (let (ss', r) = GetTimeRating S (sx_now x) (sx_db x) ss in Inr (ss_times ss', r_Data r))"
  by (auto simp: cached_get_def GetTimeRating_def GetValue_def Let_def)

end
