(* ===== verification/Store.thy ===== *)
theory Store
  imports Api
begin

text \<open>
  The file stores (\<open>internal/interfaces/service/store.go\<close>, \<open>internal/http_server/service/store\<close>):
  uploaded images on the disk of the server and, for two cloud providers, in a bucket too.

  Paths are those of Unix. The model has the functions of \<open>path/filepath\<close> that the store uses;
  the operating system, the buckets and \<open>url.JoinPath\<close> are parameters.
\<close>

section \<open>Paths\<close>

text \<open>\<open>Clean\<close>: the parts of a path without the empty ones, \<open>.\<close> and, where there is a part before it, \<open>..\<close>.\<close>

fun clean_parts :: "bool \<Rightarrow> string list \<Rightarrow> string list \<Rightarrow> string list" where
  "clean_parts rooted done [] = rev done"
| "clean_parts rooted done (p # ps) =
     (if p = '''' \<or> p = ''.'' then clean_parts rooted done ps
      else if p = ''..'' then
        (case done of
           [] \<Rightarrow> clean_parts rooted (if rooted then [] else [''..'']) ps
         | d # ds \<Rightarrow> clean_parts rooted (if d = ''..'' then ''..'' # done else ds) ps)
      else clean_parts rooted (p # done) ps)"

definition rooted :: "string \<Rightarrow> bool" where
  "rooted path \<longleftrightarrow> has_prefix path ''/''"

definition path_parts :: "string \<Rightarrow> string list" where
  "path_parts path = clean_parts (rooted path) [] (split_on CHR ''/'' path)"

definition render_path :: "bool \<Rightarrow> string list \<Rightarrow> string" where
  "render_path r ps =
     (if r then ''/'' @ join_with ''/'' ps else if ps = [] then ''.'' else join_with ''/'' ps)"

definition filepath_Clean :: "string \<Rightarrow> string" where
  "filepath_Clean path = render_path (rooted path) (path_parts path)"

fun filepath_Join :: "string list \<Rightarrow> string" where
  "filepath_Join [] = ''''"
| "filepath_Join (e # es) = (if e = '''' then filepath_Join es else filepath_Clean (join_with ''/'' (e # es)))"

definition filepath_Base :: "string \<Rightarrow> string" where
  "filepath_Base path =
     (if path = '''' then ''.''
      else
        let trimmed = rev (dropWhile (\<lambda>c. c = CHR ''/'') (rev path));
            name = rev (takeWhile (\<lambda>c. c \<noteq> CHR ''/'') (rev trimmed))
        in if name = '''' then ''/'' else name)"

definition filepath_Ext :: "string \<Rightarrow> string" where
  "filepath_Ext path =
     (let name = rev (takeWhile (\<lambda>c. c \<noteq> CHR ''/'') (rev path))
      in if CHR ''.'' \<in> set name then CHR ''.'' # rev (takeWhile (\<lambda>c. c \<noteq> CHR ''.'') (rev name)) else '''')"

section \<open>Files to store\<close>

record FileHeader =
  Filename :: string
  Size :: int

record StoreInfo =
  in_RootPath :: string
  in_FilePath :: string
  in_RemotePath :: string
  in_FileName :: string
  in_FileExt :: string
  in_StoreInServer :: bool

definition ErrFilePathFail :: ApiStatus where "ErrFilePathFail = ApiStatus ''FILE_PATH_FAIL'' ServerInternalError"
definition ErrFileSaveFail :: ApiStatus where "ErrFileSaveFail = ApiStatus ''FILE_SAVE_FAIL'' ServerInternalError"
definition ErrFileUploadFail :: ApiStatus where "ErrFileUploadFail = ApiStatus ''FILE_UPLOAD_FAIL'' ServerInternalError"
definition ErrFileOverSize :: ApiStatus where "ErrFileOverSize = ApiStatus ''FILE_OVER_SIZE'' BadRequest"
definition ErrFileExtUnsupported :: ApiStatus where "ErrFileExtUnsupported = ApiStatus ''FILE_EXT_UNSUPPORTED'' BadRequest"
definition ErrFileNameIllegal :: ApiStatus where "ErrFileNameIllegal = ApiStatus ''FILE_NAME_ILLEGAL'' BadRequest"
definition SuccessUploadFile :: ApiStatus where "SuccessUploadFile = ApiStatus ''UPLOAD_FILE'' Ok"

definition slashes :: "string \<Rightarrow> string" where
  "slashes s = map (\<lambda>c. if c = CHR 0x5C then CHR ''/'' else c) s"

definition NewStoreInfo :: "HttpServerStoreFileLimit \<Rightarrow> StoreInfo" where
  "NewStoreInfo fileLimit =
     \<lparr>in_RootPath = sl_RootPath fileLimit, in_FilePath = '''', in_RemotePath = '''', in_FileName = '''',
      in_FileExt = '''', in_StoreInServer = sl_StoreInServer fileLimit\<rparr>"

text \<open>The clock gives the nanoseconds since 1970, which name the file.\<close>

definition GenerateStoreInfo :: "int \<Rightarrow> HttpServerStoreFileLimit \<Rightarrow> FileHeader \<Rightarrow> ApiStatus + StoreInfo" where
  "GenerateStoreInfo now fileLimit file =
     (if CHR ''/'' \<in> set (Filename file) then Inl ErrFileNameIllegal
      else
        let ext = filepath_Ext (Filename file)
        in if ext \<notin> set (sl_AllowedFileExt fileLimit) then Inl ErrFileExtUnsupported
           else if Size file > sl_MaxFileSize fileLimit then Inl ErrFileOverSize
           else
             let FileName = filepath_Join [sl_StorePrefix fileLimit, itoa now @ ext]
             in Inr ((NewStoreInfo fileLimit)
                  \<lparr>in_FileExt := ext, in_FileName := FileName,
                   in_FilePath := filepath_Join [sl_RootPath fileLimit, FileName],
                   in_RemotePath := slashes FileName\<rparr>))"

section \<open>The local store\<close>

text \<open>
  The files of the disk and of the bucket by path. \<open>os_open\<close> opens an uploaded file and gives its
  content, \<open>os_create\<close> opens a file for writing, \<open>os_copy\<close> copies a content and gives what it wrote
  and whether it got to the end; the last three answer for a bucket.
\<close>

record store_state =
  fs_disk :: "string \<rightharpoonup> string"
  fs_bucket :: "string \<rightharpoonup> string"

record store_env =
  os_now :: int
  os_open :: "FileHeader \<Rightarrow> string option"
  os_create :: "string \<Rightarrow> bool"
  os_copy :: "string \<Rightarrow> string \<times> bool"
  os_remove :: "string \<Rightarrow> store_state \<Rightarrow> bool"
  bucket_put :: "string \<Rightarrow> bool"
  bucket_delete :: "string \<Rightarrow> bool"
  url_JoinPath :: "string \<Rightarrow> string option"

text \<open>\<open>O_WRONLY|O_CREATE\<close>: writing over a longer file keeps the end of it.\<close>

definition write_over :: "string \<Rightarrow> string option \<Rightarrow> string" where
  "write_over new old = new @ drop (length new) (case old of None \<Rightarrow> '''' | Some s \<Rightarrow> s)"

text \<open>An older way to name a file, which the program does not call: the paths on disk and in the store.\<close>

definition GetFileStoreInfo ::
    "int \<Rightarrow> HttpServerStore \<Rightarrow> HttpServerStoreFileLimit \<Rightarrow> FileHeader \<Rightarrow> ApiStatus + string \<times> string" where
  "GetFileStoreInfo now config limit file =
     (if CHR ''/'' \<in> set (Filename file) then Inl ErrFileNameIllegal
      else
        let ext = filepath_Ext (Filename file)
        in if ext \<notin> set (sl_AllowedFileExt limit) then Inl ErrFileExtUnsupported
           else if Size file > sl_MaxFileSize limit then Inl ErrFileOverSize
           else
             let newFilename = filepath_Join [sl_StorePrefix limit, itoa now @ ext];
                 dstPath = filepath_Join [st_LocalStorePath config, newFilename]
             in Inr (dstPath, newFilename))"

text \<open>It takes the files that the other one takes, under the same name.\<close>

lemma GetFileStoreInfo_same:
  "map_sum id snd (GetFileStoreInfo now config limit file) = map_sum id in_FileName (GenerateStoreInfo now limit file)"
  by (simp add: GetFileStoreInfo_def GenerateStoreInfo_def Let_def)

text \<open>
  The deferred \<open>src.Close()\<close> is set up before the error of \<open>Open\<close> is looked at: when opening
  failed it calls a method of a nil interface.
\<close>

definition local_SaveImageFile ::
    "store_env \<Rightarrow> HttpServerStore \<Rightarrow> FileHeader \<Rightarrow> store_state \<Rightarrow> (store_state \<times> (ApiStatus + StoreInfo)) go" where
  "local_SaveImageFile E config file st =
     (case GenerateStoreInfo (os_now E) (fl_ImageLimit (st_FileLimit config)) file of
        Inl res \<Rightarrow> Inr (st, Inl res)
      | Inr storeInfo \<Rightarrow>
          (if \<not> in_StoreInServer storeInfo then Inr (st, Inr storeInfo)
           else
             case os_open E file of
               None \<Rightarrow> Inl NilDereference
             | Some src \<Rightarrow>
                 (if \<not> os_create E (in_FilePath storeInfo) then Inr (st, Inl ErrFileSaveFail)
                  else
                    let path = in_FilePath storeInfo; (written, complete) = os_copy E src;
                        st' = st\<lparr>fs_disk := (fs_disk st)(path \<mapsto> write_over written (fs_disk st path))\<rparr>
                    in Inr (st', if complete then Inr storeInfo else Inl ErrFileSaveFail))))"

definition local_DeleteImageFile ::
    "store_env \<Rightarrow> HttpServerStore \<Rightarrow> string \<Rightarrow> store_state \<Rightarrow> store_state \<times> StoreInfo option" where
  "local_DeleteImageFile E config file st =
     (let limit = fl_ImageLimit (st_FileLimit config);
          FileName = filepath_Join [sl_StorePrefix limit, filepath_Base file];
          storeInfo = (NewStoreInfo limit)
            \<lparr>in_FileName := FileName, in_FilePath := filepath_Join [sl_RootPath limit, FileName],
             in_RemotePath := slashes FileName\<rparr>
      in if \<not> in_StoreInServer storeInfo then (st, Some storeInfo)
         else if os_remove E (in_FilePath storeInfo) st
         then (st\<lparr>fs_disk := (fs_disk st)(in_FilePath storeInfo := None)\<rparr>, Some storeInfo)
         else (st, None))"

record ResponseUploadFile =
  up_FileSize :: int
  up_AccessPath :: string

text \<open>The checks that all stores make before an upload.\<close>

definition upload_checks :: "permission \<Rightarrow> 'a ApiResponse option" where
  "upload_checks permission =
     (if permission \<le>s 0 then Some (fails ErrNoPermission)
      else if \<not> HasPermission permission ActivityPublish then Some (NewApiResponse ErrNoPermission PermissionDenied None)
      else None)"

definition local_SaveUploadImages ::
    "store_env \<Rightarrow> HttpServerStore \<Rightarrow> permission \<Rightarrow> FileHeader \<Rightarrow> store_state
       \<Rightarrow> (store_state \<times> ResponseUploadFile ApiResponse) go" where
  "local_SaveUploadImages E config permission file st =
     (case upload_checks permission of
        Some r \<Rightarrow> Inr (st, r)
      | None \<Rightarrow>
          go_bind (local_SaveImageFile E config file st) (\<lambda>(st', res).
            Inr (st', case res of
                        Inl err \<Rightarrow> fails err
                      | Inr storeInfo \<Rightarrow> succeeds SuccessUploadFile
                          \<lparr>up_FileSize = Size file, up_AccessPath = in_RemotePath storeInfo\<rparr>)))"

section \<open>The cloud stores\<close>

text \<open>
  The stores of Tencent and of Aliyun differ in the calls of their libraries only. They store the
  file on the disk first and leave it there when the bucket refuses it.
\<close>

definition remote_path :: "HttpServerStore \<Rightarrow> string \<Rightarrow> string" where
  "remote_path config FileName = slashes (filepath_Join [st_RemoteStorePath config, FileName])"

definition TencentCos_SaveImageFile ::
    "store_env \<Rightarrow> HttpServerStore \<Rightarrow> FileHeader \<Rightarrow> store_state \<Rightarrow> (store_state \<times> (ApiStatus + StoreInfo)) go" where
  "TencentCos_SaveImageFile E config file st =
     go_bind (local_SaveImageFile E config file st) (\<lambda>(st1, res).
       case res of
         Inl err \<Rightarrow> Inr (st1, Inl err)
       | Inr localInfo \<Rightarrow>
           (let storeInfo = localInfo\<lparr>in_RemotePath := remote_path config (in_FileName localInfo)\<rparr>
            in case os_open E file of
                 None \<Rightarrow> Inr (st1, Inl ErrFileUploadFail)
               | Some reader \<Rightarrow>
                   (if \<not> bucket_put E (in_RemotePath storeInfo) then Inr (st1, Inl ErrFileUploadFail)
                    else Inr (st1\<lparr>fs_bucket := (fs_bucket st1)(in_RemotePath storeInfo \<mapsto> reader)\<rparr>, Inr storeInfo))))"

definition TencentCos_DeleteImageFile ::
    "store_env \<Rightarrow> HttpServerStore \<Rightarrow> string \<Rightarrow> store_state \<Rightarrow> store_state \<times> StoreInfo option" where
  "TencentCos_DeleteImageFile E config file st =
     (case local_DeleteImageFile E config file st of
        (st1, None) \<Rightarrow> (st1, None)
      | (st1, Some localInfo) \<Rightarrow>
          (let storeInfo = localInfo\<lparr>in_RemotePath := remote_path config (in_FileName localInfo)\<rparr>
           in if bucket_delete E (in_RemotePath storeInfo)
              then (st1\<lparr>fs_bucket := (fs_bucket st1)(in_RemotePath storeInfo := None)\<rparr>, Some storeInfo)
              else (st1, None)))"

definition TencentCos_SaveUploadImages ::
    "store_env \<Rightarrow> HttpServerStore \<Rightarrow> permission \<Rightarrow> FileHeader \<Rightarrow> store_state
       \<Rightarrow> (store_state \<times> ResponseUploadFile ApiResponse) go" where
  "TencentCos_SaveUploadImages E config permission file st =
     (case upload_checks permission of
        Some r \<Rightarrow> Inr (st, r)
      | None \<Rightarrow>
          go_bind (TencentCos_SaveImageFile E config file st) (\<lambda>(st', res).
            Inr (st', case res of
                        Inl err \<Rightarrow> fails err
                      | Inr storeInfo \<Rightarrow>
                          (case url_JoinPath E (in_RemotePath storeInfo) of
                             None \<Rightarrow> fails ErrFilePathFail
                           | Some accessUrl \<Rightarrow> succeeds SuccessUploadFile
                               \<lparr>up_FileSize = Size file, up_AccessPath = accessUrl\<rparr>))))"

definition ALiYunOss_SaveImageFile ::
    "store_env \<Rightarrow> HttpServerStore \<Rightarrow> FileHeader \<Rightarrow> store_state \<Rightarrow> (store_state \<times> (ApiStatus + StoreInfo)) go" where
  "ALiYunOss_SaveImageFile = TencentCos_SaveImageFile"

definition ALiYunOss_DeleteImageFile ::
    "store_env \<Rightarrow> HttpServerStore \<Rightarrow> string \<Rightarrow> store_state \<Rightarrow> store_state \<times> StoreInfo option" where
  "ALiYunOss_DeleteImageFile = TencentCos_DeleteImageFile"

definition ALiYunOss_SaveUploadImages ::
    "store_env \<Rightarrow> HttpServerStore \<Rightarrow> permission \<Rightarrow> FileHeader \<Rightarrow> store_state
       \<Rightarrow> (store_state \<times> ResponseUploadFile ApiResponse) go" where
  "ALiYunOss_SaveUploadImages = TencentCos_SaveUploadImages"

section \<open>The stores stay in their directory\<close>

definition plain_name :: "string \<Rightarrow> bool" where
  "plain_name b \<longleftrightarrow> b \<notin> {'''', ''.'', ''..''} \<and> CHR ''/'' \<notin> set b"

lemma clean_parts_snoc: "plain_name b \<Longrightarrow> clean_parts r d (ps @ [b]) = clean_parts r d ps @ [b]"
  by (induction r d ps rule: clean_parts.induct) (auto simp: plain_name_def split: list.split)

lemma set_clean_parts: "set (clean_parts r d ps) \<subseteq> set d \<union> set ps \<union> {''..''}"
  by (induction r d ps rule: clean_parts.induct) (auto split: list.splits if_splits)

lemma split_on_append: "split_on c (s @ c # t) = split_on c s @ split_on c t"
proof (induction s)
  case (Cons x s)
  then show ?case by (cases "split_on c s") (auto split: list.split)
qed simp

lemma rooted_append: "p \<noteq> '''' \<Longrightarrow> rooted (p @ q) = rooted p"
  by (cases p) (simp_all add: rooted_def has_prefix_def)

lemma rooted_Cons: "rooted (c # p) \<longleftrightarrow> c = CHR ''/''"
  by (simp add: rooted_def has_prefix_def)

text \<open>The parts that \<open>Clean\<close> reads in a rendered path: an empty one or a dot may come before.\<close>

lemma split_render:
  assumes "\<forall>p \<in> set ps. CHR ''/'' \<notin> set p"
  shows "\<exists>skip. set skip \<subseteq> {'''', ''.''} \<and> split_on CHR ''/'' (render_path r ps) = skip @ ps"
proof (cases "ps = []")
  case True
  then show ?thesis
    by (intro exI [of _ "if r then ['''', ''''] else [''.'']"]) (simp add: render_path_def)
next
  case False
  then have "split_on CHR ''/'' (join_with [CHR ''/''] ps) = ps"
    using assms by (rule split_on_join)
  with False show ?thesis
    by (intro exI [of _ "if r then [''''] else []"]) (simp add: render_path_def)
qed

lemma clean_parts_skip:
  "set skip \<subseteq> {'''', ''.''} \<Longrightarrow> clean_parts r d (xs @ skip @ ps) = clean_parts r d (xs @ ps)"
proof (induction r d xs rule: clean_parts.induct)
  case (1 r d)
  then show ?case by (induction skip) auto
qed (auto split: list.split)

lemma path_parts_no_slash: "p \<in> set (path_parts path) \<Longrightarrow> CHR ''/'' \<notin> set p"
proof -
  assume p: "p \<in> set (path_parts path)"
  have "set (path_parts path) \<subseteq> set (split_on CHR ''/'' path) \<union> {''..''}"
    using set_clean_parts [of "rooted path" "[]"] unfolding path_parts_def by simp
  with p show ?thesis using split_on_pieces [of p "CHR ''/''" path] by auto
qed

lemma path_parts_append:
  "p \<noteq> '''' \<Longrightarrow> path_parts (p @ CHR ''/'' # q) =
     clean_parts (rooted p) [] (split_on CHR ''/'' p @ split_on CHR ''/'' q)"
  by (simp add: path_parts_def rooted_append split_on_append)

lemma Join_plain:
  assumes "p \<noteq> ''''" and "plain_name b"
  shows "filepath_Join [p, b] = render_path (rooted p) (path_parts p @ [b])"
proof -
  have "split_on CHR ''/'' b = [b]" using assms(2) by (simp add: plain_name_def split_on_no_sep)
  with assms show ?thesis
    by (simp add: filepath_Clean_def path_parts_append rooted_append clean_parts_snoc) (simp add: path_parts_def)
qed

text \<open>The directory of the images, and the paths of the files in it.\<close>

definition images_dir :: "HttpServerStoreFileLimit \<Rightarrow> string" where
  "images_dir limit = filepath_Join [sl_RootPath limit, filepath_Clean (sl_StorePrefix limit)]"

lemma image_path:
  assumes "sl_RootPath limit \<noteq> ''''" and "sl_StorePrefix limit \<noteq> ''''"
  shows "\<exists>ps. images_dir limit = render_path (rooted (sl_RootPath limit)) ps \<and>
           (\<forall>b. plain_name b \<longrightarrow>
              filepath_Join [sl_RootPath limit, filepath_Join [sl_StorePrefix limit, b]] =
                render_path (rooted (sl_RootPath limit)) (ps @ [b]))"
proof -
  let ?R = "sl_RootPath limit" and ?P = "sl_StorePrefix limit"
  let ?r = "rooted ?R" and ?ps = "path_parts ?P"
  let ?dir = "clean_parts ?r [] (split_on CHR ''/'' ?R @ ?ps)"
  have ns: "\<forall>p \<in> set ?ps. CHR ''/'' \<notin> set p" using path_parts_no_slash by blast
  have ne: "render_path r xs \<noteq> ''''" if "'''' \<notin> set xs" for r xs
    using that by (cases xs rule: list.exhaust; cases "tl xs") (auto simp: render_path_def)
  have j: "filepath_Join [?R, q] = render_path ?r (clean_parts ?r [] (split_on CHR ''/'' ?R @ split_on CHR ''/'' q))" for q
    using assms(1) by (simp add: filepath_Clean_def path_parts_append rooted_append)
  have "images_dir limit = render_path ?r ?dir"
    using split_render [OF ns, of "rooted ?P"] clean_parts_skip
    by (auto simp: images_dir_def j filepath_Clean_def simp del: filepath_Join.simps)
  moreover have "filepath_Join [?R, filepath_Join [?P, b]] = render_path ?r (?dir @ [b])" if b: "plain_name b" for b
  proof -
    have "\<forall>p \<in> set (?ps @ [b]). CHR ''/'' \<notin> set p" using ns b by (auto simp: plain_name_def)
    from split_render [OF this, of "rooted ?P"] obtain skip where
      "set skip \<subseteq> {'''', ''.''}" "split_on CHR ''/'' (render_path (rooted ?P) (?ps @ [b])) = skip @ ?ps @ [b]" by auto
    then have "filepath_Join [?R, filepath_Join [?P, b]] =
        render_path ?r (clean_parts ?r [] ((split_on CHR ''/'' ?R @ ?ps) @ [b]))"
      using clean_parts_skip by (simp add: j Join_plain [OF assms(2) b] del: filepath_Join.simps)
    then show ?thesis by (simp add: clean_parts_snoc [OF b] del: append_assoc)
  qed
  ultimately show ?thesis by blast
qed

lemma Base_no_slash: "filepath_Base file \<noteq> ''/'' \<Longrightarrow> CHR ''/'' \<notin> set (filepath_Base file)"
  by (auto simp: filepath_Base_def Let_def dest: set_takeWhileD split: if_splits)

lemma Base_not_empty: "filepath_Base file \<noteq> ''''"
  by (simp add: filepath_Base_def Let_def)

lemma Ext_no_slash: "CHR ''/'' \<notin> set (filepath_Ext path)"
  by (auto simp: filepath_Ext_def Let_def dest!: set_takeWhileD)

lemma plain_stamp: "plain_name (itoa now @ filepath_Ext path)"
proof -
  obtain c cs where c: "itoa now = c # cs" by (cases "itoa now") (auto simp: itoa_def split: if_splits)
  then have "c = CHR ''-'' \<or> is_digit c" using itoa_chars [of c now] by simp
  then have "c \<noteq> CHR ''.''" by (auto simp: is_digit_def)
  moreover have "CHR ''/'' \<notin> set (itoa now)" using itoa_chars [of "CHR ''/''" now] by (auto simp: is_digit_def)
  ultimately show ?thesis using c Ext_no_slash [of path] by (auto simp: plain_name_def)
qed


definition example_store :: HttpServerStore where
  "example_store = defaultHttpServerStore
     \<lparr>st_FileLimit := \<lparr>fl_ImageLimit = (fl_ImageLimit defaultHttpServerStoreFileLimits)\<lparr>sl_RootPath := ''uploads''\<rparr>\<rparr>\<rparr>"

definition example_store_env :: store_env where
  "example_store_env = \<lparr>os_now = 17, os_open = (\<lambda>f. Some ''data''), os_create = (\<lambda>_. True), os_copy = (\<lambda>s. (s, True)),
     os_remove = (\<lambda>p st. fs_disk st p \<noteq> None), bucket_put = (\<lambda>_. True), bucket_delete = (\<lambda>_. True),
     url_JoinPath = Some\<rparr>"

definition empty_store :: store_state where
  "empty_store = \<lparr>fs_disk = Map.empty, fs_bucket = Map.empty\<rparr>"

lemma example_upload:
  "local_SaveImageFile example_store_env example_store \<lparr>Filename = ''cat.png'', Size = 4\<rparr> empty_store =
     Inr (empty_store\<lparr>fs_disk := [''uploads/images/17.png'' \<mapsto> ''data'']\<rparr>,
          Inr \<lparr>in_RootPath = ''uploads'', in_FilePath = ''uploads/images/17.png'', in_RemotePath = ''images/17.png'',
               in_FileName = ''images/17.png'', in_FileExt = ''.png'', in_StoreInServer = True\<rparr>)"
proof -
  have "GenerateStoreInfo 17 (fl_ImageLimit (st_FileLimit example_store)) \<lparr>Filename = ''cat.png'', Size = 4\<rparr> =
      Inr \<lparr>in_RootPath = ''uploads'', in_FilePath = ''uploads/images/17.png'', in_RemotePath = ''images/17.png'',
           in_FileName = ''images/17.png'', in_FileExt = ''.png'', in_StoreInServer = True\<rparr>"
    by code_simp
  then show ?thesis
    by (simp add: local_SaveImageFile_def example_store_env_def write_over_def empty_store_def)
qed

text \<open>A path that ends in two dots reaches the directory above that of the images.\<close>

lemma delete_above:
  "in_FilePath (the (snd (local_DeleteImageFile (example_store_env\<lparr>os_remove := \<lambda>_ _. True\<rparr>) example_store ''https://x/..'' empty_store))) =
     ''uploads''"
proof -
  have "filepath_Join [''uploads'', filepath_Join [''images'', filepath_Base ''https://x/..'']] = ''uploads''"
    by code_simp
  then show ?thesis
    by (simp add: local_DeleteImageFile_def example_store_def defaultHttpServerStoreFileLimits_def NewStoreInfo_def
        Let_def del: filepath_Join.simps)
qed


end
