(* ===== verification/Heartbeat.thy ===== *)
theory Heartbeat
  imports Frame
begin

text \<open>
  The heartbeat sender (\<open>internal/interfaces/fsd/heartbeat_sender.go\<close>): a ticker and a goroutine
  that sends at every tick until it is stopped. The client manager creates and stops one; nothing
  starts it.
\<close>

text \<open>
  A ticker holds at most one tick that was not taken. \<open>hb_loops\<close> counts the goroutines: each
  \<open>Start\<close> adds one.
\<close>

record HeartbeatSender =
  hb_interval :: int
  hb_ticking :: bool
  hb_tick :: bool
  hb_stopped :: bool
  hb_loops :: nat

definition NewHeartbeatSender :: "int \<Rightarrow> HeartbeatSender" where
  "NewHeartbeatSender interval =
     \<lparr>hb_interval = interval, hb_ticking = False, hb_tick = False, hb_stopped = False, hb_loops = 0\<rparr>"

text \<open>A ticker panics for an interval that is not positive, closing a closed channel panics.\<close>

definition Start :: "HeartbeatSender \<Rightarrow> HeartbeatSender go" where
  "Start h =
     (if hb_interval h \<le> 0 then Inl NonPositiveInterval
      else Inr (h\<lparr>hb_ticking := True, hb_tick := False, hb_loops := Suc (hb_loops h)\<rparr>))"

definition Stop :: "HeartbeatSender \<Rightarrow> HeartbeatSender go" where
  "Stop h = (if hb_stopped h then Inl ClosedChannel else Inr (h\<lparr>hb_ticking := False, hb_stopped := True\<rparr>))"

text \<open>
  The ticker fires; a goroutine takes the tick and sends, \<open>n\<close> being the random number of the
  heartbeat, or sees the stop and ends, whichever it chooses when both are there.
\<close>

datatype heartbeat_event = HbStart | HbStop | HbFire | HbSend nat | HbLeave

fun heartbeat_step :: "heartbeat_event \<Rightarrow> HeartbeatSender \<times> 'db world \<Rightarrow> (HeartbeatSender \<times> 'db world) go" where
  "heartbeat_step HbStart (h, w) = go_bind (Start h) (\<lambda>h'. Inr (h', w))"
| "heartbeat_step HbStop (h, w) = go_bind (Stop h) (\<lambda>h'. Inr (h', w))"
| "heartbeat_step HbFire (h, w) = Inr (if hb_ticking h then h\<lparr>hb_tick := True\<rparr> else h, w)"
| "heartbeat_step (HbSend n) (h, w) =
     Inr (if 0 < hb_loops h \<and> hb_tick h then (h\<lparr>hb_tick := False\<rparr>, SendHeartBeat n w) else (h, w))"
| "heartbeat_step HbLeave (h, w) =
     Inr (if 0 < hb_loops h \<and> hb_stopped h then h\<lparr>hb_loops := hb_loops h - 1\<rparr> else h, w)"

text \<open>What the goroutine does is what the server can do by itself.\<close>

lemma heartbeat_reachable:
  "run heartbeat_step evs (h, w) = Inr (h', w') \<Longrightarrow> reachable E w \<Longrightarrow> reachable E w'"
proof (induction evs arbitrary: h w)
  case (Cons ev evs)
  from Cons.prems(1) obtain h1 w1 where s: "heartbeat_step ev (h, w) = Inr (h1, w1)"
    "run heartbeat_step evs (h1, w1) = Inr (h', w')" by (auto simp: go_simps)
  have "w1 \<in> {w} \<union> range (\<lambda>n. SendHeartBeat n w)" using s(1) by (cases ev) (auto simp: go_simps split: if_splits)
  moreover have "reachable E (SendHeartBeat n w)" for n
    using next_step [OF Cons.prems(2), of "HeartBeat n"] by simp
  ultimately have "reachable E w1" using Cons.prems(2) by auto
  from Cons.IH [OF s(2) this] show ?case .
qed simp

text \<open>A sender that is not started sends nothing, and one whose server shuts down neither.\<close>

lemma heartbeat_silent:
  assumes "run heartbeat_step evs (h, w) = Inr (h', w')"
    and "w_shuttingDown w \<or> (hb_loops h = 0 \<and> HbStart \<notin> set evs)"
  shows "w' = w"
  using assms
proof (induction evs arbitrary: h)
  case (Cons ev evs)
  from Cons.prems(1) obtain h1 w1 where s: "heartbeat_step ev (h, w) = Inr (h1, w1)"
    "run heartbeat_step evs (h1, w1) = Inr (h', w')" by (auto simp: go_simps)
  from s(1) Cons.prems(2) have "w1 = w"
    by (cases ev) (auto simp: go_simps SendHeartBeat_def split: if_splits)
  moreover from s(1) Cons.prems(2) have "w_shuttingDown w \<or> (hb_loops h1 = 0 \<and> HbStart \<notin> set evs)"
    by (cases ev) (auto simp: go_simps Stop_def split: if_splits)
  ultimately show ?case using Cons.IH [of h1] s(2) by simp
qed simp

end
