(* ===== verification/Http.thy ===== *)
theory Http
  imports Activities Presence ServerInfo Store Limiter Frame
begin

text \<open>
  The HTTP server (\<open>internal/http_server/server.go\<close>, \<open>internal/http_server/controller\<close>,
  \<open>internal/http_server/middleware/limiter.go\<close>): the routes with their middleware, the controllers
  that fill in a request from the token, and the services on one state with the FSD server.

  The framework binds the path, the query and the body to a request; a bound request is data of
  the model and a binding that fails is \<open>None\<close>.
\<close>

section \<open>Requests and replies\<close>

text \<open>One constructor per route, with what its controller binds.\<close>

datatype call =
    PostSessions "(string \<times> string) option"
  | GetSessions
  | PostCodes "(string \<times> int) option"
  | GetProfile
  | PatchProfile "RequestUserEditCurrentProfile option"
  | GetHistory
  | PostUsers "RequestUserRegister option"
  | GetUsersPage "(int \<times> int) option"
  | GetControllersPage "(int \<times> int) option"
  | GetAvailability "(string \<times> string \<times> string) option"
  | GetUidProfile "nat option"
  | PatchUidProfile "(nat \<times> RequestUserEditCurrentProfile) option"
  | PatchUidPermission "(nat \<times> (string \<times> json_value) list) option"
  | PutUidRating "(nat \<times> int) option"
  | GetStatus
  | GetClients
  | GetPaths "string option"
  | PostMessage "(string \<times> string) option"
  | DeleteCallsign "(string \<times> string) option"
  | GetServerBase
  | GetServerTotals
  | GetServerRating
  | GetMonth "string option"
  | GetActivityList "(int \<times> int) option"
  | GetActivity "nat option"
  | PostActivity "Activity option option"
  | DeleteActivityId "nat option"
  | PostController "(nat \<times> nat) option"
  | DeleteController "(nat \<times> nat) option"
  | PostPilot "(nat \<times> string \<times> string) option"
  | DeletePilot "nat option"
  | PutActivityStatus "(nat \<times> int) option"
  | PutPilotStatus "(nat \<times> nat \<times> int) option"
  | PutActivity "Activity option option"
  | PostImage "FileHeader option"
  | GetAudits "(int \<times> int) option"

text \<open>
  A request comes from an address, with the token of its \<open>Authorization\<close> header when it has one;
  \<open>hr_random\<close> is the random number that the server draws when it needs one.
\<close>

record http_request =
  hr_RealIP :: string
  hr_UserAgent :: string
  hr_token :: "string option"
  hr_random :: nat
  hr_call :: call

datatype reply =
    RError "unit ApiResponse"
  | RPanic
  | RText string
  | RToken "ResponseToken ApiResponse"
  | RBool "bool ApiResponse"
  | RAddress "string ApiResponse"
  | RUser "User ApiResponse"
  | RUsers "page_of_users ApiResponse"
  | RHistory "ResponseGetUserHistory ApiResponse"
  | ROnline "OnlineClients option"
  | RPaths "PilotPath list ApiResponse"
  | RServerConfig "ResponseGetServerConfig ApiResponse"
  | RServerInfo "ResponseGetServerInfo ApiResponse"
  | RServerTimes "ResponseGetTimeRating ApiResponse"
  | RActivities "Activity list ApiResponse"
  | RActivityPage "page_of_activities ApiResponse"
  | RActivity "Activity ApiResponse"
  | RUpload "ResponseUploadFile ApiResponse"
  | RLogs "page_of_logs ApiResponse"

fun reply_code :: "reply \<Rightarrow> nat" where
  "reply_code (RError r) = r_HttpCode r"
| "reply_code RPanic = 500"
| "reply_code (RText _) = 200"
| "reply_code (RToken r) = r_HttpCode r"
| "reply_code (RBool r) = r_HttpCode r"
| "reply_code (RAddress r) = r_HttpCode r"
| "reply_code (RUser r) = r_HttpCode r"
| "reply_code (RUsers r) = r_HttpCode r"
| "reply_code (RHistory r) = r_HttpCode r"
| "reply_code (ROnline _) = 200"
| "reply_code (RPaths r) = r_HttpCode r"
| "reply_code (RServerConfig r) = r_HttpCode r"
| "reply_code (RServerInfo r) = r_HttpCode r"
| "reply_code (RServerTimes r) = r_HttpCode r"
| "reply_code (RActivities r) = r_HttpCode r"
| "reply_code (RActivityPage r) = r_HttpCode r"
| "reply_code (RActivity r) = r_HttpCode r"
| "reply_code (RUpload r) = r_HttpCode r"
| "reply_code (RLogs r) = r_HttpCode r"

section \<open>The state\<close>

text \<open>
  The services share their database with the FSD server, whose world holds it, and the files with
  the stores. The activities have their own tables.
\<close>

record ('db, 'a) app =
  ap_svc :: svc
  ap_world :: "'db world"
  ap_acts :: 'a
  ap_files :: store_state
  ap_online :: "OnlineClients cached_value"
  ap_server :: server_service
  ap_limiter :: SlidingWindowLimiter

text \<open>
  \<open>he_parse\<close> checks a token against a secret at a time; a token that is missing, malformed, wrongly
  signed or expired gives one of the errors of the JWT middleware.
\<close>

datatype jwt_error = ErrJWTMissing | ErrJWTInvalid | ErrJWTOther

record ('db, 'a) http_env =
  he_fsd :: "'db env"
  he_svc :: "'db svc_env"
  he_act :: "'a act_env"
  he_stats :: "'db stats_env"
  he_store :: store_env
  he_parse :: "string \<Rightarrow> int \<Rightarrow> string option \<Rightarrow> jwt_error + Claims"

abbreviation http_config :: "('db, 'a) http_env \<Rightarrow> HttpServerConfig" where
  "http_config H \<equiv> se_config (he_svc H)"

abbreviation app_now :: "('db, 'a) app \<Rightarrow> int" where
  "app_now a \<equiv> sv_now (ap_svc a)"

type_synonym ('db, 'a) served = "(('db, 'a) app \<times> reply) go"

section \<open>The store that is configured\<close>

definition DeleteImageFile :: "store_env \<Rightarrow> HttpServerStore \<Rightarrow> string \<Rightarrow> store_state \<Rightarrow> store_state" where
  "DeleteImageFile E config file st =
     fst ((if st_StoreType config = 1 then ALiYunOss_DeleteImageFile
           else if st_StoreType config = 2 then TencentCos_DeleteImageFile
           else local_DeleteImageFile) E config file st)"

definition SaveUploadImages ::
    "store_env \<Rightarrow> HttpServerStore \<Rightarrow> permission \<Rightarrow> FileHeader \<Rightarrow> store_state
       \<Rightarrow> (store_state \<times> ResponseUploadFile ApiResponse) go" where
  "SaveUploadImages E config =
     (if st_StoreType config = 1 then ALiYunOss_SaveUploadImages E config
      else if st_StoreType config = 2 then TencentCos_SaveUploadImages E config
      else local_SaveUploadImages E config)"

section \<open>Services on the state\<close>

text \<open>The files that a service asked the store to delete since \<open>s\<close>.\<close>

definition delete_files :: "('db, 'a) http_env \<Rightarrow> svc \<Rightarrow> svc \<Rightarrow> store_state \<Rightarrow> store_state" where
  "delete_files H s s' =
     fold (DeleteImageFile (he_store H) (hs_Store (http_config H))) (drop (length (sv_deleted s)) (sv_deleted s'))"

definition on_users ::
    "('db, 'a) http_env \<Rightarrow> ('r ApiResponse \<Rightarrow> reply) \<Rightarrow> ('db st \<Rightarrow> 'db st \<times> 'r ApiResponse) \<Rightarrow> ('db, 'a) app
       \<Rightarrow> ('db, 'a) app \<times> reply" where
  "on_users H R f a =
     (let ((s, db), r) = f (ap_svc a, w_db (ap_world a))
      in (a\<lparr>ap_svc := s, ap_world := (ap_world a)\<lparr>w_db := db\<rparr>,
            ap_files := delete_files H (ap_svc a) s (ap_files a)\<rparr>, R r))"

definition on_acts ::
    "('db, 'a) http_env \<Rightarrow> ('r ApiResponse \<Rightarrow> reply) \<Rightarrow> ('a acts \<Rightarrow> 'a acts \<times> 'r ApiResponse) \<Rightarrow> ('db, 'a) app
       \<Rightarrow> ('db, 'a) app \<times> reply" where
  "on_acts H R f a =
     (let ((s, acts), r) = f (ap_svc a, ap_acts a)
      in (a\<lparr>ap_svc := s, ap_acts := acts, ap_files := delete_files H (ap_svc a) s (ap_files a)\<rparr>, R r))"

definition on_world ::
    "('r ApiResponse \<Rightarrow> reply) \<Rightarrow> (svc \<times> 'db world \<Rightarrow> (svc \<times> 'db world) \<times> 'r ApiResponse) \<Rightarrow> ('db, 'a) app
       \<Rightarrow> ('db, 'a) app \<times> reply" where
  "on_world R f a =
     (let ((s, w), r) = f (ap_svc a, ap_world a) in (a\<lparr>ap_svc := s, ap_world := w\<rparr>, R r))"

text \<open>The parts of the state that a service reads.\<close>

abbreviation users_of :: "('db, 'a) app \<Rightarrow> 'db st" where
  "users_of a \<equiv> (ap_svc a, w_db (ap_world a))"

abbreviation acts_of :: "('db, 'a) app \<Rightarrow> 'a acts" where
  "acts_of a \<equiv> (ap_svc a, ap_acts a)"

text \<open>A controller answers with \<open>ErrLackParam\<close> when its request cannot be bound.\<close>

definition bound :: "'x option \<Rightarrow> ('x \<Rightarrow> ('db, 'a) app \<Rightarrow> ('db, 'a) app \<times> reply) \<Rightarrow> ('db, 'a) app \<Rightarrow> ('db, 'a) app \<times> reply" where
  "bound data f a = (case data of None \<Rightarrow> (a, RError (fails ErrLackParam)) | Some x \<Rightarrow> f x a)"

definition bound_go :: "'x option \<Rightarrow> ('x \<Rightarrow> ('db, 'a) app \<Rightarrow> ('db, 'a) served) \<Rightarrow> ('db, 'a) app \<Rightarrow> ('db, 'a) served" where
  "bound_go data f a = (case data of None \<Rightarrow> Inr (a, RError (fails ErrLackParam)) | Some x \<Rightarrow> f x a)"

lemma bound_simps [simp]:
  "bound None f a = (a, RError (fails ErrLackParam))" "bound (Some x) f a = f x a"
  "bound_go None g a = Inr (a, RError (fails ErrLackParam))" "bound_go (Some x) g a = g x a"
  by (simp_all add: bound_def bound_go_def)

section \<open>The controllers\<close>

text \<open>
  A controller overwrites the identity in the request by the one of the token. Not every request
  has all of these fields; the services do not read the others.
\<close>

definition header_of :: "Claims \<Rightarrow> http_request \<Rightarrow> header" where
  "header_of claim req =
     \<lparr>hd_Uid = cl_Uid claim, hd_Permission = cl_Permission claim, hd_Cid = cl_Cid claim,
      hd_Ip = hr_RealIP req, hd_UserAgent = hr_UserAgent req\<rparr>"

text \<open>A service that only reads.\<close>

definition reading :: "reply \<Rightarrow> ('db, 'a) app \<Rightarrow> ('db, 'a) app \<times> reply" where
  "reading r a = (a, r)"

lemma reading_simp [simp]: "reading r a = (a, r)"
  by (simp add: reading_def)

definition UserController_UserRegister ::
    "('db, 'a) http_env \<Rightarrow> RequestUserRegister option \<Rightarrow> ('db, 'a) app \<Rightarrow> ('db, 'a) app \<times> reply" where
  "UserController_UserRegister H data = bound data (\<lambda>req. on_users H RToken (UserRegister (he_svc H) req))"

definition UserController_UserLogin ::
    "('db, 'a) http_env \<Rightarrow> (string \<times> string) option \<Rightarrow> ('db, 'a) app \<Rightarrow> ('db, 'a) app \<times> reply" where
  "UserController_UserLogin H data = bound data (\<lambda>(username, password) a.
     reading (RToken (UserLogin (he_svc H) username password (users_of a))) a)"

definition UserController_CheckUserAvailability ::
    "('db, 'a) http_env \<Rightarrow> (string \<times> string \<times> string) option \<Rightarrow> ('db, 'a) app \<Rightarrow> ('db, 'a) app \<times> reply" where
  "UserController_CheckUserAvailability H data = bound data (\<lambda>(username, email, cid) a.
     reading (RBool (CheckAvailability (he_svc H) username email cid (users_of a))) a)"

definition UserController_GetCurrentUserProfile ::
    "('db, 'a) http_env \<Rightarrow> Claims \<Rightarrow> ('db, 'a) app \<Rightarrow> ('db, 'a) app \<times> reply" where
  "UserController_GetCurrentUserProfile H claim a =
     reading (RUser (GetCurrentProfile (he_svc H) (cl_Uid claim) (users_of a))) a"

definition UserController_EditCurrentProfile ::
    "('db, 'a) http_env \<Rightarrow> Claims \<Rightarrow> RequestUserEditCurrentProfile option \<Rightarrow> ('db, 'a) app \<Rightarrow> ('db, 'a) app \<times> reply" where
  "UserController_EditCurrentProfile H claim data = bound data (\<lambda>req.
     on_users H RUser (EditCurrentProfile (he_svc H) (req\<lparr>re_ID := cl_Uid claim, re_Cid := cl_Cid claim\<rparr>)))"

definition UserController_GetUserProfile ::
    "('db, 'a) http_env \<Rightarrow> header \<Rightarrow> nat option \<Rightarrow> ('db, 'a) app \<Rightarrow> ('db, 'a) app \<times> reply" where
  "UserController_GetUserProfile H h data = bound data (\<lambda>targetUid a.
     reading (RUser (GetUserProfile (he_svc H) h targetUid (users_of a))) a)"

definition UserController_EditProfile ::
    "('db, 'a) http_env \<Rightarrow> header \<Rightarrow> (nat \<times> RequestUserEditCurrentProfile) option \<Rightarrow> ('db, 'a) app
       \<Rightarrow> ('db, 'a) app \<times> reply" where
  "UserController_EditProfile H h data = bound data (\<lambda>(targetUid, edit).
     on_users H RUser (EditUserProfile (he_svc H) \<lparr>rp_header = h, rp_TargetUid = targetUid, rp_edit = edit\<rparr>))"

definition UserController_GetUsers ::
    "('db, 'a) http_env \<Rightarrow> header \<Rightarrow> (int \<times> int) option \<Rightarrow> ('db, 'a) app \<Rightarrow> ('db, 'a) app \<times> reply" where
  "UserController_GetUsers H h data = bound data (\<lambda>(page, pageSize) a.
     reading (RUsers (GetUserList (he_svc H) h page pageSize (users_of a))) a)"

definition UserController_GetControllers ::
    "('db, 'a) http_env \<Rightarrow> header \<Rightarrow> (int \<times> int) option \<Rightarrow> ('db, 'a) app \<Rightarrow> ('db, 'a) app \<times> reply" where
  "UserController_GetControllers H h data = bound data (\<lambda>(page, pageSize) a.
     reading (RUsers (GetControllerList (he_svc H) h page pageSize (users_of a))) a)"

definition UserController_EditUserPermission ::
    "('db, 'a) http_env \<Rightarrow> header \<Rightarrow> (nat \<times> (string \<times> json_value) list) option \<Rightarrow> ('db, 'a) app
       \<Rightarrow> ('db, 'a) app \<times> reply" where
  "UserController_EditUserPermission H h data = bound data (\<lambda>(targetUid, permissions).
     on_users H RUser (EditUserPermission (he_svc H)
       \<lparr>rq_header = h, rq_TargetUid = targetUid, rq_Permissions = permissions\<rparr>))"

text \<open>The one service that can panic in a goroutine of its own.\<close>

definition UserController_EditUserRating ::
    "('db, 'a) http_env \<Rightarrow> header \<Rightarrow> (nat \<times> int) option \<Rightarrow> ('db, 'a) app \<Rightarrow> ('db, 'a) served" where
  "UserController_EditUserRating H h data = bound_go data (\<lambda>(targetUid, rating) a.
     go_bind (EditUserRating (he_svc H) h targetUid rating (users_of a))
       (\<lambda>res. Inr (on_users H RUser (\<lambda>_. res) a)))"

definition UserController_GetUserHistory ::
    "('db, 'a) http_env \<Rightarrow> Claims \<Rightarrow> ('db, 'a) app \<Rightarrow> ('db, 'a) app \<times> reply" where
  "UserController_GetUserHistory H claim a =
     reading (RHistory (GetUserHistory (he_svc H) (cl_Cid claim) (users_of a))) a"

definition UserController_GetToken ::
    "('db, 'a) http_env \<Rightarrow> Claims \<Rightarrow> ('db, 'a) app \<Rightarrow> ('db, 'a) app \<times> reply" where
  "UserController_GetToken H claim a =
     reading (RToken (GetTokenWithFlushToken (he_svc H) claim (users_of a))) a"

definition EmailController_SendVerifyEmail ::
    "('db, 'a) http_env \<Rightarrow> nat \<Rightarrow> (string \<times> int) option \<Rightarrow> ('db, 'a) app \<Rightarrow> ('db, 'a) app \<times> reply" where
  "EmailController_SendVerifyEmail H rnd data = bound data (\<lambda>(email, cid).
     on_users H RAddress (\<lambda>(s, db).
       let (s', r) = SendEmailVerifyCode (he_svc H) rnd email cid s in ((s', db), r)))"

definition ClientController_GetOnlineClients :: "('db, 'a) http_env \<Rightarrow> ('db, 'a) app \<Rightarrow> ('db, 'a) served" where
  "ClientController_GetOnlineClients H a =
     go_bind (GetOnlineClient (he_svc H) (ap_world a) (ap_online a))
       (\<lambda>(cache, data). Inr (a\<lparr>ap_online := cache\<rparr>, ROnline data))"

definition ClientController_GetClientPath ::
    "string option \<Rightarrow> ('db, 'a) app \<Rightarrow> ('db, 'a) app \<times> reply" where
  "ClientController_GetClientPath data = bound data (\<lambda>callsign a.
     reading (RPaths (GetClientPath callsign (ap_world a))) a)"

definition ClientController_SendMessageToClient ::
    "('db, 'a) http_env \<Rightarrow> header \<Rightarrow> (string \<times> string) option \<Rightarrow> ('db, 'a) app \<Rightarrow> ('db, 'a) app \<times> reply" where
  "ClientController_SendMessageToClient H h data = bound data (\<lambda>(sendTo, message).
     on_world RBool (SendMessageToClient (he_svc H) \<lparr>rs_header = h, rs_SendTo = sendTo, rs_Message = message\<rparr>))"

definition ClientController_KillClient ::
    "('db, 'a) http_env \<Rightarrow> header \<Rightarrow> (string \<times> string) option \<Rightarrow> ('db, 'a) app \<Rightarrow> ('db, 'a) app \<times> reply" where
  "ClientController_KillClient H h data = bound data (\<lambda>(callsign, reason).
     on_world RBool (KillClient (he_fsd H) (he_svc H)
       \<lparr>rk_header = h, rk_TargetCallsign = callsign, rk_Reason = reason\<rparr>))"

definition ServerController_GetServerConfig :: "('db, 'a) app \<Rightarrow> ('db, 'a) app \<times> reply" where
  "ServerController_GetServerConfig a = reading (RServerConfig (GetServerConfig (ap_server a))) a"

definition ServerController_GetServerInfo :: "('db, 'a) http_env \<Rightarrow> ('db, 'a) app \<Rightarrow> ('db, 'a) app \<times> reply" where
  "ServerController_GetServerInfo H a =
     (let (ss, r) = GetServerInfo (he_stats H) (ae_api (he_act H)) (app_now a) (w_db (ap_world a)) (ap_acts a)
                      (ap_server a)
      in (a\<lparr>ap_server := ss\<rparr>, RServerInfo r))"

definition ServerController_GetServerOnlineTime ::
    "('db, 'a) http_env \<Rightarrow> ('db, 'a) app \<Rightarrow> ('db, 'a) app \<times> reply" where
  "ServerController_GetServerOnlineTime H a =
     (let (ss, r) = GetTimeRating (he_stats H) (app_now a) (w_db (ap_world a)) (ap_server a)
      in (a\<lparr>ap_server := ss\<rparr>, RServerTimes r))"

definition ActivityController_GetActivities ::
    "('db, 'a) http_env \<Rightarrow> string option \<Rightarrow> ('db, 'a) app \<Rightarrow> ('db, 'a) app \<times> reply" where
  "ActivityController_GetActivities H data = bound data (\<lambda>time a.
     reading (RActivities (GetActivities (he_act H) time (acts_of a))) a)"

definition ActivityController_GetActivitiesPage ::
    "('db, 'a) http_env \<Rightarrow> header \<Rightarrow> (int \<times> int) option \<Rightarrow> ('db, 'a) app \<Rightarrow> ('db, 'a) app \<times> reply" where
  "ActivityController_GetActivitiesPage H h data = bound data (\<lambda>(page, pageSize) a.
     reading (RActivityPage (GetActivitiesPage (he_act H) h page pageSize (acts_of a))) a)"

definition ActivityController_GetActivityInfo ::
    "('db, 'a) http_env \<Rightarrow> nat option \<Rightarrow> ('db, 'a) app \<Rightarrow> ('db, 'a) app \<times> reply" where
  "ActivityController_GetActivityInfo H data = bound data (\<lambda>activityId a.
     reading (RActivity (GetActivityInfo (he_act H) activityId (acts_of a))) a)"

definition ActivityController_AddActivity ::
    "('db, 'a) http_env \<Rightarrow> header \<Rightarrow> Activity option option \<Rightarrow> ('db, 'a) app \<Rightarrow> ('db, 'a) served" where
  "ActivityController_AddActivity H h data = bound_go data (\<lambda>activity a.
     go_bind (AddActivity (he_act H) (he_svc H) h activity (acts_of a))
       (\<lambda>res. Inr (on_acts H RActivity (\<lambda>_. res) a)))"

definition ActivityController_DeleteActivity ::
    "('db, 'a) http_env \<Rightarrow> header \<Rightarrow> nat option \<Rightarrow> ('db, 'a) app \<Rightarrow> ('db, 'a) app \<times> reply" where
  "ActivityController_DeleteActivity H h data = bound data (\<lambda>activityId.
     on_acts H RBool (DeleteActivity (he_act H) (he_svc H) h activityId))"

text \<open>The services of registrations change the tables of the activities only.\<close>

definition on_rows ::
    "('db, 'a) http_env \<Rightarrow> ('a \<Rightarrow> 'a \<times> bool ApiResponse) \<Rightarrow> ('db, 'a) app \<Rightarrow> ('db, 'a) app \<times> reply" where
  "on_rows H f = on_acts H RBool (\<lambda>(s, acts). let (acts', r) = f acts in ((s, acts'), r))"

definition ActivityController_ControllerJoin ::
    "('db, 'a) http_env \<Rightarrow> Claims \<Rightarrow> (nat \<times> nat) option \<Rightarrow> ('db, 'a) app \<Rightarrow> ('db, 'a) app \<times> reply" where
  "ActivityController_ControllerJoin H claim data = bound data (\<lambda>(activityId, facilityId) a.
     on_rows H (ControllerJoin (he_act H) (he_svc H) (cl_Uid claim) (cl_Rating claim) facilityId
       (w_db (ap_world a))) a)"

definition ActivityController_ControllerLeave ::
    "('db, 'a) http_env \<Rightarrow> Claims \<Rightarrow> (nat \<times> nat) option \<Rightarrow> ('db, 'a) app \<Rightarrow> ('db, 'a) app \<times> reply" where
  "ActivityController_ControllerLeave H claim data = bound data (\<lambda>(activityId, facilityId).
     on_rows H (ControllerLeave (he_act H) (cl_Cid claim) facilityId))"

definition ActivityController_PilotJoin ::
    "('db, 'a) http_env \<Rightarrow> Claims \<Rightarrow> (nat \<times> string \<times> string) option \<Rightarrow> ('db, 'a) app \<Rightarrow> ('db, 'a) app \<times> reply" where
  "ActivityController_PilotJoin H claim data = bound data (\<lambda>(activityId, callsign, aircraftType).
     on_rows H (PilotJoin (he_act H) activityId (cl_Cid claim) callsign aircraftType))"

definition ActivityController_PilotLeave ::
    "('db, 'a) http_env \<Rightarrow> Claims \<Rightarrow> nat option \<Rightarrow> ('db, 'a) app \<Rightarrow> ('db, 'a) app \<times> reply" where
  "ActivityController_PilotLeave H claim data = bound data (\<lambda>activityId.
     on_rows H (PilotLeave (he_act H) activityId (cl_Cid claim)))"

definition ActivityController_EditActivity ::
    "('db, 'a) http_env \<Rightarrow> header \<Rightarrow> Activity option option \<Rightarrow> ('db, 'a) app \<Rightarrow> ('db, 'a) app \<times> reply" where
  "ActivityController_EditActivity H h data = bound data (\<lambda>activity.
     on_acts H RBool (EditActivity (he_act H) (he_svc H) h activity))"

definition ActivityController_EditActivityStatus ::
    "('db, 'a) http_env \<Rightarrow> header \<Rightarrow> (nat \<times> int) option \<Rightarrow> ('db, 'a) app \<Rightarrow> ('db, 'a) app \<times> reply" where
  "ActivityController_EditActivityStatus H h data = bound data (\<lambda>(activityId, status).
     on_rows H (EditActivityStatus (he_act H) h activityId status))"

text \<open>The pilot of the path is bound and not looked at: the cid is the one of the token.\<close>

definition ActivityController_EditPilotStatus ::
    "('db, 'a) http_env \<Rightarrow> header \<Rightarrow> (nat \<times> nat \<times> int) option \<Rightarrow> ('db, 'a) app \<Rightarrow> ('db, 'a) app \<times> reply" where
  "ActivityController_EditPilotStatus H h data = bound data (\<lambda>(activityId, pilotId, status).
     on_rows H (EditPilotStatus (he_act H) h activityId status))"

definition FileController_UploadImages ::
    "('db, 'a) http_env \<Rightarrow> header \<Rightarrow> FileHeader option \<Rightarrow> ('db, 'a) app \<Rightarrow> ('db, 'a) served" where
  "FileController_UploadImages H h data = bound_go data (\<lambda>file a.
     go_bind (SaveUploadImages (he_store H) (hs_Store (http_config H)) (hd_Permission h) file (ap_files a))
       (\<lambda>(files, r). Inr (a\<lparr>ap_files := files\<rparr>, RUpload r)))"

definition AuditLogController_GetAuditLogs ::
    "('db, 'a) http_env \<Rightarrow> header \<Rightarrow> (int \<times> int) option \<Rightarrow> ('db, 'a) app \<Rightarrow> ('db, 'a) app \<times> reply" where
  "AuditLogController_GetAuditLogs H h data = bound data (\<lambda>(page, pageSize) a.
     reading (RLogs (GetAuditLogPage (he_stats H) (hd_Permission h) page pageSize (ap_svc a))) a)"

section \<open>The routes\<close>

text \<open>The path of the route, under which the limiter counts, whatever the method.\<close>

fun route_path :: "call \<Rightarrow> string" where
  "route_path (PostSessions _) = ''/api/sessions''"
| "route_path GetSessions = ''/api/sessions''"
| "route_path (PostCodes _) = ''/api/codes''"
| "route_path GetProfile = ''/api/profile''"
| "route_path (PatchProfile _) = ''/api/profile''"
| "route_path GetHistory = ''/api/history''"
| "route_path (PostUsers _) = ''/api/users''"
| "route_path (GetUsersPage _) = ''/api/users''"
| "route_path (GetControllersPage _) = ''/api/users/controllers''"
| "route_path (GetAvailability _) = ''/api/users/availability''"
| "route_path (GetUidProfile _) = ''/api/users/:uid/profile''"
| "route_path (PatchUidProfile _) = ''/api/users/:uid/profile''"
| "route_path (PatchUidPermission _) = ''/api/users/:uid/permission''"
| "route_path (PutUidRating _) = ''/api/users/:uid/rating''"
| "route_path GetStatus = ''/api/clients/status''"
| "route_path GetClients = ''/api/clients''"
| "route_path (GetPaths _) = ''/api/clients/paths''"
| "route_path (PostMessage _) = ''/api/clients/:callsign/message''"
| "route_path (DeleteCallsign _) = ''/api/clients/:callsign''"
| "route_path GetServerBase = ''/api/server/base''"
| "route_path GetServerTotals = ''/api/server/info''"
| "route_path GetServerRating = ''/api/server/rating''"
| "route_path (GetMonth _) = ''/api/activities''"
| "route_path (GetActivityList _) = ''/api/activities/list''"
| "route_path (GetActivity _) = ''/api/activities/:id''"
| "route_path (PostActivity _) = ''/api/activities''"
| "route_path (DeleteActivityId _) = ''/api/activities/:id''"
| "route_path (PostController _) = ''/api/activities/:id/controllers/:facility_id''"
| "route_path (DeleteController _) = ''/api/activities/:id/controllers/:facility_id''"
| "route_path (PostPilot _) = ''/api/activities/:id/pilots''"
| "route_path (DeletePilot _) = ''/api/activities/:id/pilots''"
| "route_path (PutActivityStatus _) = ''/api/activities/:id/status''"
| "route_path (PutPilotStatus _) = ''/api/activities/:id/pilots/:pilot_id/status''"
| "route_path (PutActivity _) = ''/api/activities/:id''"
| "route_path (PostImage _) = ''/api/files/images''"
| "route_path (GetAudits _) = ''/api/audits''"

text \<open>The routes without the JWT middleware; the others get the claims of the token.\<close>

fun serve_open :: "('db, 'a) http_env \<Rightarrow> http_request \<Rightarrow> call \<Rightarrow> (('db, 'a) app \<Rightarrow> ('db, 'a) served) option" where
  "serve_open H req (PostSessions data) = Some (\<lambda>a. Inr (UserController_UserLogin H data a))"
| "serve_open H req (PostCodes data) = Some (\<lambda>a. Inr (EmailController_SendVerifyEmail H (hr_random req) data a))"
| "serve_open H req (PostUsers data) = Some (\<lambda>a. Inr (UserController_UserRegister H data a))"
| "serve_open H req (GetAvailability data) = Some (\<lambda>a. Inr (UserController_CheckUserAvailability H data a))"
| "serve_open H req GetStatus =
     Some (\<lambda>a. Inr (a, RText (''url0='' @ hs_ServerAddress (http_config H) @ ''/api/clients'')))"
| "serve_open H req GetClients = Some (ClientController_GetOnlineClients H)"
| "serve_open H req GetServerBase = Some (\<lambda>a. Inr (ServerController_GetServerConfig a))"
| "serve_open H req _ = None"

fun serve_auth :: "('db, 'a) http_env \<Rightarrow> http_request \<Rightarrow> Claims \<Rightarrow> call \<Rightarrow> ('db, 'a) app \<Rightarrow> ('db, 'a) served" where
  "serve_auth H req claim GetSessions a = Inr (UserController_GetToken H claim a)"
| "serve_auth H req claim GetProfile a = Inr (UserController_GetCurrentUserProfile H claim a)"
| "serve_auth H req claim (PatchProfile data) a = Inr (UserController_EditCurrentProfile H claim data a)"
| "serve_auth H req claim GetHistory a = Inr (UserController_GetUserHistory H claim a)"
| "serve_auth H req claim (GetUsersPage data) a = Inr (UserController_GetUsers H (header_of claim req) data a)"
| "serve_auth H req claim (GetControllersPage data) a =
     Inr (UserController_GetControllers H (header_of claim req) data a)"
| "serve_auth H req claim (GetUidProfile data) a = Inr (UserController_GetUserProfile H (header_of claim req) data a)"
| "serve_auth H req claim (PatchUidProfile data) a = Inr (UserController_EditProfile H (header_of claim req) data a)"
| "serve_auth H req claim (PatchUidPermission data) a =
     Inr (UserController_EditUserPermission H (header_of claim req) data a)"
| "serve_auth H req claim (PutUidRating data) a = UserController_EditUserRating H (header_of claim req) data a"
| "serve_auth H req claim (GetPaths data) a = Inr (ClientController_GetClientPath data a)"
| "serve_auth H req claim (PostMessage data) a =
     Inr (ClientController_SendMessageToClient H (header_of claim req) data a)"
| "serve_auth H req claim (DeleteCallsign data) a = Inr (ClientController_KillClient H (header_of claim req) data a)"
| "serve_auth H req claim GetServerTotals a = Inr (ServerController_GetServerInfo H a)"
| "serve_auth H req claim GetServerRating a = Inr (ServerController_GetServerOnlineTime H a)"
| "serve_auth H req claim (GetMonth data) a = Inr (ActivityController_GetActivities H data a)"
| "serve_auth H req claim (GetActivityList data) a =
     Inr (ActivityController_GetActivitiesPage H (header_of claim req) data a)"
| "serve_auth H req claim (GetActivity data) a = Inr (ActivityController_GetActivityInfo H data a)"
| "serve_auth H req claim (PostActivity data) a = ActivityController_AddActivity H (header_of claim req) data a"
| "serve_auth H req claim (DeleteActivityId data) a =
     Inr (ActivityController_DeleteActivity H (header_of claim req) data a)"
| "serve_auth H req claim (PostController data) a = Inr (ActivityController_ControllerJoin H claim data a)"
| "serve_auth H req claim (DeleteController data) a = Inr (ActivityController_ControllerLeave H claim data a)"
| "serve_auth H req claim (PostPilot data) a = Inr (ActivityController_PilotJoin H claim data a)"
| "serve_auth H req claim (DeletePilot data) a = Inr (ActivityController_PilotLeave H claim data a)"
| "serve_auth H req claim (PutActivityStatus data) a =
     Inr (ActivityController_EditActivityStatus H (header_of claim req) data a)"
| "serve_auth H req claim (PutPilotStatus data) a =
     Inr (ActivityController_EditPilotStatus H (header_of claim req) data a)"
| "serve_auth H req claim (PutActivity data) a = Inr (ActivityController_EditActivity H (header_of claim req) data a)"
| "serve_auth H req claim (PostImage data) a = FileController_UploadImages H (header_of claim req) data a"
| "serve_auth H req claim (GetAudits data) a = Inr (AuditLogController_GetAuditLogs H (header_of claim req) data a)"
| "serve_auth H req claim _ a = Inr (a, RPanic)"

section \<open>The middleware\<close>

definition ErrMissingOrMalformedJwt :: ApiStatus where "ErrMissingOrMalformedJwt = ApiStatus ''MISSING_OR_MALFORMED_JWT'' BadRequest"
definition ErrInvalidOrExpiredJwt :: ApiStatus where "ErrInvalidOrExpiredJwt = ApiStatus ''INVALID_OR_EXPIRED_JWT'' Unauthorized"
definition ErrUnknown :: ApiStatus where "ErrUnknown = ApiStatus ''UNKNOWN_JWT_ERROR'' ServerInternalError"

fun jwt_ErrorHandler :: "jwt_error \<Rightarrow> ApiStatus" where
  "jwt_ErrorHandler ErrJWTMissing = ErrMissingOrMalformedJwt"
| "jwt_ErrorHandler ErrJWTInvalid = ErrInvalidOrExpiredJwt"
| "jwt_ErrorHandler ErrJWTOther = ErrUnknown"

definition parse_token :: "('db, 'a) http_env \<Rightarrow> http_request \<Rightarrow> ('db, 'a) app \<Rightarrow> jwt_error + Claims" where
  "parse_token H req a = he_parse H (jwt_Secret (hs_JWT (http_config H))) (app_now a) (hr_token req)"

definition CombinedKeyFunc :: "http_request \<Rightarrow> string" where
  "CombinedKeyFunc req = hr_RealIP req @ ''|'' @ route_path (hr_call req)"

definition too_many :: "unit ApiResponse" where
  "too_many = \<lparr>r_HttpCode = 429, r_Code = ''RATE_LIMIT_EXCEEDED'', r_Data = None\<rparr>"

text \<open>
  A panic in the goroutine of a request is recovered into a reply; the state is the one before,
  since the panics of the services come before their effects. The panic of \<open>EditUserRating\<close> is in
  a goroutine of its own and ends the process.
\<close>

definition recover :: "call \<Rightarrow> ('db, 'a) app \<Rightarrow> ('db, 'a) served \<Rightarrow> ('db, 'a) served" where
  "recover c a r =
     (case r of
        Inr res \<Rightarrow> Inr res
      | Inl p \<Rightarrow> (case c of PutUidRating _ \<Rightarrow> Inl p | _ \<Rightarrow> Inr (a, RPanic)))"

definition RateLimitMiddleware ::
    "(('db, 'a) app \<Rightarrow> ('db, 'a) served) \<Rightarrow> http_request \<Rightarrow> ('db, 'a) app \<Rightarrow> ('db, 'a) served" where
  "RateLimitMiddleware next req a =
     (case Allow (CombinedKeyFunc req) (app_now a) (ap_limiter a) of
        Inl p \<Rightarrow> Inr (a, RPanic)
      | Inr (True, l) \<Rightarrow> next (a\<lparr>ap_limiter := l\<rparr>)
      | Inr (False, l) \<Rightarrow> Inr (a\<lparr>ap_limiter := l\<rparr>, RError too_many))"

definition jwtMiddleware ::
    "('db, 'a) http_env \<Rightarrow> http_request \<Rightarrow> (Claims \<Rightarrow> ('db, 'a) app \<Rightarrow> ('db, 'a) served) \<Rightarrow> ('db, 'a) app \<Rightarrow> ('db, 'a) served" where
  "jwtMiddleware H req next a =
     (case parse_token H req a of
        Inl err \<Rightarrow> Inr (a, RError (fails (jwt_ErrorHandler err)))
      | Inr claim \<Rightarrow> next claim a)"

definition handle :: "('db, 'a) http_env \<Rightarrow> http_request \<Rightarrow> ('db, 'a) app \<Rightarrow> ('db, 'a) served" where
  "handle H req a =
     (case serve_open H req (hr_call req) of
        Some f \<Rightarrow> f a
      | None \<Rightarrow> jwtMiddleware H req (\<lambda>claim. serve_auth H req claim (hr_call req)) a)"

text \<open>The services read the clock of the server.\<close>

definition at_now :: "('db, 'a) app \<Rightarrow> ('db, 'a) app" where
  "at_now a = a\<lparr>ap_svc := (ap_svc a)\<lparr>sv_now := w_now (ap_world a)\<rparr>\<rparr>"

definition http :: "('db, 'a) http_env \<Rightarrow> http_request \<Rightarrow> ('db, 'a) app \<Rightarrow> ('db, 'a) served" where
  "http H req a =
     RateLimitMiddleware (\<lambda>a1. recover (hr_call req) a1 (handle H req a1)) req (at_now a)"

section \<open>The program\<close>

text \<open>
  The server starts with an empty limiter, whose limits fall back to defaults, with empty caches,
  and with whatever the database and the disk hold.
\<close>

definition rate_limits :: "HttpServerLimit \<Rightarrow> int \<times> int" where
  "rate_limits limits =
     (if RateLimitDuration limits \<le> 0 then 60000000000 else RateLimitDuration limits,
      if RateLimit limits \<le> 0 then 15 else RateLimit limits)"

definition StartHttpServer ::
    "('db, 'a) http_env \<Rightarrow> ServerConfig \<Rightarrow> 'db world \<Rightarrow> 'a \<Rightarrow> store_state \<Rightarrow> ('db, 'a) app go" where
  "StartHttpServer H config w acts files =
     (let (window, n) = rate_limits (hs_Limits (http_config H)); now = w_now w
      in go_bind (getOnlineClient (he_svc H) w) (\<lambda>online.
           Inr \<lparr>ap_svc = \<lparr>sv_now = now, sv_emailCodes = Map.empty, sv_lastSendTime = Map.empty,
                         sv_mails = [], sv_audit = [], sv_deleted = []\<rparr>,
                ap_world = w, ap_acts = acts, ap_files = files,
                ap_online = NewCachedValue now (hs_CacheDuration (http_config H)) online,
                ap_server = NewServerService config (he_stats H) (ae_api (he_act H)) now (w_db w) acts,
                ap_limiter = NewSlidingWindowLimiter window n\<rparr>))"

text \<open>
  A run of the program: steps of the FSD server, requests and ticks of the limiter's cleanup, in
  the order in which they take effect. The trace has the state, the request and the reply of each
  request.
\<close>

datatype 'db app_event = Fsd "'db event" | Http http_request | CleanupTick

type_synonym ('db, 'a) served_request = "('db, 'a) app \<times> http_request \<times> reply"

fun app_run ::
    "('db, 'a) http_env \<Rightarrow> 'db app_event list \<Rightarrow> ('db, 'a) app \<Rightarrow> (('db, 'a) app \<times> ('db, 'a) served_request list) go" where
  "app_run H [] a = Inr (a, [])"
| "app_run H (Fsd ev # evs) a =
     go_bind (step (he_fsd H) ev (ap_world a)) (\<lambda>w. app_run H evs (a\<lparr>ap_world := w\<rparr>))"
| "app_run H (CleanupTick # evs) a =
     app_run H evs (a\<lparr>ap_limiter := cleanup (w_now (ap_world a)) (ap_limiter a)\<rparr>)"
| "app_run H (Http req # evs) a =
     go_bind (http H req a) (\<lambda>(a', r).
       go_bind (app_run H evs a') (\<lambda>(b, trace). Inr (b, (at_now a, req, r) # trace)))"

end
