(* ===== verification/Gateway.thy ===== *)
theory Gateway
  imports Http
begin

text \<open>
  What the HTTP server guarantees as a whole: the requests and the FSD server on one state, what
  a request without a token can do, which request can end the process, and how many requests the
  limiter lets through.
\<close>

section \<open>What a request leaves alone\<close>

text \<open>
  A request keeps the limiter and the time, takes the FSD server to a state that it can reach by
  its own steps, and does not take back its shutdown.
\<close>

definition frame :: "'db env \<Rightarrow> ('db, 'a) app \<Rightarrow> ('db, 'a) app \<Rightarrow> bool" where
  "frame F a a' \<longleftrightarrow> ap_limiter a' = ap_limiter a \<and> w_now (ap_world a') = w_now (ap_world a) \<and>
     (reachable F (ap_world a) \<longrightarrow> reachable F (ap_world a')) \<and>
     (w_shuttingDown (ap_world a) \<longrightarrow> w_shuttingDown (ap_world a'))"

definition framed :: "'db env \<Rightarrow> ('db, 'a) app \<Rightarrow> ('db, 'a) served \<Rightarrow> bool" where
  "framed F a r \<longleftrightarrow> (case r of Inl _ \<Rightarrow> True | Inr (a', _) \<Rightarrow> frame F a a')"

lemma framed_simps [simp]: "framed F a (Inl p)" "framed F a (Inr x) = frame F a (fst x)"
  by (simp_all add: framed_def case_prod_beta)

lemma framed_bind: "(\<And>x. r = Inr x \<Longrightarrow> framed F a (k x)) \<Longrightarrow> framed F a (go_bind r k)"
  by (cases r) simp_all

lemma frame_refl [simp]: "frame F a a"
  by (simp add: frame_def)

lemma reachable_db: "reachable F w \<Longrightarrow> reachable F (w\<lparr>w_db := db\<rparr>)"
  using next_step [of F w "DbChange db"] by simp

lemma on_users_frame [simp]: "frame F a (fst (on_users H R f a))"
  by (simp add: on_users_def frame_def case_prod_beta Let_def reachable_db)

lemma on_acts_frame [simp]: "frame F a (fst (on_acts H R f a))"
  by (simp add: on_acts_def frame_def case_prod_beta Let_def)

lemma on_rows_frame [simp]: "frame F a (fst (on_rows H f a))"
  by (simp add: on_rows_def)

lemma bound_frame: "(\<And>x. frame F a (fst (f x a))) \<Longrightarrow> frame F a (fst (bound data f a))"
  by (cases data) simp_all

lemma bound_go_frame: "(\<And>x. framed F a (f x a)) \<Longrightarrow> framed F a (bound_go data f a)"
  by (cases data) simp_all

lemma KillClient_world:
  "snd (fst (KillClient F E req (s, w))) = w \<or>
   (\<exists>cid. GetClient (rk_TargetCallsign req) w = Some cid \<and>
      snd (fst (KillClient F E req (s, w))) = MarkedDisconnect F cid False w)"
  by (cases "GetClient (rk_TargetCallsign req) w")
    (auto simp: KillClient_def Let_def case_prod_beta split: sum.split)

lemma SendMessageToClient_world:
  "snd (fst (SendMessageToClient E req (s, w))) \<in>
     {w, fst (SendRawMessageTo (hd_Cid (rs_header req)) (rs_SendTo req) (rs_Message req) w)}"
  by (auto simp: SendMessageToClient_def Let_def split: prod.split option.split send_error.split)

lemma KillClient_frame:
  "frame F a (fst (on_world R (KillClient F E req) a))"
proof -
  let ?w = "ap_world a"
  have "GetClient cs ?w = Some cid \<Longrightarrow> (reachable F ?w \<longrightarrow> reachable F (MarkedDisconnect F cid False ?w)) \<and>
      (w_shuttingDown ?w \<longrightarrow> w_shuttingDown (MarkedDisconnect F cid False ?w))" for cs cid
    using next_step [of F ?w "HttpKill cs"] by simp
  with KillClient_world [of F E req "ap_svc a" ?w] show ?thesis
    by (auto simp: on_world_def frame_def case_prod_beta Let_def)
qed

lemma SendMessage_frame:
  "frame F a (fst (on_world R (SendMessageToClient E req) a))"
proof -
  let ?w = "ap_world a"
  have "(reachable F ?w \<longrightarrow> reachable F (fst (SendRawMessageTo sender cs m ?w))) \<and>
      (w_shuttingDown ?w \<longrightarrow> w_shuttingDown (fst (SendRawMessageTo sender cs m ?w)))" for sender cs m
    using next_step [of F ?w "HttpMessage sender cs m"] by simp
  with SendMessageToClient_world [of E req "ap_svc a" ?w] show ?thesis
    by (auto simp: on_world_def frame_def case_prod_beta Let_def)
qed

lemma prod_frame: "(\<And>x y. frame F a (fst (f x y b))) \<Longrightarrow> frame F a (fst ((case p of (x, y) \<Rightarrow> f x y) b))"
  by (cases p) simp

lemmas controller_defs =
  UserController_UserRegister_def UserController_UserLogin_def UserController_CheckUserAvailability_def
  UserController_GetCurrentUserProfile_def UserController_EditCurrentProfile_def
  UserController_GetUserProfile_def UserController_EditProfile_def UserController_GetUsers_def
  UserController_GetControllers_def UserController_EditUserPermission_def
  UserController_GetUserHistory_def UserController_GetToken_def EmailController_SendVerifyEmail_def
  ClientController_GetClientPath_def ClientController_SendMessageToClient_def ClientController_KillClient_def
  ServerController_GetServerConfig_def ServerController_GetServerInfo_def
  ServerController_GetServerOnlineTime_def ActivityController_GetActivities_def
  ActivityController_GetActivitiesPage_def ActivityController_GetActivityInfo_def
  ActivityController_DeleteActivity_def ActivityController_ControllerJoin_def
  ActivityController_ControllerLeave_def ActivityController_PilotJoin_def ActivityController_PilotLeave_def
  ActivityController_EditActivity_def ActivityController_EditActivityStatus_def
  ActivityController_EditPilotStatus_def AuditLogController_GetAuditLogs_def

lemmas controller_go_defs =
  UserController_EditUserRating_def ClientController_GetOnlineClients_def
  ActivityController_AddActivity_def FileController_UploadImages_def

lemma server_cache_frame [simp]: "frame F a (a\<lparr>ap_server := ss\<rparr>)" "frame F a (a\<lparr>ap_online := c\<rparr>)"
  "frame F a (a\<lparr>ap_files := fs\<rparr>)"
  by (simp_all add: frame_def)

lemma serve_open_frame: "serve_open H req c = Some f \<Longrightarrow> framed F a (f a)"
  by (cases c) (auto simp: controller_defs controller_go_defs case_prod_beta intro!: bound_frame bound_go_frame framed_bind)

lemma serve_auth_frame: "framed (he_fsd H) a (serve_auth H req claim c a)"
  by (cases c) (auto simp: controller_defs controller_go_defs case_prod_beta KillClient_frame SendMessage_frame
      intro!: bound_frame bound_go_frame framed_bind)

lemma handle_frame: "framed (he_fsd H) a (handle H req a)"
  by (auto simp: handle_def jwtMiddleware_def serve_open_frame serve_auth_frame split: option.split sum.split)

section \<open>One request\<close>

text \<open>The request got past the limiter.\<close>

definition passed :: "('db, 'a) app \<Rightarrow> http_request \<Rightarrow> bool" where
  "passed a req \<longleftrightarrow> (case Allow (CombinedKeyFunc req) (app_now a) (ap_limiter a) of Inr (True, _) \<Rightarrow> True | _ \<Rightarrow> False)"

lemma at_now_simps [simp]:
  "ap_world (at_now a) = ap_world a" "ap_limiter (at_now a) = ap_limiter a" "app_now (at_now a) = w_now (ap_world a)"
  "ap_acts (at_now a) = ap_acts a" "ap_files (at_now a) = ap_files a" "ap_server (at_now a) = ap_server a"
  "ap_online (at_now a) = ap_online a"
  by (simp_all add: at_now_def)

lemma frame_limiter [simp]: "frame F (a\<lparr>ap_limiter := l\<rparr>) a' \<longleftrightarrow>
    ap_limiter a' = l \<and> w_now (ap_world a') = w_now (ap_world a) \<and>
    (reachable F (ap_world a) \<longrightarrow> reachable F (ap_world a')) \<and>
    (w_shuttingDown (ap_world a) \<longrightarrow> w_shuttingDown (ap_world a'))"
  by (simp add: frame_def)

lemma same_limiter: "\<exists>l. a = a\<lparr>ap_limiter := l\<rparr>"
  by (intro exI [of _ "ap_limiter a"]) simp

lemma http_refused: "\<not> passed (at_now a) req \<Longrightarrow> http H req a = Inr (a', r) \<Longrightarrow>
    (\<exists>l. a' = (at_now a)\<lparr>ap_limiter := l\<rparr>) \<and> r \<in> {RError too_many, RPanic}"
  using same_limiter [of "at_now a"]
  by (auto simp: http_def RateLimitMiddleware_def passed_def split: sum.splits bool.splits prod.splits)

lemma http_passed:
  assumes "Allow (CombinedKeyFunc req) (w_now (ap_world a)) (ap_limiter a) = Inr (True, l)"
  shows "passed (at_now a) req"
    and "http H req a = recover (hr_call req) ((at_now a)\<lparr>ap_limiter := l\<rparr>) (handle H req ((at_now a)\<lparr>ap_limiter := l\<rparr>))"
  using assms by (simp_all add: http_def RateLimitMiddleware_def passed_def)

lemma recover_frame: "framed F a r \<Longrightarrow> framed F a (recover c a r)"
  by (cases r) (auto simp: recover_def split: call.split)

lemma http_Allow:
  assumes "Allow (CombinedKeyFunc req) (w_now (ap_world a)) (ap_limiter a) = Inr (ok, l)"
    and "http H req a = Inr (a', r)"
  shows "ap_limiter a' = l \<and> w_now (ap_world a') = w_now (ap_world a) \<and> passed (at_now a) req = ok \<and>
         (reachable (he_fsd H) (ap_world a) \<longrightarrow> reachable (he_fsd H) (ap_world a')) \<and>
         (w_shuttingDown (ap_world a) \<longrightarrow> w_shuttingDown (ap_world a'))"
proof (cases ok)
  case True
  let ?a = "(at_now a)\<lparr>ap_limiter := l\<rparr>"
  have "framed (he_fsd H) ?a (http H req a)"
    using assms(1) True by (simp only: http_passed recover_frame [OF handle_frame])
  with assms True show ?thesis by (simp add: http_passed)
next
  case False
  with assms show ?thesis by (auto simp: http_def RateLimitMiddleware_def passed_def)
qed

lemma http_frame:
  assumes "http H req a = Inr (a', r)"
  shows "w_now (ap_world a') = w_now (ap_world a) \<and>
         (reachable (he_fsd H) (ap_world a) \<longrightarrow> reachable (he_fsd H) (ap_world a')) \<and>
         (w_shuttingDown (ap_world a) \<longrightarrow> w_shuttingDown (ap_world a'))"
proof (cases "Allow (CombinedKeyFunc req) (w_now (ap_world a)) (ap_limiter a)")
  case (Inl p)
  with assms show ?thesis by (auto simp: http_def RateLimitMiddleware_def)
next
  case (Inr x)
  with http_Allow [OF _ assms] show ?thesis by (cases x) simp
qed

section \<open>The FSD server keeps its invariants under the HTTP server\<close>

lemma at_now_at_now [simp]: "at_now (at_now a) = at_now a"
  by (simp add: at_now_def)

lemma http_at_now [simp]: "http H req (at_now a) = http H req a"
  by (simp add: http_def)

lemma app_run_reachable:
  assumes "app_run H evs a = Inr (b, trace)" and "reachable (he_fsd H) (ap_world a)"
  shows "reachable (he_fsd H) (ap_world b) \<and>
         (\<forall>(c, req, r) \<in> set trace. reachable (he_fsd H) (ap_world c) \<and> c = at_now c)"
  using assms
proof (induction evs arbitrary: a trace)
  case (Cons ev evs)
  show ?case
  proof (cases ev)
    case (Fsd e)
    with Cons.prems(1) obtain w where w: "step (he_fsd H) e (ap_world a) = Inr w"
      "app_run H evs (a\<lparr>ap_world := w\<rparr>) = Inr (b, trace)" by (auto simp: go_simps)
    from next_step [OF Cons.prems(2) w(1)] Cons.IH [OF w(2)] show ?thesis by simp
  next
    case CleanupTick
    with Cons.prems Cons.IH [of "a\<lparr>ap_limiter := cleanup (w_now (ap_world a)) (ap_limiter a)\<rparr>"] show ?thesis by simp
  next
    case (Http req)
    with Cons.prems(1) obtain a' r tr where h: "http H req a = Inr (a', r)" "app_run H evs a' = Inr (b, tr)"
      "trace = (at_now a, req, r) # tr" by (auto simp: go_simps)
    with http_frame [OF h(1)] Cons.prems(2) Cons.IH [OF h(2)] h(3) show ?thesis by simp
  qed
qed simp

lemma app_run_time:
  assumes "app_run H evs a = Inr (b, trace)"
  shows "w_now (ap_world a) \<le> w_now (ap_world b) \<and>
         (\<forall>(c, req, r) \<in> set trace. w_now (ap_world a) \<le> app_now c \<and> app_now c \<le> w_now (ap_world b))"
  using assms
proof (induction evs arbitrary: a trace)
  case (Cons ev evs)
  show ?case
  proof (cases ev)
    case (Fsd e)
    with Cons.prems obtain w where w: "step (he_fsd H) e (ap_world a) = Inr w"
      "app_run H evs (a\<lparr>ap_world := w\<rparr>) = Inr (b, trace)" by (auto simp: go_simps)
    from step_time [OF w(1)] Cons.IH [OF w(2)] show ?thesis by (auto simp: case_prod_beta)
  next
    case CleanupTick
    with Cons.prems Cons.IH [of "a\<lparr>ap_limiter := cleanup (w_now (ap_world a)) (ap_limiter a)\<rparr>"] show ?thesis by simp
  next
    case (Http req)
    with Cons.prems obtain a' r tr where h: "http H req a = Inr (a', r)" "app_run H evs a' = Inr (b, tr)"
      "trace = (at_now a, req, r) # tr" by (auto simp: go_simps)
    with http_frame [OF h(1)] Cons.IH [OF h(2)] show ?thesis by simp
  qed
qed simp

lemma Allow_total: "0 \<le> maxRequests l \<Longrightarrow> \<exists>ok l'. Allow k t l = Inr (ok, l') \<and> maxRequests l' = maxRequests l"
  by (auto simp: Allow_def Let_def)

lemma app_run_refused:
  assumes "app_run H evs a = Inr (b, trace)" and "0 \<le> maxRequests (ap_limiter a)"
  shows "\<forall>(c, req, r) \<in> set trace. \<not> passed c req \<longrightarrow> reply_code r = 429 \<and>
           (\<exists>l. http H req c = Inr (c\<lparr>ap_limiter := l\<rparr>, r))"
  using assms
proof (induction evs arbitrary: a trace)
  case (Cons ev evs)
  show ?case
  proof (cases ev)
    case (Fsd e)
    with Cons.prems obtain w where "app_run H evs (a\<lparr>ap_world := w\<rparr>) = Inr (b, trace)" by (auto simp: go_simps)
    from Cons.IH [OF this] Cons.prems(2) show ?thesis by simp
  next
    case CleanupTick
    have "maxRequests (cleanup t l) = maxRequests l" for t l by (simp add: cleanup_def Let_def)
    with CleanupTick Cons.prems Cons.IH [of "a\<lparr>ap_limiter := cleanup (w_now (ap_world a)) (ap_limiter a)\<rparr>"]
    show ?thesis by simp
  next
    case (Http req)
    with Cons.prems obtain a' r tr where h: "http H req a = Inr (a', r)" "app_run H evs a' = Inr (b, tr)"
      "trace = (at_now a, req, r) # tr" by (auto simp: go_simps)
    obtain ok l where l: "Allow (CombinedKeyFunc req) (w_now (ap_world a)) (ap_limiter a) = Inr (ok, l)"
      "maxRequests l = maxRequests (ap_limiter a)"
      using Allow_total [OF Cons.prems(2)] by blast
    have "reply_code r = 429 \<and> a' = (at_now a)\<lparr>ap_limiter := l\<rparr>" if "\<not> passed (at_now a) req"
      using that l(1) h(1) by (auto simp: passed_def http_def RateLimitMiddleware_def too_many_def split: bool.splits)
    then have "\<not> passed (at_now a) req \<longrightarrow> reply_code r = 429 \<and>
        (\<exists>l. http H req (at_now a) = Inr ((at_now a)\<lparr>ap_limiter := l\<rparr>, r))"
      using h(1) by auto
    moreover have "0 \<le> maxRequests (ap_limiter a')" using http_Allow [OF l(1) h(1)] l(2) Cons.prems(2) by simp
    from Cons.IH [OF h(2) this] have "\<forall>(c, req, r) \<in> set tr. \<not> passed c req \<longrightarrow> reply_code r = 429 \<and>
        (\<exists>l. http H req c = Inr (c\<lparr>ap_limiter := l\<rparr>, r))" .
    ultimately show ?thesis using h(3) by simp
  qed
qed simp

text \<open>
  C9. The HTTP server keeps to the FSD server's rules. In every run of the program from a state in
  which the FSD server can be, whatever the requests and however they interleave with the
  connections, the FSD server is in a reachable state of its own, before each request and at the
  end. So its registry is consistent throughout, and time never runs backwards.
\<close>

theorem program_keeps_fsd:
  assumes "reachable (he_fsd H) (ap_world a)" and "app_run H evs a = Inr (b, trace)"
  shows "reachable (he_fsd H) (ap_world b) \<and> world_ok (ap_world b) \<and> w_now (ap_world a) \<le> w_now (ap_world b) \<and>
         (\<forall>(c, req, r) \<in> set trace. reachable (he_fsd H) (ap_world c) \<and>
            w_now (ap_world a) \<le> app_now c \<and> app_now c \<le> w_now (ap_world b))"
proof -
  note r = app_run_reachable [OF assms(2,1)]
  with app_run_time [OF assms(2)] reachable_ok [of "he_fsd H" "ap_world b"] show ?thesis
    by (fastforce simp: case_prod_beta)
qed

section \<open>The limiter in front\<close>

text \<open>The trace as the answers of the limiter, the newest first.\<close>

definition answer_of :: "('db, 'a) served_request \<Rightarrow> answer" where
  "answer_of = (\<lambda>(c, req, r). (CombinedKeyFunc req, app_now c, passed c req))"

lemma app_run_limiter:
  assumes "app_run H evs a = Inr (b, trace)" and "0 \<le> maxRequests (ap_limiter a)"
  shows "\<exists>ls. sorted (w_now (ap_world a) # map event_time ls) \<and>
           run limiter_step ls (ap_limiter a, answers) = Inr (ap_limiter b, rev (map answer_of trace) @ answers)"
  using assms
proof (induction evs arbitrary: a trace answers)
  case Nil
  then show ?case by (intro exI [of _ "[]"]) simp
next
  case (Cons ev evs)
  show ?case
  proof (cases ev)
    case (Fsd e)
    with Cons.prems(1) obtain w where w: "step (he_fsd H) e (ap_world a) = Inr w"
      "app_run H evs (a\<lparr>ap_world := w\<rparr>) = Inr (b, trace)" by (auto simp: go_simps)
    from Cons.IH [OF w(2), of answers] Cons.prems(2) step_time [OF w(1)] show ?thesis by fastforce
  next
    case CleanupTick
    let ?a = "a\<lparr>ap_limiter := cleanup (w_now (ap_world a)) (ap_limiter a)\<rparr>"
    from CleanupTick Cons.prems have run: "app_run H evs ?a = Inr (b, trace)" by simp
    have "maxRequests (ap_limiter ?a) = maxRequests (ap_limiter a)" by (simp add: cleanup_def Let_def)
    with Cons.IH [OF run, of answers] Cons.prems(2) obtain ls where
      "sorted (w_now (ap_world a) # map event_time ls)"
      "run limiter_step ls (ap_limiter ?a, answers) = Inr (ap_limiter b, rev (map answer_of trace) @ answers)" by auto
    then show ?thesis by (intro exI [of _ "Tick (w_now (ap_world a)) # ls"]) simp
  next
    case (Http req)
    with Cons.prems(1) obtain a' r tr where h: "http H req a = Inr (a', r)" "app_run H evs a' = Inr (b, tr)"
      "trace = (at_now a, req, r) # tr" by (auto simp: go_simps)
    let ?k = "CombinedKeyFunc req" and ?t = "w_now (ap_world a)"
    obtain ok l where l: "Allow ?k ?t (ap_limiter a) = Inr (ok, l)" "maxRequests l = maxRequests (ap_limiter a)"
      using Allow_total [OF Cons.prems(2), of ?k ?t] by blast
    from http_Allow [OF l(1) h(1)] have a': "ap_limiter a' = l" "w_now (ap_world a') = ?t" "passed (at_now a) req = ok"
      by simp_all
    with Cons.IH [OF h(2), of "(?k, ?t, ok) # answers"] l(2) Cons.prems(2) obtain ls where
      "sorted (?t # map event_time ls)"
      "run limiter_step ls (l, (?k, ?t, ok) # answers) = Inr (ap_limiter b, rev (map answer_of tr) @ (?k, ?t, ok) # answers)"
      by auto
    with l(1) h(3) a' show ?thesis by (intro exI [of _ "Request ?k ?t # ls"]) (simp add: answer_of_def)
  qed
qed

lemma granted_trace:
  "granted_in key lo hi (rev (map answer_of trace)) =
     length (filter (\<lambda>(c, req, r). passed c req \<and> CombinedKeyFunc req = key \<and> lo \<le> app_now c \<and> app_now c \<le> hi) trace)"
  by (induction trace) (auto simp: granted_in_def granted_def answer_of_def)

text \<open>
  C10. The limits of the configuration hold for the whole server. In every run from its start, in
  any window of the configured length (a minute when none is), at most the configured number of
  requests (15 when none is) from one address for one path are served; each of the others is
  answered with 429 and has no effect but on the limiter.
\<close>

theorem http_rate_limit:
  assumes "StartHttpServer H config w acts files = Inr a" and "app_run H evs a = Inr (b, trace)"
  shows "case rate_limits (hs_Limits (http_config H)) of
           (window, n) \<Rightarrow> 0 < window \<and> 0 < n \<and>
             int (length (filter (\<lambda>(c, req, r). passed c req \<and> CombinedKeyFunc req = key \<and>
                                   t \<le> app_now c \<and> app_now c \<le> t + window) trace)) \<le> n \<and>
             (\<forall>(c, req, r) \<in> set trace. \<not> passed c req \<longrightarrow> reply_code r = 429 \<and>
                (\<exists>l. http H req c = Inr (c\<lparr>ap_limiter := l\<rparr>, r)))"
proof -
  obtain window n where l: "rate_limits (hs_Limits (http_config H)) = (window, n)" by fastforce
  then have pos: "0 < window" "0 < n" by (auto simp: rate_limits_def split: if_splits)
  from assms(1) l have a: "ap_limiter a = NewSlidingWindowLimiter window n"
    by (auto simp: StartHttpServer_def go_simps Let_def)
  then have n: "0 \<le> maxRequests (ap_limiter a)" using pos by (simp add: NewSlidingWindowLimiter_def)
  from app_run_limiter [OF assms(2) n, of "[]"] obtain ls where ls:
    "sorted (w_now (ap_world a) # map event_time ls)"
    "run limiter_step ls (ap_limiter a, []) = Inr (ap_limiter b, rev (map answer_of trace))" by auto
  from limiter_run_reference [OF in_step_new _ _ ls(1), of window n] ls(2) pos
  have "rev (map answer_of trace) = reference_answers window n ls []" by (simp add: a)
  moreover from reference_within_limit [OF _ _ ls(1), of window n "[]"] pos
  have "within_limit window n (reference_answers window n ls [])" by (simp add: within_limit_def granted_in_def)
  ultimately have "int (granted_in key t (t + window) (rev (map answer_of trace))) \<le> n"
    by (simp add: within_limit_def)
  with pos app_run_refused [OF assms(2) n] show ?thesis
    by (simp add: l granted_trace)
qed

section \<open>What ends the process\<close>

lemma Rating_String_panics: "(\<exists>p. Rating_String r = Inl p) \<longleftrightarrow> r < Ban \<or> Administrator < r"
  by (auto simp: Rating_String_def index_at_def Ratings_def)

lemma Rating_String_ok: "Ban \<le> r \<Longrightarrow> r \<le> Administrator \<Longrightarrow> \<exists>n. Rating_String r = Inr n"
  using Rating_String_panics [of r] by (cases "Rating_String r") auto

lemma SendRatingChangeEmail_ok:
  assumes "Rating_String old = Inr o1" and "Rating_String new = Inr n1"
  shows "\<exists>x. SendRatingChangeEmail E u v old new s = Inr x"
  using assms by (simp add: SendRatingChangeEmail_def)

lemma EditUserRating_panics:
  "(\<exists>p. EditUserRating E h targetUid rating (s, db) = Inl p) \<longleftrightarrow>
   hd_Uid h \<noteq> 0 \<and> Ban \<le> rating \<and> rating \<le> Administrator \<and>
   (\<exists>user target. GetUsersAndCheckPermission (se_api E) (hd_Uid h) targetUid UserEditRating db = Inr (user, target) \<and>
      snd (snd (UpdateUserRating (se_api E) target rating db)) = None \<and>
      (u_Rating target < Ban \<or> Administrator < u_Rating target))"
proof (cases "hd_Uid h = 0 \<or> rating < Ban \<or> rating > Administrator")
  case True
  then show ?thesis by (auto simp: EditUserRating_def)
next
  case ok: False
  show ?thesis
  proof (cases "GetUsersAndCheckPermission (se_api E) (hd_Uid h) targetUid UserEditRating db")
    case (Inl res)
    with ok show ?thesis by (auto simp: EditUserRating_def)
  next
    case (Inr x)
    obtain user target where x: "x = (user, target)" by fastforce
    obtain target' db' err where u: "UpdateUserRating (se_api E) target rating db = (target', db', err)" by (metis prod_cases3)
    from ok Rating_String_ok [of rating] obtain new where new: "Rating_String rating = Inr new" by auto
    show ?thesis
    proof (cases "Rating_String (u_Rating target)")
      case (Inl p)
      with Rating_String_panics [of "u_Rating target"] have out: "u_Rating target < Ban \<or> Administrator < u_Rating target" by blast
      with ok Inr x u Inl show ?thesis
        by (cases err) (auto simp: EditUserRating_def CallDBFuncAndCheckError_def Let_def)
    next
      case old: (Inr o1)
      with Rating_String_panics [of "u_Rating target"] have "\<not> (u_Rating target < Ban \<or> Administrator < u_Rating target)" by simp
      moreover obtain y where "SendRatingChangeEmail E target' user (u_Rating target) rating s1 = Inr (y s1)" for s1
        using SendRatingChangeEmail_ok [OF old new, of E target' user] by metis
      ultimately show ?thesis
        using ok Inr x u old new
        by (cases err) (auto simp: EditUserRating_def CallDBFuncAndCheckError_def Let_def case_prod_beta)
    qed
  qed
qed

lemma parse_token_limiter [simp]: "parse_token H req (a\<lparr>ap_limiter := l\<rparr>) = parse_token H req a"
  by (simp add: parse_token_def)

lemma recover_panics: "(\<exists>p. recover c a r = Inl p) \<longleftrightarrow> (\<exists>data. c = PutUidRating data) \<and> (\<exists>p. r = Inl p)"
  by (cases r) (auto simp: recover_def split: call.split)

lemma handle_rating:
  "hr_call req = PutUidRating data \<Longrightarrow>
   (\<exists>p. handle H req a = Inl p) \<longleftrightarrow>
   (\<exists>uid rating claim. data = Some (uid, rating) \<and> parse_token H req a = Inr claim \<and>
      (\<exists>p. EditUserRating (he_svc H) (header_of claim req) uid rating (users_of a) = Inl p))"
  by (cases data; cases "parse_token H req a")
    (auto simp: handle_def jwtMiddleware_def controller_go_defs go_bind_def split: sum.splits)

lemma http_panics:
  "(\<exists>p. http H req a = Inl p) \<longleftrightarrow>
   passed (at_now a) req \<and>
   (\<exists>uid rating claim. hr_call req = PutUidRating (Some (uid, rating)) \<and> parse_token H req (at_now a) = Inr claim \<and>
      (\<exists>p. EditUserRating (he_svc H) (header_of claim req) uid rating (users_of (at_now a)) = Inl p))"
proof (cases "passed (at_now a) req")
  case True
  then obtain l where l: "Allow (CombinedKeyFunc req) (w_now (ap_world a)) (ap_limiter a) = Inr (True, l)"
    by (auto simp: passed_def split: sum.splits bool.splits prod.splits)
  let ?a = "(at_now a)\<lparr>ap_limiter := l\<rparr>"
  have "(\<exists>p. http H req a = Inl p) \<longleftrightarrow> (\<exists>data. hr_call req = PutUidRating data) \<and> (\<exists>p. handle H req ?a = Inl p)"
    unfolding http_passed(2) [OF l] recover_panics by blast
  then show ?thesis using True handle_rating [of req _ H ?a] by auto
next
  case False
  then show ?thesis
    by (auto simp: http_def RateLimitMiddleware_def passed_def split: sum.splits bool.splits prod.splits)
qed

lemma app_run_single:
  "(\<exists>p. app_run H [Fsd e] a = Inl p) \<longleftrightarrow> (\<exists>p. step (he_fsd H) e (ap_world a) = Inl p)"
  "(\<exists>p. app_run H [CleanupTick] a = Inl p) \<longleftrightarrow> False"
  "(\<exists>p. app_run H [Http req] a = Inl p) \<longleftrightarrow> (\<exists>p. http H req a = Inl p)"
  by (auto simp: go_bind_def split: sum.splits)

lemma header_of_simps [simp]:
  "hd_Uid (header_of claim req) = cl_Uid claim" "hd_Cid (header_of claim req) = cl_Cid claim"
  "hd_Permission (header_of claim req) = cl_Permission claim"
  by (simp_all add: header_of_def)


section \<open>Without a token\<close>

lemma VerifyCode_log [simp]:
  "sv_audit (fst (VerifyCode E email code cid s)) = sv_audit s"
  "sv_deleted (fst (VerifyCode E email code cid s)) = sv_deleted s"
  "sv_mails (fst (VerifyCode E email code cid s)) = sv_mails s"
  by (simp_all add: VerifyCode_def Let_def split: option.split)

lemma UserRegister_log:
  assumes "UserRegister E req (s, db) = ((s', db'), r)"
  shows "sv_audit s' = sv_audit s \<and> sv_deleted s' = sv_deleted s \<and> sv_mails s' = sv_mails s"
proof -
  have "s' = s \<or> s' = fst (VerifyCode E (rr_Email req) (rr_EmailCode req) (rr_Cid req) s)"
    using assms
    by (auto simp: UserRegister_def Let_def verifyEmailCode_def case_prod_beta simp del: first_error.simps
        split: if_splits option.splits sum.splits)
  then show ?thesis by auto
qed

lemma SendEmailVerifyCode_log:
  "sv_audit (fst (SendEmailVerifyCode E rnd email cid s)) = sv_audit s \<and>
   sv_deleted (fst (SendEmailVerifyCode E rnd email cid s)) = sv_deleted s"
  by (simp add: SendEmailVerifyCode_def SendEmailCode_def deliver_def Let_def case_prod_beta
      split: option.split sum.split)

lemma delete_nothing [simp]: "sv_deleted s' = sv_deleted s \<Longrightarrow> delete_files H s s' files = files"
  by (simp add: delete_files_def)

lemma register_effect:
  assumes "UserController_UserRegister H data a = (a', r)"
  shows "\<exists>s db. a' = a\<lparr>ap_svc := s, ap_world := (ap_world a)\<lparr>w_db := db\<rparr>\<rparr> \<and>
           sv_audit s = sv_audit (ap_svc a) \<and> sv_deleted s = sv_deleted (ap_svc a) \<and> sv_mails s = sv_mails (ap_svc a) \<and>
           (db \<noteq> w_db (ap_world a) \<longrightarrow> reply_code r = 200)"
proof (cases data)
  case None
  with assms show ?thesis
    by (intro exI [of _ "ap_svc a"] exI [of _ "w_db (ap_world a)"]) (simp add: UserController_UserRegister_def)
next
  case (Some req)
  obtain s db res where u: "UserRegister (he_svc H) req (users_of a) = ((s, db), res)" by (metis prod_cases3 surj_pair)
  from UserRegister_result [OF u] have "db \<noteq> w_db (ap_world a) \<longrightarrow> r_HttpCode res = 200" by (auto split: if_splits)
  with Some assms u UserRegister_log [OF u] show ?thesis
    by (intro exI [of _ s] exI [of _ db]) (auto simp: UserController_UserRegister_def on_users_def)
qed

lemma code_effect:
  assumes "EmailController_SendVerifyEmail H rnd data a = (a', r)"
  shows "\<exists>s. a' = a\<lparr>ap_svc := s\<rparr> \<and> sv_audit s = sv_audit (ap_svc a) \<and> sv_deleted s = sv_deleted (ap_svc a)"
proof (cases data)
  case None
  with assms show ?thesis by (intro exI [of _ "ap_svc a"]) (simp add: EmailController_SendVerifyEmail_def)
next
  case (Some x)
  obtain email cid where x: "x = (email, cid)" by fastforce
  obtain s res where e: "SendEmailVerifyCode (he_svc H) rnd email cid (ap_svc a) = (s, res)" by fastforce
  with SendEmailVerifyCode_log [of "he_svc H" rnd email cid "ap_svc a"] Some x assms show ?thesis
    by (intro exI [of _ s]) (auto simp: EmailController_SendVerifyEmail_def on_users_def Let_def)
qed

text \<open>The effects that a request without a token may have on a state \<open>c\<close>, by its route.\<close>

definition anonymous_effect :: "call \<Rightarrow> ('db, 'a) app \<Rightarrow> ('db, 'a) app \<Rightarrow> reply \<Rightarrow> bool" where
  "anonymous_effect call c a' r =
     (case call of
        PostSessions _ \<Rightarrow> a' = c
      | GetAvailability _ \<Rightarrow> a' = c
      | GetStatus \<Rightarrow> a' = c
      | GetServerBase \<Rightarrow> a' = c
      | GetClients \<Rightarrow> \<exists>cache. a' = c\<lparr>ap_online := cache\<rparr>
      | PostCodes _ \<Rightarrow> \<exists>s. a' = c\<lparr>ap_svc := s\<rparr> \<and>
          sv_audit s = sv_audit (ap_svc c) \<and> sv_deleted s = sv_deleted (ap_svc c)
      | PostUsers _ \<Rightarrow> \<exists>s db. a' = c\<lparr>ap_svc := s, ap_world := (ap_world c)\<lparr>w_db := db\<rparr>\<rparr> \<and>
          sv_audit s = sv_audit (ap_svc c) \<and> sv_deleted s = sv_deleted (ap_svc c) \<and> sv_mails s = sv_mails (ap_svc c) \<and>
          (db \<noteq> w_db (ap_world c) \<longrightarrow> reply_code r = 200)
      | _ \<Rightarrow> a' = c \<and> reply_code r \<in> {400, 401, 429, 500})"

lemma anonymous_same: "reply_code r \<in> {400, 401, 429, 500} \<Longrightarrow> anonymous_effect call c c r"
proof -
  assume r: "reply_code r \<in> {400, 401, 429, 500}"
  have "\<exists>cache. c = c\<lparr>ap_online := cache\<rparr>" by (intro exI [of _ "ap_online c"]) simp
  moreover have "\<exists>s. c = c\<lparr>ap_svc := s\<rparr> \<and> sv_audit s = sv_audit (ap_svc c) \<and> sv_deleted s = sv_deleted (ap_svc c)"
    by (intro exI [of _ "ap_svc c"]) simp
  moreover have "\<exists>s db. c = c\<lparr>ap_svc := s, ap_world := (ap_world c)\<lparr>w_db := db\<rparr>\<rparr> \<and>
      sv_audit s = sv_audit (ap_svc c) \<and> sv_deleted s = sv_deleted (ap_svc c) \<and> sv_mails s = sv_mails (ap_svc c) \<and>
      (db \<noteq> w_db (ap_world c) \<longrightarrow> reply_code r = 200)"
    by (intro exI [of _ "ap_svc c"] exI [of _ "w_db (ap_world c)"]) simp
  ultimately show ?thesis using r unfolding anonymous_effect_def by (simp split: call.split)
qed

lemma anonymous_denied: "anonymous_effect call c c (RError (fails (jwt_ErrorHandler err)))"
  by (rule anonymous_same)
    (cases err; simp add: ErrMissingOrMalformedJwt_def ErrInvalidOrExpiredJwt_def ErrUnknown_def)

lemma anonymous_handle:
  assumes "parse_token H req c = Inl err" and "handle H req c = Inr (a', r)"
  shows "anonymous_effect (hr_call req) c a' r"
proof (cases "serve_open H req (hr_call req)")
  case None
  with assms anonymous_denied [of _ c err] show ?thesis by (auto simp: handle_def jwtMiddleware_def)
next
  case (Some f)
  with assms(2) have f: "f c = Inr (a', r)" by (simp add: handle_def)
  show ?thesis
  proof (cases "hr_call req")
    case (PostUsers data)
    with Some f have "UserController_UserRegister H data c = (a', r)" by auto
    from register_effect [OF this] PostUsers show ?thesis by (simp add: anonymous_effect_def)
  next
    case (PostCodes data)
    with Some f have "EmailController_SendVerifyEmail H (hr_random req) data c = (a', r)" by auto
    from code_effect [OF this] PostCodes show ?thesis by (simp add: anonymous_effect_def)
  next
    case (PostSessions data)
    with Some f show ?thesis
      by (cases data) (auto simp: anonymous_effect_def UserController_UserLogin_def case_prod_beta)
  next
    case (GetAvailability data)
    with Some f show ?thesis
      by (cases data) (auto simp: anonymous_effect_def UserController_CheckUserAvailability_def case_prod_beta)
  next
    case GetClients
    with Some f show ?thesis
      by (auto simp: anonymous_effect_def ClientController_GetOnlineClients_def go_simps case_prod_beta)
  qed (use Some f in \<open>auto simp: anonymous_effect_def ServerController_GetServerConfig_def\<close>)
qed

text \<open>
  C11. What anyone can do without a valid token: ask for a code, which changes codes and mails;
  register, which uses up the code and adds an account only when the answer is a success; and read
  the list of who is online, whose cache is refreshed. Every other request changes nothing but the
  records of the limiter, and on the routes that need a token it is answered with an error.
\<close>

theorem anonymous_effects:
  assumes "parse_token H req (at_now a) = Inl err" and "http H req a = Inr (a', r)"
  shows "anonymous_effect (hr_call req) ((at_now a)\<lparr>ap_limiter := ap_limiter a'\<rparr>) a' r"
proof (cases "passed (at_now a) req")
  case True
  then obtain l where l: "Allow (CombinedKeyFunc req) (w_now (ap_world a)) (ap_limiter a) = Inr (True, l)"
    by (auto simp: passed_def split: sum.splits bool.splits prod.splits)
  let ?c = "(at_now a)\<lparr>ap_limiter := l\<rparr>"
  from http_Allow [OF l assms(2)] have "ap_limiter a' = l" by simp
  moreover have "anonymous_effect (hr_call req) ?c a' r"
  proof (cases "handle H req ?c")
    case (Inl p)
    with assms(2) have "a' = ?c \<and> r = RPanic"
      unfolding http_passed(2) [OF l] by (auto simp: recover_def split: call.splits)
    then show ?thesis by (auto intro: anonymous_same)
  next
    case (Inr x)
    with assms(2) have "x = (a', r)" unfolding http_passed(2) [OF l] by (simp add: recover_def)
    with Inr assms(1) anonymous_handle [of H req ?c err a' r] show ?thesis by simp
  qed
  ultimately show ?thesis by simp
next
  case False
  from http_refused [OF this assms(2)] show ?thesis
    by (auto intro!: anonymous_same simp: too_many_def)
qed

end
