(* ===== verification/Sessions.thy ===== *)
theory Sessions
  imports Gateway
begin

text \<open>
  Runs of the whole program: where the identity of a request comes from, and how old the list of
  who is online can be.
\<close>

section \<open>Replies of a run\<close>

lemma app_run_served:
  assumes "app_run H evs a = Inr (b, trace)" and "(c, req, r) \<in> set trace"
  shows "at_now c = c \<and> (\<exists>c'. http H req c = Inr (c', r))"
  using assms
proof (induction evs arbitrary: a trace)
  case (Cons ev evs)
  show ?case
  proof (cases ev)
    case (Http q)
    with Cons.prems(1) obtain a' s tr where h: "http H q a = Inr (a', s)" "app_run H evs a' = Inr (b, tr)"
      "trace = (at_now a, q, s) # tr" by (auto simp: go_simps)
    with Cons.prems(2) Cons.IH [OF h(2)] show ?thesis by auto
  qed (use Cons in \<open>auto simp: go_simps\<close>)
qed simp

definition issued :: "reply \<Rightarrow> string \<Rightarrow> bool" where
  "issued r tok \<longleftrightarrow> tok \<noteq> '''' \<and>
     (case r of
        RToken resp \<Rightarrow> (case r_Data resp of None \<Rightarrow> False | Some t \<Rightarrow> tok = rt_Token t \<or> tok = rt_FlushToken t)
      | _ \<Rightarrow> False)"

lemma on_users_snd: "snd (on_users H R f a) = R (snd (f (users_of a)))"
  by (simp add: on_users_def case_prod_beta Let_def)

lemma on_acts_snd: "snd (on_acts H R f a) = R (snd (f (acts_of a)))"
  by (simp add: on_acts_def case_prod_beta Let_def)

lemma on_rows_snd: "snd (on_rows H f a) = RBool (snd (f (ap_acts a)))"
  by (simp add: on_rows_def on_acts_snd case_prod_beta Let_def)

lemma on_world_snd: "snd (on_world R f a) = R (snd (f (ap_svc a, ap_world a)))"
  by (simp add: on_world_def case_prod_beta Let_def)

text \<open>Tokens come from the three routes that give them.\<close>

definition token_source :: "('db, 'a) http_env \<Rightarrow> http_request \<Rightarrow> ('db, 'a) app \<Rightarrow> ResponseToken ApiResponse \<Rightarrow> bool" where
  "token_source H req c resp \<longleftrightarrow>
     (case hr_call req of
        PostSessions (Some (name, pw)) \<Rightarrow> resp = UserLogin (he_svc H) name pw (users_of c)
      | PostUsers (Some reg) \<Rightarrow> resp = snd (UserRegister (he_svc H) reg (users_of c))
      | GetSessions \<Rightarrow> (\<exists>claim. parse_token H req c = Inr claim \<and>
                          resp = GetTokenWithFlushToken (he_svc H) claim (users_of c))
      | _ \<Rightarrow> False)"

lemma bound_snd: "snd (bound data f a) = (case data of None \<Rightarrow> RError (fails ErrLackParam) | Some x \<Rightarrow> snd (f x a))"
  by (cases data) simp_all

lemma open_token:
  assumes "serve_open H req (hr_call req) = Some f" and "f c = Inr (c', RToken resp)"
  shows "token_source H req c resp"
proof -
  have s: "snd (c', RToken resp) = RToken resp" by simp
  show ?thesis
  proof (cases "hr_call req")
    case (PostUsers data)
    with assms have "snd (UserController_UserRegister H data c) = RToken resp" by auto
    with PostUsers show ?thesis
      by (auto simp: UserController_UserRegister_def bound_snd on_users_snd token_source_def split: option.splits)
  next
    case (PostSessions data)
    with assms have "snd (UserController_UserLogin H data c) = RToken resp" by auto
    with PostSessions show ?thesis
      by (auto simp: UserController_UserLogin_def bound_snd token_source_def split: option.splits prod.splits)
  next
    case (PostCodes data)
    with assms have "snd (EmailController_SendVerifyEmail H (hr_random req) data c) = RToken resp" by auto
    then show ?thesis
      by (auto simp: EmailController_SendVerifyEmail_def bound_snd on_users_snd case_prod_beta split: option.splits)
  next
    case (GetAvailability data)
    with assms have "snd (UserController_CheckUserAvailability H data c) = RToken resp" by auto
    then show ?thesis
      by (auto simp: UserController_CheckUserAvailability_def bound_snd case_prod_beta split: option.splits)
  qed (use assms in \<open>auto simp: ClientController_GetOnlineClients_def ServerController_GetServerConfig_def go_simps\<close>)
qed

lemma no_token [simp]:
  "on_users H RUser f c \<noteq> (x, RToken resp)" "on_acts H RActivity g c \<noteq> (x, RToken resp)"
  using on_users_snd [of H RUser f c] on_acts_snd [of H RActivity g c] by auto

lemma auth_token:
  assumes "serve_auth H req claim call c = Inr (c', RToken resp)"
  shows "call = GetSessions \<and> resp = GetTokenWithFlushToken (he_svc H) claim (users_of c)"
proof -
  have "\<exists>r. serve_auth H req claim call c = Inr r \<and> snd r = RToken resp" using assms by auto
  then show ?thesis
    by (cases call)
      (auto simp: controller_defs controller_go_defs bound_snd on_users_snd on_acts_snd on_rows_snd on_world_snd
        bound_go_def go_simps case_prod_beta Let_def split: option.splits)
qed

lemma handle_token:
  assumes "handle H req c = Inr (c', RToken resp)"
  shows "token_source H req c resp"
proof (cases "serve_open H req (hr_call req)")
  case (Some f)
  with assms open_token [OF Some] show ?thesis by (simp add: handle_def)
next
  case None
  with assms obtain claim where "parse_token H req c = Inr claim"
    "serve_auth H req claim (hr_call req) c = Inr (c', RToken resp)"
    by (auto simp: handle_def jwtMiddleware_def split: sum.splits)
  with auth_token show ?thesis by (fastforce simp: token_source_def)
qed

lemma token_source_limiter [simp]: "token_source H req (c\<lparr>ap_limiter := l\<rparr>) resp = token_source H req c resp"
  by (simp add: token_source_def parse_token_def split: call.split option.split)

lemma http_token:
  assumes "http H req a = Inr (a', RToken resp)"
  shows "token_source H req (at_now a) resp"
proof (cases "passed (at_now a) req")
  case True
  then obtain l where l: "Allow (CombinedKeyFunc req) (w_now (ap_world a)) (ap_limiter a) = Inr (True, l)"
    by (auto simp: passed_def split: sum.splits bool.splits prod.splits)
  let ?c = "(at_now a)\<lparr>ap_limiter := l\<rparr>"
  from assms have "handle H req ?c = Inr (a', RToken resp)"
    unfolding http_passed(2) [OF l] recover_def by (auto split: sum.splits call.splits)
  from handle_token [OF this] show ?thesis by simp
next
  case False
  with http_refused [OF this assms] show ?thesis by auto
qed

section \<open>Where an identity comes from\<close>

text \<open>
  What the identities rest on: a token that the server accepts gives back the claims that were
  signed into it, but for the precision of their dates, and before they expire; the empty text and
  a missing header are no tokens; a query for a user by its key finds a user with that key.
\<close>

definition same_claims :: "Claims \<Rightarrow> Claims \<Rightarrow> bool" where
  "same_claims c1 c2 \<longleftrightarrow>
     cl_Uid c1 = cl_Uid c2 \<and> cl_Cid c1 = cl_Cid c2 \<and> cl_Username c1 = cl_Username c2 \<and>
     cl_Permission c1 = cl_Permission c2 \<and> cl_Rating c1 = cl_Rating c2 \<and>
     cl_FlushToken c1 = cl_FlushToken c2 \<and> cl_Issuer c1 = cl_Issuer c2 \<and> cl_Subject c1 = cl_Subject c2"

definition jwt_laws :: "('db, 'a) http_env \<Rightarrow> bool" where
  "jwt_laws H \<longleftrightarrow>
     (\<forall>secret now claim claim'.
        he_parse H secret now (Some (se_sign (he_svc H) secret claim)) = Inr claim' \<longrightarrow>
          same_claims claim' claim \<and> now < cl_ExpiresAt claim) \<and>
     (\<forall>secret now claim. he_parse H secret now (Some '''') \<noteq> Inr claim) \<and>
     (\<forall>secret now claim. he_parse H secret now None \<noteq> Inr claim)"

definition key_law :: "'db api \<Rightarrow> bool" where
  "key_law A \<longleftrightarrow> (\<forall>uid db user. first_user_by_id A uid db = Inr user \<longrightarrow> u_ID user = uid)"

text \<open>Nobody makes up a token: one that is accepted came in an earlier reply.\<close>

definition unforged :: "('db, 'a) http_env \<Rightarrow> ('db, 'a) served_request list \<Rightarrow> bool" where
  "unforged H trace \<longleftrightarrow>
     (\<forall>i < length trace. case trace ! i of (c, req, _) \<Rightarrow>
        (\<forall>claim tok. parse_token H req c = Inr claim \<longrightarrow> hr_token req = Some tok \<longrightarrow>
           (\<exists>j < i. issued (snd (snd (trace ! j))) tok)))"

text \<open>A login with the password of an account, or the registration of one, with its key.\<close>

definition session_start :: "('db, 'a) http_env \<Rightarrow> ('db, 'a) served_request \<Rightarrow> nat \<Rightarrow> bool" where
  "session_start H entry uid \<longleftrightarrow>
     (case entry of (c, req, r) \<Rightarrow>
        (case hr_call req of
           PostSessions (Some (name, pw)) \<Rightarrow>
             (\<exists>user. GetUser (se_api (he_svc H)) (GetUserId name) (w_db (ap_world c)) = (user, None) \<and>
                VerifyUserPassword (se_api (he_svc H)) user pw \<and> u_ID user = uid)
         | PostUsers (Some reg) \<Rightarrow>
             (\<exists>t. r = RToken (succeeds SuccessRegister t) \<and> u_ID (rt_User t) = uid)
         | _ \<Rightarrow> False))"

text \<open>
  At a time, claims that came with a reply: they say what the account that the reply shows was
  then, and the time is before they expire, counted from that reply.
\<close>

definition claims_of_reply :: "('db, 'a) http_env \<Rightarrow> ('db, 'a) served_request \<Rightarrow> int \<Rightarrow> Claims \<Rightarrow> bool" where
  "claims_of_reply H entry now claim \<longleftrightarrow>
     (case entry of
        (c, req, RToken resp) \<Rightarrow>
          (case r_Data resp of
             None \<Rightarrow> False
           | Some t \<Rightarrow>
               cl_Uid claim = u_ID (rt_User t) \<and> cl_Cid claim = u_Cid (rt_User t) \<and>
               cl_Permission claim = u_Permission (rt_User t) \<and> cl_Rating claim = u_Rating (rt_User t) \<and>
               now < app_now c + jwt_ExpiresDuration (hs_JWT (http_config H)) +
                       (if cl_FlushToken claim then jwt_RefreshDuration (hs_JWT (http_config H)) else 0))
      | _ \<Rightarrow> False)"

lemma VerifyCode_now: "sv_now (fst (VerifyCode E email code cid s)) = sv_now s"
  by (simp add: VerifyCode_def Let_def split: option.split)

lemma verifyEmailCode_now: "sv_now (fst (verifyEmailCode E email code cid s)) = sv_now s"
  using VerifyCode_now [of E email code cid s]
  by (auto simp: verifyEmailCode_def case_prod_beta Let_def split: option.split)

lemma UserRegister_token:
  assumes "r_Data (snd (UserRegister E reg (s, db))) = Some t"
  shows "snd (UserRegister E reg (s, db)) = succeeds SuccessRegister t \<and>
         (\<exists>user s1. t = tokens E user s1 \<and> sv_now s1 = sv_now s)"
proof -
  obtain s1 res where v: "verifyEmailCode E (rr_Email reg) (rr_EmailCode reg) (rr_Cid reg) s = (s1, res)" by force
  with verifyEmailCode_now [of E "rr_Email reg" "rr_EmailCode reg" "rr_Cid reg" s] have "sv_now s1 = sv_now s" by simp
  with assms v show ?thesis
    by (auto simp: UserRegister_def Let_def case_prod_beta simp del: first_error.simps
        split: if_splits option.splits sum.splits)
qed

lemma UserLogin_token:
  assumes "r_Data (UserLogin E name pw (s, db)) = Some t"
  shows "\<exists>user. GetUser (se_api E) (GetUserId name) db = (user, None) \<and>
           VerifyUserPassword (se_api E) user pw \<and> t = tokens E user s"
  using assms
  by (auto simp: UserLogin_def CallDBFuncAndCheckError_def split: if_splits sum.splits prod.splits option.splits)

lemma GetToken_token:
  assumes "r_Data (GetTokenWithFlushToken E claim (s, db)) = Some t"
  shows "\<exists>user. GetUserByUid (se_api E) (cl_Uid claim) db = (user, None) \<and> rt_User t = user \<and>
           rt_Token t = GenerateKey E (NewClaims (hs_JWT (se_config E)) (sv_now s) user False) \<and>
           rt_FlushToken t \<in> {'''', GenerateKey E (NewClaims (hs_JWT (se_config E)) (sv_now s) user True)}"
  using assms
  by (auto simp: GetTokenWithFlushToken_def CallDBFuncAndCheckError_def Let_def
      split: if_splits sum.splits prod.splits option.splits)

text \<open>The tokens of a reply carry the user of the reply and the time of the request.\<close>

lemma source_claims:
  assumes "token_source H req c resp" and "r_Data resp = Some t"
    and "tok \<in> {rt_Token t, rt_FlushToken t}" and "tok \<noteq> ''''"
  shows "\<exists>flush. tok = GenerateKey (he_svc H) (NewClaims (hs_JWT (http_config H)) (app_now c) (rt_User t) flush)"
proof (cases "hr_call req")
  case (PostSessions data)
  with assms(1,2) obtain user where "t = tokens (he_svc H) user (ap_svc c)"
    by (auto simp: token_source_def dest!: UserLogin_token split: option.splits)
  with assms(3) show ?thesis by (auto simp: tokens_def Let_def)
next
  case (PostUsers data)
  with assms(1,2) obtain user s1 where "t = tokens (he_svc H) user s1" "sv_now s1 = app_now c"
    by (auto simp: token_source_def dest!: UserRegister_token split: option.splits)
  with assms(3) show ?thesis by (auto simp: tokens_def Let_def)
next
  case GetSessions
  with assms(1,2) show ?thesis
    using assms(3,4) by (auto simp: token_source_def dest!: GetToken_token)
qed (use assms in \<open>auto simp: token_source_def\<close>)

lemma source_user:
  assumes "token_source H req c resp" and "r_Data resp = Some t" and "key_law (se_api (he_svc H))"
  shows "session_start H (c, req, RToken resp) (u_ID (rt_User t)) \<or>
         (\<exists>claim. parse_token H req c = Inr claim \<and> u_ID (rt_User t) = cl_Uid claim)"
proof (cases "hr_call req")
  case (PostSessions data)
  with assms(1,2) show ?thesis
    by (auto simp: token_source_def session_start_def tokens_def Let_def dest!: UserLogin_token split: option.splits)
next
  case (PostUsers data)
  with assms(1,2) show ?thesis
    by (auto simp: token_source_def session_start_def dest!: UserRegister_token split: option.splits)
next
  case GetSessions
  with assms(1) obtain claim where c: "parse_token H req c = Inr claim"
    "resp = GetTokenWithFlushToken (he_svc H) claim (users_of c)" by (auto simp: token_source_def)
  with assms(2) have "GetUserByUid (se_api (he_svc H)) (cl_Uid claim) (w_db (ap_world c)) = (rt_User t, None)"
    by (auto dest!: GetToken_token)
  then have "first_user_by_id (se_api (he_svc H)) (cl_Uid claim) (w_db (ap_world c)) = Inr (rt_User t)"
    by (auto simp: GetUserByUid_def found_user_def split: sum.splits gorm_error.splits)
  with assms(3) c(1) show ?thesis by (auto simp: key_law_def)
qed (use assms in \<open>auto simp: token_source_def\<close>)


text \<open>A token that a reply gave out, and that is accepted.\<close>

lemma issued_claims:
  assumes "jwt_laws H" and "http H req0 c0 = Inr (c1, r0)" and "at_now c0 = c0" and "issued r0 tok"
    and "parse_token H req c = Inr claim" and "hr_token req = Some tok"
  obtains resp t where "r0 = RToken resp" and "r_Data resp = Some t" and "token_source H req0 c0 resp"
    and "claims_of_reply H (c0, req0, r0) (app_now c) claim" and "cl_Uid claim = u_ID (rt_User t)"
proof -
  let ?E = "he_svc H" and ?jwt = "hs_JWT (http_config H)"
  from assms(4) obtain resp t where r: "r0 = RToken resp" "r_Data resp = Some t"
    "tok \<in> {rt_Token t, rt_FlushToken t}" "tok \<noteq> ''''"
    by (auto simp: issued_def split: reply.splits option.splits)
  with http_token [of H req0 c0 c1 resp] assms(2,3) have src: "token_source H req0 c0 resp" by simp
  from source_claims [OF src r(2-4)] obtain flush where tok:
    "tok = GenerateKey ?E (NewClaims ?jwt (app_now c0) (rt_User t) flush)" by blast
  let ?cl = "NewClaims ?jwt (app_now c0) (rt_User t) flush"
  have "he_parse H (jwt_Secret ?jwt) (app_now c) (Some (se_sign ?E (jwt_Secret ?jwt) ?cl)) = Inr claim"
    using assms(5,6) tok by (simp add: parse_token_def GenerateKey_def)
  with assms(1) have law: "same_claims claim ?cl \<and> app_now c < cl_ExpiresAt ?cl" unfolding jwt_laws_def by blast
  then have "claims_of_reply H (c0, req0, r0) (app_now c) claim" "cl_Uid claim = u_ID (rt_User t)"
    using r(1,2) by (auto simp: claims_of_reply_def same_claims_def NewClaims_def Let_def split: if_splits)
  with that r(1,2) src show thesis by blast
qed

lemma no_header: "jwt_laws H \<Longrightarrow> parse_token H req c = Inr claim \<Longrightarrow> \<exists>tok. hr_token req = Some tok"
  by (cases "hr_token req") (auto simp: jwt_laws_def parse_token_def)

text \<open>
  C8. Where an identity comes from. Suppose that tokens are not made up. Whenever a request is
  served as some user, there was an earlier request that logged in with the password of that
  account or that registered it, however often the token was refreshed in between. And the cid, the
  rating and the permissions that the request is served with are those that an earlier reply
  showed, no longer ago than the configured life of its token.
\<close>

theorem session_origin:
  assumes "jwt_laws H" and "key_law (se_api (he_svc H))" and "app_run H evs a = Inr (b, trace)"
    and "unforged H trace" and "i < length trace" and "trace ! i = (c, req, r)" and "parse_token H req c = Inr claim"
  shows "(\<exists>j < i. session_start H (trace ! j) (cl_Uid claim)) \<and>
         (\<exists>k < i. claims_of_reply H (trace ! k) (app_now c) claim)"
  using assms(5-7)
proof (induction i arbitrary: c req r claim rule: less_induct)
  case (less i)
  from no_header [OF assms(1) less.prems(3)] obtain tok where tok: "hr_token req = Some tok" by blast
  from assms(4) less.prems(1) have "case trace ! i of (c, req, _) \<Rightarrow> \<forall>claim tok.
      parse_token H req c = Inr claim \<longrightarrow> hr_token req = Some tok \<longrightarrow> (\<exists>j < i. issued (snd (snd (trace ! j))) tok)"
    unfolding unforged_def by (elim allE impE)
  with less.prems(2,3) tok obtain j where j: "j < i" "issued (snd (snd (trace ! j))) tok" by auto
  obtain c0 req0 r0 where e: "trace ! j = (c0, req0, r0)" by (cases "trace ! j")
  from j(1) less.prems(1) have len: "j < length trace" by simp
  with nth_mem [OF this] e have mem: "(c0, req0, r0) \<in> set trace" by simp
  from app_run_served [OF assms(3) mem] obtain c1 where c0: "at_now c0 = c0" "http H req0 c0 = Inr (c1, r0)" by blast
  from j(2) e have iss: "issued r0 tok" by simp
  from issued_claims [OF assms(1) c0(2,1) iss less.prems(3) tok] obtain resp t where t:
    "r0 = RToken resp" "r_Data resp = Some t" "token_source H req0 c0 resp"
    "claims_of_reply H (c0, req0, r0) (app_now c) claim" "cl_Uid claim = u_ID (rt_User t)" .
  from source_user [OF t(3,2) assms(2)] have "\<exists>j' < i. session_start H (trace ! j') (cl_Uid claim)"
  proof
    assume "session_start H (c0, req0, RToken resp) (u_ID (rt_User t))"
    with e t(1,5) j(1) show ?thesis by auto
  next
    assume "\<exists>claim'. parse_token H req0 c0 = Inr claim' \<and> u_ID (rt_User t) = cl_Uid claim'"
    with less.IH [OF j(1) len e] t(5) j(1) show ?thesis by (metis less_trans)
  qed
  with e t(4) j(1) show ?case by auto
qed


section \<open>How old the list of who is online can be\<close>

text \<open>Only one route answers with the list and touches its cache.\<close>

definition keeps_online :: "('db, 'a) app \<Rightarrow> ('db, 'a) served \<Rightarrow> bool" where
  "keeps_online a r \<longleftrightarrow>
     (case r of Inl _ \<Rightarrow> True | Inr (a', r') \<Rightarrow> ap_online a' = ap_online a \<and> (\<forall>data. r' \<noteq> ROnline data))"

lemma keeps_online_simps [simp]:
  "keeps_online a (Inl p)"
  "keeps_online a (Inr x) \<longleftrightarrow> ap_online (fst x) = ap_online a \<and> (\<forall>data. snd x \<noteq> ROnline data)"
  by (simp_all add: keeps_online_def case_prod_beta)

lemma keeps_online_bind: "(\<And>x. r = Inr x \<Longrightarrow> keeps_online a (k x)) \<Longrightarrow> keeps_online a (go_bind r k)"
  by (cases r) simp_all

lemma on_online [simp]:
  "ap_online (fst (on_users H RU f a)) = ap_online a" "ap_online (fst (on_acts H RA g a)) = ap_online a"
  "ap_online (fst (on_rows H h a)) = ap_online a" "ap_online (fst (on_world RW k a)) = ap_online a"
  by (simp_all add: on_users_def on_acts_def on_rows_def on_world_def case_prod_beta Let_def)

lemma bound_online: "(\<And>x. keeps_online a (Inr (f x a))) \<Longrightarrow> keeps_online a (Inr (bound data f a))"
  by (cases data) simp_all

lemma bound_go_online: "(\<And>x. keeps_online a (f x a)) \<Longrightarrow> keeps_online a (bound_go data f a)"
  by (cases data) simp_all

lemma serve_auth_online: "keeps_online a (serve_auth H req claim c a)"
  by (cases c)
    (auto simp: controller_defs controller_go_defs case_prod_beta on_users_snd on_acts_snd on_rows_snd on_world_snd
      simp del: keeps_online_simps(2) intro!: bound_online bound_go_online keeps_online_bind;
     simp add: case_prod_beta on_users_snd on_acts_snd on_rows_snd on_world_snd)+


lemma serve_open_online:
  assumes "serve_open H req c = Some f" and "c \<noteq> GetClients"
  shows "keeps_online a (f a)"
  using assms
  by (cases c)
    (auto simp: controller_defs case_prod_beta on_users_snd simp del: keeps_online_simps(2) intro!: bound_online;
     simp add: case_prod_beta on_users_snd)+

lemma handle_online:
  assumes "handle H req a = Inr (a', r)"
  shows "(ap_online a' = ap_online a \<and> (\<forall>data. r \<noteq> ROnline data)) \<or>
         (\<exists>data. r = ROnline data \<and>
            cached_get (getOnlineClient (he_svc H)) w_now (ap_world a) (ap_online a) = Inr (ap_online a', data))"
proof (cases "serve_open H req (hr_call req)")
  case None
  with assms obtain claim where "serve_auth H req claim (hr_call req) a = Inr (a', r) \<or>
      (a' = a \<and> r = RError (fails (jwt_ErrorHandler (projl (parse_token H req a)))))"
    by (auto simp: handle_def jwtMiddleware_def split: sum.splits)
  with serve_auth_online [of a H req claim "hr_call req"] show ?thesis by auto
next
  case (Some f)
  with assms have f: "f a = Inr (a', r)" by (simp add: handle_def)
  show ?thesis
  proof (cases "hr_call req = GetClients")
    case True
    with Some f show ?thesis
      by (auto simp: ClientController_GetOnlineClients_def GetOnlineClient_def go_simps)
  next
    case False
    from serve_open_online [OF Some False, of a] f show ?thesis by simp
  qed
qed

lemma http_online:
  assumes "http H req a = Inr (a', r)"
  shows "(ap_online a' = ap_online a \<and> (\<forall>data. r \<noteq> ROnline data)) \<or>
         (\<exists>data. r = ROnline data \<and>
            cached_get (getOnlineClient (he_svc H)) w_now (ap_world a) (ap_online a) = Inr (ap_online a', data))"
proof (cases "passed (at_now a) req")
  case True
  then obtain l where l: "Allow (CombinedKeyFunc req) (w_now (ap_world a)) (ap_limiter a) = Inr (True, l)"
    by (auto simp: passed_def split: sum.splits bool.splits prod.splits)
  let ?c = "(at_now a)\<lparr>ap_limiter := l\<rparr>"
  from assms have "handle H req ?c = Inr (a', r) \<or> (a' = ?c \<and> r = RPanic)"
    unfolding http_passed(2) [OF l] recover_def by (auto split: sum.splits call.splits)
  then show ?thesis using handle_online [of H req ?c a' r] by auto
next
  case False
  from http_refused [OF this assms] show ?thesis by auto
qed

lemma app_run_online:
  assumes "app_run H evs a = Inr (b, trace)" and "reachable (he_fsd H) (ap_world a)"
    and "cached_from (getOnlineClient (he_svc H)) w_now seen (ap_online a)" and "0 < cv_cachedTime (ap_online a)"
    and "i < length trace" and "trace ! i = (c, req, ROnline data)"
  shows "\<exists>online. data = Some online \<and>
           (\<exists>w \<in> seen \<union> set (map (ap_world \<circ> fst) (take (Suc i) trace)).
              getOnlineClient (he_svc H) w = Inr online \<and> app_now c - w_now w \<le> cv_cachedTime (ap_online a))"
  using assms
proof (induction evs arbitrary: a trace seen i)
  case (Cons ev evs)
  show ?case
  proof (cases ev)
    case (Fsd e)
    with Cons.prems(1) obtain w where w: "step (he_fsd H) e (ap_world a) = Inr w"
      "app_run H evs (a\<lparr>ap_world := w\<rparr>) = Inr (b, trace)" by (auto simp: go_simps)
    from next_step [OF Cons.prems(2) w(1)] Cons.IH [OF w(2) _ _ _ Cons.prems(5,6)] Cons.prems(3,4)
    show ?thesis by simp
  next
    case CleanupTick
    with Cons.prems Cons.IH [of "a\<lparr>ap_limiter := cleanup (w_now (ap_world a)) (ap_limiter a)\<rparr>"] show ?thesis by simp
  next
    case (Http q)
    with Cons.prems(1) obtain a' r tr where h: "http H q a = Inr (a', r)" "app_run H evs a' = Inr (b, tr)"
      "trace = (at_now a, q, r) # tr" by (auto simp: go_simps)
    have reach: "reachable (he_fsd H) (ap_world a')" using http_frame [OF h(1)] Cons.prems(2) by simp
    from who.cached_get_step [OF Cons.prems(2-4)] obtain cache' online where s:
      "cached_get (getOnlineClient (he_svc H)) w_now (ap_world a) (ap_online a) = Inr (cache', Some online)"
      "cached_from (getOnlineClient (he_svc H)) w_now (insert (ap_world a) seen) cache'"
      "cv_cachedTime cache' = cv_cachedTime (ap_online a)"
      "\<exists>w0 \<in> insert (ap_world a) seen. getOnlineClient (he_svc H) w0 = Inr online \<and>
         w_now (ap_world a) - w_now w0 \<le> cv_cachedTime (ap_online a)" by blast
    have kept: "cached_from g clk seen x \<Longrightarrow> cached_from g clk (insert w seen) x" for g clk x and w :: "'a world"
      unfolding cached_from_def by blast
    have after: "cached_from (getOnlineClient (he_svc H)) w_now (insert (ap_world a) seen) (ap_online a') \<and>
        cv_cachedTime (ap_online a') = cv_cachedTime (ap_online a)"
      using http_online [OF h(1)] s(1-3) kept [OF Cons.prems(3)] by auto
    show ?thesis
    proof (cases i)
      case 0
      with Cons.prems(6) h(3) have "r = ROnline data" "c = at_now a" by simp_all
      with http_online [OF h(1)] s(1,4) 0 h(3) show ?thesis by auto
    next
      case (Suc j)
      with Cons.prems(4-6) h(3) after have "j < length tr" "tr ! j = (c, req, ROnline data)"
        "0 < cv_cachedTime (ap_online a')" by simp_all
      with Cons.IH [OF h(2) reach, of "insert (ap_world a) seen" j] after h(3) Suc show ?thesis by simp
    qed
  qed
qed simp


end
