(* ===== verification/HttpExample.thy ===== *)
theory HttpExample
  imports Sessions
begin

text \<open>
  A run of the whole program: the administrator logs in and reads the own profile with the token,
  and somebody asks who is online. The theorems on runs are applied to it.
\<close>

definition example_claim :: Claims where
  "example_claim = NewClaims (hs_JWT example_http) 0 example_admin False"

definition example_sign :: "string \<Rightarrow> Claims \<Rightarrow> string" where
  "example_sign secret claim = (if claim = example_claim then ''token'' else ''other'')"

definition example_http_env :: "(memory, act_memory) http_env" where
  "example_http_env =
     \<lparr>he_fsd = example_env,
      he_svc = example_svc_env\<lparr>se_sign := example_sign, se_config := example_http\<lparr>hs_CacheDuration := 15000000000\<rparr>\<rparr>,
      he_act = example_act_env,
      he_stats = \<lparr>st_count_users = (\<lambda>c m. (int (length (m_users m)), None)), st_best_times = (\<lambda>c m. ([], None)),
        st_audit_page = (\<lambda>off n s. (sv_audit s, None)), st_audit_count = (\<lambda>s. int (length (sv_audit s)))\<rparr>,
      he_store = example_store_env,
      he_parse = (\<lambda>secret now t. if t = Some ''token'' \<and> now < 900000000000 then Inr example_claim
                                 else Inl ErrJWTInvalid)\<rparr>"

definition example_request :: "string option \<Rightarrow> call \<Rightarrow> http_request" where
  "example_request tok c = \<lparr>hr_RealIP = ''10.0.0.1'', hr_UserAgent = ''ua'', hr_token = tok, hr_random = 0, hr_call = c\<rparr>"

definition example_app :: "(memory, act_memory) app" where
  "example_app =
     (case StartHttpServer example_http_env (defaultServerConfig example_cfg_env) (initial example_users 0)
             example_activities empty_store of Inr a \<Rightarrow> a)"

definition example_run :: "memory app_event list" where
  "example_run = [Http (example_request None (PostSessions (Some (''admin'', ''secret'')))),
     Http (example_request (Some ''token'') GetProfile)]"

lemma example_http_env_simps [simp]:
  "he_fsd example_http_env = example_env" "se_api (he_svc example_http_env) = memory_api"
  "hs_CacheDuration (http_config example_http_env) = 15000000000"
  "hs_Limits (http_config example_http_env) = defaultHttpServerLimit"
  "hs_JWT (http_config example_http_env) = hs_JWT example_http"
  "se_sign (he_svc example_http_env) = example_sign"
  "he_parse example_http_env secret now t =
     (if t = Some ''token'' \<and> now < 900000000000 then Inr example_claim else Inl ErrJWTInvalid)"
  by (simp_all add: example_http_env_def example_svc_env_def example_http_def defaultHttpServerConfig_def)

lemma example_no_clients:
  "\<exists>data. getOnlineClient E (initial db now) = Inr data"
  using reachable.start by (rule getOnlineClient_ok)

lemma example_started:
  "StartHttpServer example_http_env (defaultServerConfig example_cfg_env) (initial example_users 0)
     example_activities empty_store = Inr example_app"
  using example_no_clients [of "he_svc example_http_env" example_users 0]
  by (auto simp: example_app_def StartHttpServer_def Let_def case_prod_beta)

lemma started_parts:
  assumes "StartHttpServer H config w acts files = Inr a"
  shows "ap_world a = w" and "app_now a = w_now w"
    and "rate_limits (hs_Limits (http_config H)) = (window, n) \<Longrightarrow> ap_limiter a = NewSlidingWindowLimiter window n"
  using assms by (auto simp: StartHttpServer_def Let_def go_simps case_prod_beta)

lemma example_app_simps [simp]:
  "ap_world example_app = initial example_users 0"
  "ap_limiter example_app = NewSlidingWindowLimiter 60000000000 15"
  using started_parts(1,3) [OF example_started] by (simp_all add: rate_limits_def defaultHttpServerLimit_def)

lemma example_jwt: "jwt_laws example_http_env"
  by (auto simp: jwt_laws_def example_sign_def same_claims_def example_claim_def NewClaims_def Let_def
      example_http_def split: if_splits)

lemma example_key: "key_law memory_api"
  by (auto simp: key_law_def memory_api_def first_such_def filter_eq_Cons_iff split: list.splits)

lemma example_user_id: "GetUserId ''admin'' = StringUserId ''admin''"
  by code_simp

lemma example_login_user:
  "GetUser memory_api (GetUserId ''admin'') example_users = (example_admin, None)"
  "VerifyUserPassword memory_api example_admin ''secret''"
  by code_simp+


abbreviation example_answer :: reply where
  "example_answer \<equiv> RToken (succeeds SuccessLogin
     \<lparr>rt_User = example_admin, rt_Token = ''token'', rt_FlushToken = ''other''\<rparr>)"

lemma example_login_served:
  "\<exists>a. http example_http_env (example_request None (PostSessions (Some (''admin'', ''secret'')))) example_app =
         Inr (a, example_answer) \<and> ap_world a = initial example_users 0"
  by (simp add: http_def RateLimitMiddleware_def Allow_def NewSlidingWindowLimiter_def handle_def recover_def
      example_request_def UserController_UserLogin_def UserLogin_def example_login_user CallDBFuncAndCheckError_def
      tokens_def GenerateKey_def example_sign_def example_claim_def NewClaims_def initial_def Let_def)

lemma example_profile_served:
  "ap_world a = initial example_users 0 \<Longrightarrow>
     \<exists>b r. http example_http_env (example_request (Some ''token'') GetProfile) a = Inr (b, r)"
  by (auto simp: http_def RateLimitMiddleware_def handle_def recover_def jwtMiddleware_def parse_token_def
      example_request_def UserController_GetCurrentUserProfile_def split: sum.split prod.split bool.split)

lemma example_run_ok:
  obtains b c r where "app_run example_http_env example_run example_app =
     Inr (b, [(at_now example_app, example_request None (PostSessions (Some (''admin'', ''secret''))), example_answer),
              (c, example_request (Some ''token'') GetProfile, r)])"
    and "app_now c = 0"
proof -
  from example_login_served obtain a where
    a: "http example_http_env (example_request None (PostSessions (Some (''admin'', ''secret'')))) example_app =
         Inr (a, example_answer)" "ap_world a = initial example_users 0" by blast
  with example_profile_served [OF a(2)] that [of _ "at_now a"] show thesis
    by (auto simp: example_run_def initial_def)
qed

lemma example_clients_served:
  obtains b data where "app_run example_http_env [Http (example_request None GetClients)] example_app =
     Inr (b, [(at_now example_app, example_request None GetClients, ROnline data)])"
proof -
  obtain shown where "getOnlineClient (he_svc example_http_env) (initial example_users 0) = Inr shown"
    using example_no_clients [of "he_svc example_http_env" example_users 0] by blast
  then have "\<exists>b data. http example_http_env (example_request None GetClients) example_app = Inr (b, ROnline data)"
    by (simp add: http_def RateLimitMiddleware_def Allow_def NewSlidingWindowLimiter_def handle_def recover_def
      example_request_def ClientController_GetOnlineClients_def GetOnlineClient_def cached_get_def
      case_prod_beta Let_def)
  with that show thesis by auto
qed

lemma example_world: "reachable (he_fsd example_http_env) (ap_world example_app)"
  by (simp add: reachable.start)

theorem program_keeps_fsd_witness:
  "case app_run example_http_env example_run example_app of
     Inl _ \<Rightarrow> False | Inr (b, trace) \<Rightarrow> length trace = 2 \<and> world_ok (ap_world b)"
  by (rule example_run_ok) (use program_keeps_fsd [OF example_world, of example_run] in auto)

theorem http_rate_limit_witness:
  "case app_run example_http_env example_run example_app of
     Inl _ \<Rightarrow> False
   | Inr (b, trace) \<Rightarrow> length trace = 2 \<and>
       length (filter (\<lambda>(c, req, r). passed c req \<and> CombinedKeyFunc req = ''10.0.0.1|/api/profile'' \<and>
                         0 \<le> app_now c \<and> app_now c \<le> 60000000000) trace) \<le> 15"
proof (rule example_run_ok)
  fix b c r
  let ?trace = "[(at_now example_app, example_request None (PostSessions (Some (''admin'', ''secret''))), example_answer),
     (c, example_request (Some ''token'') GetProfile, r)]"
  assume run: "app_run example_http_env example_run example_app = Inr (b, ?trace)"
  from http_rate_limit [OF example_started run, of "''10.0.0.1|/api/profile''" 0] run show ?thesis
    by (simp add: rate_limits_def defaultHttpServerLimit_def del: filter.simps)
qed

theorem anonymous_effects_witness:
  "\<exists>a. http example_http_env (example_request None (PostSessions (Some (''admin'', ''secret'')))) example_app =
          Inr (a, example_answer) \<and>
       anonymous_effect (PostSessions (Some (''admin'', ''secret'')))
         ((at_now example_app)\<lparr>ap_limiter := ap_limiter a\<rparr>) a example_answer"
proof -
  from example_login_served obtain a where
    a: "http example_http_env (example_request None (PostSessions (Some (''admin'', ''secret'')))) example_app =
         Inr (a, example_answer)" by blast
  have "parse_token example_http_env (example_request None (PostSessions (Some (''admin'', ''secret''))))
      (at_now example_app) = Inl ErrJWTInvalid"
    by (simp add: parse_token_def example_request_def)
  from anonymous_effects [OF this a] a show ?thesis by (auto simp: example_request_def)
qed

theorem session_origin_witness:
  "case app_run example_http_env example_run example_app of
     Inl _ \<Rightarrow> False
   | Inr (b, trace) \<Rightarrow> length trace = 2 \<and> session_start example_http_env (trace ! 0) 1 \<and>
       claims_of_reply example_http_env (trace ! 0) 0 example_claim"
proof (rule example_run_ok)
  fix b c r
  let ?trace = "[(at_now example_app, example_request None (PostSessions (Some (''admin'', ''secret''))), example_answer),
     (c, example_request (Some ''token'') GetProfile, r)]"
  assume run: "app_run example_http_env example_run example_app = Inr (b, ?trace)" and c: "app_now c = 0"
  have unforged: "unforged example_http_env ?trace"
    by (auto simp: unforged_def parse_token_def example_request_def less_Suc_eq issued_def split: if_splits)
  have "parse_token example_http_env (example_request (Some ''token'') GetProfile) c = Inr example_claim"
    using c by (simp add: parse_token_def example_request_def)
  from session_origin [OF example_jwt _ run unforged _ _ this, of 1 r] c run show ?thesis
    by (simp add: example_key example_claim_def NewClaims_def Let_def)
qed


end
