(* ===== verification/Listener.thy ===== *)
theory Listener
  imports Frame
begin

text \<open>
  The listener of the FSD server (\<open>internal/fsd_server/server.go\<close>): it accepts a connection, then
  waits for one of the slots of its semaphore, then starts the loop of the connection, which gives
  the slot back when it ends.
\<close>

text \<open>A connection that was accepted and waits for a slot keeps the listener from accepting another.\<close>

record 'db listener =
  ln_world :: "'db world"
  ln_waiting :: "string option"

text \<open>
  Somebody connects; \<open>Accept\<close> fails, which is only logged; the semaphore lets the listener go on;
  the server makes a step of its own.
\<close>

datatype 'db net_event = Connect string | AcceptError | Acquire | Serve "'db event"

definition slots_used :: "'db world \<Rightarrow> nat" where
  "slots_used w = length (filter (\<lambda>sid. s_reading (w_session w sid)) [0..<w_nsession w])"

fun StartFSDServer :: "'db env \<Rightarrow> nat \<Rightarrow> 'db net_event \<Rightarrow> 'db listener \<Rightarrow> 'db listener go" where
  "StartFSDServer E maxWorkers (Connect remoteAddr) l =
     Inr (if ln_waiting l = None then l\<lparr>ln_waiting := Some remoteAddr\<rparr> else l)"
| "StartFSDServer E maxWorkers AcceptError l = Inr l"
| "StartFSDServer E maxWorkers Acquire l =
     (case ln_waiting l of
        None \<Rightarrow> Inr l
      | Some remoteAddr \<Rightarrow>
          if slots_used (ln_world l) < maxWorkers
          then Inr (l\<lparr>ln_world := snd (NewSession remoteAddr (ln_world l)), ln_waiting := None\<rparr>)
          else Inr l)"
| "StartFSDServer E maxWorkers (Serve ev) l =
     (case ev of
        Accept _ \<Rightarrow> Inr l
      | _ \<Rightarrow> go_bind (step E ev (ln_world l)) (\<lambda>w. Inr (l\<lparr>ln_world := w\<rparr>)))"

section \<open>How many connections are served at a time\<close>

lemma slots_running: "slots_used w = card (running w)"
proof -
  have "running w = set (filter (\<lambda>sid. s_reading (w_session w sid)) [0..<w_nsession w])"
    by (auto simp: running_def)
  then show ?thesis unfolding slots_used_def by (metis distinct_card distinct_filter distinct_upt)
qed

lemma step_slots:
  assumes "step E ev w = Inr w'" and "\<forall>addr. ev \<noteq> Accept addr"
  shows "slots_used w' \<le> slots_used w"
proof -
  have "running w' \<subseteq> running w" using step_running [OF assms(1)] assms(2) by (cases ev) auto
  then show ?thesis by (simp add: slots_running card_mono)
qed

lemma NewSession_conn: "s_conn_open (w_session (snd (NewSession addr w)) (w_nsession w))"
  by (simp add: NewSession_def Let_def)

text \<open>A listener that stays within its slots, over states that the server can reach.\<close>

definition within_slots :: "'db env \<Rightarrow> nat \<Rightarrow> 'db listener \<Rightarrow> bool" where
  "within_slots E maxWorkers l \<longleftrightarrow> reachable E (ln_world l) \<and> slots_used (ln_world l) \<le> maxWorkers"

lemma NewSession_slots: "slots_used (snd (NewSession addr w)) = Suc (slots_used w)"
proof -
  have "running (snd (NewSession addr w)) = insert (w_nsession w) (running w)"
    by (auto simp: running_def NewSession_def Let_def)
  moreover have "w_nsession w \<notin> running w" by (simp add: running_def)
  ultimately show ?thesis by (simp add: slots_running)
qed

lemma serve_step:
  assumes "\<forall>addr. e \<noteq> Accept addr"
  shows "StartFSDServer E maxWorkers (Serve e) l = go_bind (step E e (ln_world l)) (\<lambda>w. Inr (l\<lparr>ln_world := w\<rparr>))"
  using assms by (cases e) (simp_all del: step.simps)

lemma serve_within:
  assumes "StartFSDServer E maxWorkers (Serve e) l = Inr l'" and "within_slots E maxWorkers l"
  shows "within_slots E maxWorkers l'"
proof (cases "\<exists>addr. e = Accept addr")
  case True
  with assms show ?thesis by auto
next
  case False
  then have not: "\<forall>addr. e \<noteq> Accept addr" by blast
  from assms(1) obtain w where w: "step E e (ln_world l) = Inr w" "l' = l\<lparr>ln_world := w\<rparr>"
    unfolding serve_step [OF not] by (cases "step E e (ln_world l)") simp_all
  from assms(2) have "reachable E (ln_world l)" "slots_used (ln_world l) \<le> maxWorkers" by (simp_all add: within_slots_def)
  with next_step [OF _ w(1)] step_slots [OF w(1) not] w(2) show ?thesis by (simp add: within_slots_def)
qed

lemma acquire_within:
  assumes "within_slots E maxWorkers l" and "slots_used (ln_world l) < maxWorkers"
  shows "within_slots E maxWorkers (l\<lparr>ln_world := snd (NewSession addr (ln_world l)), ln_waiting := None\<rparr>)"
proof -
  have "reachable E (snd (NewSession addr (ln_world l)))"
    using assms(1) next_step [of E "ln_world l" "Accept addr"] by (simp add: within_slots_def)
  with assms(2) show ?thesis by (simp add: within_slots_def NewSession_slots)
qed

lemma listener_step:
  assumes "StartFSDServer E maxWorkers ev l = Inr l'" and "within_slots E maxWorkers l"
  shows "within_slots E maxWorkers l'"
proof (cases ev)
  case (Connect addr)
  with assms show ?thesis by (cases "ln_waiting l") (auto simp: within_slots_def)
next
  case AcceptError
  with assms show ?thesis by simp
next
  case Acquire
  show ?thesis
  proof (cases "ln_waiting l = None \<or> \<not> slots_used (ln_world l) < maxWorkers")
    case True
    with Acquire assms show ?thesis by (auto split: option.splits)
  next
    case False
    then obtain addr where a: "ln_waiting l = Some addr" "slots_used (ln_world l) < maxWorkers" by auto
    with Acquire assms(1) have "l' = l\<lparr>ln_world := snd (NewSession addr (ln_world l)), ln_waiting := None\<rparr>" by simp
    with acquire_within [OF assms(2) a(2)] show ?thesis by simp
  qed
next
  case (Serve e)
  with assms serve_within show ?thesis by blast
qed

interpretation listener: step_invariant "StartFSDServer E maxWorkers" "within_slots E maxWorkers"
  by unfold_locales (rule listener_step)

text \<open>
  C36. The listener bounds the load. Whoever connects, and however the connections, their ends and
  the steps of the server interleave, at most \<open>MaxWorkers\<close> loops of connections run at a time; the
  server is always in a state of its own; one connection more is held back, and it is served as soon
  as one of the loops ends.
\<close>

theorem listener_bounded:
  assumes "run (StartFSDServer E maxWorkers) evs \<lparr>ln_world = initial db now, ln_waiting = None\<rparr> = Inr l"
  shows "reachable E (ln_world l) \<and> slots_used (ln_world l) \<le> maxWorkers \<and>
         (case ln_waiting l of
            None \<Rightarrow> True
          | Some addr \<Rightarrow> \<exists>l2. StartFSDServer E maxWorkers Acquire l = Inr l2 \<and>
              (if slots_used (ln_world l) = maxWorkers then l2 = l
               else ln_waiting l2 = None \<and> s_conn_open (w_session (ln_world l2) (w_nsession (ln_world l))) \<and>
                    slots_used (ln_world l2) = Suc (slots_used (ln_world l)))) \<and>
         (case find (\<lambda>sid. s_reading (w_session (ln_world l) sid)) [0..<w_nsession (ln_world l)] of
            None \<Rightarrow> slots_used (ln_world l) = 0
          | Some sid \<Rightarrow> \<exists>l2. StartFSDServer E maxWorkers (Serve (ConnEnd sid)) l = Inr l2 \<and>
              Suc (slots_used (ln_world l2)) = slots_used (ln_world l))"
proof -
  let ?w = "ln_world l"
  have "within_slots E maxWorkers \<lparr>ln_world = initial db now, ln_waiting = None\<rparr>"
    using reachable.start by (simp add: within_slots_def slots_used_def) (simp add: initial_def)
  from listener.run_keep [OF this assms] have ok: "reachable E ?w" "slots_used ?w \<le> maxWorkers"
    by (simp_all add: within_slots_def)
  have ending: "Suc (slots_used (connection_end E sid ?w)) = slots_used ?w"
    if "sid < w_nsession ?w" "s_reading (w_session ?w sid)" for sid
  proof -
    from that have "sid \<in> running ?w" by (simp add: running_def)
    moreover from that step_running [of E "ConnEnd sid" ?w "connection_end E sid ?w"]
    have "running (connection_end E sid ?w) = running ?w - {sid}" by simp
    ultimately show ?thesis by (metis slots_running running_finite card_Suc_Diff1)
  qed
  have "case find (\<lambda>sid. s_reading (w_session ?w sid)) [0..<w_nsession ?w] of
      None \<Rightarrow> slots_used ?w = 0
    | Some sid \<Rightarrow> \<exists>l2. StartFSDServer E maxWorkers (Serve (ConnEnd sid)) l = Inr l2 \<and>
        Suc (slots_used (ln_world l2)) = slots_used ?w"
    using ending by (auto simp: slots_used_def find_None_iff find_Some_iff split: option.split)
  moreover have "case ln_waiting l of None \<Rightarrow> True
    | Some addr \<Rightarrow> \<exists>l2. StartFSDServer E maxWorkers Acquire l = Inr l2 \<and>
        (if slots_used ?w = maxWorkers then l2 = l
         else ln_waiting l2 = None \<and> s_conn_open (w_session (ln_world l2) (w_nsession ?w)) \<and>
              slots_used (ln_world l2) = Suc (slots_used ?w))"
    using ok(2) NewSession_slots [of _ ?w] by (cases "ln_waiting l") (simp_all add: NewSession_conn)
  ultimately show ?thesis using ok by blast
qed


text \<open>With one slot, a second connection waits until the first one ends.\<close>

theorem listener_bounded_witness:
  "case run (StartFSDServer example_env 1) [Connect ''a'', Acquire, Connect ''b'', Acquire]
          \<lparr>ln_world = initial example_db 0, ln_waiting = None\<rparr> of
     Inl _ \<Rightarrow> False
   | Inr l \<Rightarrow> slots_used (ln_world l) = 1 \<and> ln_waiting l = Some ''b'' \<and>
       StartFSDServer example_env 1 Acquire l = Inr l"
proof -
  let ?s = "\<lparr>ln_world = initial example_db 0, ln_waiting = None\<rparr>"
  obtain l where l: "run (StartFSDServer example_env 1) [Connect ''a'', Acquire, Connect ''b'', Acquire] ?s = Inr l"
    "ln_waiting l = Some ''b''" "slots_used (ln_world l) = 1"
    by (simp add: slots_used_def NewSession_def initial_def)
  from listener_bounded [OF l(1)] l show ?thesis by auto
qed

end
