(* ===== verification/Boot.thy ===== *)
theory Boot
  imports "HOL-Library.Signed_Division" HttpExample Listener
begin

text \<open>
  The start and the end of the program (\<open>cmd/fsd/main.go\<close>, \<open>internal/base/config.go\<close>,
  \<open>internal/base/cleaner.go\<close>, \<open>internal/database/database.go\<close>, the callbacks of
  \<open>internal/fsd_server/server.go\<close> and \<open>internal/http_server/server.go\<close>): the configuration is read,
  or written when there is none, the database is connected, the two servers are started, and a
  signal runs the registered callbacks in reverse order and ends the process.
\<close>

section \<open>Reading and writing the configuration\<close>

text \<open>
  \<open>bo_marshal\<close> and \<open>bo_unmarshal\<close> are the JSON library, the second of which fills in a given value;
  \<open>bo_write\<close> is what reaches the file of a text, with the error of the write.
\<close>

record boot_env =
  bo_cfg :: cfg_env
  bo_ConfigFilePath :: string
  bo_open_error :: "string option"
  bo_marshal :: "Config \<Rightarrow> string + string"
  bo_unmarshal :: "string \<Rightarrow> Config \<Rightarrow> string + Config"
  bo_write :: "string \<Rightarrow> string \<times> string option"
  bo_close_error :: "string option"
  bo_gorm_Open :: "dialector option \<Rightarrow> string option"
  bo_migrate_error :: "string option"
  bo_pool_error :: "string option"
  bo_ping_error :: "string option"

text \<open>\<open>O_WRONLY|O_CREATE\<close>: the file is created when there is none, and not truncated.\<close>

definition saveConfig :: "boot_env \<Rightarrow> Config \<Rightarrow> files \<Rightarrow> files \<times> go_error option" where
  "saveConfig B config fs =
     (let path = bo_ConfigFilePath B; opened = fs(path \<mapsto> write_over '''' (fs path)) in
      case bo_open_error B of
        Some err \<Rightarrow> (fs, Some (Outside err))
      | None \<Rightarrow>
          (case bo_marshal B config of
             Inl err \<Rightarrow> (opened, Some (Outside err))
           | Inr data \<Rightarrow>
               let (written, werr) = bo_write B data; fs' = fs(path \<mapsto> write_over written (fs path))
               in (case werr of
                     Some err \<Rightarrow> (fs', Some (Outside err))
                   | None \<Rightarrow> (fs', map_option Outside (bo_close_error B)))))"

definition readConfig :: "boot_env \<Rightarrow> files \<Rightarrow> files \<times> Config option \<times> ValidResult" where
  "readConfig B fs =
     (let E = bo_cfg B; path = bo_ConfigFilePath B; config = DefaultConfig E in
      case (if ce_read_error E path = None then fs path else None) of
        None \<Rightarrow>
          (case saveConfig B config fs of
             (fs', Some err) \<Rightarrow>
               (fs', None, ValidFailWith
                  (GoError ''fail to save configuration file while creating configuration file'') err)
           | (fs', None) \<Rightarrow>
               (fs', None, ValidFail (GoError (''the configuration file does not exist and has been created. '' @
                  ''Please try again after editing the configuration file''))))
      | Some bytes \<Rightarrow>
          (case bo_unmarshal B bytes config of
             Inl err \<Rightarrow>
               (fs, None, ValidFailWith (GoError ''the configuration file does not contain valid JSON'') (Outside err))
           | Inr c \<Rightarrow>
               let (c', fs', result) = CheckValid E c fs
               in if IsFail result then (fs', None, result) else (fs', Some c', ValidPass)))"

text \<open>A configuration that cannot be used is logged and panics, which \<open>main\<close> sees as no result.\<close>

definition getConfig :: "boot_env \<Rightarrow> files \<Rightarrow> files \<times> Config option" where
  "getConfig B fs = (let (fs', config, result) = readConfig B fs in (fs', if IsFail result then None else config))"

text \<open>The manager keeps the configuration for good: the cache has no age.\<close>

definition NewManager :: "boot_env \<Rightarrow> int \<Rightarrow> files \<Rightarrow> files \<times> Config cached_value option" where
  "NewManager B now fs = (let (fs', config) = getConfig B fs in (fs', map_option (NewCachedValue now 0) config))"

section \<open>The database\<close>

text \<open>
  The pool has four fifths of the connections of the server, and a fifth of these may be idle. The
  division of Go rounds towards zero. A limit that is not positive is none.
\<close>

definition connection_pool :: "DatabaseConfig \<Rightarrow> int \<times> int" where
  "connection_pool config =
     (let maxOpenConnections = db_ServerMaxConnections config * 4 sdiv 5 in
      (maxOpenConnections sdiv 5, maxOpenConnections))"

definition open_limit :: "DatabaseConfig \<Rightarrow> int option" where
  "open_limit config = (let n = snd (connection_pool config) in if n > 0 then Some n else None)"

definition ConnectDatabase :: "boot_env \<Rightarrow> Config \<Rightarrow> string + int \<times> int" where
  "ConnectDatabase B config =
     (case bo_gorm_Open B (GetConnection (cf_Database config)) of
        Some err \<Rightarrow> Inl (''error occured while connecting to operation: '' @ err)
      | None \<Rightarrow>
          (case bo_migrate_error B of
             Some err \<Rightarrow> Inl (''error occured while migrating operation: '' @ err)
           | None \<Rightarrow>
               (case bo_pool_error B of
                  Some err \<Rightarrow> Inl (''error occured while creating operation pool: '' @ err)
                | None \<Rightarrow>
                    (case bo_ping_error B of
                       Some err \<Rightarrow> Inl (''error occured while pinging operation: '' @ err)
                     | None \<Rightarrow> Inr (connection_pool (cf_Database config))))))"

section \<open>The cleaner\<close>

text \<open>The callbacks that the program registers.\<close>

datatype callable = DBCloseCallback | HttpServerShutdownCallback | FsdCloseCallback

text \<open>\<open>cl_cleans\<close> has, for each call of \<open>Clean\<close> that runs, the callbacks it still has to invoke.\<close>

record Cleaner =
  cl_cleaners :: "callable list"
  cl_cleaning :: bool
  cl_cleans :: "callable list list"

definition NewCleaner :: Cleaner where
  "NewCleaner = \<lparr>cl_cleaners = [], cl_cleaning = False, cl_cleans = []\<rparr>"

definition Add :: "callable \<Rightarrow> Cleaner \<Rightarrow> Cleaner" where
  "Add callable c = (if cl_cleaning c then c else c\<lparr>cl_cleaners := cl_cleaners c @ [callable]\<rparr>)"

definition Clean :: "Cleaner \<Rightarrow> Cleaner" where
  "Clean c = c\<lparr>cl_cleaning := True, cl_cleans := cl_cleans c @ [rev (cl_cleaners c)]\<rparr>"

section \<open>The process\<close>

text \<open>
  The HTTP server has its state from when it is started; before, there are the FSD server, the
  tables of the activities and the files.
\<close>

datatype ('db, 'a) servers = FsdOnly "'db world" 'a store_state | WithHttp "('db, 'a) app"

fun world_of :: "('db, 'a) servers \<Rightarrow> 'db world" where
  "world_of (FsdOnly w acts files) = w"
| "world_of (WithHttp a) = ap_world a"

fun set_world :: "'db world \<Rightarrow> ('db, 'a) servers \<Rightarrow> ('db, 'a) servers" where
  "set_world w (FsdOnly _ acts files) = FsdOnly w acts files"
| "set_world w (WithHttp a) = WithHttp (a\<lparr>ap_world := w\<rparr>)"

datatype process_state = Running | Finished | Killed

text \<open>\<open>pc_listening\<close> is what came of the listener of the FSD server, \<open>None\<close> before it was asked for.\<close>

record ('db, 'a) process =
  pc_config :: Config
  pc_servers :: "('db, 'a) servers"
  pc_cleaner :: Cleaner
  pc_listening :: "bool option"
  pc_http_open :: bool
  pc_db_open :: bool
  pc_signalled :: bool
  pc_state :: process_state

text \<open>
  The outcome of \<open>main\<close> until the servers start: every error ends with the deferred \<open>Clean\<close>, which
  exits with code 0, so that the recovery that was deferred before it never prints the panic.
  \<open>range_order\<close> is the order in which Go goes through the map of the ratings.
\<close>

datatype ('db, 'a) main_result = Exited nat | Serving "('db, 'a) process"

definition main ::
    "boot_env \<Rightarrow> ((string \<rightharpoonup> int) \<Rightarrow> (string \<times> int) list) \<Rightarrow> 'db world \<Rightarrow> 'a \<Rightarrow> store_state \<Rightarrow> files
       \<Rightarrow> files \<times> rating_map option \<times> ('db, 'a) main_result" where
  "main B range_order w acts disk fs =
     (case getConfig B fs of
        (fs', None) \<Rightarrow> (fs', None, Exited 0)
      | (fs', Some config) \<Rightarrow>
          (case SyncRatingConfig (range_order (cf_Rating config)) RatingFacilityMap of
             Inl err \<Rightarrow> (fs', None, Exited 0)
           | Inr m \<Rightarrow>
               (case ConnectDatabase B config of
                  Inl err \<Rightarrow> (fs', Some m, Exited 0)
                | Inr pool \<Rightarrow>
                    (fs', Some m, Serving
                       \<lparr>pc_config = config, pc_servers = FsdOnly w acts disk,
                        pc_cleaner = Add DBCloseCallback NewCleaner, pc_listening = None,
                        pc_http_open = False, pc_db_open = True, pc_signalled = False, pc_state = Running\<rparr>))))"

text \<open>
  What goes on then, in any order: the goroutine of the HTTP server gets ready, when that server is
  enabled; the FSD server listens, or fails to, which ends \<open>main\<close>; the servers work; a signal
  arrives; a call of \<open>Clean\<close> invokes its next callback, or has none left and exits. The handling of
  the first signal restores the default for the second, which kills the process.
\<close>

datatype 'db process_event =
    HttpStarts | FsdListens bool | Work "'db app_event" | Signal | Invoke nat | Finish nat

definition invoke :: "('db, 'a) http_env \<Rightarrow> callable \<Rightarrow> ('db, 'a) process \<Rightarrow> ('db, 'a) process" where
  "invoke H c p =
     (case c of
        DBCloseCallback \<Rightarrow> p\<lparr>pc_db_open := False\<rparr>
      | HttpServerShutdownCallback \<Rightarrow> p\<lparr>pc_http_open := False\<rparr>
      | FsdCloseCallback \<Rightarrow>
          p\<lparr>pc_servers := set_world (fst (Shutdown (he_fsd H) (world_of (pc_servers p)))) (pc_servers p)\<rparr>)"

text \<open>Connections arrive once the FSD server listens, requests while the HTTP server is open.\<close>

fun allowed :: "('db, 'a) process \<Rightarrow> 'db app_event \<Rightarrow> bool" where
  "allowed p (Fsd (Accept addr)) = (pc_listening p = Some True)"
| "allowed p (Fsd ShutdownServer) = False"
| "allowed p (Fsd ev) = True"
| "allowed p (Http req) = pc_http_open p"
| "allowed p CleanupTick = True"

fun work :: "('db, 'a) http_env \<Rightarrow> 'db app_event \<Rightarrow> ('db, 'a) servers \<Rightarrow> ('db, 'a) servers go" where
  "work H ev (WithHttp a) = go_bind (app_run H [ev] a) (\<lambda>(b, trace). Inr (WithHttp b))"
| "work H (Fsd ev) (FsdOnly w acts files) = go_bind (step (he_fsd H) ev w) (\<lambda>w'. Inr (FsdOnly w' acts files))"
| "work H ev (FsdOnly w acts files) = Inr (FsdOnly w acts files)"

fun process_step :: "('db, 'a) http_env \<Rightarrow> 'db process_event \<Rightarrow> ('db, 'a) process \<Rightarrow> ('db, 'a) process go" where
  "process_step H HttpStarts p =
     (case pc_servers p of
        FsdOnly w acts files \<Rightarrow>
          if hs_Enabled (sc_HttpServer (cf_Server (pc_config p))) then
            go_bind (StartHttpServer H (cf_Server (pc_config p)) w acts files) (\<lambda>a.
              Inr (p\<lparr>pc_servers := WithHttp a, pc_cleaner := Add HttpServerShutdownCallback (pc_cleaner p),
                     pc_http_open := True\<rparr>))
          else Inr p
      | WithHttp a \<Rightarrow> Inr p)"
| "process_step H (FsdListens ok) p =
     Inr (if pc_listening p \<noteq> None then p
          else p\<lparr>pc_listening := Some ok,
                 pc_cleaner := if ok then Add FsdCloseCallback (pc_cleaner p) else Clean (pc_cleaner p)\<rparr>)"
| "process_step H (Work ev) p =
     (if allowed p ev then go_bind (work H ev (pc_servers p)) (\<lambda>s. Inr (p\<lparr>pc_servers := s\<rparr>)) else Inr p)"
| "process_step H Signal p =
     Inr (if pc_signalled p then p\<lparr>pc_state := Killed\<rparr>
          else p\<lparr>pc_signalled := True, pc_cleaner := Clean (pc_cleaner p)\<rparr>)"
| "process_step H (Invoke i) p =
     Inr (let cleans = cl_cleans (pc_cleaner p) in
          if i < length cleans then
            (case cleans ! i of
               [] \<Rightarrow> p
             | c # rest \<Rightarrow> invoke H c (p\<lparr>pc_cleaner := (pc_cleaner p)\<lparr>cl_cleans := cleans[i := rest]\<rparr>\<rparr>))
          else p)"
| "process_step H (Finish i) p =
     Inr (let cleans = cl_cleans (pc_cleaner p) in
          if i < length cleans \<and> cleans ! i = [] then p\<lparr>pc_state := Finished\<rparr> else p)"

text \<open>A process that has ended takes no step.\<close>

definition process_next ::
    "('db, 'a) http_env \<Rightarrow> 'db process_event \<Rightarrow> ('db, 'a) process \<Rightarrow> ('db, 'a) process go" where
  "process_next H ev p = (if pc_state p \<noteq> Running then Inr p else process_step H ev p)"

section \<open>The first start and the second\<close>



section \<open>What the program serves with\<close>



section \<open>Shutting down\<close>

text \<open>What a callback leaves done for good.\<close>

fun settled :: "('db, 'a) process \<Rightarrow> callable \<Rightarrow> bool" where
  "settled p DBCloseCallback = (\<not> pc_db_open p)"
| "settled p HttpServerShutdownCallback = (\<not> pc_http_open p)"
| "settled p FsdCloseCallback = w_shuttingDown (world_of (pc_servers p))"

text \<open>
  The database comes first and once in the callbacks, and the HTTP server is one of them only after
  it was started; each running \<open>Clean\<close> has done the callbacks that it does not have to do any more;
  the database is closed only after everything that was registered.
\<close>

definition process_ok :: "'db env \<Rightarrow> ('db, 'a) process \<Rightarrow> bool" where
  "process_ok F p \<longleftrightarrow>
     (let cs = cl_cleaners (pc_cleaner p) in
      reachable F (world_of (pc_servers p)) \<and>
      (\<exists>rest. cs = DBCloseCallback # rest \<and> DBCloseCallback \<notin> set rest) \<and>
      (HttpServerShutdownCallback \<in> set cs \<longrightarrow> (\<exists>a. pc_servers p = WithHttp a)) \<and>
      (if cl_cleaning (pc_cleaner p) then cl_cleans (pc_cleaner p) \<noteq> []
       else cl_cleans (pc_cleaner p) = [] \<and> pc_db_open p \<and> pc_state p \<noteq> Finished) \<and>
      (\<forall>todo \<in> set (cl_cleans (pc_cleaner p)). \<exists>did. rev cs = did @ todo \<and> (\<forall>c \<in> set did. settled p c)) \<and>
      (\<not> pc_db_open p \<longrightarrow> (\<forall>c \<in> set cs. settled p c)) \<and>
      (pc_state p = Finished \<longrightarrow> (\<forall>c \<in> set cs. settled p c)))"

lemma set_world_simps [simp]:
  "world_of (set_world w s) = w" "(\<exists>a. set_world w s = WithHttp a) \<longleftrightarrow> (\<exists>a. s = WithHttp a)"
  by (cases s; simp)+

text \<open>The work of the servers keeps what is closed.\<close>

lemma app_step_world:
  assumes "app_run H [ev] a = Inr (b, trace)"
  shows "(reachable (he_fsd H) (ap_world a) \<longrightarrow> reachable (he_fsd H) (ap_world b)) \<and>
         (w_shuttingDown (ap_world a) \<longrightarrow> w_shuttingDown (ap_world b))"
proof (cases ev)
  case (Fsd e)
  with assms have "step (he_fsd H) e (ap_world a) = Inr (ap_world b)" by (auto simp: go_simps)
  then show ?thesis using next_step step_shutting by blast
next
  case (Http req)
  with assms obtain r where "http H req a = Inr (b, r)" by (auto simp: go_simps)
  from http_frame [OF this] show ?thesis by simp
next
  case CleanupTick
  with assms show ?thesis by auto
qed

lemma work_world:
  assumes "work H ev s = Inr s'"
  shows "(reachable (he_fsd H) (world_of s) \<longrightarrow> reachable (he_fsd H) (world_of s')) \<and>
         (w_shuttingDown (world_of s) \<longrightarrow> w_shuttingDown (world_of s')) \<and>
         ((\<exists>a. s = WithHttp a) \<longrightarrow> (\<exists>a. s' = WithHttp a))"
proof (cases s)
  case (WithHttp a)
  with assms obtain b tr where r: "app_run H [ev] a = Inr (b, tr)" "s' = WithHttp b"
    by (auto simp: go_simps simp del: app_run.simps)
  from app_step_world [OF r(1)] r(2) WithHttp show ?thesis by simp
next
  case (FsdOnly w acts files)
  show ?thesis
  proof (cases ev)
    case (Fsd e)
    with assms FsdOnly obtain w' where w': "step (he_fsd H) e w = Inr w'" "s' = FsdOnly w' acts files"
      by (auto simp: go_simps simp del: step.simps)
    with next_step [OF _ w'(1)] step_shutting [OF w'(1)] FsdOnly show ?thesis by simp
  qed (use assms FsdOnly in simp_all)
qed

text \<open>A change that keeps the cleaner and what is closed keeps the invariant.\<close>

lemma process_ok_change:
  assumes "process_ok F p" and "pc_cleaner p' = pc_cleaner p" and "pc_db_open p' = pc_db_open p"
    and "pc_state p' = Finished \<longleftrightarrow> pc_state p = Finished"
    and "reachable F (world_of (pc_servers p'))"
    and "\<forall>c \<in> set (cl_cleaners (pc_cleaner p)). settled p c \<longrightarrow> settled p' c"
    and "(\<exists>a. pc_servers p = WithHttp a) \<longrightarrow> (\<exists>a. pc_servers p' = WithHttp a)"
  shows "process_ok F p'"
proof -
  let ?cs = "cl_cleaners (pc_cleaner p)"
  have "\<exists>did. rev ?cs = did @ todo \<and> (\<forall>c \<in> set did. settled p' c)" if "todo \<in> set (cl_cleans (pc_cleaner p))" for todo
  proof -
    from that assms(1) obtain did where d: "rev ?cs = did @ todo" "\<forall>c \<in> set did. settled p c"
      by (auto simp: process_ok_def Let_def)
    then have "set did \<subseteq> set ?cs" by (metis set_append set_rev Un_upper1)
    with d assms(6) show ?thesis by blast
  qed
  moreover note ok = assms(1) [unfolded process_ok_def Let_def]
  have "\<not> pc_db_open p' \<longrightarrow> (\<forall>c \<in> set ?cs. settled p' c)" "pc_state p' = Finished \<longrightarrow> (\<forall>c \<in> set ?cs. settled p' c)"
    using ok assms(3,4,6) by simp_all
  moreover have "HttpServerShutdownCallback \<in> set ?cs \<longrightarrow> (\<exists>a. pc_servers p' = WithHttp a)"
    using ok assms(7) by blast
  ultimately show ?thesis using ok assms(2-5) unfolding process_ok_def Let_def by simp
qed

lemma Add_ok:
  assumes "process_ok F p" and "c \<noteq> DBCloseCallback"
    and "pc_cleaner p' = Add c (pc_cleaner p)" and "pc_db_open p' = pc_db_open p" and "pc_state p' = pc_state p"
    and "reachable F (world_of (pc_servers p'))"
    and "\<forall>d \<in> set (cl_cleaners (pc_cleaner p)). settled p d \<longrightarrow> settled p' d"
    and "(\<exists>a. pc_servers p = WithHttp a) \<longrightarrow> (\<exists>a. pc_servers p' = WithHttp a)"
    and "c = HttpServerShutdownCallback \<longrightarrow> (\<exists>a. pc_servers p' = WithHttp a)"
  shows "process_ok F p'"
proof (cases "cl_cleaning (pc_cleaner p)")
  case True
  with assms show ?thesis by (intro process_ok_change [OF assms(1)]) (simp_all add: Add_def)
next
  case False
  with assms show ?thesis by (auto simp: process_ok_def Add_def Let_def)
qed


lemma Clean_ok:
  assumes "process_ok F p" and "pc_cleaner p' = Clean (pc_cleaner p)" and "pc_db_open p' = pc_db_open p"
    and "pc_state p' = pc_state p" and "pc_servers p' = pc_servers p" and "pc_http_open p' = pc_http_open p"
  shows "process_ok F p'"
proof -
  have "settled p' = settled p" by (rule ext) (case_tac x; simp add: assms)
  with assms show ?thesis by (auto simp: process_ok_def Clean_def Let_def)
qed

lemma invoke_parts:
  "pc_cleaner (invoke H c p) = pc_cleaner p" "pc_state (invoke H c p) = pc_state p"
  "settled (invoke H c p) c \<or> \<not> reachable (he_fsd H) (world_of (pc_servers p))"
  "settled p d \<Longrightarrow> settled (invoke H c p) d"
  "(\<exists>a. pc_servers (invoke H c p) = WithHttp a) \<longleftrightarrow> (\<exists>a. pc_servers p = WithHttp a)"
  "reachable (he_fsd H) (world_of (pc_servers p)) \<Longrightarrow> reachable (he_fsd H) (world_of (pc_servers (invoke H c p)))"
  "pc_db_open (invoke H c p) \<longleftrightarrow> pc_db_open p \<and> c \<noteq> DBCloseCallback"
proof -
  let ?w = "world_of (pc_servers p)"
  have step: "step (he_fsd H) ShutdownServer ?w = Inr (fst (Shutdown (he_fsd H) ?w))" by simp
  have down: "w_shuttingDown (fst (Shutdown (he_fsd H) ?w))"
    by (simp add: Shutdown_def Let_def disconnectClients_facts)
  show "settled (invoke H c p) c \<or> \<not> reachable (he_fsd H) ?w" by (cases c) (simp_all add: invoke_def down)
  show "settled p d \<Longrightarrow> settled (invoke H c p) d" by (cases c; cases d) (simp_all add: invoke_def down)
  show "reachable (he_fsd H) ?w \<Longrightarrow> reachable (he_fsd H) (world_of (pc_servers (invoke H c p)))"
    using next_step [OF _ step] by (cases c) (simp_all add: invoke_def)
qed (cases c; simp add: invoke_def)+

lemma Invoke_ok:
  assumes "process_ok (he_fsd H) p" and "i < length (cl_cleans (pc_cleaner p))"
    and "cl_cleans (pc_cleaner p) ! i = c # rest"
  shows "process_ok (he_fsd H)
           (invoke H c (p\<lparr>pc_cleaner := (pc_cleaner p)\<lparr>cl_cleans := (cl_cleans (pc_cleaner p))[i := rest]\<rparr>\<rparr>))"
    (is "process_ok _ ?p'")
proof -
  let ?cs = "cl_cleaners (pc_cleaner p)" and ?cleans = "cl_cleans (pc_cleaner p)"
  let ?p1 = "p\<lparr>pc_cleaner := (pc_cleaner p)\<lparr>cl_cleans := ?cleans[i := rest]\<rparr>\<rparr>"
  note ok = assms(1) [unfolded process_ok_def Let_def]
  have same: "settled ?p1 d = settled p d" for d by (cases d) simp_all
  have keep: "settled p d \<Longrightarrow> settled ?p' d" for d using invoke_parts(4) [of ?p1 d H c] same by simp
  have here: "settled ?p' c" using invoke_parts(3) [of H c ?p1] ok by simp
  have "c # rest \<in> set ?cleans" using assms(2,3) by (metis nth_mem)
  with ok obtain did where did: "rev ?cs = did @ c # rest" "\<forall>d \<in> set did. settled p d" by blast
  have todo: "\<exists>did. rev ?cs = did @ t \<and> (\<forall>d \<in> set did. settled ?p' d)" if "t \<in> set (?cleans[i := rest])" for t
  proof (cases "t = rest")
    case True
    with did keep here show ?thesis by (intro exI [of _ "did @ [c]"]) auto
  next
    case False
    with that have "t \<in> set ?cleans" using set_update_subset_insert [of ?cleans i rest] by blast
    with ok obtain did where "rev ?cs = did @ t" "\<forall>d \<in> set did. settled p d" by blast
    with keep show ?thesis by blast
  qed
  have db: "\<forall>d \<in> set ?cs. settled ?p' d" if "c = DBCloseCallback"
  proof -
    from ok obtain tail where tail: "?cs = DBCloseCallback # tail" "DBCloseCallback \<notin> set tail" by blast
    with did(1) that have "rest = []" "set tail = set did"
      by (auto simp: append_eq_append_conv2 append_eq_Cons_conv Cons_eq_append_conv
          dest!: arg_cong [of _ _ set])
    with tail did(2) keep here that show ?thesis by auto
  qed
  have closed_db: "\<not> pc_db_open ?p' \<longrightarrow> (\<forall>d \<in> set ?cs. settled ?p' d)"
    using db ok keep invoke_parts(7) [of H c ?p1] by auto
  have finished: "pc_state ?p' = Finished \<longrightarrow> (\<forall>d \<in> set ?cs. settled ?p' d)"
    using ok keep invoke_parts(2) [of H c ?p1] by simp
  have cleaning: "cl_cleaning (pc_cleaner p)" using ok assms(2) by (auto split: if_splits)
  have "?cleans[i := rest] \<noteq> []" using assms(2) by auto
  with todo closed_db finished cleaning ok invoke_parts(1,5) [of H c ?p1] invoke_parts(6) [of H ?p1 c]
  show ?thesis unfolding process_ok_def Let_def by simp
qed


lemma Finish_ok:
  assumes "process_ok F p" and "i < length (cl_cleans (pc_cleaner p))" and "cl_cleans (pc_cleaner p) ! i = []"
  shows "process_ok F (p\<lparr>pc_state := Finished\<rparr>)"
proof -
  note ok = assms(1) [unfolded process_ok_def Let_def]
  have same: "settled (p\<lparr>pc_state := Finished\<rparr>) d = settled p d" for d by (cases d) simp_all
  have "[] \<in> set (cl_cleans (pc_cleaner p))" using assms(2,3) by (metis nth_mem)
  with ok obtain did where "rev (cl_cleaners (pc_cleaner p)) = did @ []" "\<forall>d \<in> set did. settled p d" by blast
  then have "\<forall>d \<in> set (cl_cleaners (pc_cleaner p)). settled p d" by (metis append_Nil2 set_rev)
  moreover have "cl_cleaning (pc_cleaner p)" using ok assms(2) by (auto split: if_splits)
  ultimately show ?thesis using ok same unfolding process_ok_def Let_def by simp
qed

lemma HttpStarts_event_ok:
  assumes "process_step H HttpStarts p = Inr p'" and "process_ok (he_fsd H) p"
  shows "process_ok (he_fsd H) p'"
proof (cases "pc_servers p")
  case (WithHttp a)
  with assms show ?thesis by simp
next
  case (FsdOnly w acts files)
  show ?thesis
  proof (cases "hs_Enabled (sc_HttpServer (cf_Server (pc_config p)))")
    case False
    with FsdOnly assms show ?thesis by simp
  next
    case True
    with FsdOnly assms(1) obtain a where
      a: "StartHttpServer H (cf_Server (pc_config p)) w acts files = Inr a"
      "p' = p\<lparr>pc_servers := WithHttp a, pc_cleaner := Add HttpServerShutdownCallback (pc_cleaner p), pc_http_open := True\<rparr>"
      by (auto simp: go_simps)
    from started_parts(1) [OF a(1)] have w: "ap_world a = world_of (pc_servers p)" using FsdOnly by simp
    have "HttpServerShutdownCallback \<notin> set (cl_cleaners (pc_cleaner p))"
      using assms(2) FsdOnly by (auto simp: process_ok_def Let_def)
    then have "settled p' d" if "d \<in> set (cl_cleaners (pc_cleaner p))" "settled p d" for d
      using that a(2) w by (cases d) auto
    moreover have "reachable (he_fsd H) (world_of (pc_servers p'))"
      using assms(2) a(2) w by (simp add: process_ok_def Let_def)
    ultimately show ?thesis using a(2)
      by (intro Add_ok [OF assms(2), of HttpServerShutdownCallback]) simp_all
  qed
qed

lemma FsdListens_event_ok:
  assumes "process_step H (FsdListens b) p = Inr p'" and "process_ok (he_fsd H) p"
  shows "process_ok (he_fsd H) p'"
proof -
  have reach: "reachable (he_fsd H) (world_of (pc_servers p))" using assms(2) by (simp add: process_ok_def Let_def)
  have same: "settled (p\<lparr>pc_listening := x, pc_cleaner := c\<rparr>) d = settled p d" for x c d by (cases d) simp_all
  show ?thesis
  proof (cases "pc_listening p = None")
    case False
    with assms show ?thesis by simp
  next
    case listen: True
    show ?thesis
    proof (cases b)
      case True
      with listen assms(1) show ?thesis
        using reach same by (intro Add_ok [OF assms(2), of FsdCloseCallback]) auto
    next
      case False
      with listen assms(1) show ?thesis by (intro Clean_ok [OF assms(2)]) auto
    qed
  qed
qed

lemma Work_event_ok:
  assumes "process_step H (Work e) p = Inr p'" and "process_ok (he_fsd H) p"
  shows "process_ok (he_fsd H) p'"
proof (cases "allowed p e")
  case False
  with assms show ?thesis by simp
next
  case True
  with assms(1) obtain s where s: "work H e (pc_servers p) = Inr s" "p' = p\<lparr>pc_servers := s\<rparr>"
    by (auto simp: go_simps)
  have "settled p d \<longrightarrow> settled p' d" for d using work_world [OF s(1)] s(2) by (cases d) simp_all
  moreover have "reachable (he_fsd H) (world_of (pc_servers p))" using assms(2) by (simp add: process_ok_def Let_def)
  ultimately show ?thesis using work_world [OF s(1)] s(2) by (intro process_ok_change [OF assms(2)]) simp_all
qed

lemma Signal_event_ok:
  assumes "process_step H Signal p = Inr p'" and "process_ok (he_fsd H) p"
  shows "process_ok (he_fsd H) p'"
proof -
  have "process_ok (he_fsd H) (p\<lparr>pc_state := Killed\<rparr>)"
  proof -
    have "settled (p\<lparr>pc_state := Killed\<rparr>) d = settled p d" for d by (cases d) simp_all
    with assms(2) show ?thesis by (auto simp: process_ok_def Let_def split: if_splits)
  qed
  moreover have "process_ok (he_fsd H) (p\<lparr>pc_signalled := True, pc_cleaner := Clean (pc_cleaner p)\<rparr>)"
    by (rule Clean_ok [OF assms(2)]) simp_all
  ultimately show ?thesis using assms(1) by (simp split: if_splits)
qed

lemma Invoke_event_ok:
  assumes "process_step H (Invoke i) p = Inr p'" and "process_ok (he_fsd H) p"
  shows "process_ok (he_fsd H) p'"
proof (cases "i < length (cl_cleans (pc_cleaner p)) \<and> cl_cleans (pc_cleaner p) ! i \<noteq> []")
  case True
  then obtain c rest where "cl_cleans (pc_cleaner p) ! i = c # rest" by (cases "cl_cleans (pc_cleaner p) ! i") auto
  with Invoke_ok [OF assms(2) _ this] True assms(1) show ?thesis by (simp add: Let_def)
next
  case False
  with assms show ?thesis by (auto simp: Let_def split: if_splits)
qed

lemma process_step_ok:
  assumes "process_step H ev p = Inr p'" and "process_ok (he_fsd H) p"
  shows "process_ok (he_fsd H) p'"
proof (cases ev)
  case (Finish i)
  with assms Finish_ok [OF assms(2), of i] show ?thesis by (auto simp: Let_def split: if_splits)
qed (use assms HttpStarts_event_ok FsdListens_event_ok Work_event_ok Signal_event_ok Invoke_event_ok in blast)+

interpretation process: step_invariant "process_next H" "process_ok (he_fsd H)"
  by unfold_locales (auto simp: process_next_def dest: process_step_ok split: if_splits simp del: process_step.simps)

text \<open>A \<open>Clean\<close> that runs invokes what it has left and exits.\<close>

lemma clean_ends:
  assumes "pc_state p = Running" and "cl_cleans (pc_cleaner p) = todo # others"
  shows "\<exists>p'. run (process_next H) (replicate (length todo) (Invoke 0) @ [Finish 0]) p = Inr p' \<and> pc_state p' = Finished"
  using assms
proof (induction todo arbitrary: p)
  case Nil
  then show ?case by (simp add: process_next_def)
next
  case (Cons c todo)
  let ?p = "invoke H c (p\<lparr>pc_cleaner := (pc_cleaner p)\<lparr>cl_cleans := todo # others\<rparr>\<rparr>)"
  have "pc_state ?p = Running" "cl_cleans (pc_cleaner ?p) = todo # others"
    using Cons.prems invoke_parts(1,2) [of H c] by simp_all
  from Cons.IH [OF this] Cons.prems show ?case by (simp add: process_next_def)
qed



section \<open>Examples\<close>

definition example_boot :: boot_env where
  "example_boot =
     \<lparr>bo_cfg = example_cfg_env, bo_ConfigFilePath = ''config.json'', bo_open_error = None,
      bo_marshal = (\<lambda>_. Inr ''{}''), bo_unmarshal = (\<lambda>_ c. Inr c), bo_write = (\<lambda>s. (s, None)),
      bo_close_error = None, bo_gorm_Open = (\<lambda>_. None), bo_migrate_error = None, bo_pool_error = None,
      bo_ping_error = None\<rparr>"

lemma example_boot_simps [simp]:
  "bo_cfg example_boot = example_cfg_env" "bo_ConfigFilePath example_boot = ''config.json''"
  "bo_open_error example_boot = None" "bo_marshal example_boot c = Inr ''{}''"
  "bo_unmarshal example_boot s c = Inr c" "bo_write example_boot s = (s, None)" "bo_close_error example_boot = None"
  "bo_gorm_Open example_boot d = None" "bo_migrate_error example_boot = None" "bo_pool_error example_boot = None"
  "bo_ping_error example_boot = None" "ce_read_error example_cfg_env f = None"
  "ce_airports example_cfg_env s = Inr Map.empty"
  by (simp_all add: example_boot_def example_cfg_env_def)


lemma example_main:
  obtains fs m p where "main example_boot (\<lambda>_. []) (initial example_users 0) example_activities empty_store
      [''config.json'' \<mapsto> ''{}''] = (fs, m, Serving p)"
    and "pc_cleaner p = Add DBCloseCallback NewCleaner" and "pc_listening p = None" and "pc_state p = Running"
    and "\<not> pc_signalled p"
proof -
  obtain c fs r where c: "CheckValid example_cfg_env (DefaultConfig example_cfg_env) [''config.json'' \<mapsto> ''{}''] = (c, fs, r)"
    by (metis prod_cases3)
  with default_accepted [of example_cfg_env example_cfg_env "[''config.json'' \<mapsto> ''{}'']"] have "\<not> IsFail r" by simp
  with c have "getConfig example_boot [''config.json'' \<mapsto> ''{}''] = (fs, Some c)"
    by (simp add: getConfig_def readConfig_def Let_def)
  with that show thesis by (simp add: main_def ConnectDatabase_def)
qed



end
