(* ===== verification/Logger.thy ===== *)
theory Logger
  imports Prelude
begin

text \<open>
  The asynchronous log handler and the logger on it (\<open>internal/base/logger.go\<close>): callers format a
  line and send it into a channel; one goroutine takes the lines out and writes them to the standard
  output and to the file of the day. The colours (\<open>github.com/fatih/color\<close>), the dates of the
  standard library and the answers of the disk are parameters.
\<close>

section \<open>The handler\<close>

record log_env =
  le_color :: "string \<Rightarrow> string \<Rightarrow> string"
  le_DateTime :: "int \<Rightarrow> string"
  le_Date :: "int \<Rightarrow> string"
  le_YearDay :: "int \<Rightarrow> int"
  le_mkdir_ok :: "string \<Rightarrow> bool"
  le_open_ok :: "string \<Rightarrow> bool"
  le_close_ok :: "string \<Rightarrow> bool"

text \<open>
  A channel is the lines in it and whether it is closed; \<open>None\<close> is a nil channel. \<open>ah_writer\<close> is the
  file that is written together with the standard output, \<open>None\<close> when no file was opened;
  \<open>ah_worker\<close> says that the goroutine has not ended.
\<close>

record AsyncHandler =
  ah_ch :: "(string list \<times> bool) option"
  ah_writer :: "string option"
  ah_attrs :: "(string \<times> string) list"
  ah_currentDay :: int
  ah_currentFile :: "string option"
  ah_basePath :: string
  ah_group :: string
  ah_logLevel :: int
  ah_worker :: bool

definition LevelDebug :: int where "LevelDebug = - 4"
definition LevelInfo :: int where "LevelInfo = 0"
definition LevelWarn :: int where "LevelWarn = 4"
definition LevelError :: int where "LevelError = 8"
definition LevelFatal :: int where "LevelFatal = 12"

lemmas levels = LevelDebug_def LevelInfo_def LevelWarn_def LevelError_def LevelFatal_def

text \<open>What the handler writes to: the standard output, as the list of lines, and the disk.\<close>

record log_state =
  lg_handler :: AsyncHandler
  lg_stdout :: "string list"
  lg_disk :: "string \<rightharpoonup> string"

definition getLogPath :: "log_env \<Rightarrow> int \<Rightarrow> AsyncHandler \<Rightarrow> string" where
  "getLogPath E now h = ah_basePath h @ ''/'' @ le_Date E now @ ''.log''"

datatype log_error = ClosingFailed | DirectoryFailed | CreateFailed

definition rotateIfNeeded :: "log_env \<Rightarrow> int \<Rightarrow> log_state \<Rightarrow> log_state \<times> log_error option" where
  "rotateIfNeeded E now st =
     (let h = lg_handler st; currentDay = le_YearDay E now; logPath = getLogPath E now h in
      if currentDay = ah_currentDay h \<and> ah_currentFile h \<noteq> None then (st, None)
      else if (case ah_currentFile h of None \<Rightarrow> False | Some f \<Rightarrow> \<not> le_close_ok E f) then (st, Some ClosingFailed)
      else if \<not> le_mkdir_ok E (ah_basePath h) then (st, Some DirectoryFailed)
      else if \<not> le_open_ok E logPath then (st, Some CreateFailed)
      else (st\<lparr>lg_handler := h\<lparr>ah_currentFile := Some logPath, ah_currentDay := currentDay, ah_writer := Some logPath\<rparr>,
               lg_disk := (lg_disk st)(logPath \<mapsto> (case lg_disk st logPath of None \<Rightarrow> '''' | Some s \<Rightarrow> s))\<rparr>, None))"

definition NewAsyncHandler :: "log_env \<Rightarrow> string \<Rightarrow> int \<Rightarrow> int \<Rightarrow> (string \<rightharpoonup> string) \<Rightarrow> log_state" where
  "NewAsyncHandler E basePath logLevel now disk =
     fst (rotateIfNeeded E now
       \<lparr>lg_handler = \<lparr>ah_ch = Some ([], False), ah_writer = None, ah_attrs = [], ah_currentDay = 0, ah_currentFile = None,
                      ah_basePath = basePath, ah_group = '''', ah_logLevel = logLevel, ah_worker = True\<rparr>,
        lg_stdout = [], lg_disk = disk\<rparr>)"

text \<open>
  Old logs: \<open>files\<close> are the log files with the time of their last change, \<open>None\<close> when \<open>Stat\<close>
  fails, which dereferences a nil result. The function is not called.
\<close>

fun cleanOldLogs :: "int \<Rightarrow> (string \<times> int option) list \<Rightarrow> (string \<rightharpoonup> string) \<Rightarrow> (string \<rightharpoonup> string) go" where
  "cleanOldLogs now [] disk = Inr disk"
| "cleanOldLogs now ((f, t) # files) disk =
     deref t (\<lambda>modTime.
       cleanOldLogs now files (if now - modTime > 30 * 24 * 3600000000000 then disk(f := None) else disk))"

definition Enabled :: "int \<Rightarrow> AsyncHandler \<Rightarrow> bool" where
  "Enabled level h \<longleftrightarrow> level \<ge> ah_logLevel h"

text \<open>\<open>Write\<close> waits for room in the channel, for ever when the channel is nil: \<open>Inr None\<close>.\<close>

definition Write :: "string \<Rightarrow> AsyncHandler \<Rightarrow> AsyncHandler option go" where
  "Write p h =
     (case ah_ch h of
        None \<Rightarrow> Inr None
      | Some (lines, closed) \<Rightarrow>
          if closed then Inl ClosedChannel
          else if length lines < 1024 then Inr (Some (h\<lparr>ah_ch := Some (lines @ [p], False)\<rparr>)) else Inr None)"

definition pad_right :: "nat \<Rightarrow> string \<Rightarrow> string" where
  "pad_right n s = s @ replicate (n - length s) CHR '' ''"

definition level_text :: "log_env \<Rightarrow> int \<Rightarrow> string \<Rightarrow> string" where
  "level_text E level name =
     (if level = LevelDebug then le_color E ''magenta'' ''DEBUG''
      else if level = LevelInfo then le_color E ''blue'' ''INFO''
      else if level = LevelWarn then le_color E ''yellow'' ''WARN''
      else if level = LevelError then le_color E ''red'' ''ERROR''
      else if level = LevelFatal then le_color E ''hired'' ''FATAL'' else name)"

definition attr_text :: "log_env \<Rightarrow> string \<times> string \<Rightarrow> string" where
  "attr_text E attr = le_color E ''cyan'' ('' '' @ fst attr @ ''='' @ snd attr)"

text \<open>A record: its level with the name that the library has for it, its time, message and attributes.\<close>

record log_record =
  lr_level :: int
  lr_name :: string
  lr_time :: int
  lr_message :: string
  lr_attrs :: "(string \<times> string) list"

definition log_line :: "log_env \<Rightarrow> AsyncHandler \<Rightarrow> log_record \<Rightarrow> string" where
  "log_line E h r =
     le_color E ''green'' (le_DateTime E (lr_time r)) @ '' | '' @
     pad_right 5 (level_text E (lr_level r) (lr_name r)) @ '' | '' @ le_color E ''cyan'' (lr_message r) @
     concat (map (attr_text E) (ah_attrs h)) @ concat (map (attr_text E) (lr_attrs r)) @ [CHR 0x0A]"

definition Handle :: "log_env \<Rightarrow> log_record \<Rightarrow> AsyncHandler \<Rightarrow> AsyncHandler option go" where
  "Handle E r h = Write (log_line E h r) h"

text \<open>Derived handlers have neither a channel nor a base path.\<close>

definition WithAttrs :: "(string \<times> string) list \<Rightarrow> AsyncHandler \<Rightarrow> AsyncHandler" where
  "WithAttrs attrs h =
     \<lparr>ah_ch = None, ah_writer = ah_writer h, ah_attrs = ah_attrs h @ attrs, ah_currentDay = 0, ah_currentFile = None,
      ah_basePath = '''', ah_group = ah_group h, ah_logLevel = ah_logLevel h, ah_worker = False\<rparr>"

definition WithGroup :: "string \<Rightarrow> AsyncHandler \<Rightarrow> AsyncHandler" where
  "WithGroup name h =
     \<lparr>ah_ch = None, ah_writer = ah_writer h, ah_attrs = ah_attrs h, ah_currentDay = 0, ah_currentFile = None,
      ah_basePath = '''', ah_group = name, ah_logLevel = ah_logLevel h, ah_worker = False\<rparr>"

text \<open>
  One round of the worker's loop: it takes a line out and writes it, waits on an empty channel and
  ends when the channel is closed and empty. Without a file the writer is a nil interface.
\<close>

definition startWorker :: "log_state \<Rightarrow> log_state go" where
  "startWorker st =
     (let h = lg_handler st in
      case (ah_worker h, ah_ch h) of
        (True, Some (data # lines, closed)) \<Rightarrow>
          deref (ah_writer h) (\<lambda>path.
            Inr (st\<lparr>lg_handler := h\<lparr>ah_ch := Some (lines, closed)\<rparr>, lg_stdout := lg_stdout st @ [data],
                    lg_disk := (lg_disk st)(path := map_option (\<lambda>s. s @ data) (lg_disk st path))\<rparr>))
      | (True, Some ([], True)) \<Rightarrow> Inr (st\<lparr>lg_handler := h\<lparr>ah_worker := False\<rparr>\<rparr>)
      | _ \<Rightarrow> Inr st)"

text \<open>\<open>Close\<close> closes the channel and waits for the worker; here it starts, and ends when the worker has.\<close>

definition Close :: "AsyncHandler \<Rightarrow> AsyncHandler go" where
  "Close h =
     (case ah_ch h of
        None \<Rightarrow> Inl ClosedChannel
      | Some (lines, closed) \<Rightarrow> if closed then Inl ClosedChannel else Inr (h\<lparr>ah_ch := Some (lines, True)\<rparr>))"

section \<open>The logger\<close>

definition Logger_Init :: "log_env \<Rightarrow> bool \<Rightarrow> int \<Rightarrow> (string \<rightharpoonup> string) \<Rightarrow> log_state" where
  "Logger_Init E debug now disk =
     (let st = NewAsyncHandler E ''logs'' LevelInfo now disk
      in if debug then st\<lparr>lg_handler := (lg_handler st)\<lparr>ah_logLevel := LevelDebug\<rparr>\<rparr> else st)"

text \<open>The calls of the logger differ in their level; a record below the level of the handler is dropped.\<close>

datatype log_event = Log log_record | WorkerRound | Shutdown_logger

text \<open>A run has the state and the lines that were sent; a call that has to wait is one that did not come yet.\<close>

fun log_step :: "log_env \<Rightarrow> log_event \<Rightarrow> log_state \<times> string list \<Rightarrow> (log_state \<times> string list) go" where
  "log_step E (Log r) (st, sent) =
     (if \<not> Enabled (lr_level r) (lg_handler st) then Inr (st, sent)
      else go_bind (Handle E r (lg_handler st)) (\<lambda>res.
             case res of
               None \<Rightarrow> Inr (st, sent)
             | Some h \<Rightarrow> Inr (st\<lparr>lg_handler := h\<rparr>, sent @ [log_line E (lg_handler st) r])))"
| "log_step E WorkerRound (st, sent) = go_bind (startWorker st) (\<lambda>st'. Inr (st', sent))"
| "log_step E Shutdown_logger (st, sent) =
     go_bind (Close (lg_handler st)) (\<lambda>h. Inr (st\<lparr>lg_handler := h\<rparr>, sent))"


section \<open>No line is lost\<close>

text \<open>
  What was sent is what was written followed by what is in the channel; the file of the day has its
  old content and what was written, and no other file changes.
\<close>

definition log_ok :: "string \<Rightarrow> (string \<rightharpoonup> string) \<Rightarrow> string \<Rightarrow> log_state \<times> string list \<Rightarrow> bool" where
  "log_ok path disk old s \<longleftrightarrow>
     (case (ah_ch (lg_handler (fst s)), s) of
        (Some (lines, closed), (st, sent)) \<Rightarrow>
          ah_writer (lg_handler st) = Some path \<and> length lines \<le> 1024 \<and> lg_stdout st @ lines = sent \<and>
          lg_disk st = disk(path \<mapsto> old @ concat (lg_stdout st)) \<and>
          (\<not> ah_worker (lg_handler st) \<longrightarrow> closed \<and> lines = [])
      | _ \<Rightarrow> False)"

lemma log_ok_D:
  assumes "log_ok path disk old (st, sent)"
  obtains lines closed where "ah_ch (lg_handler st) = Some (lines, closed)" and "ah_writer (lg_handler st) = Some path"
    and "length lines \<le> 1024" and "lg_stdout st @ lines = sent"
    and "lg_disk st = disk(path \<mapsto> old @ concat (lg_stdout st))"
    and "\<not> ah_worker (lg_handler st) \<longrightarrow> closed \<and> lines = []"
  using assms by (auto simp: log_ok_def split: option.splits)

lemma worker_ok:
  assumes "log_ok path disk old (st, sent)"
  shows "\<exists>st'. startWorker st = Inr st' \<and> log_ok path disk old (st', sent) \<and>
           (case ah_ch (lg_handler st) of
              Some (data # lines, closed) \<Rightarrow> ah_ch (lg_handler st') = Some (lines, closed)
            | Some ([], True) \<Rightarrow> ah_ch (lg_handler st') = Some ([], True) \<and> \<not> ah_worker (lg_handler st')
            | _ \<Rightarrow> st' = st)"
proof -
  from assms obtain lines closed where ok: "ah_ch (lg_handler st) = Some (lines, closed)"
    "ah_writer (lg_handler st) = Some path" "length lines \<le> 1024" "lg_stdout st @ lines = sent"
    "lg_disk st = disk(path \<mapsto> old @ concat (lg_stdout st))"
    "\<not> ah_worker (lg_handler st) \<longrightarrow> closed \<and> lines = []" by (rule log_ok_D) blast
  show ?thesis
  proof (cases lines)
    case Nil
    with ok show ?thesis
      by (cases closed; cases "ah_worker (lg_handler st)") (auto simp: startWorker_def log_ok_def Let_def)
  next
    case (Cons data rest)
    with ok have "ah_worker (lg_handler st)" by blast
    with ok Cons show ?thesis by (auto simp: startWorker_def log_ok_def Let_def)
  qed
qed

lemma log_step_ok:
  assumes "log_step E ev s = Inr s'" and "log_ok path disk old s"
  shows "log_ok path disk old s'"
proof -
  obtain st sent where s: "s = (st, sent)" by fastforce
  from assms(2) obtain lines closed where ok: "ah_ch (lg_handler st) = Some (lines, closed)"
    "ah_writer (lg_handler st) = Some path" "length lines \<le> 1024" "lg_stdout st @ lines = sent"
    "lg_disk st = disk(path \<mapsto> old @ concat (lg_stdout st))"
    "\<not> ah_worker (lg_handler st) \<longrightarrow> closed \<and> lines = []" unfolding s by (rule log_ok_D) blast
  show ?thesis
  proof (cases ev)
    case (Log r)
    with assms(1) s ok show ?thesis
      by (auto simp: Handle_def Write_def log_ok_def go_simps split: if_splits)
  next
    case WorkerRound
    from worker_ok [OF assms(2) [unfolded s]] obtain st' where
      "startWorker st = Inr st'" "log_ok path disk old (st', sent)" by blast
    with WorkerRound assms(1) s show ?thesis by simp
  next
    case Shutdown_logger
    with assms(1) s ok show ?thesis by (auto simp: Close_def log_ok_def go_simps split: if_splits)
  qed
qed

interpretation log: step_invariant "log_step E" "log_ok path disk old"
  by unfold_locales (rule log_step_ok)

lemma Init_ok:
  assumes "le_mkdir_ok E ''logs''" and "le_open_ok E (''logs/'' @ le_Date E now @ ''.log'')"
  shows "log_ok (''logs/'' @ le_Date E now @ ''.log'') disk
           (case disk (''logs/'' @ le_Date E now @ ''.log'') of None \<Rightarrow> '''' | Some s \<Rightarrow> s)
           (Logger_Init E debug now disk, [])"
  using assms by (simp add: Logger_Init_def NewAsyncHandler_def rotateIfNeeded_def getLogPath_def log_ok_def Let_def)

text \<open>After the channel is closed, as many rounds as there are lines and one more end the worker.\<close>

lemma drain:
  assumes "log_ok path disk old (st, sent)" and "ah_ch (lg_handler st) = Some (lines, True)"
  shows "\<exists>st'. run (log_step E) (replicate (Suc (length lines)) WorkerRound) (st, sent) = Inr (st', sent) \<and>
           log_ok path disk old (st', sent) \<and> ah_ch (lg_handler st') = Some ([], True) \<and> \<not> ah_worker (lg_handler st')"
  using assms
proof (induction lines arbitrary: st)
  case Nil
  from worker_ok [OF Nil(1)] Nil(2) show ?case by auto
next
  case (Cons data lines)
  from worker_ok [OF Cons(2)] Cons(3) obtain st1 where
    st1: "startWorker st = Inr st1" "log_ok path disk old (st1, sent)" "ah_ch (lg_handler st1) = Some (lines, True)" by auto
  from Cons.IH [OF st1(2,3)] st1(1) show ?case by auto
qed


text \<open>A handler derived for attributes or a group never takes a record: the call waits for ever.\<close>

lemma derived_handlers_block:
  "Handle E r (WithAttrs attrs h) = Inr None" "Handle E r (WithGroup name h) = Inr None"
  by (simp_all add: Handle_def Write_def WithAttrs_def WithGroup_def)

text \<open>A call after the shutdown began sends on a closed channel.\<close>

lemma log_after_shutdown:
  "run (log_step E) [Shutdown_logger, Log r] (Logger_Init E debug now disk, []) = Inl ClosedChannel \<longleftrightarrow>
     (if debug then LevelDebug else LevelInfo) \<le> lr_level r"
  by (auto simp: Logger_Init_def NewAsyncHandler_def rotateIfNeeded_def Close_def Handle_def Write_def Enabled_def Let_def)

definition example_log_env :: log_env where
  "example_log_env = \<lparr>le_color = (\<lambda>_ s. s), le_DateTime = (\<lambda>_. ''T''), le_Date = (\<lambda>_. ''2025-01-01''),
     le_YearDay = (\<lambda>_. 1), le_mkdir_ok = (\<lambda>_. True), le_open_ok = (\<lambda>_. True), le_close_ok = (\<lambda>_. True)\<rparr>"

definition example_record :: "int \<Rightarrow> string \<Rightarrow> log_record" where
  "example_record level m = \<lparr>lr_level = level, lr_name = '''', lr_time = 0, lr_message = m, lr_attrs = []\<rparr>"


end
